(* ===== verification/Py_Prelude.thy ===== *)
theory Py_Prelude
  imports Complex_Main "HOL-Library.AList"
begin

text \<open>
  What the components share: JSON values as the Python code sees them after
  \<open>json.loads\<close>, insertion-ordered dictionaries, the string methods the code uses,
  exceptions as values of a sum type, and the generic lemmas about them.

  Text is a \<^typ>\<open>string\<close>, the bytes of the UTF-8 encoding of a Python \<open>str\<close>.
  Case mapping and stripping (\<open>lower\<close>, \<open>upper\<close>, \<open>strip\<close>) are those of the ASCII range;
  bytes above 127 are left as they are.  Binary floating point is idealised: a finite
  \<open>float\<close> is the rational number it denotes and its arithmetic is exact; the two
  infinities and NaN are separate values.
\<close>

named_theorems dict_simps \<open>reading and updating dictionaries\<close>
named_theorems res_simps \<open>computations that may raise\<close>

section \<open>JSON values\<close>

datatype pyfloat = Fin rat | PosInf | NegInf | NotANum

datatype json =
    JNull
  | JBool bool
  | JInt int
  | JFloat pyfloat
  | JStr string
  | JArr "json list"
  | JObj "(string \<times> json) list"

type_synonym dict = "(string \<times> json) list"

text \<open>Python's built-in exceptions that the code can run into on malformed data.\<close>

datatype py_exn = AttributeError | TypeError | KeyError | ValueError

text \<open>Truth value of an object (\<open>bool(x)\<close>, also what \<open>if x\<close> and \<open>x or y\<close> test).\<close>

fun truthy :: "json \<Rightarrow> bool" where
  "truthy JNull = False"
| "truthy (JBool b) = b"
| "truthy (JInt i) = (i \<noteq> 0)"
| "truthy (JFloat f) = (f \<noteq> Fin 0)"
| "truthy (JStr s) = (s \<noteq> [])"
| "truthy (JArr xs) = (xs \<noteq> [])"
| "truthy (JObj d) = (d \<noteq> [])"

text \<open>The number a value is in comparisons; truth values are numbers.\<close>

fun numeric :: "json \<Rightarrow> rat option" where
  "numeric (JInt i) = Some (of_int i)"
| "numeric (JBool b) = Some (if b then 1 else 0)"
| "numeric (JFloat (Fin q)) = Some q"
| "numeric v = None"

definition or_else :: "json \<Rightarrow> json \<Rightarrow> json" where
  "or_else x y = (if truthy x then x else y)"

fun is_obj :: "json \<Rightarrow> bool" where
  "is_obj (JObj d) = True"
| "is_obj _ = False"

fun is_arr :: "json \<Rightarrow> bool" where
  "is_arr (JArr xs) = True"
| "is_arr _ = False"

fun is_str :: "json \<Rightarrow> bool" where
  "is_str (JStr s) = True"
| "is_str _ = False"

text \<open>The pairs of a dictionary, the items of a list, the text of a string (else empty).\<close>

fun obj_of :: "json \<Rightarrow> dict" where
  "obj_of (JObj d) = d"
| "obj_of _ = []"

fun arr_of :: "json \<Rightarrow> json list" where
  "arr_of (JArr xs) = xs"
| "arr_of _ = []"

fun str_of :: "json \<Rightarrow> string" where
  "str_of (JStr s) = s"
| "str_of _ = []"

text \<open>
  Iterating over an object: the items of a list, the characters of a string, the keys of
  a dictionary; everything else raises \<open>TypeError\<close>.
\<close>

fun py_iter :: "json \<Rightarrow> py_exn + json list" where
  "py_iter (JArr xs) = Inr xs"
| "py_iter (JStr s) = Inr (map (\<lambda>c. JStr [c]) s)"
| "py_iter (JObj d) = Inr (map (JStr \<circ> fst) d)"
| "py_iter _ = Inl TypeError"

text \<open>\<open>x or []\<close> used as an iterable.\<close>

definition iter_or_empty :: "json \<Rightarrow> py_exn + json list" where
  "iter_or_empty x = (if truthy x then py_iter x else Inr [])"

section \<open>Dictionaries\<close>

text \<open>
  A dictionary is an association list in insertion order.  Assigning to a present key
  keeps its place, assigning to a new key appends it; this is \<^const>\<open>AList.update\<close>.
\<close>

abbreviation dset :: "'k \<Rightarrow> 'v \<Rightarrow> ('k \<times> 'v) list \<Rightarrow> ('k \<times> 'v) list" where
  "dset k v d \<equiv> AList.update k v d"

definition has_key :: "('k \<times> 'v) list \<Rightarrow> 'k \<Rightarrow> bool" where
  "has_key d k = (map_of d k \<noteq> None)"

text \<open>\<open>d.get(k)\<close> and \<open>d.get(k, x)\<close> on a dictionary with JSON values.\<close>

definition get_or :: "dict \<Rightarrow> string \<Rightarrow> json \<Rightarrow> json" where
  "get_or d k x = (case map_of d k of None \<Rightarrow> x | Some v \<Rightarrow> v)"

definition getj :: "dict \<Rightarrow> string \<Rightarrow> json" where
  "getj d k = get_or d k JNull"

definition set_default :: "'k \<Rightarrow> 'v \<Rightarrow> ('k \<times> 'v) list \<Rightarrow> ('k \<times> 'v) list" where
  "set_default k v d = (if has_key d k then d else d @ [(k, v)])"

definition dict_update :: "('k \<times> 'v) list \<Rightarrow> ('k \<times> 'v) list \<Rightarrow> ('k \<times> 'v) list" where
  "dict_update d e = fold (\<lambda>(k, v). AList.update k v) e d"

text \<open>A method call \<open>x.get(...)\<close> on an object that need not be a dictionary.\<close>

definition getattr_get :: "json \<Rightarrow> string \<Rightarrow> py_exn + json" where
  "getattr_get x k = (case x of JObj d \<Rightarrow> Inr (getj d k) | _ \<Rightarrow> Inl AttributeError)"

lemma map_of_dset [simp, dict_simps]: "map_of (dset k v d) = (map_of d)(k \<mapsto> v)"
  by (rule AList.update_conv')

lemma has_key_dset [simp, dict_simps]: "has_key (dset k v d) k' \<longleftrightarrow> k' = k \<or> has_key d k'"
  by (simp add: has_key_def)

lemma get_or_dset [simp, dict_simps]: "get_or (dset k v d) k' x = (if k' = k then v else get_or d k' x)"
  by (simp add: get_or_def)

lemma getj_dset [simp, dict_simps]: "getj (dset k v d) k' = (if k' = k then v else getj d k')"
  by (simp add: getj_def)

lemma distinct_dset [simp, intro]: "distinct (map fst d) \<Longrightarrow> distinct (map fst (dset k v d))"
  by (rule AList.distinct_update)

lemma map_of_set_default [simp, dict_simps]:
  "map_of (set_default k v d) k' =
     (if k' = k \<and> map_of d k = None then Some v else map_of d k')"
  by (auto simp: set_default_def has_key_def map_add_def split: option.splits)

lemma has_key_set_default [simp, dict_simps]:
  "has_key (set_default k v d) k' \<longleftrightarrow> k' = k \<or> has_key d k'"
  by (auto simp: has_key_def)

lemma getj_set_default [simp, dict_simps]:
  "getj (set_default k v d) k' = (if k' = k \<and> \<not> has_key d k then v else getj d k')"
  by (auto simp: getj_def get_or_def has_key_def)

lemma getj_has_key: "getj d k \<noteq> JNull \<Longrightarrow> has_key d k"
  by (auto simp: getj_def get_or_def has_key_def split: option.splits)

lemma dset_keys: "fst ` set (dset k v d) = insert k (fst ` set d)"
  using AList.dom_update [of k v d] by (simp add: dom_map_of_conv_image_fst)

section \<open>Computations that may raise\<close>

definition res_bind :: "'e + 'a \<Rightarrow> ('a \<Rightarrow> 'e + 'b) \<Rightarrow> 'e + 'b" where
  "res_bind m f = (case m of Inl e \<Rightarrow> Inl e | Inr x \<Rightarrow> f x)"

lemma res_bind_simps [simp, res_simps]:
  "res_bind (Inl e) f = Inl e"
  "res_bind (Inr x) f = f x"
  by (simp_all add: res_bind_def)

lemma res_bind_Inr_iff [res_simps]:
  "res_bind m f = Inr y \<longleftrightarrow> (\<exists>x. m = Inr x \<and> f x = Inr y)"
  by (auto simp: res_bind_def split: sum.splits)

lemma res_bind_Inl_iff [res_simps]:
  "res_bind m f = Inl e \<longleftrightarrow> m = Inl e \<or> (\<exists>x. m = Inr x \<and> f x = Inl e)"
  by (auto simp: res_bind_def split: sum.splits)

lemma res_bind_cong [fundef_cong]:
  "m = m' \<Longrightarrow> (\<And>x. m' = Inr x \<Longrightarrow> f x = f' x) \<Longrightarrow> res_bind m f = res_bind m' f'"
  by (auto simp: res_bind_def split: sum.splits)

text \<open>A comprehension whose element expression may raise stops at the first error.\<close>

fun res_map :: "('a \<Rightarrow> 'e + 'b) \<Rightarrow> 'a list \<Rightarrow> 'e + 'b list" where
  "res_map f [] = Inr []"
| "res_map f (x # xs) = res_bind (f x) (\<lambda>y. res_bind (res_map f xs) (\<lambda>ys. Inr (y # ys)))"

lemma res_map_Inr [simp, res_simps]: "res_map (\<lambda>x. Inr (f x)) xs = Inr (map f xs)"
  by (induction xs) auto

lemma res_map_length: "res_map f xs = Inr ys \<Longrightarrow> length ys = length xs"
  by (induction xs arbitrary: ys) (auto simp: res_bind_Inr_iff)

section \<open>Strings\<close>

definition code_of :: "char \<Rightarrow> nat" where
  "code_of c = of_char c"

definition is_ascii_upper :: "char \<Rightarrow> bool" where
  "is_ascii_upper c \<longleftrightarrow> 65 \<le> code_of c \<and> code_of c \<le> 90"

definition is_ascii_lower :: "char \<Rightarrow> bool" where
  "is_ascii_lower c \<longleftrightarrow> 97 \<le> code_of c \<and> code_of c \<le> 122"

definition is_digit :: "char \<Rightarrow> bool" where
  "is_digit c \<longleftrightarrow> 48 \<le> code_of c \<and> code_of c \<le> 57"

definition is_alpha :: "char \<Rightarrow> bool" where
  "is_alpha c \<longleftrightarrow> is_ascii_upper c \<or> is_ascii_lower c"

definition lower_char :: "char \<Rightarrow> char" where
  "lower_char c = (if is_ascii_upper c then char_of (code_of c + 32) else c)"

definition upper_char :: "char \<Rightarrow> char" where
  "upper_char c = (if is_ascii_lower c then char_of (code_of c - 32) else c)"

definition lower :: "string \<Rightarrow> string" where
  "lower s = map lower_char s"

definition upper :: "string \<Rightarrow> string" where
  "upper s = map upper_char s"

definition starts_with :: "string \<Rightarrow> string \<Rightarrow> bool" where
  "starts_with s p \<longleftrightarrow> take (length p) s = p"

definition ends_with :: "string \<Rightarrow> string \<Rightarrow> bool" where
  "ends_with s p \<longleftrightarrow> length p \<le> length s \<and> drop (length s - length p) s = p"

definition remove_prefix :: "string \<Rightarrow> string \<Rightarrow> string" where
  "remove_prefix s p = (if starts_with s p then drop (length p) s else s)"

definition remove_suffix :: "string \<Rightarrow> string \<Rightarrow> string" where
  "remove_suffix s p = (if p \<noteq> [] \<and> ends_with s p then take (length s - length p) s else s)"

definition rstrip_char :: "char \<Rightarrow> string \<Rightarrow> string" where
  "rstrip_char c s = rev (dropWhile (\<lambda>x. x = c) (rev s))"

definition is_space :: "char \<Rightarrow> bool" where
  "is_space c \<longleftrightarrow> code_of c \<in> {9, 10, 11, 12, 13, 28, 29, 30, 31, 32}"

definition strip :: "string \<Rightarrow> string" where
  "strip s = rev (dropWhile is_space (rev (dropWhile is_space s)))"

lemma starts_with_iff: "starts_with s p \<longleftrightarrow> (\<exists>r. s = p @ r)"
  by (metis append_eq_conv_conj append_take_drop_id starts_with_def)

lemma starts_with_length: "starts_with s p \<Longrightarrow> length p \<le> length s"
  by (auto simp: starts_with_iff)

lemma starts_with_simps [simp]:
  "starts_with s []"
  "starts_with [] (q # p) \<longleftrightarrow> False"
  "starts_with (c # s) (q # p) \<longleftrightarrow> c = q \<and> starts_with s p"
  by (auto simp: starts_with_def)

text \<open>\<open>sub in s\<close> for strings: \<open>sub\<close> is a contiguous part of \<open>s\<close>.\<close>

fun contains :: "string \<Rightarrow> string \<Rightarrow> bool" where
  "contains [] p = (p = [])"
| "contains (c # s) p = (starts_with (c # s) p \<or> contains s p)"

text \<open>\<open>k in v\<close> for a string \<open>k\<close>: a member, a part of a string, or a key.\<close>

fun py_in :: "string \<Rightarrow> json \<Rightarrow> py_exn + bool" where
  "py_in k (JArr xs) = Inr (JStr k \<in> set xs)"
| "py_in k (JStr s) = Inr (contains s k)"
| "py_in k (JObj d) = Inr (has_key d k)"
| "py_in k _ = Inl TypeError"

text \<open>\<open>s.split(c)\<close> for a one-character separator.\<close>

fun split_on :: "char \<Rightarrow> string \<Rightarrow> string list" where
  "split_on c [] = [[]]"
| "split_on c (x # xs) =
     (if x = c then [] # split_on c xs
      else (case split_on c xs of [] \<Rightarrow> [[x]] | y # ys \<Rightarrow> (x # y) # ys))"

text \<open>\<open>s.partition(c)\<close>: before the first \<open>c\<close>, whether there is one, after it.\<close>

fun partition_at :: "char \<Rightarrow> string \<Rightarrow> string \<times> bool \<times> string" where
  "partition_at c [] = ([], False, [])"
| "partition_at c (x # xs) =
     (if x = c then ([], True, xs)
      else (case partition_at c xs of (a, f, b) \<Rightarrow> (x # a, f, b)))"

text \<open>\<open>s.rsplit(c, 1)[-1]\<close>: what follows the last \<open>c\<close>, or all of \<open>s\<close>.\<close>

definition after_last :: "char \<Rightarrow> string \<Rightarrow> string" where
  "after_last c s = rev (takeWhile (\<lambda>x. x \<noteq> c) (rev s))"

definition join_with :: "string \<Rightarrow> string list \<Rightarrow> string" where
  "join_with sep xs =
     (case xs of [] \<Rightarrow> [] | y # ys \<Rightarrow> y @ concat (map (\<lambda>z. sep @ z) ys))"

lemma split_on_neq_Nil [simp]: "split_on c s \<noteq> []"
  by (induction s) (auto split: list.splits)

lemma split_on_no_sep: "x \<in> set (split_on c s) \<Longrightarrow> c \<notin> set x"
  by (induction s arbitrary: x) (auto split: list.splits if_splits)

lemma split_on_single: "c \<notin> set s \<Longrightarrow> split_on c s = [s]"
  by (induction s) auto

lemma split_on_append_sep: "c \<notin> set s \<Longrightarrow> split_on c (s @ c # t) = s # split_on c t"
  by (induction s) auto

text \<open>Putting the separator back in front of every part gives the string back.\<close>

lemma concat_split_on: "concat (map (\<lambda>x. c # x) (split_on c s)) = c # s"
  by (induction s) (auto split: list.splits)

lemma split_on_concat:
  "xs \<noteq> [] \<Longrightarrow> \<forall>x \<in> set xs. c \<notin> set x \<Longrightarrow>
     split_on c (tl (concat (map (\<lambda>x. c # x) xs))) = xs"
proof (induction xs)
  case Nil
  then show ?case by simp
next
  case (Cons x xs)
  then show ?case
    by (cases xs) (auto simp: split_on_single split_on_append_sep)
qed

text \<open>The number a text of digits denotes.\<close>

definition digits_value :: "string \<Rightarrow> nat" where
  "digits_value s = foldl (\<lambda>n c. 10 * n + (code_of c - 48)) 0 s"

text \<open>\<open>int(s)\<close> on text: spaces around it, a sign, and single underscores between digits.\<close>

definition py_int :: "string \<Rightarrow> int option" where
  "py_int s =
     (let t = strip s;
          negative = starts_with t ''-'';
          unsigned_part = (if starts_with t ''-'' \<or> starts_with t ''+'' then tl t else t);
          groups = split_on (CHR ''_'') unsigned_part
      in if list_all (\<lambda>g. g \<noteq> [] \<and> list_all is_digit g) groups
         then Some ((if negative then - 1 else 1) * int (digits_value (concat groups)))
         else None)"

section \<open>Times\<close>

text \<open>
  What \<open>datetime.fromisoformat\<close> makes of a text: the local time in microseconds and the offset
  from UTC when the text gives one, or \<^const>\<open>None\<close> for \<open>ValueError\<close>.
\<close>

type_synonym iso_parser = "string \<Rightarrow> (int \<times> int option) option"

text \<open>\<open>_parse_time\<close>: the instant, a time without offset taken in UTC.\<close>

definition parse_time :: "iso_parser \<Rightarrow> json \<Rightarrow> int option" where
  "parse_time fromiso v =
     (case v of
        JStr s \<Rightarrow>
          (case fromiso s of
             None \<Rightarrow> None
           | Some (local_time, Some offset) \<Rightarrow> Some (local_time - offset)
           | Some (local_time, None) \<Rightarrow> Some local_time)
      | _ \<Rightarrow> None)"

section \<open>Characters\<close>

lemma code_of_char_of: "n < 256 \<Longrightarrow> code_of (char_of n) = n"
  by (simp add: code_of_def)

lemma code_of_inject: "code_of a = code_of b \<longleftrightarrow> a = b"
  by (simp add: code_of_def)

lemma char_of_code_of [simp]: "char_of (code_of c) = c"
  by (simp add: code_of_def)

lemma code_of_lower: "code_of (lower_char c) = (if is_ascii_upper c then code_of c + 32 else code_of c)"
  by (simp add: lower_char_def is_ascii_upper_def code_of_char_of)

lemma code_of_upper: "code_of (upper_char c) = (if is_ascii_lower c then code_of c - 32 else code_of c)"
  by (auto simp: upper_char_def is_ascii_lower_def code_of_char_of)

lemmas char_class_defs = is_ascii_upper_def is_ascii_lower_def is_alpha_def is_digit_def

lemma lower_lower_char [simp]: "lower_char (lower_char c) = lower_char c"
  by (simp flip: code_of_inject add: code_of_lower char_class_defs)

lemma upper_upper_char [simp]: "upper_char (upper_char c) = upper_char c"
  by (auto simp flip: code_of_inject simp: code_of_upper char_class_defs)

lemma lower_lower [simp]: "lower (lower s) = lower s"
  by (simp add: lower_def)

lemma is_digit_lower [simp]: "is_digit (lower_char c) \<longleftrightarrow> is_digit c"
  by (auto simp: code_of_lower char_class_defs)

lemma is_alpha_lower [simp]: "is_alpha (lower_char c) \<longleftrightarrow> is_alpha c"
  by (auto simp: code_of_lower char_class_defs)

lemma lower_char_other: "code_of c < 65 \<or> 90 < code_of c \<Longrightarrow> lower_char c = c"
  by (auto simp: lower_char_def is_ascii_upper_def)

lemma lower_char_eq_other: "code_of d < 65 \<or> 122 < code_of d \<Longrightarrow> lower_char c = d \<longleftrightarrow> c = d"
  by (auto simp flip: code_of_inject simp: code_of_lower char_class_defs)

lemma partition_at_found [simp]: "c \<notin> set a \<Longrightarrow> partition_at c (a @ c # b) = (a, True, b)"
  by (induction a) auto

lemma partition_at_none [simp]: "c \<notin> set a \<Longrightarrow> partition_at c a = (a, False, [])"
  by (induction a) auto

lemma partition_at_parts:
  "partition_at c s = (a, f, b) \<Longrightarrow> c \<notin> set a \<and> s = a @ (if f then c # b else []) \<and> (\<not> f \<longrightarrow> b = [])"
  by (induction s arbitrary: a f b) (auto split: prod.splits if_splits)

lemma takeWhile_neq_found [simp]: "c \<notin> set a \<Longrightarrow> takeWhile (\<lambda>x. x \<noteq> c) (a @ c # b) = a"
  by (induction a) auto

lemma takeWhile_neq_none [simp]: "c \<notin> set a \<Longrightarrow> takeWhile (\<lambda>x. x \<noteq> c) a = a"
  by (induction a) auto

lemma after_last_none [simp]: "c \<notin> set s \<Longrightarrow> after_last c s = s"
  unfolding after_last_def by (subst takeWhile_neq_none) simp_all

lemma split_on_subset: "x \<in> set (split_on c s) \<Longrightarrow> set x \<subseteq> set s"
  by (induction s arbitrary: x) (fastforce split: list.splits if_splits)+

lemma lower_eq_Nil [simp]: "lower s = [] \<longleftrightarrow> s = []"
  by (simp add: lower_def)

lemma ends_with_iff: "ends_with s p \<longleftrightarrow> (\<exists>r. s = r @ p)"
proof
  assume "ends_with s p"
  then have "s = take (length s - length p) s @ p"
    by (metis append_take_drop_id ends_with_def)
  then show "\<exists>r. s = r @ p" ..
qed (auto simp: ends_with_def)

lemma ends_with_snoc [simp]: "ends_with (s @ [c]) [d] \<longleftrightarrow> c = d"
  by (auto simp: ends_with_iff)

lemma in_split_on:
  "x \<in> set s \<Longrightarrow> x = c \<or> (\<exists>p \<in> set (split_on c s). x \<in> set p)"
  by (induction s) (auto split: list.splits)

end
