(* ===== verification/Ip_Literal.thy ===== *)
theory Ip_Literal
  imports Py_Prelude
begin

text \<open>
  The parts of Python's \<open>ipaddress\<close> module the code relies on: which strings
  \<open>IPv4Address\<close> and \<open>IPv6Address\<close> accept, and the octets and hextets they stand for.
\<close>

definition hex_digit :: "char \<Rightarrow> bool" where
  "hex_digit c \<longleftrightarrow> is_digit c \<or> 65 \<le> code_of c \<and> code_of c \<le> 70
     \<or> 97 \<le> code_of c \<and> code_of c \<le> 102"

definition hex_value :: "char \<Rightarrow> nat" where
  "hex_value c =
     (if is_digit c then code_of c - 48
      else if code_of c \<le> 70 then code_of c - 55 else code_of c - 87)"

text \<open>An octet: one to three digits, no leading zero except \<open>0\<close> itself, at most 255.\<close>

definition parse_octet :: "string \<Rightarrow> nat option" where
  "parse_octet s =
     (if s = [] \<or> \<not> list_all is_digit s \<or> 3 < length s then None
      else if s \<noteq> ''0'' \<and> hd s = CHR ''0'' then None
      else if 255 < digits_value s then None
      else Some (digits_value s))"

definition ipv4_octets :: "string \<Rightarrow> nat list option" where
  "ipv4_octets s =
     (let parts = split_on (CHR ''.'') s; os = map parse_octet parts
      in if length parts = 4 \<and> list_all (\<lambda>x. x \<noteq> None) os then Some (map the os) else None)"

definition parse_hextet :: "string \<Rightarrow> nat option" where
  "parse_hextet s =
     (if s = [] \<or> \<not> list_all hex_digit s \<or> 4 < length s then None
      else Some (foldl (\<lambda>n c. 16 * n + hex_value c) 0 s))"

text \<open>
  The positions of the empty inner parts (a run of zeros written \<open>::\<close>): at most one is
  allowed, and an empty first or last part is allowed only next to it.
\<close>

definition inner_gaps :: "string list \<Rightarrow> nat list" where
  "inner_gaps parts = filter (\<lambda>i. parts ! i = []) [1..<length parts - 1]"

definition hextets_of :: "string list \<Rightarrow> nat list option" where
  "hextets_of ps =
     (let hs = map parse_hextet ps
      in if list_all (\<lambda>x. x \<noteq> None) hs then Some (map the hs) else None)"

definition ipv6_parts :: "string list \<Rightarrow> nat list option" where
  "ipv6_parts parts =
     (if 9 < length parts then None
      else case inner_gaps parts of
        [] \<Rightarrow> (if length parts \<noteq> 8 then None else hextets_of parts)
      | [i] \<Rightarrow>
          (let hi = (if hd parts = [] then i - 1 else i);
               n = length parts - i - 1;
               lo = (if last parts = [] then n - 1 else n)
           in if hd parts = [] \<and> hi \<noteq> 0 \<or> last parts = [] \<and> lo \<noteq> 0 then None
              else if 8 \<le> hi + lo then None
              else case (hextets_of (take hi parts), hextets_of (drop (length parts - lo) parts)) of
                (Some a, Some b) \<Rightarrow> Some (a @ replicate (8 - (hi + lo)) 0 @ b)
              | _ \<Rightarrow> None)
      | _ \<Rightarrow> None)"

definition ipv6_hextets :: "string \<Rightarrow> nat list option" where
  "ipv6_hextets s =
     (let parts = split_on (CHR '':'') s
      in if length parts < 3 then None
         else if CHR ''.'' \<in> set (last parts)
         then (case ipv4_octets (last parts) of
                 Some [a, b, c, d] \<Rightarrow>
                   (case ipv6_parts (butlast parts @ [''0'', ''0'']) of
                      None \<Rightarrow> None
                    | Some hs \<Rightarrow> Some (take 6 hs @ [256 * a + b, 256 * c + d]))
               | _ \<Rightarrow> None)
         else ipv6_parts parts)"

lemma ipv4_octets_length: "ipv4_octets s = Some os \<Longrightarrow> length os = 4"
  by (auto simp: ipv4_octets_def Let_def split: if_splits)

lemma parse_octet_le: "parse_octet s = Some n \<Longrightarrow> n \<le> 255"
  by (auto simp: parse_octet_def split: if_splits)

lemma ipv4_octets_le:
  assumes "ipv4_octets s = Some os" and "n \<in> set os"
  shows "n \<le> 255"
proof -
  from assms(1) have all: "list_all (\<lambda>x. x \<noteq> None) (map parse_octet (split_on (CHR ''.'') s))"
    and os: "os = map the (map parse_octet (split_on (CHR ''.'') s))"
    by (auto simp: ipv4_octets_def Let_def split: if_splits)
  from assms(2) os obtain p where p: "p \<in> set (split_on (CHR ''.'') s)" and n: "n = the (parse_octet p)"
    by auto
  from all p have "parse_octet p \<noteq> None" by (auto simp: list_all_iff)
  with n show ?thesis using parse_octet_le by fastforce
qed

lemma hextets_of_length: "hextets_of ps = Some hs \<Longrightarrow> length hs = length ps"
  by (auto simp: hextets_of_def Let_def split: if_splits)

lemma hex_digit_upper [simp]: "hex_digit (upper_char c) \<longleftrightarrow> hex_digit c"
  by (auto simp: hex_digit_def code_of_upper char_class_defs)

lemma hex_value_upper [simp]: "hex_digit c \<Longrightarrow> hex_value (upper_char c) = hex_value c"
  by (auto simp: hex_digit_def hex_value_def code_of_upper char_class_defs)

lemma hex_digit_lower [simp]: "hex_digit (lower_char c) \<longleftrightarrow> hex_digit c"
  by (auto simp: hex_digit_def code_of_lower char_class_defs)

lemma hex_value_lower [simp]: "hex_digit c \<Longrightarrow> hex_value (lower_char c) = hex_value c"
  by (auto simp: hex_digit_def hex_value_def code_of_lower char_class_defs)

section \<open>Lower case does not change what a literal stands for\<close>

lemma foldl_hex_lower:
  "list_all hex_digit s \<Longrightarrow>
     foldl (\<lambda>n c. 16 * n + hex_value c) k (map lower_char s) = foldl (\<lambda>n c. 16 * n + hex_value c) k s"
  by (induction s arbitrary: k) auto

lemma list_all_hex_lower [simp]: "list_all hex_digit (map lower_char s) \<longleftrightarrow> list_all hex_digit s"
  by (induction s) auto

lemma list_all_digit_lower [simp]: "list_all is_digit (map lower_char s) \<longleftrightarrow> list_all is_digit s"
  by (induction s) auto

lemma parse_hextet_lower [simp]: "parse_hextet (lower s) = parse_hextet s"
  unfolding parse_hextet_def lower_def by (auto simp: foldl_hex_lower)

lemma digits_value_lower: "list_all is_digit s \<Longrightarrow> map lower_char s = s"
  by (induction s) (auto intro!: lower_char_other simp: is_digit_def)

lemma parse_octet_lower [simp]: "parse_octet (lower s) = parse_octet s"
proof (cases "list_all is_digit s")
  case True
  then show ?thesis by (simp add: lower_def digits_value_lower)
next
  case False
  then show ?thesis by (simp add: parse_octet_def lower_def)
qed

lemma split_on_lower:
  "code_of c < 65 \<or> 122 < code_of c \<Longrightarrow> split_on c (lower s) = map lower (split_on c s)"
  by (induction s) (auto simp: lower_def lower_char_eq_other lower_char_other split: list.split)

lemma ipv4_octets_lower [simp]: "ipv4_octets (lower s) = ipv4_octets s"
  by (simp add: ipv4_octets_def split_on_lower code_of_def comp_def Let_def)

lemma hextets_of_lower [simp]: "hextets_of (map lower ps) = hextets_of ps"
  by (simp add: hextets_of_def comp_def)

lemma inner_gaps_lower [simp]: "inner_gaps (map lower ps) = inner_gaps ps"
  by (auto simp: inner_gaps_def intro!: filter_cong)

lemma ipv6_parts_lower:
  assumes "ps \<noteq> []"
  shows "ipv6_parts (map lower ps) = ipv6_parts ps"
proof -
  have ends: "hd (map lower ps) = [] \<longleftrightarrow> hd ps = []" "last (map lower ps) = [] \<longleftrightarrow> last ps = []"
    using assms by (simp_all add: hd_map last_map)
  show ?thesis
    unfolding ipv6_parts_def inner_gaps_lower length_map ends take_map drop_map hextets_of_lower
    by (rule refl)
qed

lemma ipv6_hextets_lower [simp]: "ipv6_hextets (lower s) = ipv6_hextets s"
proof -
  let ?ps = "split_on (CHR '':'') s"
  have parts: "split_on (CHR '':'') (lower s) = map lower ?ps"
    by (simp add: split_on_lower code_of_def)
  have dot: "CHR ''.'' \<in> set (lower t) \<longleftrightarrow> CHR ''.'' \<in> set t" for t
    by (induction t) (auto simp: lower_def lower_char_eq_other code_of_def eq_commute [of "CHR ''.''"])
  have "map lower (butlast ?ps) @ [''0'', ''0''] = map lower (butlast ?ps @ [''0'', ''0''])"
    by (simp add: lower_def lower_char_other code_of_def)
  then have "ipv6_parts (map lower (butlast ?ps) @ [''0'', ''0'']) = ipv6_parts (butlast ?ps @ [''0'', ''0''])"
    by (metis ipv6_parts_lower append_is_Nil_conv list.distinct(1))
  then show ?thesis
    by (simp add: ipv6_hextets_def parts last_map dot ipv6_parts_lower map_butlast [symmetric] Let_def
        split: option.split list.split)
qed

section \<open>The characters of a literal\<close>

lemma hextets_of_chars: "hextets_of ps \<noteq> None \<Longrightarrow> p \<in> set ps \<Longrightarrow> list_all hex_digit p"
  by (auto simp: hextets_of_def Let_def list_all_iff parse_hextet_def split: if_splits)

lemma ipv6_parts_chars:
  assumes some: "ipv6_parts ps \<noteq> None" and k: "k < length ps"
  shows "list_all hex_digit (ps ! k)"
proof (cases "inner_gaps ps")
  case Nil
  with some have "hextets_of ps \<noteq> None" by (simp add: ipv6_parts_def split: if_splits)
  with k show ?thesis by (simp add: hextets_of_chars)
next
  case (Cons i is')
  with some have one: "inner_gaps ps = [i]"
    by (cases is') (auto simp: ipv6_parts_def split: if_splits)
  then have "i \<in> set (inner_gaps ps)" by simp
  then have i: "1 \<le> i" "i < length ps - 1" "ps ! i = []" by (auto simp: inner_gaps_def)
  define hi where "hi = (if hd ps = [] then i - 1 else i)"
  define lo where "lo = (if last ps = [] then length ps - i - 1 - 1 else length ps - i - 1)"
  have eq: "ipv6_parts ps =
     (if 9 < length ps then None
      else if hd ps = [] \<and> hi \<noteq> 0 \<or> last ps = [] \<and> lo \<noteq> 0 then None
      else if 8 \<le> hi + lo then None
      else case (hextets_of (take hi ps), hextets_of (drop (length ps - lo) ps)) of
         (Some a, Some b) \<Rightarrow> Some (a @ replicate (8 - (hi + lo)) 0 @ b)
       | _ \<Rightarrow> None)"
    unfolding ipv6_parts_def one list.case Let_def hi_def lo_def by (rule refl)
  have h: "\<not> (hd ps = [] \<and> hi \<noteq> 0 \<or> last ps = [] \<and> lo \<noteq> 0)"
    and hts: "hextets_of (take hi ps) \<noteq> None" "hextets_of (drop (length ps - lo) ps) \<noteq> None"
    using some unfolding eq by (auto simp del: drop_eq_Nil take_eq_Nil split: if_splits option.splits)
  have ends: "hd ps = ps ! 0" "last ps = ps ! (length ps - 1)"
    using k by (simp_all add: hd_conv_nth last_conv_nth length_greater_0_conv [symmetric] del: length_greater_0_conv)
  consider "k < hi" | "length ps - lo \<le> k" | "hi \<le> k" "k < length ps - lo" by linarith
  then show ?thesis
  proof cases
    case 1
    with k have "ps ! k \<in> set (take hi ps)" by (auto simp: in_set_conv_nth intro!: exI [of _ k])
    with hts show ?thesis by (blast intro: hextets_of_chars)
  next
    case 2
    with k have "ps ! k \<in> set (drop (length ps - lo) ps)"
      by (auto simp: in_set_conv_nth intro!: exI [of _ "k - (length ps - lo)"])
    with hts show ?thesis by (blast intro: hextets_of_chars)
  next
    case 3
    then have "k = i \<or> hd ps = [] \<and> k = 0 \<or> last ps = [] \<and> k = length ps - 1"
      using h i by (auto simp: hi_def lo_def split: if_splits)
    then have "ps ! k = []" using i ends by auto
    then show ?thesis by simp
  qed
qed

lemma ipv6_parts_chars_set: "ipv6_parts ps \<noteq> None \<Longrightarrow> p \<in> set ps \<Longrightarrow> list_all hex_digit p"
  by (metis in_set_conv_nth ipv6_parts_chars)

lemma parse_octet_digits: "parse_octet p \<noteq> None \<Longrightarrow> list_all is_digit p"
  by (auto simp: parse_octet_def split: if_splits)

lemma ipv4_octets_parts:
  "ipv4_octets s \<noteq> None \<Longrightarrow> p \<in> set (split_on (CHR ''.'') s) \<Longrightarrow> parse_octet p \<noteq> None"
  unfolding ipv4_octets_def Let_def list.pred_map by (auto simp: list_all_iff split: if_splits)

lemma ipv4_octets_chars:
  assumes "ipv4_octets s \<noteq> None" and "x \<in> set s"
  shows "is_digit x \<or> x = CHR ''.''"
proof -
  have "list_all is_digit p" if "p \<in> set (split_on (CHR ''.'') s)" for p
    using assms(1) that by (rule parse_octet_digits [OF ipv4_octets_parts])
  then show ?thesis using in_split_on [OF assms(2), of "CHR ''.''"] by (auto simp: list_all_iff)
qed

lemma ipv6_hextets_chars:
  assumes "ipv6_hextets s \<noteq> None" and "x \<in> set s"
  shows "hex_digit x \<or> x \<in> {CHR '':'', CHR ''.''}"
proof -
  let ?ps = "split_on (CHR '':'') s"
  have part: "hex_digit x \<or> x = CHR ''.''" if p: "p \<in> set ?ps" "x \<in> set p" for p
  proof (cases "CHR ''.'' \<in> set (last ?ps)")
    case True
    with assms(1) have v4: "ipv4_octets (last ?ps) \<noteq> None"
      and v6: "ipv6_parts (butlast ?ps @ [''0'', ''0'']) \<noteq> None"
      by (auto simp: ipv6_hextets_def Let_def split: if_splits option.splits list.splits)
    show ?thesis
    proof (cases "p \<in> set (butlast ?ps)")
      case True
      with v6 p show ?thesis
        using ipv6_parts_chars_set [of "butlast ?ps @ [''0'', ''0'']" p] by (auto simp: list_all_iff)
    next
      case False
      with p(1) have "p = last ?ps"
        by (metis append_butlast_last_id in_set_conv_decomp split_on_neq_Nil set_ConsD set_append
            Un_iff list.set_intros(1) empty_iff list.set(1) insert_iff list.simps(15))
      with v4 p(2) show ?thesis using ipv4_octets_chars [of p x] by (auto simp: hex_digit_def)
    qed
  next
    case False
    with assms(1) have "ipv6_parts ?ps \<noteq> None"
      by (auto simp: ipv6_hextets_def Let_def split: if_splits)
    with p show ?thesis using ipv6_parts_chars_set [of ?ps p] by (auto simp: list_all_iff)
  qed
  show ?thesis using in_split_on [OF assms(2), of "CHR '':''"] part by blast
qed

end
