(* ===== verification/Url_Canon.thy ===== *)
theory Url_Canon
  imports Ip_Literal
begin

text \<open>
  \<open>src/protocol/url_canon.py\<close>: the one URL canonicalization behind request signing and the
  matching of \<open>authorized_agents[].url\<close>.  \<open>idna.encode\<close> (package \<open>idna\<close>) is a parameter
  \<open>idna :: string \<Rightarrow> string option\<close>, \<^const>\<open>None\<close> standing for \<open>IDNAError\<close>.
\<close>

section \<open>The code\<close>

datatype url_error =
    NoScheme | NoAuthority | MissingHost | UnclosedBracket | TrailingAfterBracket
  | BareIpv6 | ZoneId | InvalidIpv6 | EmptyLabel | InvalidHost | InvalidPort

record canonical_url =
  target_uri :: string
  authority :: string
  scheme :: string
  host :: string

text \<open>The match of \<open>_SCHEME_RE\<close>: the scheme, and what follows the colon.\<close>

definition scheme_char :: "char \<Rightarrow> bool" where
  "scheme_char c \<longleftrightarrow> is_alpha c \<or> is_digit c \<or> c \<in> {CHR ''+'', CHR ''.'', CHR ''-''}"

definition match_scheme :: "string \<Rightarrow> (string \<times> string) option" where
  "match_scheme url =
     (case url of [] \<Rightarrow> None
      | c # cs \<Rightarrow>
          (let name = takeWhile scheme_char cs; rest = dropWhile scheme_char cs
           in if is_alpha c \<and> rest \<noteq> [] \<and> hd rest = CHR '':'' then Some (c # name, tl rest)
              else None))"

definition unreserved :: "char \<Rightarrow> bool" where
  "unreserved c \<longleftrightarrow>
     is_alpha c \<or> is_digit c \<or> c \<in> {CHR ''-'', CHR ''.'', CHR ''_'', CHR ''~''}"

definition pct_char :: "char \<Rightarrow> char \<Rightarrow> char" where
  "pct_char a b = char_of (16 * hex_value a + hex_value b)"

fun normalize_percent :: "string \<Rightarrow> string" where
  "normalize_percent [] = []"
| "normalize_percent (c # s) =
     (case s of
        a # b # s' \<Rightarrow>
          (if c = CHR ''%'' \<and> hex_digit a \<and> hex_digit b
           then (if unreserved (pct_char a b) then [pct_char a b]
                 else [CHR ''%'', upper_char a, upper_char b]) @ normalize_percent s'
           else c # normalize_percent s)
      | _ \<Rightarrow> c # normalize_percent s)"

text \<open>
  The loop of \<open>_remove_dot_segments\<close> over \<open>data\<close> and \<open>output\<close>; \<open>cut\<close> splits \<open>data\<close> before
  the next slash after its first character.
\<close>

definition next_segment :: "string \<Rightarrow> string \<times> string" where
  "next_segment data =
     (case data of [] \<Rightarrow> ([], [])
      | c # s \<Rightarrow> (c # takeWhile (\<lambda>x. x \<noteq> CHR ''/'') s, dropWhile (\<lambda>x. x \<noteq> CHR ''/'') s))"

function dot_loop :: "string \<Rightarrow> string list \<Rightarrow> string list" where
  "dot_loop data out =
     (if data = [] then out
      else if starts_with data ''../'' then dot_loop (drop 3 data) out
      else if starts_with data ''./'' then dot_loop (drop 2 data) out
      else if starts_with data ''/./'' then dot_loop (CHR ''/'' # drop 3 data) out
      else if data = ''/.'' then dot_loop ''/'' out
      else if starts_with data ''/../'' then dot_loop (CHR ''/'' # drop 4 data) (butlast out)
      else if data = ''/..'' then dot_loop ''/'' (butlast out)
      else if data = ''.'' \<or> data = ''..'' then dot_loop [] out
      else dot_loop (snd (next_segment data)) (out @ [fst (next_segment data)]))"
  by pat_completeness auto
termination
  by (relation "measure (length \<circ> fst)")
     (auto simp: next_segment_def le_imp_less_Suc length_dropWhile_le
        dest!: starts_with_length split: list.splits)

declare dot_loop.simps [simp del]

definition remove_dot_segments :: "string \<Rightarrow> string" where
  "remove_dot_segments path = concat (dot_loop path [])"

text \<open>Splitting \<open>//authority/path?query\<close> before the first of \<open>/\<close>, \<open>?\<close> and \<open>#\<close>.\<close>

definition authority_char :: "char \<Rightarrow> bool" where
  "authority_char c \<longleftrightarrow> c \<notin> {CHR ''/'', CHR ''?'', CHR ''#''}"

definition split_authority :: "string \<Rightarrow> string \<times> string" where
  "split_authority rest = (takeWhile authority_char rest, dropWhile authority_char rest)"

definition parse_host_port :: "string \<Rightarrow> url_error + string \<times> string" where
  "parse_host_port auth =
     (let hostport = after_last (CHR ''@'') auth
      in if hostport = [] then Inl MissingHost
         else if hd hostport = CHR ''['' then
           (case partition_at (CHR '']'') hostport of
              (inner, False, tail) \<Rightarrow> Inl UnclosedBracket
            | (inner, True, tail) \<Rightarrow>
                (if tail \<noteq> [] \<and> hd tail \<noteq> CHR '':'' then Inl TrailingAfterBracket
                 else Inr (inner @ [CHR '']''], drop 1 tail)))
         else if 1 < count_list hostport (CHR '':'') then Inl BareIpv6
         else (case partition_at (CHR '':'') hostport of
                 (h, _, port) \<Rightarrow> (if h = [] then Inl MissingHost else Inr (h, port))))"

definition is_ascii :: "string \<Rightarrow> bool" where
  "is_ascii s \<longleftrightarrow> list_all (\<lambda>c. code_of c \<le> 127) s"

definition canonical_ipv6 :: "string \<Rightarrow> url_error + string" where
  "canonical_ipv6 h =
     (let inner = butlast (tl h)
      in if CHR ''%'' \<in> set inner then Inl ZoneId
         else if ipv6_hextets inner = None then Inl InvalidIpv6
         else Inr (''['' @ lower inner @ '']''))"

definition canonical_dns_host :: "(string \<Rightarrow> string option) \<Rightarrow> string \<Rightarrow> url_error + string" where
  "canonical_dns_host idna h =
     (if ends_with h ''..'' then Inl EmptyLabel
      else let trimmed = remove_suffix h ''.''
        in if trimmed = [] then Inl MissingHost
           else if is_ascii trimmed \<and> ipv4_octets (lower trimmed) \<noteq> None then Inr (lower trimmed)
           else (case idna trimmed of None \<Rightarrow> Inl InvalidHost | Some e \<Rightarrow> Inr (lower e)))"

definition default_port :: "string \<Rightarrow> string option" where
  "default_port s = map_of [(''https'', ''443''), (''http'', ''80'')] s"

definition canonical_host :: "(string \<Rightarrow> string option) \<Rightarrow> string \<Rightarrow> url_error + string" where
  "canonical_host idna raw =
     (if \<not> is_ascii raw \<and> \<not> starts_with raw ''['' then canonical_dns_host idna raw
      else if starts_with raw ''['' then canonical_ipv6 raw
      else canonical_dns_host idna raw)"

text \<open>
  What follows the authority: the fragment is dropped, the path is normalized and freed of
  dot segments (an empty one becomes \<open>/\<close>), the query is normalized and kept.
\<close>

definition canonical_path :: "string \<Rightarrow> string" where
  "canonical_path path =
     (let p = (if path \<noteq> [] then remove_dot_segments (normalize_percent path) else [])
      in if p = [] then ''/'' else p)"

definition canonical_remainder :: "string \<Rightarrow> string" where
  "canonical_remainder rem =
     (case partition_at (CHR ''?'') (takeWhile (\<lambda>c. c \<noteq> CHR ''#'') rem) of
        (path, sep, query) \<Rightarrow>
          canonical_path path @ (if sep then ''?'' @ normalize_percent query else []))"

definition canonicalize_url ::
  "(string \<Rightarrow> string option) \<Rightarrow> string \<Rightarrow> url_error + canonical_url" where
  "canonicalize_url idna url =
     (case match_scheme url of
        None \<Rightarrow> Inl NoScheme
      | Some (raw_scheme, rest) \<Rightarrow>
          if \<not> starts_with rest ''//'' then Inl NoAuthority
          else case split_authority (drop 2 rest) of (auth, rem) \<Rightarrow>
            res_bind (parse_host_port auth) (\<lambda>(raw_host, raw_port).
            res_bind (canonical_host idna raw_host) (\<lambda>h.
              if raw_port \<noteq> [] \<and> \<not> list_all is_digit raw_port then Inl InvalidPort
              else
                let sch = lower raw_scheme;
                    port = (if raw_port \<noteq> [] \<and> default_port sch = Some raw_port then [] else raw_port);
                    auth' = (if port \<noteq> [] then h @ '':'' @ port else h)
                in Inr \<lparr>target_uri = sch @ ''://'' @ auth' @ canonical_remainder rem,
                        authority = auth', scheme = sch, host = h\<rparr>)))"

definition urls_equivalent :: "(string \<Rightarrow> string option) \<Rightarrow> string \<Rightarrow> string \<Rightarrow> bool" where
  "urls_equivalent idna left right =
     (case (canonicalize_url idna left, canonicalize_url idna right) of
        (Inr a, Inr b) \<Rightarrow> target_uri a = target_uri b
      | _ \<Rightarrow> False)"

section \<open>Dot segments: a reference on the list of segments\<close>

text \<open>
  RFC 3986 read as a stack machine: the path is the list of its segments, \<open>.\<close> is skipped,
  \<open>..\<close> removes the segment before it, and a final dot segment leaves a trailing slash.
\<close>

fun dot_ref :: "string list \<Rightarrow> string list \<Rightarrow> string list" where
  "dot_ref out [] = out"
| "dot_ref out [s] =
     (if s = ''.'' then out @ [[]]
      else if s = ''..'' then butlast out @ [[]]
      else out @ [s])"
| "dot_ref out (s # t # ss) =
     (if s = ''.'' then dot_ref out (t # ss)
      else if s = ''..'' then dot_ref (butlast out) (t # ss)
      else dot_ref (out @ [s]) (t # ss))"

definition slashed :: "string list \<Rightarrow> string list" where
  "slashed ss = map (\<lambda>s. CHR ''/'' # s) ss"

lemma slashed_simps [simp]:
  "slashed [] = []" "slashed (s # ss) = (CHR ''/'' # s) # slashed ss"
  "slashed (xs @ ys) = slashed xs @ slashed ys" "slashed (butlast ss) = butlast (slashed ss)"
  by (simp_all add: slashed_def map_butlast)

lemma butlast_slashed: "butlast (slashed ss) = slashed (butlast ss)"
  by simp

lemma next_segment_slash:
  assumes "CHR ''/'' \<notin> set s"
  shows "next_segment (CHR ''/'' # s) = (CHR ''/'' # s, [])"
    and "next_segment (CHR ''/'' # s @ CHR ''/'' # r) = (CHR ''/'' # s, CHR ''/'' # r)"
  using assms by (auto simp: next_segment_def takeWhile_append dropWhile_append)

lemma dot_loop_end [simp]: "dot_loop [] out = out"
  by (simp add: dot_loop.simps)

lemma dot_loop_last:
  assumes "CHR ''/'' \<notin> set s"
  shows "dot_loop (CHR ''/'' # s) out =
     (if s = ''.'' then out @ [''/''] else if s = ''..'' then butlast out @ [''/'']
      else out @ [CHR ''/'' # s])"
proof -
  have slash: "dot_loop ''/'' o' = o' @ [''/'']" for o'
    using next_segment_slash(1) [of "[]"] by (simp add: dot_loop.simps)
  have "\<not> starts_with s ''./''" and "\<not> starts_with s ''../''"
    using assms by (auto simp: starts_with_iff)
  with assms show ?thesis
    by (simp add: dot_loop.simps [of "CHR ''/'' # s"] slash next_segment_slash)
qed

lemma dot_loop_step:
  assumes "CHR ''/'' \<notin> set s"
  shows "dot_loop (CHR ''/'' # s @ CHR ''/'' # r) out =
     (if s = ''.'' then dot_loop (CHR ''/'' # r) out
      else if s = ''..'' then dot_loop (CHR ''/'' # r) (butlast out)
      else dot_loop (CHR ''/'' # r) (out @ [CHR ''/'' # s]))"
proof -
  have dot: "starts_with (s @ CHR ''/'' # r) ''./'' \<longleftrightarrow> s = ''.''"
    using assms by (cases s; cases "tl s") auto
  have dotdot: "starts_with (s @ CHR ''/'' # r) ''../'' \<longleftrightarrow> s = ''..''"
    using assms by (cases s; cases "tl s"; cases "tl (tl s)") auto
  have "s @ CHR ''/'' # r \<noteq> ''.''" "s @ CHR ''/'' # r \<noteq> ''..''"
    using assms by (auto simp: append_eq_Cons_conv)
  with assms show ?thesis
    by (simp add: dot_loop.simps [of "CHR ''/'' # s @ CHR ''/'' # r"] dot dotdot next_segment_slash)
qed

lemma dot_loop_ref:
  "ss \<noteq> [] \<Longrightarrow> \<forall>s \<in> set ss. CHR ''/'' \<notin> set s \<Longrightarrow>
     dot_loop (concat (slashed ss)) (slashed out) = slashed (dot_ref out ss)"
proof (induction out ss rule: dot_ref.induct)
  case (1 out)
  then show ?case by simp
next
  case (2 out s)
  then show ?case by (simp add: dot_loop_last)
next
  case (3 out s t ss)
  then show ?case
    using dot_loop_step [of s "t @ concat (slashed ss)" "slashed out"] by (simp split: if_splits)
qed

definition segments :: "string \<Rightarrow> string list" where
  "segments path = split_on (CHR ''/'') (tl path)"

lemma remove_dot_segments_ref:
  "remove_dot_segments (CHR ''/'' # p) = concat (slashed (dot_ref [] (split_on (CHR ''/'') p)))"
proof -
  have "\<forall>s \<in> set (split_on (CHR ''/'') p). CHR ''/'' \<notin> set s"
    by (blast dest: split_on_no_sep)
  then show ?thesis
    using dot_loop_ref [of "split_on (CHR ''/'') p" "[]"] concat_split_on [of "CHR ''/''" p]
    by (simp add: remove_dot_segments_def slashed_def)
qed

lemma dot_ref_set:
  "set (dot_ref out ss) \<subseteq> set out \<union> (set ss - {''.'', ''..''}) \<union> {[]}"
proof (induction out ss rule: dot_ref.induct)
  case (2 out s)
  then show ?case by (auto dest: in_set_butlastD)
next
  case (3 out s t ss)
  have "set (butlast out) \<subseteq> set out" by (auto dest: in_set_butlastD)
  with 3 show ?case by (cases "s = ''.''"; cases "s = ''..''") auto
qed auto

lemma dot_ref_nonempty: "ss \<noteq> [] \<Longrightarrow> dot_ref out ss \<noteq> []"
  by (induction out ss rule: dot_ref.induct) auto

lemma dot_ref_clean: "''.'' \<notin> set ss \<Longrightarrow> ''..'' \<notin> set ss \<Longrightarrow> dot_ref out ss = out @ ss"
  by (induction out ss rule: dot_ref.induct) auto

lemma segments_remove_dot_segments:
  "segments (remove_dot_segments (CHR ''/'' # p)) = dot_ref [] (split_on (CHR ''/'') p)"
proof -
  let ?out = "dot_ref [] (split_on (CHR ''/'') p)"
  have "\<forall>s \<in> set ?out. CHR ''/'' \<notin> set s"
    using dot_ref_set [of "[]" "split_on (CHR ''/'') p"] by (auto dest: split_on_no_sep)
  then show ?thesis
    using split_on_concat [of ?out "CHR ''/''"]
    by (simp add: segments_def remove_dot_segments_ref slashed_def dot_ref_nonempty)
qed

text \<open>
  C31. On every absolute path \<open>_remove_dot_segments\<close> computes what RFC 3986 asks for on the
  list of segments (the stack machine \<^const>\<open>dot_ref\<close>), its result is an absolute path with
  no \<open>.\<close> and no \<open>..\<close> segment, and a second pass changes nothing.
\<close>

theorem remove_dot_segments_correct:
  "segments (remove_dot_segments (CHR ''/'' # p)) = dot_ref [] (segments (CHR ''/'' # p)) \<and>
   starts_with (remove_dot_segments (CHR ''/'' # p)) ''/'' \<and>
   set (segments (remove_dot_segments (CHR ''/'' # p))) \<inter> {''.'', ''..''} = {} \<and>
   remove_dot_segments (remove_dot_segments (CHR ''/'' # p)) = remove_dot_segments (CHR ''/'' # p)"
proof -
  let ?out = "dot_ref [] (split_on (CHR ''/'') p)"
  obtain r where r: "remove_dot_segments (CHR ''/'' # p) = CHR ''/'' # r"
    using dot_ref_nonempty [of "split_on (CHR ''/'') p" "[]"]
    by (cases ?out) (auto simp: remove_dot_segments_ref)
  have clean: "''.'' \<notin> set ?out" "''..'' \<notin> set ?out"
    using dot_ref_set [of "[]" "split_on (CHR ''/'') p"] by auto
  have segs: "split_on (CHR ''/'') r = ?out"
    using segments_remove_dot_segments [of p] r by (simp add: segments_def)
  have "remove_dot_segments (CHR ''/'' # r) = concat (slashed ?out)"
    using clean by (simp add: remove_dot_segments_ref segs dot_ref_clean)
  then show ?thesis
    using clean r segs by (simp add: segments_def remove_dot_segments_ref)
qed

section \<open>Percent-encoding\<close>

text \<open>
  \<^term>\<open>pct_ok\<close>: every \<open>%\<close> starts a well-formed triplet.  \<^term>\<open>pct_norm\<close>: moreover the
  triplets are in upper case and stand for no unreserved character.
\<close>

fun pct_ok :: "string \<Rightarrow> bool" where
  "pct_ok [] = True"
| "pct_ok (c # s) =
     (if c = CHR ''%''
      then (case s of a # b # s' \<Rightarrow> hex_digit a \<and> hex_digit b \<and> pct_ok s' | _ \<Rightarrow> False)
      else pct_ok s)"

fun pct_norm :: "string \<Rightarrow> bool" where
  "pct_norm [] = True"
| "pct_norm (c # s) =
     (if c = CHR ''%''
      then (case s of a # b # s' \<Rightarrow>
              hex_digit a \<and> hex_digit b \<and> upper_char a = a \<and> upper_char b = b \<and>
              \<not> unreserved (pct_char a b) \<and> pct_norm s'
            | _ \<Rightarrow> False)
      else pct_norm s)"

declare normalize_percent.simps(2) [simp del]

lemma hex_digit_unreserved: "hex_digit c \<Longrightarrow> unreserved c"
  by (auto simp: hex_digit_def unreserved_def char_class_defs)

lemma normalize_percent_plain [simp]:
  "c \<noteq> CHR ''%'' \<Longrightarrow> normalize_percent (c # s) = c # normalize_percent s"
  by (simp add: normalize_percent.simps split: list.split)

lemma normalize_percent_pct [simp]:
  "hex_digit a \<Longrightarrow> hex_digit b \<Longrightarrow>
     normalize_percent (CHR ''%'' # a # b # s) =
       (if unreserved (pct_char a b) then [pct_char a b]
        else [CHR ''%'', upper_char a, upper_char b]) @ normalize_percent s"
  by (simp add: normalize_percent.simps)

declare pct_ok.simps(2) [simp del]
declare pct_norm.simps(2) [simp del]

lemma pct_ok_plain [simp]: "c \<noteq> CHR ''%'' \<Longrightarrow> pct_ok (c # s) = pct_ok s"
  by (simp add: pct_ok.simps)

lemma pct_norm_plain [simp]: "c \<noteq> CHR ''%'' \<Longrightarrow> pct_norm (c # s) = pct_norm s"
  by (simp add: pct_norm.simps)

lemma pct_norm_pct [simp]:
  "pct_norm (CHR ''%'' # a # b # s) \<longleftrightarrow>
     hex_digit a \<and> hex_digit b \<and> upper_char a = a \<and> upper_char b = b \<and>
     \<not> unreserved (pct_char a b) \<and> pct_norm s"
  by (simp add: pct_norm.simps)

lemma pct_norm_short [simp]: "\<not> pct_norm [CHR ''%'']" "\<not> pct_norm [CHR ''%'', a]"
  by (simp_all add: pct_norm.simps)

lemma pct_ok_cases:
  assumes "pct_ok (c # s)" and "c = CHR ''%''"
  obtains a b s' where "s = a # b # s'" "hex_digit a" "hex_digit b" "pct_ok s'"
  using assms by (simp add: pct_ok.simps split: list.splits)

lemma pct_norm_cases:
  assumes "pct_norm (c # s)" and "c = CHR ''%''"
  obtains a b s' where "s = a # b # s'" "hex_digit a" "hex_digit b" "upper_char a = a"
    "upper_char b = b" "\<not> unreserved (pct_char a b)" "pct_norm s'"
  using assms by (simp add: pct_norm.simps split: list.splits)

lemma unreserved_not_special:
  "unreserved c \<Longrightarrow> c \<notin> {CHR ''%'', CHR ''?'', CHR ''#'', CHR ''/'', CHR ''@'', CHR '':''}"
  by (auto simp: unreserved_def char_class_defs code_of_def)

lemma pct_norm_normalize: "pct_ok s \<Longrightarrow> pct_norm (normalize_percent s)"
proof (induction s rule: pct_ok.induct)
  case (2 c s)
  show ?case
  proof (cases "c = CHR ''%''")
    case True
    with 2(3) obtain a b s' where s: "s = a # b # s'" "hex_digit a" "hex_digit b" "pct_ok s'"
      by (rule pct_ok_cases)
    with True 2(1) have IH: "pct_norm (normalize_percent s')" by blast
    have "pct_char (upper_char a) (upper_char b) = pct_char a b"
      using s by (simp add: pct_char_def)
    with True s IH show ?thesis
      using unreserved_not_special [of "pct_char a b"] by simp
  next
    case False
    with 2 show ?thesis by simp
  qed
qed simp

lemma pct_norm_fixed: "pct_norm s \<Longrightarrow> normalize_percent s = s"
proof (induction s rule: pct_norm.induct)
  case (2 c s)
  show ?case
  proof (cases "c = CHR ''%''")
    case True
    with 2(3) obtain a b s' where "s = a # b # s'" "hex_digit a" "hex_digit b" "upper_char a = a"
      "upper_char b = b" "\<not> unreserved (pct_char a b)" "pct_norm s'"
      by (rule pct_norm_cases)
    with True 2(1) show ?thesis by simp
  next
    case False
    with 2 show ?thesis by simp
  qed
qed simp

lemma pct_norm_append_plain:
  assumes d: "\<not> hex_digit d" "d \<noteq> CHR ''%''"
  shows "pct_norm (s @ d # t) \<longleftrightarrow> pct_norm s \<and> pct_norm t"
proof (induction s rule: pct_norm.induct)
  case 1
  show ?case using d by simp
next
  case (2 c s)
  show ?case
  proof (cases "c = CHR ''%''")
    case True
    show ?thesis
    proof (cases s)
      case Nil
      with True d show ?thesis by (cases t) auto
    next
      case (Cons a s1)
      with True d 2(1) show ?thesis by (cases s1) auto
    qed
  next
    case False
    with 2 show ?thesis by simp
  qed
qed

lemma set_normalize_percent: "set (normalize_percent s) \<subseteq> set s \<union> Collect unreserved"
proof (induction s rule: measure_induct_rule [where f = length])
  case (less s)
  show ?case
  proof (cases "\<exists>a b s'. s = CHR ''%'' # a # b # s' \<and> hex_digit a \<and> hex_digit b")
    case True
    then obtain a b s' where s: "s = CHR ''%'' # a # b # s'" "hex_digit a" "hex_digit b"
      by blast
    then have "unreserved (upper_char a)" "unreserved (upper_char b)"
      by (simp_all add: hex_digit_unreserved)
    moreover have "set (normalize_percent s') \<subseteq> set s' \<union> Collect unreserved"
      using less [of s'] s by simp
    ultimately show ?thesis using s by auto
  next
    case False
    show ?thesis
    proof (cases s)
      case (Cons c s1)
      have "normalize_percent (c # s1) = c # normalize_percent s1"
        using False Cons by (subst normalize_percent.simps(2)) (auto split: list.split)
      with Cons less [of s1] show ?thesis by auto
    qed simp
  qed
qed

end
