(* ===== verification/Url_Canon_Idem.thy ===== *)
theory Url_Canon_Idem
  imports Url_Canon
begin

text \<open>
  Canonicalization is idempotent: reading a canonical URL back gives the same canonical URL.
  The proof follows the code: remainder (path and query), host, authority, scheme.
\<close>

section \<open>Idempotence: the remainder\<close>

lemma pct_ok_append_plain:
  assumes d: "\<not> hex_digit d" "d \<noteq> CHR ''%''"
  shows "pct_ok (s @ d # t) \<Longrightarrow> pct_ok s \<and> pct_ok t"
proof (induction s rule: pct_ok.induct)
  case 1
  then show ?case using d by simp
next
  case (2 c s)
  show ?case
  proof (cases "c = CHR ''%''")
    case True
    show ?thesis
    proof (cases s)
      case Nil
      with True d 2(3) show ?thesis by (cases t) (auto simp: pct_ok.simps)
    next
      case (Cons a s1)
      with True d 2(1,3) show ?thesis by (cases s1) (auto simp: pct_ok.simps)
    qed
  next
    case False
    with 2 show ?thesis by simp
  qed
qed

lemma not_hex_punct [simp]:
  "\<not> hex_digit (CHR ''/'')" "\<not> hex_digit (CHR ''?'')" "\<not> hex_digit (CHR ''#'')" "\<not> hex_digit (CHR '':'')"
  by (simp_all add: hex_digit_def is_digit_def code_of_def)

lemma pct_norm_slashed: "pct_norm (concat (slashed ss)) \<longleftrightarrow> (\<forall>s \<in> set ss. pct_norm s)"
proof (induction ss)
  case (Cons s ss)
  then show ?case
    using pct_norm_append_plain [of "CHR ''/''" s] by (cases ss) auto
qed simp

lemma canonical_path_fixed:
  assumes "p = [] \<or> starts_with p ''/''" and "pct_ok p"
  shows "canonical_path (canonical_path p) = canonical_path p \<and>
    starts_with (canonical_path p) ''/'' \<and>
    set (canonical_path p) \<subseteq> set p \<union> Collect unreserved \<union> {CHR ''/''}"
proof (cases "p = []")
  case True
  have "remove_dot_segments ''/'' = ''/''"
    using remove_dot_segments_ref [of "[]"] by simp
  with True show ?thesis by (simp add: canonical_path_def)
next
  case False
  with assms(1) obtain q where p: "p = CHR ''/'' # q" by (auto simp: starts_with_iff)
  let ?segs = "split_on (CHR ''/'') (normalize_percent q)"
  let ?out = "dot_ref [] ?segs"
  have norm: "pct_norm (normalize_percent q)"
    using assms(2) p by (simp add: pct_norm_normalize)
  have "\<forall>s \<in> set ?segs. pct_norm s"
    using norm concat_split_on [of "CHR ''/''" "normalize_percent q"]
    by (simp flip: pct_norm_slashed add: slashed_def)
  then have "\<forall>s \<in> set ?out. pct_norm s"
    using dot_ref_set [of "[]" ?segs] by auto
  then have fixed: "normalize_percent (concat (slashed ?out)) = concat (slashed ?out)"
    by (simp add: pct_norm_fixed pct_norm_slashed)
  have canon: "canonical_path p = concat (slashed ?out)"
    using dot_ref_nonempty [of ?segs "[]"]
    by (cases ?out) (auto simp: canonical_path_def p remove_dot_segments_ref)
  have "set (concat (slashed ?out)) \<subseteq> \<Union> (set ` set ?out) \<union> {CHR ''/''}"
    by (auto simp: slashed_def)
  moreover have "\<Union> (set ` set ?out) \<subseteq> set (normalize_percent q)"
    using dot_ref_set [of "[]" ?segs] by (fastforce dest: split_on_subset)
  ultimately have chars: "set (canonical_path p) \<subseteq> set p \<union> Collect unreserved \<union> {CHR ''/''}"
    using set_normalize_percent [of q] unfolding canon by (auto simp: p)
  have "remove_dot_segments (remove_dot_segments (CHR ''/'' # normalize_percent q))
      = remove_dot_segments (CHR ''/'' # normalize_percent q) \<and>
      starts_with (remove_dot_segments (CHR ''/'' # normalize_percent q)) ''/''"
    using remove_dot_segments_correct by blast
  then have "remove_dot_segments (concat (slashed ?out)) = concat (slashed ?out)"
    and "starts_with (concat (slashed ?out)) ''/''"
    by (simp_all add: remove_dot_segments_ref)
  moreover have "concat (slashed ?out) \<noteq> []"
    using \<open>starts_with (concat (slashed ?out)) ''/''\<close> unfolding starts_with_iff by force
  ultimately have "canonical_path (concat (slashed ?out)) = concat (slashed ?out)"
    by (simp add: canonical_path_def fixed del: concat_eq_Nil_conv)
  with chars \<open>starts_with (concat (slashed ?out)) ''/''\<close> show ?thesis by (simp add: canon)
qed

lemma canonical_remainder_fixed:
  assumes start: "rem = [] \<or> hd rem \<in> {CHR ''/'', CHR ''?'', CHR ''#''}" and ok: "pct_ok rem"
  shows "canonical_remainder (canonical_remainder rem) = canonical_remainder rem \<and>
    starts_with (canonical_remainder rem) ''/''"
proof -
  let ?rem = "takeWhile (\<lambda>c. c \<noteq> CHR ''#'') rem"
  obtain p sep q where part: "partition_at (CHR ''?'') ?rem = (p, sep, q)"
    using prod_cases3 by blast
  then have p: "CHR ''?'' \<notin> set p" and rem: "?rem = p @ (if sep then CHR ''?'' # q else [])"
    by (auto dest: partition_at_parts)
  have hash: "CHR ''#'' \<notin> set ?rem" by (auto dest: set_takeWhileD)
  have ok': "pct_ok ?rem"
  proof (cases "CHR ''#'' \<in> set rem")
    case True
    then obtain a t where a: "rem = a @ CHR ''#'' # t" "CHR ''#'' \<notin> set a"
      by (blast dest: split_list_first)
    then have "?rem = a" by simp
    with a ok show ?thesis using pct_ok_append_plain [of "CHR ''#''" ?rem t] by simp
  next
    case False
    then have "?rem = rem" by (rule takeWhile_neq_none)
    with ok show ?thesis by metis
  qed
  then have okp: "pct_ok p" and okq: "sep \<Longrightarrow> pct_ok q"
    using rem pct_ok_append_plain [of "CHR ''?''" p q] by (auto split: if_splits)
  have "p = [] \<or> starts_with p ''/''"
    using start rem p by (cases rem; cases p) (auto split: if_splits)
  note path = canonical_path_fixed [OF this okp]
  let ?P = "canonical_path p" and ?Q = "normalize_percent q"
  have noP: "CHR ''?'' \<notin> set ?P" "CHR ''#'' \<notin> set ?P"
    using path p hash rem unreserved_not_special by fastforce+
  have noQ: "sep \<Longrightarrow> CHR ''#'' \<notin> set ?Q"
    using set_normalize_percent [of q] hash rem unreserved_not_special by fastforce
  have fixQ: "sep \<Longrightarrow> normalize_percent ?Q = ?Q"
    using okq by (simp add: pct_norm_fixed pct_norm_normalize)
  have R: "canonical_remainder rem = ?P @ (if sep then ''?'' @ ?Q else [])"
    by (simp add: canonical_remainder_def part)
  have "CHR ''#'' \<notin> set (canonical_remainder rem)"
    using noP noQ by (auto simp: R)
  then have "canonical_remainder (canonical_remainder rem) =
      (case partition_at (CHR ''?'') (canonical_remainder rem) of
        (path, sep, query) \<Rightarrow>
          canonical_path path @ (if sep then ''?'' @ normalize_percent query else []))"
    by (simp add: canonical_remainder_def)
  also have "\<dots> = canonical_remainder rem"
    using noP path fixQ by (cases sep) (simp_all add: R)
  finally show ?thesis
    using path by (auto simp: R starts_with_iff)
qed


section \<open>Idempotence: the host\<close>

definition host_char :: "char \<Rightarrow> bool" where
  "host_char c \<longleftrightarrow> is_ascii_lower c \<or> is_digit c \<or> c \<in> {CHR ''-'', CHR ''.''}"

text \<open>
  What \<open>idna.encode\<close> with UTS-46 mapping and STD3 rules documents of its results: letters,
  digits, hyphens and dots only, in lower case, and encoding them again is the identity.
\<close>

definition idna_stable :: "(string \<Rightarrow> string option) \<Rightarrow> bool" where
  "idna_stable idna \<longleftrightarrow>
     (\<forall>s e. idna s = Some e \<longrightarrow> e \<noteq> [] \<and> list_all host_char e \<and> idna e = Some e)"

text \<open>The shapes \<open>_parse_host_port\<close> hands on: a bracketed literal, or a host without a colon.\<close>

definition host_shape :: "string \<Rightarrow> bool" where
  "host_shape h \<longleftrightarrow> h \<noteq> [] \<and>
     (if starts_with h ''['' then \<exists>b. h = CHR ''['' # b @ '']'' \<and> CHR '']'' \<notin> set b
      else CHR '':'' \<notin> set h)"

definition authority_safe :: "string \<Rightarrow> bool" where
  "authority_safe h \<longleftrightarrow> (\<forall>c \<in> set h. authority_char c \<and> c \<noteq> CHR ''@'')"

lemma parse_host_port_shape:
  assumes "parse_host_port auth = Inr (h, port)"
  shows "host_shape h"
proof -
  let ?hp = "after_last (CHR ''@'') auth"
  have ne: "?hp \<noteq> []" using assms by (auto simp: parse_host_port_def)
  show ?thesis
  proof (cases "hd ?hp = CHR ''[''")
    case True
    with assms ne obtain inner tail where part: "partition_at (CHR '']'') ?hp = (inner, True, tail)"
      and h: "h = inner @ '']''"
      by (auto simp: parse_host_port_def Let_def split: prod.splits bool.splits if_splits)
    from partition_at_parts [OF part] have "CHR '']'' \<notin> set inner" "?hp = inner @ CHR '']'' # tail"
      by auto
    with True h show ?thesis by (cases inner) (auto simp: host_shape_def)
  next
    case False
    with assms ne obtain f where "partition_at (CHR '':'') ?hp = (h, f, port)" and "h \<noteq> []"
      by (auto simp: parse_host_port_def Let_def split: prod.splits if_splits)
    with False partition_at_parts [OF this(1)] show ?thesis
      by (cases h) (auto simp: host_shape_def)
  qed
qed

lemma parse_host_port_back:
  assumes shape: "host_shape h" and safe: "authority_safe h" and port: "list_all is_digit port"
  shows "parse_host_port (if port \<noteq> [] then h @ '':'' @ port else h) = Inr (h, port)"
proof -
  let ?a = "if port \<noteq> [] then h @ '':'' @ port else h"
  have digits: "CHR ''@'' \<notin> set port" "CHR '':'' \<notin> set port"
    using port by (auto simp: list_all_iff is_digit_def code_of_def)
  then have al: "after_last (CHR ''@'') ?a = ?a"
    using safe by (intro after_last_none) (auto simp: authority_safe_def)
  have ne: "?a \<noteq> []" using shape by (auto simp: host_shape_def)
  show ?thesis
  proof (cases "starts_with h ''[''")
    case True
    with shape obtain b where h: "h = CHR ''['' # b @ '']''" "CHR '']'' \<notin> set b"
      by (auto simp: host_shape_def)
    have "partition_at (CHR '']'') (CHR ''['' # b @ CHR '']'' # t) = (CHR ''['' # b, True, t)" for t
      using partition_at_found [of "CHR '']''" "CHR ''['' # b" t] h(2) by simp
    with h show ?thesis
      using al ne by (auto simp: parse_host_port_def Let_def)
  next
    case False
    with shape have h: "CHR '':'' \<notin> set h" "h \<noteq> []" "hd h \<noteq> CHR ''[''"
      by (auto simp: host_shape_def starts_with_def neq_Nil_conv)
    then have "count_list h (CHR '':'') = 0" "count_list port (CHR '':'') = 0"
      using digits by (simp_all add: count_list_0_iff)
    with h show ?thesis
      using al ne by (auto simp: parse_host_port_def Let_def)
  qed
qed

lemma host_char_safe: "list_all host_char h \<Longrightarrow> authority_safe h \<and> CHR '':'' \<notin> set h \<and> lower h = h \<and>
    \<not> starts_with h ''[''"
proof -
  assume h: "list_all host_char h"
  then have "lower h = h"
    by (induction h) (auto simp: lower_def lower_char_def host_char_def char_class_defs code_of_def)
  moreover have "authority_safe h \<and> CHR '':'' \<notin> set h \<and> CHR ''['' \<notin> set h"
    using h by (auto simp: authority_safe_def authority_char_def list_all_iff host_char_def
        char_class_defs code_of_def)
  ultimately show ?thesis by (auto simp: starts_with_iff)
qed

lemma canonical_dns_host_fixed:
  assumes res: "canonical_dns_host idna raw = Inr h" and idna: "idna_stable idna"
    and dot: "\<not> ends_with h ''.''"
  shows "canonical_dns_host idna h = Inr h \<and> list_all host_char h \<and> h \<noteq> []"
proof -
  let ?t = "remove_suffix raw ''.''"
  have key: "h \<noteq> [] \<and> list_all host_char h \<and>
      (is_ascii h \<and> ipv4_octets h \<noteq> None \<or> idna h = Some h)"
  proof (cases "is_ascii ?t \<and> ipv4_octets (lower ?t) \<noteq> None")
    case True
    with res have h: "h = lower ?t" "?t \<noteq> []" "ipv4_octets h \<noteq> None"
      by (auto simp: canonical_dns_host_def Let_def split: if_splits)
    have "list_all host_char h"
      using ipv4_octets_chars [OF h(3)] by (auto simp: list_all_iff host_char_def)
    moreover have "is_ascii h"
      using ipv4_octets_chars [OF h(3)] by (fastforce simp: is_ascii_def list_all_iff is_digit_def code_of_def)
    ultimately show ?thesis using h by simp
  next
    case False
    with res obtain e where e: "idna ?t = Some e" "h = lower e"
      by (auto simp: canonical_dns_host_def Let_def split: if_splits option.splits)
    with idna have "e \<noteq> []" "list_all host_char e" "idna e = Some e"
      by (auto simp: idna_stable_def)
    with e(2) show ?thesis using host_char_safe [of e] by simp
  qed
  then have low: "lower h = h" using host_char_safe by blast
  have nodots: "\<not> ends_with h ''..''"
    using dot by (auto simp: ends_with_iff)
  have "remove_suffix h ''.'' = h" using dot by (simp add: remove_suffix_def)
  with key low nodots show ?thesis
    by (auto simp: canonical_dns_host_def Let_def)
qed

lemma canonical_ipv6_fixed:
  assumes res: "canonical_ipv6 raw = Inr h" and raw: "raw = CHR ''['' # b @ '']''"
  shows "canonical_ipv6 h = Inr h \<and> starts_with h ''['' \<and> host_shape h \<and> authority_safe h"
proof -
  have inner: "butlast (tl raw) = b" by (simp add: raw)
  from res have b: "CHR ''%'' \<notin> set b" "ipv6_hextets b \<noteq> None" and h: "h = ''['' @ lower b @ '']''"
    by (auto simp: canonical_ipv6_def inner Let_def split: if_splits)
  have chars: "hex_digit x \<or> x \<in> {CHR '':'', CHR ''.''}" if "x \<in> set (lower b)" for x
    using ipv6_hextets_chars [of "lower b"] b that by simp
  then have "CHR ''%'' \<notin> set (lower b)" "CHR '']'' \<notin> set (lower b)" "authority_safe (lower b)"
    unfolding authority_safe_def authority_char_def
    by (auto simp: hex_digit_def is_digit_def code_of_def dest!: chars)
  then show ?thesis
    using b by (auto simp: h canonical_ipv6_def Let_def host_shape_def authority_safe_def
        authority_char_def)
qed

lemma canonical_host_fixed:
  assumes res: "canonical_host idna raw = Inr h" and shape: "host_shape raw"
    and idna: "idna_stable idna" and dot: "\<not> ends_with h ''.''"
  shows "canonical_host idna h = Inr h \<and> host_shape h \<and> authority_safe h"
proof (cases "starts_with raw ''[''")
  case True
  with shape obtain b where "raw = CHR ''['' # b @ '']''" by (auto simp: host_shape_def)
  with True res canonical_ipv6_fixed show ?thesis
    by (auto simp: canonical_host_def)
next
  case False
  with res have "canonical_dns_host idna raw = Inr h" by (auto simp: canonical_host_def split: if_splits)
  from canonical_dns_host_fixed [OF this idna dot] host_char_safe show ?thesis
    by (auto simp: canonical_host_def host_shape_def)
qed


section \<open>Idempotence\<close>

lemma match_scheme_parts:
  assumes "match_scheme url = Some (s, rest)"
  shows "url = s @ CHR '':'' # rest \<and> s \<noteq> [] \<and> is_alpha (hd s) \<and> list_all scheme_char (tl s)"
proof -
  from assms obtain c cs where url: "url = c # cs" by (auto simp: match_scheme_def split: list.splits)
  with assms have "is_alpha c" and s: "s = c # takeWhile scheme_char cs"
    and rest: "dropWhile scheme_char cs \<noteq> []" "hd (dropWhile scheme_char cs) = CHR '':''"
      "rest = tl (dropWhile scheme_char cs)"
    by (auto simp: match_scheme_def Let_def split: if_splits)
  moreover from rest have "dropWhile scheme_char cs = CHR '':'' # rest"
    by (cases "dropWhile scheme_char cs") auto
  then have "cs = takeWhile scheme_char cs @ CHR '':'' # rest"
    by (metis takeWhile_dropWhile_id)
  moreover have "list_all scheme_char (takeWhile scheme_char cs)"
    by (auto simp: list_all_iff dest: set_takeWhileD)
  ultimately show ?thesis by (simp add: url)
qed

lemma scheme_char_colon [simp]: "\<not> scheme_char (CHR '':'')"
  by (simp add: scheme_char_def char_class_defs code_of_def)

lemma match_scheme_back:
  assumes "s \<noteq> []" and "is_alpha (hd s)" and "list_all scheme_char (tl s)"
  shows "match_scheme (s @ CHR '':'' # rest) = Some (s, rest)"
  using assms by (cases s) (auto simp: match_scheme_def Let_def list_all_iff takeWhile_append2
      dropWhile_append2)

lemma scheme_char_lower: "scheme_char c \<Longrightarrow> scheme_char (lower_char c)"
  by (auto simp: scheme_char_def) (auto simp: lower_char_def is_ascii_upper_def code_of_def)

lemma scheme_lower:
  assumes "s \<noteq> []" and "is_alpha (hd s)" and "list_all scheme_char (tl s)"
  shows "lower s \<noteq> [] \<and> is_alpha (hd (lower s)) \<and> list_all scheme_char (tl (lower s))"
  using assms by (cases s) (auto simp: lower_def list_all_iff scheme_char_lower)

lemma canonicalize_url_fixpoint:
  assumes canon: "canonicalize_url idna url = Inr c" and pct: "pct_ok url"
    and idna: "idna_stable idna" and dot: "\<not> ends_with (host c) ''.''"
  shows "canonicalize_url idna (target_uri c) = Inr c"
proof -
  from canon obtain s rest where ms: "match_scheme url = Some (s, rest)" and sl: "starts_with rest ''//''"
    by (auto simp: canonicalize_url_def split: option.splits if_splits)
  define auth rem where "auth = takeWhile authority_char (drop 2 rest)"
    and "rem = dropWhile authority_char (drop 2 rest)"
  from canon ms sl obtain raw rp where php: "parse_host_port auth = Inr (raw, rp)"
    and ch: "canonical_host idna raw = Inr (host c)"
    and digits: "list_all is_digit rp"
    and c: "scheme c = lower s"
      "authority c = (let port = (if rp \<noteq> [] \<and> default_port (lower s) = Some rp then [] else rp)
          in if port \<noteq> [] then host c @ '':'' @ port else host c)"
      "target_uri c = lower s @ ''://'' @ authority c @ canonical_remainder rem"
    by (auto simp: canonicalize_url_def split_authority_def auth_def rem_def res_bind_Inr_iff Let_def
        split: if_splits)
  define port where "port = (if rp \<noteq> [] \<and> default_port (lower s) = Some rp then [] else rp)"
  have auth': "authority c = (if port \<noteq> [] then host c @ '':'' @ port else host c)"
    by (simp add: c(2) port_def Let_def)
  have portd: "list_all is_digit port" and portdef: "port = [] \<or> default_port (lower s) \<noteq> Some port"
    using digits by (auto simp: port_def)
  from canonical_host_fixed [OF ch parse_host_port_shape [OF php] idna dot]
  have h: "canonical_host idna (host c) = Inr (host c)" "host_shape (host c)" "authority_safe (host c)"
    by auto
  have php': "parse_host_port (authority c) = Inr (host c, port)"
    using parse_host_port_back [OF h(2,3) portd] by (simp add: auth')
  have digit: "is_digit x \<Longrightarrow> authority_char x" for x
    by (auto simp: authority_char_def is_digit_def code_of_def)
  have "\<forall>x \<in> set port. authority_char x"
    using portd digit by (simp add: list_all_iff)
  moreover have "authority_char (CHR '':'')" by (simp add: authority_char_def)
  ultimately have safe: "\<forall>x \<in> set (authority c). authority_char x"
    using h(3) by (auto simp: auth' authority_safe_def)
  from match_scheme_parts [OF ms] have s: "s \<noteq> []" "is_alpha (hd s)" "list_all scheme_char (tl s)"
    and url: "url = s @ CHR '':'' # rest" by auto
  have "pct_ok rem"
  proof (cases rem)
    case (Cons x xs)
    then have "\<not> authority_char x" unfolding rem_def by (metis hd_dropWhile list.distinct(1) list.sel(1))
    then have x: "\<not> hex_digit x" "x \<noteq> CHR ''%''" by (auto simp: authority_char_def)
    have "url = (s @ '':'' @ take 2 rest @ auth) @ x # xs"
      by (simp add: url auth_def Cons [symmetric] rem_def)
    with pct pct_ok_append_plain [OF x] have "pct_ok xs" by metis
    with Cons x show ?thesis by simp
  qed simp
  moreover have "rem = [] \<or> hd rem \<in> {CHR ''/'', CHR ''?'', CHR ''#''}"
    using hd_dropWhile [of authority_char "drop 2 rest"] by (auto simp: rem_def authority_char_def)
  ultimately have R: "canonical_remainder (canonical_remainder rem) = canonical_remainder rem"
    "starts_with (canonical_remainder rem) ''/''"
    using canonical_remainder_fixed by blast+
  from R(2) obtain r where r: "canonical_remainder rem = CHR ''/'' # r" by (auto simp: starts_with_iff)
  have split: "split_authority (authority c @ canonical_remainder rem) = (authority c, canonical_remainder rem)"
    using safe by (simp add: split_authority_def r takeWhile_append2 dropWhile_append2 authority_char_def)
  have ms': "match_scheme (target_uri c) = Some (lower s, ''//'' @ authority c @ canonical_remainder rem)"
    using match_scheme_back scheme_lower [OF s] by (simp add: c(3))
  have "canonicalize_url idna (target_uri c)
     = Inr \<lparr>target_uri = lower s @ ''://'' @ authority c @ canonical_remainder rem,
            authority = authority c, scheme = lower s, host = host c\<rparr>"
  proof -
    have same: "(if port \<noteq> [] \<and> default_port (lower s) = Some port then [] else port) = port"
      using portdef by auto
    have drop2: "drop 2 (''//'' @ xs) = xs" and sw: "starts_with (''//'' @ xs) ''//''" for xs :: string
      by (simp_all add: numeral_2_eq_2)
    have portd': "\<not> (port \<noteq> [] \<and> \<not> list_all is_digit port)" using portd by simp
    show ?thesis
      unfolding canonicalize_url_def ms' option.case sum.case prod.case res_bind_simps drop2 split php'
        h(1) R(1) Let_def lower_lower same
      by (simp only: sw not_True_eq_False if_False portd' auth' if_True)
  qed
  then show ?thesis using c(1,3) by (cases c) simp
qed

text \<open>
  C9. Canonicalization is idempotent: for a URL whose percent-encoding is well formed, the
  canonical URL is its own canonical form, with the same authority, scheme and host.  (The
  hypotheses on the host concern only names that go through \<open>idna.encode\<close>.)
\<close>

theorem canonicalize_url_idempotent:
  assumes canon: "canonicalize_url idna url = Inr c" and pct: "pct_ok url"
    and idna: "idna_stable idna" and dot: "\<not> ends_with (host c) ''.''"
  shows "canonicalize_url idna (target_uri c) = Inr c"
  by (rule canonicalize_url_fixpoint [OF assms])

section \<open>URLs as identifiers\<close>

text \<open>
  What a comparison through canonical forms promises: two values are equivalent when both
  have a canonical form and the forms agree on their key.
\<close>

locale canonical_form =
  fixes canon :: "'u \<Rightarrow> 'e + 'c"
    and key :: "'c \<Rightarrow> 'k"
    and equiv :: "'u \<Rightarrow> 'u \<Rightarrow> bool"
  assumes equiv_iff: "equiv a b \<longleftrightarrow> (\<exists>x y. canon a = Inr x \<and> canon b = Inr y \<and> key x = key y)"
begin

lemma sym_equiv: "symp equiv"
  by (rule sympI) (auto simp: equiv_iff)

lemma trans_equiv: "transp equiv"
  by (rule transpI) (auto simp: equiv_iff)

lemma refl_equiv: "equiv a a \<longleftrightarrow> (\<exists>x. canon a = Inr x)"
  by (auto simp: equiv_iff)

lemma same_canon: "canon a = canon a' \<Longrightarrow> equiv a b \<longleftrightarrow> equiv a' b"
  by (simp add: equiv_iff)

end

interpretation url_ids: canonical_form "canonicalize_url idna" target_uri "urls_equivalent idna"
  for idna
  by unfold_locales (auto simp: urls_equivalent_def split: sum.splits)

text \<open>The fragment plays no part.\<close>

definition without_fragment :: "string \<Rightarrow> string" where
  "without_fragment url = takeWhile (\<lambda>c. c \<noteq> CHR ''#'') url"

lemma match_scheme_fragment:
  "match_scheme (without_fragment url) =
     map_option (\<lambda>(s, rest). (s, without_fragment rest)) (match_scheme url)"
proof (cases "match_scheme url")
  case (Some p)
  then obtain s rest where ms: "match_scheme url = Some (s, rest)" by (cases p) auto
  from match_scheme_parts [OF ms] have s: "url = s @ CHR '':'' # rest" "s \<noteq> []" "is_alpha (hd s)"
    "list_all scheme_char (tl s)" by auto
  have "CHR ''#'' \<notin> set s"
  proof (cases s)
    case (Cons c cs)
    have "\<not> is_alpha (CHR ''#'')" "\<not> scheme_char (CHR ''#'')"
      by (simp_all add: scheme_char_def char_class_defs code_of_def)
    with Cons s(3,4) show ?thesis by (auto simp: list_all_iff)
  qed (use s in simp)
  then have "without_fragment url = s @ CHR '':'' # without_fragment rest"
    by (subst s(1)) (auto simp: without_fragment_def takeWhile_append2 takeWhile_append)
  with match_scheme_back [OF s(2-4)] show ?thesis by (simp add: ms)
next
  case None
  show ?thesis
  proof (rule ccontr)
    assume "\<not> ?thesis"
    with None obtain s rest where ms: "match_scheme (without_fragment url) = Some (s, rest)" by auto
    from match_scheme_parts [OF ms] have s: "without_fragment url = s @ CHR '':'' # rest"
      "s \<noteq> []" "is_alpha (hd s)" "list_all scheme_char (tl s)" by auto
    have "url = without_fragment url @ dropWhile (\<lambda>c. c \<noteq> CHR ''#'') url"
      by (simp add: without_fragment_def)
    with s(1) have "url = s @ CHR '':'' # (rest @ dropWhile (\<lambda>c. c \<noteq> CHR ''#'') url)" by simp
    with match_scheme_back [OF s(2-4)] None show False by (metis option.distinct(1))
  qed
qed

lemma split_authority_fragment:
  "split_authority (without_fragment r) = (fst (split_authority r), without_fragment (snd (split_authority r)))"
proof (induction r)
  case (Cons c r)
  then show ?case
    by (cases "c = CHR ''#''")
       (auto simp: split_authority_def without_fragment_def authority_char_def)
qed (simp add: split_authority_def without_fragment_def)

lemma canonical_remainder_fragment: "canonical_remainder (without_fragment r) = canonical_remainder r"
  by (simp add: canonical_remainder_def without_fragment_def)

lemma canonicalize_url_fragment: "canonicalize_url idna (without_fragment url) = canonicalize_url idna url"
proof (cases "match_scheme url")
  case (Some p)
  obtain s rest where p: "p = (s, rest)" by (cases p)
  have sw: "starts_with (without_fragment rest) ''//'' = starts_with rest ''//''"
    by (cases rest; cases "tl rest") (auto simp: without_fragment_def)
  have dr: "drop 2 (without_fragment rest) = without_fragment (drop 2 rest)" if "starts_with rest ''//''"
    using that by (auto simp: without_fragment_def starts_with_iff)
  show ?thesis
    by (cases "starts_with rest ''//''")
       (simp_all add: canonicalize_url_def match_scheme_fragment Some p sw dr split_authority_fragment
          canonical_remainder_fragment split_beta cong: if_cong let_cong)
qed (simp add: canonicalize_url_def match_scheme_fragment)

text \<open>
  Comparing URLs as identifiers is a partial equivalence: symmetric and transitive, reflexive
  exactly on the URLs that can be canonicalized (a malformed URL matches nothing, itself
  included), and blind to the fragment.
\<close>

theorem urls_equivalent_partial_equivalence:
  "symp (urls_equivalent idna) \<and> transp (urls_equivalent idna) \<and>
   (urls_equivalent idna a a \<longleftrightarrow> (\<exists>x. canonicalize_url idna a = Inr x)) \<and>
   (urls_equivalent idna a b \<longleftrightarrow> urls_equivalent idna (without_fragment a) b)"
  using url_ids.sym_equiv url_ids.trans_equiv url_ids.refl_equiv
    url_ids.same_canon [OF canonicalize_url_fragment]
  by metis

section \<open>A concrete run\<close>

definition example_idna :: "string \<Rightarrow> string option" where
  "example_idna s = (if s = ''a.example'' then Some s else None)"

lemma example_idna_stable: "idna_stable example_idna"
  by (simp add: idna_stable_def example_idna_def host_char_def char_class_defs code_of_def)

lemma example_stages:
  "match_scheme ''HTTP://u@a.example:80/x/../%7ey?q'' = Some (''HTTP'', ''//u@a.example:80/x/../%7ey?q'')"
  "split_authority ''u@a.example:80/x/../%7ey?q'' = (''u@a.example:80'', ''/x/../%7ey?q'')"
  "parse_host_port ''u@a.example:80'' = Inr (''a.example'', ''80'')"
  by (code_simp, code_simp, code_simp)

lemma example_host: "canonical_host example_idna ''a.example'' = Inr ''a.example''"
  by code_simp

lemma example_hex: "hex_digit (CHR ''7'')" "hex_digit (CHR ''e'')" "pct_char (CHR ''7'') (CHR ''e'') = CHR ''~''"
  "unreserved (CHR ''~'')"
  by (code_simp, code_simp, code_simp, code_simp)

lemma example_percent: "normalize_percent ''/x/../%7ey'' = ''/x/../~y''"
  by (simp add: example_hex)

lemma example_remainder: "canonical_remainder ''/x/../%7ey?q'' = ''/~y?q''"
proof -
  have "canonical_path ''/x/../%7ey'' = ''/~y''"
    by (simp add: canonical_path_def example_percent remove_dot_segments_ref)
  then show ?thesis by (simp add: canonical_remainder_def)
qed

lemma example_canonical:
  "canonicalize_url example_idna ''HTTP://u@a.example:80/x/../%7ey?q'' =
     Inr \<lparr>target_uri = ''http://a.example/~y?q'', authority = ''a.example'',
          scheme = ''http'', host = ''a.example''\<rparr>"
proof -
  have l: "lower ''HTTP'' = ''http''" "default_port ''http'' = Some ''80''"
    by (code_simp, code_simp)
  have d: "starts_with ''//u@a.example:80/x/../%7ey?q'' ''//''"
    "drop 2 ''//u@a.example:80/x/../%7ey?q'' = ''u@a.example:80/x/../%7ey?q''" by simp_all
  show ?thesis
    unfolding canonicalize_url_def example_stages option.case sum.case prod.case res_bind_simps
      d example_host example_remainder Let_def l by (simp add: is_digit_def code_of_def)
qed

lemma example_pct_ok: "pct_ok ''HTTP://u@a.example:80/x/../%7ey?q''"
  by (simp add: pct_ok.simps example_hex)

lemma canonicalize_url_idempotent_witness:
  "canonicalize_url example_idna ''http://a.example/~y?q'' =
     Inr \<lparr>target_uri = ''http://a.example/~y?q'', authority = ''a.example'',
          scheme = ''http'', host = ''a.example''\<rparr>"
  using canonicalize_url_idempotent [OF example_canonical example_pct_ok example_idna_stable]
  by (simp add: ends_with_def)


text \<open>
  The hypothesis on the percent-encoding is needed: a stray \<open>%\<close> can become the start of a
  triplet, which a second pass decodes.
\<close>

lemma normalize_percent_twice:
  "normalize_percent ''/%%34%31'' = ''/%41''" "normalize_percent ''/%41'' = ''/A''"
  "\<not> pct_ok ''/%%34%31''"
proof -
  have h: "hex_digit (CHR ''3'')" "hex_digit (CHR ''4'')" "hex_digit (CHR ''1'')" "\<not> hex_digit (CHR ''%'')"
    "pct_char (CHR ''3'') (CHR ''4'') = CHR ''4''" "pct_char (CHR ''3'') (CHR ''1'') = CHR ''1''"
    "pct_char (CHR ''4'') (CHR ''1'') = CHR ''A''"
    "unreserved (CHR ''4'')" "unreserved (CHR ''1'')" "unreserved (CHR ''A'')"
    by (code_simp, code_simp, code_simp, code_simp, code_simp, code_simp, code_simp, code_simp,
        code_simp, code_simp)
  show "normalize_percent ''/%%34%31'' = ''/%41''" "normalize_percent ''/%41'' = ''/A''"
    "\<not> pct_ok ''/%%34%31''"
    by (simp_all add: h pct_ok.simps normalize_percent.simps)
qed

end
