(* ===== verification/Retry_Budget.thy ===== *)
theory Retry_Budget
  imports Py_Prelude
begin

text \<open>
  \<open>src/connections/retry.py\<close> and \<open>src/connections/errors.py\<close>: the classification of AdCP
  errors and the bounded retry budget of one operation.  Seconds are rational numbers; a
  reading of \<open>clock\<close> and a sample of \<open>rng\<close> (in \<open>[0, 1)\<close>) are arguments of the operations
  that take them.  JSON integers are assumed to lie in the range of a \<open>float\<close>.
\<close>

section \<open>Recovery classes\<close>

datatype recovery = Transient | Correctable | Terminal

definition known_recoveries :: "(string \<times> recovery) list" where
  "known_recoveries =
     [(''transient'', Transient), (''correctable'', Correctable), (''terminal'', Terminal)]"

definition code_recovery :: "(string \<times> recovery) list" where
  "code_recovery =
     [(''RATE_LIMITED'', Transient), (''SERVICE_UNAVAILABLE'', Transient),
      (''CONFLICT'', Transient), (''INVALID_REQUEST'', Correctable),
      (''AUTH_MISSING'', Correctable), (''AUTH_INVALID'', Terminal),
      (''AUTH_REQUIRED'', Correctable), (''POLICY_VIOLATION'', Correctable),
      (''PRODUCT_NOT_FOUND'', Correctable), (''PRODUCT_UNAVAILABLE'', Correctable),
      (''PROPOSAL_EXPIRED'', Correctable), (''PROPOSAL_NOT_FOUND'', Correctable),
      (''MULTI_FINALIZE_UNSUPPORTED'', Correctable), (''REQUOTE_REQUIRED'', Correctable),
      (''BUDGET_TOO_LOW'', Correctable), (''CREATIVE_REJECTED'', Correctable),
      (''UNSUPPORTED_FEATURE'', Correctable), (''AUDIENCE_TOO_SMALL'', Correctable),
      (''ACCOUNT_MOVED'', Correctable), (''ACCOUNT_IDENTITY_CONFLICT'', Correctable),
      (''ACCOUNT_SETUP_REQUIRED'', Correctable), (''ACCOUNT_AMBIGUOUS'', Correctable),
      (''COMPLIANCE_UNSATISFIED'', Correctable), (''GOVERNANCE_DENIED'', Correctable),
      (''MEDIA_BUY_NOT_FOUND'', Correctable), (''PACKAGE_NOT_FOUND'', Correctable),
      (''CREATIVE_NOT_FOUND'', Correctable), (''SIGNAL_NOT_FOUND'', Correctable),
      (''SESSION_NOT_FOUND'', Correctable), (''SESSION_TERMINATED'', Correctable),
      (''REFERENCE_NOT_FOUND'', Correctable), (''VALIDATION_ERROR'', Correctable),
      (''ACCOUNT_NOT_FOUND'', Terminal), (''ACCOUNT_PAYMENT_REQUIRED'', Terminal),
      (''ACCOUNT_SUSPENDED'', Terminal), (''BUDGET_EXHAUSTED'', Terminal),
      (''CONFIGURATION_ERROR'', Terminal)]"

definition mutating_tasks :: "string list" where
  "mutating_tasks =
     [''create_media_buy'', ''update_media_buy'', ''buy_products'', ''accept_proposal'',
      ''control_media_buy'', ''sync_creatives'', ''sync_accounts'', ''sync_catalogs'',
      ''sync_event_sources'', ''sync_audiences'', ''sync_governance'', ''activate_signal'',
      ''provide_performance_feedback'', ''report_usage'', ''log_event'', ''acquire_rights'',
      ''request_proposals'', ''refine_proposals'', ''decline_proposals'']"

text \<open>
  A \<open>code\<close> that is not a string is looked up through \<open>str(...)\<close>, whose result (a number,
  \<open>None\<close>, \<open>True\<close>, or something in brackets) is never a key of the table.
\<close>

definition recovery_for :: "dict \<Rightarrow> recovery" where
  "recovery_for error =
     (case getj error ''recovery'' of
        JStr declared \<Rightarrow>
          (case map_of known_recoveries declared of Some r \<Rightarrow> r | None \<Rightarrow> Terminal)
      | _ \<Rightarrow>
          (case getj error ''code'' of
             JStr code \<Rightarrow> (case map_of code_recovery code of Some r \<Rightarrow> r | None \<Rightarrow> Transient)
           | _ \<Rightarrow> Transient))"

text \<open>The class of a transport failure, from the HTTP status found in the exception chain.\<close>

definition connection_recovery :: "int option \<Rightarrow> recovery" where
  "connection_recovery status =
     (case status of
        Some code \<Rightarrow>
          (if 400 \<le> code \<and> code < 500 \<and> code \<notin> {408, 429} then Terminal else Transient)
      | None \<Rightarrow> Transient)"

section \<open>Delays\<close>

definition clamp_retry_after :: "rat \<Rightarrow> rat" where
  "clamp_retry_after x = of_int (min 3600 (max 1 \<lceil>x\<rceil>))"

definition normalize_retry_after :: "json \<Rightarrow> rat option" where
  "normalize_retry_after value =
     (case value of
        JInt i \<Rightarrow> Some (clamp_retry_after (of_int i))
      | JFloat (Fin x) \<Rightarrow> Some (clamp_retry_after x)
      | _ \<Rightarrow> None)"

definition backoff_delay :: "int \<Rightarrow> rat \<Rightarrow> rat" where
  "backoff_delay retry_index sample = min (2 * 2 ^ nat retry_index) 60 * (3/4 + sample * (1/2))"

section \<open>The budget\<close>

record retry_budget =
  max_retries :: int
  max_seconds :: rat
  retries_attempted :: int
  started_at :: rat

definition spec_max_retries :: int where
  "spec_max_retries = 3"

definition spec_max_retry_seconds :: rat where
  "spec_max_retry_seconds = 300"

text \<open>\<open>__post_init__\<close>: a negative \<open>started_at\<close> (the default) is replaced by the clock.\<close>

definition post_init :: "rat \<Rightarrow> retry_budget \<Rightarrow> retry_budget" where
  "post_init now b =
     b\<lparr>max_retries := max 0 (min (max_retries b) spec_max_retries),
       max_seconds := max 0 (min (max_seconds b) spec_max_retry_seconds),
       started_at := (if started_at b < 0 then now else started_at b)\<rparr>"

definition budget_from_settings :: "int \<Rightarrow> rat \<Rightarrow> rat \<Rightarrow> retry_budget" where
  "budget_from_settings retries seconds now =
     post_init now \<lparr>max_retries = retries, max_seconds = seconds, retries_attempted = 0,
                    started_at = -1\<rparr>"

definition exhausted :: "retry_budget \<Rightarrow> bool" where
  "exhausted b \<longleftrightarrow> max_retries b \<le> retries_attempted b"

text \<open>One request: the hint, the clock's reading and the sample drawn for the jitter.\<close>

type_synonym delay_request = "json \<times> rat \<times> rat"

fun next_delay :: "delay_request \<Rightarrow> retry_budget \<Rightarrow> rat option \<times> retry_budget" where
  "next_delay (retry_after, now, sample) b =
     (if exhausted b then (None, b)
      else
        let delay = (case normalize_retry_after retry_after of
                       Some hinted \<Rightarrow> hinted
                     | None \<Rightarrow> backoff_delay (retries_attempted b) sample);
            elapsed = now - started_at b
        in if elapsed + delay > max_seconds b then (None, b)
           else (Some delay, b\<lparr>retries_attempted := retries_attempted b + 1\<rparr>))"

section \<open>What a budget promises its client\<close>

text \<open>The delays granted by a meter to a sequence of requests, and the meter afterwards.\<close>

fun meter_run :: "('r \<Rightarrow> 'b \<Rightarrow> 'd option \<times> 'b) \<Rightarrow> 'r list \<Rightarrow> 'b \<Rightarrow> 'd list \<times> 'b" where
  "meter_run ask [] b = ([], b)"
| "meter_run ask (r # rs) b =
     (case ask r b of (d, b') \<Rightarrow>
        (case meter_run ask rs b' of (ds, b'') \<Rightarrow>
           (case d of None \<Rightarrow> ds | Some x \<Rightarrow> x # ds, b'')))"

text \<open>The client sleeps: at each request the time passed covers the delays granted before.\<close>

fun slept :: "('r \<Rightarrow> 'b \<Rightarrow> rat option \<times> 'b) \<Rightarrow> ('r \<Rightarrow> 'b \<Rightarrow> rat) \<Rightarrow> rat \<Rightarrow> 'r list \<Rightarrow> 'b \<Rightarrow> bool" where
  "slept ask passed acc [] b = True"
| "slept ask passed acc (r # rs) b =
     (acc \<le> passed r b \<and>
      (case ask r b of (None, b') \<Rightarrow> slept ask passed acc rs b'
       | (Some d, b') \<Rightarrow> slept ask passed (acc + d) rs b'))"

text \<open>
  A meter grants a request only while there is something left, a grant uses up one unit, and
  a refusal changes nothing.
\<close>

locale retry_meter =
  fixes ask :: "'r \<Rightarrow> 'b \<Rightarrow> 'd option \<times> 'b"
    and left :: "'b \<Rightarrow> nat"
  assumes grant: "ask r b = (Some d, b') \<Longrightarrow> left b = Suc (left b')"
    and refuse: "ask r b = (None, b') \<Longrightarrow> b' = b"
begin

lemma ask_left: "ask r b = (d, b') \<Longrightarrow> left b = left b' + (if d = None then 0 else 1)"
  by (cases d) (auto dest: grant refuse)

lemma empty_refuses: "left b = 0 \<Longrightarrow> ask r b = (None, b)"
  by (cases "ask r b"; cases "fst (ask r b)") (auto dest: grant refuse)

lemma run_left: "meter_run ask rs b = (ds, b') \<Longrightarrow> left b = left b' + length ds"
  by (induction rs arbitrary: b ds b') (auto split: prod.splits option.splits dest: grant refuse)

lemma run_bounded: "meter_run ask rs b = (ds, b') \<Longrightarrow> length ds \<le> left b"
  using run_left [of rs b ds b'] by simp

end

text \<open>
  A timed meter moreover prices its grants: a grant of \<open>d\<close> at time \<open>t\<close> keeps the time that
  has passed plus \<open>d\<close> within the limit.
\<close>

locale timed_meter = retry_meter ask left
  for ask :: "'r \<Rightarrow> 'b \<Rightarrow> rat option \<times> 'b" and left :: "'b \<Rightarrow> nat" +
  fixes passed :: "'r \<Rightarrow> 'b \<Rightarrow> rat"
    and limit :: "'b \<Rightarrow> rat"
  assumes grant_within: "ask r b = (Some d, b') \<Longrightarrow> passed r b + d \<le> limit b"
    and limit_kept: "ask r b = (d', b') \<Longrightarrow> limit b' = limit b"
    and passed_kept: "ask r b = (d', b') \<Longrightarrow> passed q b' = passed q b"
begin

lemma run_total:
  "meter_run ask rs b = (ds, b') \<Longrightarrow> slept ask passed acc rs b \<Longrightarrow> acc \<le> limit b \<Longrightarrow>
     acc + sum_list ds \<le> limit b"
proof (induction rs arbitrary: b ds acc)
  case (Cons r rs)
  obtain d b1 where ask: "ask r b = (d, b1)" by (cases "ask r b")
  obtain ds1 where run: "meter_run ask rs b1 = (ds1, b')"
    using Cons.prems(1) ask by (cases "meter_run ask rs b1") simp
  have lim: "limit b1 = limit b" using limit_kept ask by blast
  show ?case
  proof (cases d)
    case None
    then show ?thesis using Cons.IH [OF run, of acc] Cons.prems ask run lim by simp
  next
    case (Some x)
    have "acc \<le> passed r b" using Cons.prems(2) by simp
    then have "acc + x \<le> limit b" using grant_within ask Some by fastforce
    then show ?thesis using Cons.IH [OF run, of "acc + x"] Cons.prems ask run lim Some
      by (auto simp: add.assoc)
  qed
qed simp

end

definition retries_left :: "retry_budget \<Rightarrow> nat" where
  "retries_left b = nat (max_retries b - retries_attempted b)"

definition request_elapsed :: "delay_request \<Rightarrow> retry_budget \<Rightarrow> rat" where
  "request_elapsed r b = (case r of (_, now, _) \<Rightarrow> now - started_at b)"

lemma next_delay_grant:
  assumes "next_delay r b = (Some d, b')"
  shows "b' = b\<lparr>retries_attempted := retries_attempted b + 1\<rparr>"
    and "retries_attempted b < max_retries b"
    and "request_elapsed r b + d \<le> max_seconds b"
    and "d = (case normalize_retry_after (fst r) of Some h \<Rightarrow> h
               | None \<Rightarrow> backoff_delay (retries_attempted b) (snd (snd r)))"
proof -
  obtain hint now sample where r: "r = (hint, now, sample)" by (cases r)
  let ?d = "case normalize_retry_after hint of Some h \<Rightarrow> h
    | None \<Rightarrow> backoff_delay (retries_attempted b) sample"
  from assms have "\<not> exhausted b" "\<not> max_seconds b < now - started_at b + ?d" "d = ?d"
    and b': "b' = b\<lparr>retries_attempted := retries_attempted b + 1\<rparr>"
    unfolding r by (simp_all add: Let_def split: if_splits)
  then show "b' = b\<lparr>retries_attempted := retries_attempted b + 1\<rparr>"
    and "retries_attempted b < max_retries b"
    and "request_elapsed r b + d \<le> max_seconds b"
    and "d = (case normalize_retry_after (fst r) of Some h \<Rightarrow> h
               | None \<Rightarrow> backoff_delay (retries_attempted b) (snd (snd r)))"
    unfolding r fst_conv snd_conv by (simp_all add: exhausted_def request_elapsed_def)
qed

lemma next_delay_refuse: "next_delay r b = (None, b') \<Longrightarrow> b' = b"
  by (cases r) (auto simp: Let_def split: if_splits)

declare next_delay.simps [simp del]

lemma next_delay_keeps:
  assumes "next_delay r b = (d, b')"
  shows "max_retries b' = max_retries b" "max_seconds b' = max_seconds b"
    "started_at b' = started_at b" "request_elapsed q b' = request_elapsed q b"
  using assms
  by (cases d; auto dest: next_delay_grant(1) next_delay_refuse simp: request_elapsed_def split: prod.split)+

interpretation budget: timed_meter next_delay retries_left request_elapsed max_seconds
proof unfold_locales
  show "next_delay r b = (Some d, b') \<Longrightarrow> retries_left b = Suc (retries_left b')" for r b d b'
    using next_delay_grant(1,2) [of r b d b'] by (auto simp: retries_left_def)
qed (auto dest: next_delay_refuse next_delay_grant(3) next_delay_keeps)

lemma post_init_bounds:
  "0 \<le> max_retries (post_init now b) \<and> max_retries (post_init now b) \<le> 3 \<and>
   0 \<le> max_seconds (post_init now b) \<and> max_seconds (post_init now b) \<le> 300 \<and>
   retries_attempted (post_init now b) = retries_attempted b"
  by (simp add: post_init_def spec_max_retries_def spec_max_retry_seconds_def)

lemma budget_run_bounds:
  assumes run: "meter_run next_delay requests (budget_from_settings retries seconds now) = (delays, b)"
  shows "length delays \<le> 3 \<and> int (length delays) \<le> max 0 retries \<and>
     (slept next_delay request_elapsed 0 requests (budget_from_settings retries seconds now) \<longrightarrow>
        sum_list delays \<le> 300 \<and> sum_list delays \<le> max 0 seconds)"
proof -
  let ?b = "budget_from_settings retries seconds now"
  have left: "retries_left ?b = nat (min retries 3)"
    by (auto simp: retries_left_def budget_from_settings_def post_init_def spec_max_retries_def)
  have secs: "max_seconds ?b = max 0 (min seconds 300)"
    by (simp add: budget_from_settings_def post_init_def spec_max_retry_seconds_def)
  have "0 + sum_list delays \<le> max_seconds ?b"
    if "slept next_delay request_elapsed 0 requests ?b"
    by (rule budget.run_total [OF run that]) (simp add: secs)
  then show ?thesis using budget.run_bounded [OF run] by (auto simp: left secs)
qed

text \<open>
  Whatever the settings say, an operation's retry budget grants at most three retries, and
  when the caller sleeps the delays it is granted they add up to at most 300 seconds, whatever
  hints the seller sends and however the jitter falls.
\<close>

theorem retry_budget_bounded:
  assumes run: "meter_run next_delay requests (budget_from_settings retries seconds now) = (delays, b)"
  shows "length delays \<le> 3 \<and> int (length delays) \<le> max 0 retries \<and>
     (slept next_delay request_elapsed 0 requests (budget_from_settings retries seconds now) \<longrightarrow>
        sum_list delays \<le> 300 \<and> sum_list delays \<le> max 0 seconds)"
  using run by (rule budget_run_bounds)

lemmas budget_eval = next_delay.simps exhausted_def normalize_retry_after_def clamp_retry_after_def
  backoff_delay_def budget_from_settings_def post_init_def spec_max_retries_def
  spec_max_retry_seconds_def Let_def

lemma example_budget_run:
  "meter_run next_delay [(JInt 10, 0, 0), (JNull, 10, 1/2), (JInt 100, 20, 0), (JInt 1, 130, 0)]
     (budget_from_settings 7 1000 0) = ([10, 4, 100],
     \<lparr>max_retries = 3, max_seconds = 300, retries_attempted = 3, started_at = 0\<rparr>)"
  by (simp add: budget_eval)

lemma retry_budget_bounded_witness:
  "length [10, 4, 100 :: rat] \<le> 3 \<and> sum_list [10, 4, 100 :: rat] \<le> 300"
proof -
  have "slept next_delay request_elapsed 0
      [(JInt 10, 0, 0), (JNull, 10, 1/2), (JInt 100, 20, 0), (JInt 1, 130, 0)]
      (budget_from_settings 7 1000 0)"
    by (simp add: budget_eval request_elapsed_def)
  with retry_budget_bounded [OF example_budget_run] show ?thesis by simp
qed

lemma clamp_retry_after_bounds: "1 \<le> clamp_retry_after x \<and> clamp_retry_after x \<le> 3600"
  by (simp add: clamp_retry_after_def min_def max_def)

lemma clamp_retry_after_fixed: "clamp_retry_after (clamp_retry_after x) = clamp_retry_after x"
  by (simp add: clamp_retry_after_def)

lemma clamp_retry_after_ceiling:
  "x \<le> 3600 \<Longrightarrow> x \<le> clamp_retry_after x \<and> (0 < x \<longrightarrow> clamp_retry_after x < x + 1)"
  unfolding clamp_retry_after_def by (auto simp: min_def max_def) linarith+

lemma backoff_delay_bounds:
  assumes "0 \<le> sample" "sample < 1"
  shows "3/2 \<le> backoff_delay i sample \<and> backoff_delay i sample < 75"
proof -
  let ?raw = "min (2 * 2 ^ nat i) 60 :: rat"
  have one: "(1::rat) \<le> 2 ^ nat i" by simp
  then have raw: "2 \<le> ?raw" "?raw \<le> 60" by (simp_all add: min_def)
  have "2 * (3/4) \<le> ?raw * (3/4 + sample * (1/2))"
    using raw assms by (intro mult_mono) auto
  moreover have "?raw * (3/4 + sample * (1/2)) \<le> 60 * (3/4 + sample * (1/2))"
    using raw assms by (intro mult_right_mono) auto
  moreover have "60 * (3/4 + sample * (1/2)) < (75::rat)" using assms by simp
  ultimately show ?thesis unfolding backoff_delay_def by linarith
qed

text \<open>
  A granted delay honours the seller's \<open>retry_after\<close>: a numeric hint is never undercut
  (short of the cap of one hour), exceeded by less than a second, and stays in
  \<open>[1, 3600]\<close>; without one the delay lies in \<open>[1.5, 75)\<close>.
\<close>

theorem next_delay_honours_hint:
  assumes "next_delay (hint, now, sample) b = (Some d, b')" and "0 \<le> sample" "sample < 1"
  shows "case normalize_retry_after hint of
      Some h \<Rightarrow> d = h \<and> 1 \<le> d \<and> d \<le> 3600 \<and>
        (\<forall>x. hint = JFloat (Fin x) \<and> 0 < x \<and> x \<le> 3600 \<longrightarrow> x \<le> d \<and> d < x + 1) \<and>
        (\<forall>i. hint = JInt i \<and> 1 \<le> i \<and> i \<le> 3600 \<longrightarrow> d = of_int i)
    | None \<Rightarrow> 3/2 \<le> d \<and> d < 75"
proof (cases "normalize_retry_after hint")
  case None
  then show ?thesis
    using next_delay_grant(4) [OF assms(1)] backoff_delay_bounds [OF assms(2,3)] by simp
next
  case (Some h)
  then have d: "d = h" using next_delay_grant(4) [OF assms(1)] by simp
  from Some consider i where "hint = JInt i" "h = clamp_retry_after (of_int i)"
    | x where "hint = JFloat (Fin x)" "h = clamp_retry_after x"
    by (auto simp: normalize_retry_after_def split: json.splits pyfloat.splits)
  then show ?thesis
  proof cases
    case (1 i)
    then show ?thesis using d Some clamp_retry_after_bounds
      by (auto simp: clamp_retry_after_def)
  next
    case (2 x)
    then show ?thesis using d Some clamp_retry_after_bounds clamp_retry_after_ceiling by auto
  qed
qed

lemma next_delay_honours_hint_witness:
  "(2::rat) = 2 \<and> (3/2 :: rat) \<le> 2 \<and> (2::rat) < 3/2 + 1"
proof -
  have c: "\<lceil>3/2 :: rat\<rceil> = 2" by (rule ceiling_unique) simp_all
  have "next_delay (JFloat (Fin (3/2)), 5, 1/2) (budget_from_settings 3 300 0) =
      (Some 2, \<lparr>max_retries = 3, max_seconds = 300, retries_attempted = 1, started_at = 0\<rparr>)"
    by (simp add: budget_eval c)
  from next_delay_honours_hint [OF this] show ?thesis
    by (simp add: normalize_retry_after_def clamp_retry_after_def c)
qed

end
