(* ===== verification/Circuit_Breaker.thy ===== *)
theory Circuit_Breaker
  imports Py_Prelude
begin

text \<open>
  \<open>src/connections/circuit_breaker.py\<close>.  A breaker is a record of the object's fields, with
  the gauge it publishes; readings of \<open>time.monotonic()\<close> are arguments.  The lock makes each
  operation atomic, so a concurrent execution is a sequence of the steps of \<open>cb_step\<close>.
\<close>

section \<open>The code\<close>

datatype circuit_state = CLOSED | OPEN | HALF_OPEN

record breaker =
  seller_url :: string
  failure_threshold :: int
  recovery_timeout :: rat
  cb_state :: circuit_state
  failure_count :: int
  last_failure_time :: rat
  half_open_in_flight :: bool
  gauge :: "int option"

definition new_breaker :: "string \<Rightarrow> int \<Rightarrow> rat \<Rightarrow> breaker" where
  "new_breaker url threshold timeout =
     \<lparr>seller_url = url, failure_threshold = threshold, recovery_timeout = timeout,
      cb_state = CLOSED, failure_count = 0, last_failure_time = 0,
      half_open_in_flight = False, gauge = None\<rparr>"

text \<open>Reading the property \<open>state\<close> may move an open breaker to half-open.\<close>

definition read_state :: "rat \<Rightarrow> breaker \<Rightarrow> circuit_state \<times> breaker" where
  "read_state now b =
     (let b' = (if cb_state b = OPEN \<and> now - last_failure_time b \<ge> recovery_timeout b
                then b\<lparr>cb_state := HALF_OPEN\<rparr> else b)
      in (cb_state b', b'))"

definition update_gauge :: "breaker \<Rightarrow> breaker" where
  "update_gauge b =
     (if seller_url b \<noteq> [] then b\<lparr>gauge := Some (if cb_state b = OPEN then 1 else 0)\<rparr> else b)"

definition record_success :: "breaker \<Rightarrow> breaker" where
  "record_success b =
     update_gauge (b\<lparr>failure_count := 0, half_open_in_flight := False, cb_state := CLOSED\<rparr>)"

definition record_failure :: "rat \<Rightarrow> breaker \<Rightarrow> breaker" where
  "record_failure now b =
     (let b1 = b\<lparr>failure_count := failure_count b + 1, last_failure_time := now,
                 half_open_in_flight := False\<rparr>;
          b2 = (if failure_count b1 \<ge> failure_threshold b1 then b1\<lparr>cb_state := OPEN\<rparr> else b1)
      in update_gauge b2)"

definition allow_request :: "rat \<Rightarrow> breaker \<Rightarrow> bool \<times> breaker" where
  "allow_request now b =
     (case read_state now b of
        (CLOSED, b') \<Rightarrow> (True, b')
      | (HALF_OPEN, b') \<Rightarrow>
          (if half_open_in_flight b' then (False, b')
           else (True, b'\<lparr>half_open_in_flight := True\<rparr>))
      | (OPEN, b') \<Rightarrow> (False, b'))"

definition remaining_cooldown :: "rat \<Rightarrow> breaker \<Rightarrow> rat" where
  "remaining_cooldown now b =
     (if cb_state b \<noteq> OPEN then 0
      else max 0 (recovery_timeout b - (now - last_failure_time b)))"

text \<open>The registry: one breaker per seller URL without its trailing slashes.\<close>

record breaker_registry =
  breakers :: "(string \<times> breaker) list"
  default_threshold :: int
  default_timeout :: rat

definition registry_key :: "string \<Rightarrow> string" where
  "registry_key url = rstrip_char (CHR ''/'') url"

definition registry_get :: "string \<Rightarrow> breaker_registry \<Rightarrow> breaker \<times> breaker_registry" where
  "registry_get url reg =
     (let key = registry_key url;
          fresh = new_breaker key (default_threshold reg) (default_timeout reg);
          bs = set_default key fresh (breakers reg)
      in (the (map_of bs key), reg\<lparr>breakers := bs\<rparr>))"

text \<open>The object behind \<open>get\<close> is shared: an operation on it is an update of the registry.\<close>

definition registry_put :: "string \<Rightarrow> breaker \<Rightarrow> breaker_registry \<Rightarrow> breaker_registry" where
  "registry_put url b reg = reg\<lparr>breakers := dset (registry_key url) b (breakers reg)\<rparr>"

definition state_value :: "circuit_state \<Rightarrow> string" where
  "state_value s = (case s of CLOSED \<Rightarrow> ''closed'' | OPEN \<Rightarrow> ''open'' | HALF_OPEN \<Rightarrow> ''half_open'')"

definition status_summary :: "rat \<Rightarrow> breaker_registry \<Rightarrow> (string \<times> string) list \<times> breaker_registry" where
  "status_summary now reg =
     (map (\<lambda>(url, b). (url, state_value (fst (read_state now b)))) (breakers reg),
      reg\<lparr>breakers := map (\<lambda>(url, b). (url, snd (read_state now b))) (breakers reg)\<rparr>)"

section \<open>Runs\<close>

datatype cb_event = Ask rat bool | Peek rat | Succeed | Fail rat

inductive cb_step :: "breaker \<Rightarrow> cb_event \<Rightarrow> breaker \<Rightarrow> bool" where
  ask: "allow_request now b = (ok, b') \<Longrightarrow> cb_step b (Ask now ok) b'"
| peek: "read_state now b = (s, b') \<Longrightarrow> cb_step b (Peek now) b'"
| succeed: "cb_step b Succeed (record_success b)"
| fail: "cb_step b (Fail now) (record_failure now b)"

inductive cb_run :: "breaker \<Rightarrow> cb_event list \<Rightarrow> breaker \<Rightarrow> bool" where
  done_run: "cb_run b [] b"
| more_run: "cb_step b e b' \<Longrightarrow> cb_run b' es b'' \<Longrightarrow> cb_run b (e # es) b''"

inductive_simps cb_step_simps:
  "cb_step b (Ask now ok) b'" "cb_step b (Peek now) b'" "cb_step b Succeed b'"
  "cb_step b (Fail now) b'"

inductive_simps cb_run_simps [simp]: "cb_run b [] b'" "cb_run b (e # es) b'"

inductive_cases cb_stepE: "cb_step b e b'"

fun is_result :: "cb_event \<Rightarrow> bool" where
  "is_result Succeed = True"
| "is_result (Fail now) = True"
| "is_result _ = False"

fun is_admission :: "cb_event \<Rightarrow> bool" where
  "is_admission (Ask now ok) = ok"
| "is_admission _ = False"

fun is_failure :: "cb_event \<Rightarrow> bool" where
  "is_failure (Fail now) = True"
| "is_failure _ = False"

lemmas breaker_defs = read_state_def allow_request_def record_success_def record_failure_def
  update_gauge_def Let_def

text \<open>What every operation leaves alone.\<close>

lemma cb_step_params:
  "cb_step b e b' \<Longrightarrow> seller_url b' = seller_url b \<and> failure_threshold b' = failure_threshold b \<and>
     recovery_timeout b' = recovery_timeout b"
  by (erule cb_stepE) (auto simp: breaker_defs split: circuit_state.splits if_splits)

section \<open>The invariant\<close>

definition breaker_ok :: "breaker \<Rightarrow> bool" where
  "breaker_ok b \<longleftrightarrow>
     0 \<le> failure_count b \<and>
     (cb_state b = CLOSED \<longleftrightarrow> failure_count b < failure_threshold b) \<and>
     (half_open_in_flight b \<longrightarrow> cb_state b = HALF_OPEN)"

lemma new_breaker_ok: "0 < threshold \<Longrightarrow> breaker_ok (new_breaker url threshold timeout)"
  by (simp add: breaker_ok_def new_breaker_def)

lemma breaker_ok_step:
  assumes "cb_step b e b'" and "breaker_ok b" and "0 < failure_threshold b"
  shows "breaker_ok b'"
  using assms
  by (elim cb_stepE) (auto simp: breaker_ok_def breaker_defs split: circuit_state.splits if_splits)

lemma breaker_ok_run:
  assumes "cb_run b es b'" and "breaker_ok b" and "0 < failure_threshold b"
  shows "breaker_ok b' \<and> failure_threshold b' = failure_threshold b"
  using assms
proof (induction rule: cb_run.induct)
  case (more_run b e b' es b'')
  then show ?case using breaker_ok_step cb_step_params by metis
qed simp

section \<open>Tripping\<close>

text \<open>The failures reported since the last success.\<close>

definition failures_in_a_row :: "cb_event list \<Rightarrow> nat" where
  "failures_in_a_row es = length (filter is_failure (takeWhile (\<lambda>e. e \<noteq> Succeed) (rev es)))"

lemma failures_in_a_row_simps [simp]:
  "failures_in_a_row [] = 0"
  "failures_in_a_row (es @ [Succeed]) = 0"
  "failures_in_a_row (es @ [Fail now]) = Suc (failures_in_a_row es)"
  "failures_in_a_row (es @ [Ask now ok]) = failures_in_a_row es"
  "failures_in_a_row (es @ [Peek now]) = failures_in_a_row es"
  by (simp_all add: failures_in_a_row_def)

lemma cb_run_snoc: "cb_run b (es @ [e]) b'' \<longleftrightarrow> (\<exists>b'. cb_run b es b' \<and> cb_step b' e b'')"
  by (induction es arbitrary: b) auto

lemma step_failure_count:
  "cb_step b e b' \<Longrightarrow> failure_count b' =
     (case e of Succeed \<Rightarrow> 0 | Fail now \<Rightarrow> failure_count b + 1 | _ \<Rightarrow> failure_count b)"
  by (erule cb_stepE) (auto simp: breaker_defs split: circuit_state.splits if_splits)

lemma run_failure_count:
  "cb_run (new_breaker url threshold timeout) es b \<Longrightarrow> failure_count b = int (failures_in_a_row es)"
proof (induction es arbitrary: b rule: rev_induct)
  case Nil
  then show ?case by (simp add: new_breaker_def)
next
  case (snoc e es)
  then obtain b1 where "failure_count b1 = int (failures_in_a_row es)" "cb_step b1 e b"
    by (auto simp: cb_run_snoc)
  then show ?case using step_failure_count by (cases e) auto
qed

text \<open>
  C5. Whatever calls, results and status reads reach a breaker and in whatever order, it is
  tripped (not closed) exactly when at least \<open>failure_threshold\<close> failures have been reported
  since the last success, and a probe is in flight only while it is half-open.
\<close>

theorem breaker_trips_exactly:
  assumes "0 < threshold" and "cb_run (new_breaker url threshold timeout) es b"
  shows "(cb_state b \<noteq> CLOSED \<longleftrightarrow> threshold \<le> int (failures_in_a_row es)) \<and>
     (half_open_in_flight b \<longrightarrow> cb_state b = HALF_OPEN)"
proof -
  have "breaker_ok b" "failure_threshold b = threshold"
    using breaker_ok_run [OF assms(2) new_breaker_ok [OF assms(1)]] assms(1)
    by (simp_all add: new_breaker_def)
  then show ?thesis using run_failure_count [OF assms(2)] by (auto simp: breaker_ok_def)
qed

lemma example_breaker_run:
  "cb_run (new_breaker ''u'' 2 60) [Ask 0 True, Fail 1, Ask 2 True, Fail 3, Ask 62 False, Ask 63 True]
     \<lparr>seller_url = ''u'', failure_threshold = 2, recovery_timeout = 60, cb_state = HALF_OPEN,
      failure_count = 2, last_failure_time = 3, half_open_in_flight = True, gauge = Some 1\<rparr>"
  by (auto simp: cb_step_simps breaker_defs new_breaker_def)

lemma breaker_trips_exactly_witness:
  "HALF_OPEN \<noteq> CLOSED \<longleftrightarrow> 2 \<le> int (failures_in_a_row
     [Ask 0 True, Fail 1, Ask 2 True, Fail 3, Ask 62 False, Ask 63 True])"
  using breaker_trips_exactly [OF _ example_breaker_run] by simp

section \<open>Failing fast\<close>

fun event_time :: "cb_event \<Rightarrow> rat option" where
  "event_time (Ask now ok) = Some now"
| "event_time (Peek now) = Some now"
| "event_time _ = None"

text \<open>
  An open breaker fails fast: as long as no result is reported, every request made before
  the cooldown has passed since the last failure is refused and leaves the breaker as it is,
  and the first request after it is admitted as the probe.
\<close>

theorem open_breaker_fails_fast:
  assumes "breaker_ok b" and "cb_state b = OPEN"
    and "cb_run b es b'" and "\<not> list_ex is_result es"
    and "\<forall>e \<in> set es. \<forall>t. event_time e = Some t \<longrightarrow> t < last_failure_time b + recovery_timeout b"
  shows "b' = b \<and> \<not> list_ex is_admission es \<and>
     (\<forall>t \<ge> last_failure_time b + recovery_timeout b. fst (allow_request t b'))"
proof -
  have "b' = b \<and> \<not> list_ex is_admission es"
    using assms(3,4,2,5)
  proof (induction rule: cb_run.induct)
    case (more_run b e b1 es b')
    have "b1 = b \<and> \<not> is_admission e"
      using more_run.hyps(1) more_run.prems by (elim cb_stepE) (auto simp: breaker_defs)
    then show ?case using more_run by auto
  qed simp
  moreover have "fst (allow_request t b)" if "last_failure_time b + recovery_timeout b \<le> t" for t
    using that assms(1,2) by (auto simp: breaker_defs breaker_ok_def)
  ultimately show ?thesis by simp
qed

lemma open_breaker_fails_fast_witness:
  "\<exists>b. cb_state b = OPEN \<and> cb_run b [Ask 5 False, Ask 62 False] b \<and> fst (allow_request 63 b)"
proof -
  let ?b = "record_failure 3 (new_breaker ''u'' 1 60)"
  have "cb_run ?b [Ask 5 False, Ask 62 False] ?b" "cb_state ?b = OPEN" "breaker_ok ?b"
    by (auto simp: cb_step_simps breaker_defs new_breaker_def breaker_ok_def)
  moreover from open_breaker_fails_fast [OF this(3,2,1)] have "fst (allow_request 63 ?b)"
    by (simp add: breaker_defs new_breaker_def)
  ultimately show ?thesis by blast
qed

section \<open>Probing\<close>

text \<open>
  C6. While a tripped breaker has seen no success, the requests it admits number at most one
  more than the failures reported; if a probe is already in flight they do not exceed them, so
  nothing at all is admitted until a result is reported.
\<close>

theorem one_probe_at_a_time:
  assumes "breaker_ok b" and "0 < failure_threshold b" and "cb_state b \<noteq> CLOSED"
    and "cb_run b es b'" and "Succeed \<notin> set es"
  shows "length (filter is_admission es)
      \<le> length (filter is_failure es) + (if half_open_in_flight b then 0 else 1)"
  using assms(4,1-3,5)
proof (induction rule: cb_run.induct)
  case (more_run b e b1 es b')
  have ok: "breaker_ok b1" "0 < failure_threshold b1"
    using breaker_ok_step [OF more_run.hyps(1)] cb_step_params [OF more_run.hyps(1)] more_run.prems
    by auto
  have step: "cb_state b1 \<noteq> CLOSED \<and> (case e of
      Ask now ok \<Rightarrow> if ok then half_open_in_flight b1 \<and> \<not> half_open_in_flight b
                    else half_open_in_flight b1 = half_open_in_flight b
    | Peek now \<Rightarrow> half_open_in_flight b1 = half_open_in_flight b
    | Fail now \<Rightarrow> \<not> half_open_in_flight b1
    | Succeed \<Rightarrow> False)"
    using more_run.hyps(1) more_run.prems
    by (elim cb_stepE)
       (auto simp: breaker_defs breaker_ok_def split: circuit_state.splits if_splits)
  with more_run.IH [OF ok] more_run.prems show ?case
    by (cases e) (auto split: if_splits)
qed simp

lemma one_probe_at_a_time_witness:
  "length (filter is_admission [Ask 62 False, Ask 63 True, Ask 64 False]) \<le> 1"
proof -
  let ?b = "record_failure 3 (new_breaker ''u'' 1 60)"
  have "\<exists>b'. cb_run ?b [Ask 62 False, Ask 63 True, Ask 64 False] b'"
    "cb_state ?b \<noteq> CLOSED" "breaker_ok ?b" "0 < failure_threshold ?b"
    by (auto simp: cb_step_simps breaker_defs new_breaker_def breaker_ok_def)
  then obtain b' where run: "cb_run ?b [Ask 62 False, Ask 63 True, Ask 64 False] b'"
    and ok: "cb_state ?b \<noteq> CLOSED" "breaker_ok ?b" "0 < failure_threshold ?b" by blast
  have "\<not> half_open_in_flight ?b" by (simp add: breaker_defs new_breaker_def)
  then show ?thesis using one_probe_at_a_time [OF ok(2,3,1) run] by simp
qed

section \<open>The gauge\<close>

lemma cb_run_url: "cb_run b es b' \<Longrightarrow> seller_url b' = seller_url b"
  by (induction rule: cb_run.induct) (auto dest: cb_step_params)

text \<open>
  The gauge of a seller's breaker shows whether the breaker is tripped, not whether it is
  open: it reads 1 as long as the breaker is open or half-open, and only a reported result
  changes it.
\<close>

theorem gauge_shows_tripped:
  assumes "0 < threshold" and "url \<noteq> []" and "cb_run (new_breaker url threshold timeout) es b"
  shows "(gauge b = Some 1 \<longleftrightarrow> cb_state b \<noteq> CLOSED) \<and> (gauge b = None \<longleftrightarrow> \<not> list_ex is_result es)"
  using assms(3)
proof (induction es arbitrary: b rule: rev_induct)
  case Nil
  then show ?case by (simp add: new_breaker_def)
next
  case (snoc e es)
  then obtain b1 where run: "cb_run (new_breaker url threshold timeout) es b1" and step: "cb_step b1 e b"
    by (auto simp: cb_run_snoc)
  have "breaker_ok b1" "seller_url b1 = url"
  proof -
    show "breaker_ok b1"
      using breaker_ok_run [OF run new_breaker_ok [OF assms(1)]] assms(1) by (simp add: new_breaker_def)
    show "seller_url b1 = url"
      using cb_run_url [OF run] by (simp add: new_breaker_def)
  qed
  with snoc.IH [OF run] step assms(2) show ?case
    by (elim cb_stepE) (auto simp: breaker_defs breaker_ok_def split: circuit_state.splits if_splits)
qed

lemma gauge_shows_tripped_witness: "Some (1::int) = Some 1 \<longleftrightarrow> HALF_OPEN \<noteq> CLOSED"
  using gauge_shows_tripped [OF _ _ example_breaker_run] by simp

section \<open>The registry\<close>

text \<open>What a store indexed by a key function promises: a written entry is read back under
  every name with its key, and the entries of other keys are untouched.\<close>

locale shared_store =
  fixes fetch :: "'n \<Rightarrow> 's \<Rightarrow> 'v \<times> 's"
    and put :: "'n \<Rightarrow> 'v \<Rightarrow> 's \<Rightarrow> 's"
    and same :: "'n \<Rightarrow> 'n \<Rightarrow> bool"
  assumes fetch_put: "fst (fetch m (put n v s)) = (if same m n then v else fst (fetch m s))"
    and fetch_fetch: "fst (fetch m (snd (fetch n s))) = fst (fetch m s)"
begin

lemma put_twice: "same n n \<Longrightarrow> fst (fetch n (put n v (put n w s))) = v"
  by (simp add: fetch_put)

lemma other_untouched: "\<not> same m n \<Longrightarrow> fst (fetch m (put n (f (fst (fetch n s))) (snd (fetch n s)))) = fst (fetch m s)"
  by (simp add: fetch_put fetch_fetch)

lemma update_seen:
  "same m n \<Longrightarrow> fst (fetch m (put n (f (fst (fetch n s))) (snd (fetch n s)))) = f (fst (fetch n s))"
  by (simp add: fetch_put)

end

interpretation registry: shared_store registry_get registry_put
  "\<lambda>m n. registry_key m = registry_key n"
  by unfold_locales (auto simp: registry_get_def registry_put_def has_key_def Let_def)

lemma registry_key_slash [simp]: "registry_key (url @ ''/'') = registry_key url"
  by (simp add: registry_key_def rstrip_char_def)

text \<open>
  Breakers are isolated: recording a failure for one seller URL is seen by every spelling
  of that URL (with or without trailing slashes) and by no other seller, whose requests are
  answered as before.
\<close>

theorem breakers_isolated:
  "(let (b, reg1) = registry_get url reg; reg2 = registry_put url (record_failure now b) reg1
    in fst (registry_get (url @ ''/'') reg2) = record_failure now b \<and>
       (if registry_key other = registry_key url
        then fst (registry_get other reg2) = record_failure now b
        else fst (registry_get other reg2) = fst (registry_get other reg)))"
  using registry.update_seen [of "url @ ''/''" url "record_failure now" reg]
    registry.update_seen [of other url "record_failure now" reg]
    registry.other_untouched [of other url "record_failure now" reg]
  by (auto simp: split_beta Let_def)

end
