(* ===== verification/Seller_Agent.thy ===== *)
theory Seller_Agent
  imports Py_Prelude
begin

text \<open>
  The seller agent of \<open>src/discovery/registry.py\<close> (the dataclass and its properties), the
  choice of its account mode (\<open>src/accounts/mode.py\<close>) and the per-seller environment
  variables (\<open>src/config.py\<close>).  The environment is a map from names to values.
\<close>

section \<open>Per-seller configuration\<close>

definition alnum :: "char \<Rightarrow> bool" where
  "alnum c \<longleftrightarrow> is_alpha c \<or> is_digit c"

text \<open>The regular expression \<open>^[a-zA-Z][a-zA-Z0-9+.-]*://\<close> removed from the front.\<close>

definition strip_scheme :: "string \<Rightarrow> string" where
  "strip_scheme url =
     (case url of [] \<Rightarrow> []
      | c # cs \<Rightarrow>
          let rest = dropWhile (\<lambda>x. alnum x \<or> x \<in> {CHR ''+'', CHR ''.'', CHR ''-''}) cs
          in if is_alpha c \<and> starts_with rest ''://'' then drop 3 rest else url)"

definition seller_env_slug :: "string \<Rightarrow> string" where
  "seller_env_slug url =
     (let h = after_last (CHR ''@'') (takeWhile (\<lambda>c. c \<noteq> CHR ''/'') (strip_scheme url));
          h' = takeWhile (\<lambda>c. c \<noteq> CHR '':'') h
      in map (\<lambda>c. if is_ascii_upper c \<or> is_digit c then c else CHR ''_'') (upper h'))"

type_synonym environment = "string \<Rightarrow> string option"

definition seller_env :: "environment \<Rightarrow> string \<Rightarrow> string \<Rightarrow> string option" where
  "seller_env env prefix url =
     (case env (prefix @ ''_'' @ seller_env_slug url) of
        Some v \<Rightarrow> (if v \<noteq> [] then Some v else None)
      | None \<Rightarrow> None)"

section \<open>The agent\<close>

datatype account_mode = BUYER_DECLARED | OPERATOR_AUTHORIZED

definition mode_value :: "account_mode \<Rightarrow> string" where
  "mode_value m = (case m of BUYER_DECLARED \<Rightarrow> ''buyer_declared''
     | OPERATOR_AUTHORIZED \<Rightarrow> ''operator_authorized'')"

text \<open>\<open>AccountMode(value)\<close> raises \<open>ValueError\<close> on any other value.\<close>

definition mode_of_value :: "string \<Rightarrow> py_exn + account_mode" where
  "mode_of_value s =
     (if s = ''buyer_declared'' then Inr BUYER_DECLARED
      else if s = ''operator_authorized'' then Inr OPERATOR_AUTHORIZED
      else Inl ValueError)"

record seller_agent =
  agent_name :: json
  agent_url :: string
  token :: "string option"
  agent_type :: string
  agent_tools :: json
  agent_status :: json
  source :: string
  adcp_versions :: json
  supported_protocols :: json
  capabilities :: dict
  portfolio :: json
  extensions_supported :: json
  server_card :: json
  protocol :: string
  member_slug :: json
  member_name :: json
  agent_description :: json
  agent_mode :: account_mode
  operator_token :: "string option"

definition new_agent :: "string \<Rightarrow> string \<Rightarrow> seller_agent" where
  "new_agent name url =
     \<lparr>agent_name = JStr name, agent_url = url, token = None, agent_type = ''sales'',
      agent_tools = JArr [], agent_status = JStr ''unknown'', source = ''config'',
      adcp_versions = JArr [], supported_protocols = JArr [], capabilities = [],
      portfolio = JObj [], extensions_supported = JArr [], server_card = JNull,
      protocol = ''mcp'', member_slug = JNull, member_name = JNull,
      agent_description = JNull, agent_mode = BUYER_DECLARED, operator_token = None\<rparr>"

definition sales_tools :: "string list" where
  "sales_tools = [''get_products'', ''create_media_buy'', ''get_media_buy_delivery'']"

definition signals_tools :: "string list" where
  "signals_tools = [''get_signals'']"

definition creative_tools :: "string list" where
  "creative_tools = [''list_creative_formats'', ''sync_creatives'', ''preview_creative'']"

text \<open>
  The lists come from sellers and the registry unchecked, so they may be any JSON value.
  \<open>bool(TOOLS & set(ys))\<close>: a member that cannot be hashed raises \<open>TypeError\<close>.
\<close>

definition meets :: "string list \<Rightarrow> json \<Rightarrow> py_exn + bool" where
  "meets xs ys =
     res_bind (py_iter ys) (\<lambda>items.
       if list_ex (\<lambda>y. is_obj y \<or> is_arr y) items then Inl TypeError
       else Inr (list_ex (\<lambda>x. JStr x \<in> set items) xs))"

definition can_sell :: "seller_agent \<Rightarrow> py_exn + bool" where
  "can_sell a =
     (if truthy (supported_protocols a) then py_in ''media_buy'' (supported_protocols a)
      else meets sales_tools (agent_tools a))"

definition supports_signals :: "seller_agent \<Rightarrow> py_exn + bool" where
  "supports_signals a =
     (if truthy (supported_protocols a) then py_in ''signals'' (supported_protocols a)
      else meets signals_tools (agent_tools a))"

definition has_signals :: "seller_agent \<Rightarrow> py_exn + bool" where
  "has_signals a = supports_signals a"

text \<open>Membership in what the seller declares, without a fallback to its tools.\<close>

definition supports_media_buy :: "seller_agent \<Rightarrow> py_exn + bool" where
  "supports_media_buy a = py_in ''media_buy'' (supported_protocols a)"

definition supports_governance :: "seller_agent \<Rightarrow> py_exn + bool" where
  "supports_governance a = py_in ''governance'' (supported_protocols a)"

definition has_creatives :: "seller_agent \<Rightarrow> py_exn + bool" where
  "has_creatives a = meets creative_tools (agent_tools a)"

definition account_capabilities :: "seller_agent \<Rightarrow> dict" where
  "account_capabilities a = obj_of (getj (capabilities a) ''account'')"

definition request_signing_capabilities :: "seller_agent \<Rightarrow> dict" where
  "request_signing_capabilities a = obj_of (getj (capabilities a) ''request_signing'')"

definition idempotency_supported :: "seller_agent \<Rightarrow> bool" where
  "idempotency_supported a =
     (case getj (capabilities a) ''adcp'' of
        JObj adcp \<Rightarrow>
          (case getj adcp ''idempotency'' of
             JObj idem \<Rightarrow> getj idem ''supported'' = JBool True
           | _ \<Rightarrow> False)
      | _ \<Rightarrow> False)"

text \<open>\<open>str(x)\<close>: a string is itself, other values are shown by the parameter.\<close>

definition text_of :: "(json \<Rightarrow> string) \<Rightarrow> json \<Rightarrow> string" where
  "text_of shown x = (case x of JStr s \<Rightarrow> s | _ \<Rightarrow> shown x)"

definition supported_versions :: "(json \<Rightarrow> string) \<Rightarrow> seller_agent \<Rightarrow> string list" where
  "supported_versions shown a =
     (case getj (capabilities a) ''adcp'' of
        JObj adcp \<Rightarrow>
          (case getj adcp ''supported_versions'' of
             JArr vs \<Rightarrow> map (text_of shown) vs
           | _ \<Rightarrow> [])
      | _ \<Rightarrow> [])"

definition has_tool :: "seller_agent \<Rightarrow> string \<Rightarrow> py_exn + bool" where
  "has_tool a name =
     (if \<not> truthy (agent_tools a) then Inr True else py_in name (agent_tools a))"

section \<open>Account mode\<close>

definition determine_account_mode ::
  "environment \<Rightarrow> string \<Rightarrow> string \<Rightarrow> dict \<Rightarrow> py_exn + account_mode" where
  "determine_account_mode env global_mode url caps =
     (let configured = (case seller_env env ''NXFLO_ACCOUNT_MODE'' url of
                          Some v \<Rightarrow> v | None \<Rightarrow> global_mode)
      in if configured \<noteq> [] \<and> configured \<noteq> ''auto'' then mode_of_value configured
         else case getj caps ''account'' of
                JObj account \<Rightarrow>
                  (if getj account ''require_operator_auth'' = JBool True
                   then Inr OPERATOR_AUTHORIZED else Inr BUYER_DECLARED)
              | _ \<Rightarrow> Inr BUYER_DECLARED)"

definition apply_account_config ::
  "environment \<Rightarrow> string \<Rightarrow> seller_agent \<Rightarrow> py_exn + seller_agent" where
  "apply_account_config env global_mode a =
     res_bind (determine_account_mode env global_mode (agent_url a) (capabilities a)) (\<lambda>m.
       Inr (a\<lparr>agent_mode := m,
              operator_token := seller_env env ''NXFLO_OPERATOR_TOKEN'' (agent_url a)\<rparr>))"

section \<open>Slugs\<close>

lemma strip_scheme_prefix:
  assumes "s \<noteq> []" "is_alpha (hd s)" "list_all (\<lambda>x. alnum x \<or> x \<in> {CHR ''+'', CHR ''.'', CHR ''-''}) (tl s)"
  shows "strip_scheme (s @ ''://'' @ rest) = rest"
proof -
  have "\<not> alnum (CHR '':'')" by (simp add: alnum_def char_class_defs code_of_def)
  with assms show ?thesis
    by (cases s) (auto simp: strip_scheme_def list_all_iff dropWhile_append2 Let_def)
qed

lemma seller_env_slug_chars:
  "list_all (\<lambda>c. is_ascii_upper c \<or> is_digit c \<or> c = CHR ''_'') (seller_env_slug url)"
  by (auto simp: seller_env_slug_def list_all_iff Let_def)

end
