(* ===== verification/Seller_Call.thy ===== *)
theory Seller_Call
  imports Retry_Budget Circuit_Breaker Seller_Agent
begin

text \<open>
  \<open>src/connections/seller.py\<close>: one tool call on a seller, with the circuit breaker in front of
  the transport and the retry budget around it.  The transport (package \<open>fastmcp\<close>) is not
  modelled: an attempt brings its answer, together with the readings of the clocks, the jitter
  sample and what concurrent calls do to the shared breakers meanwhile.  \<open>shown\<close> is \<open>str\<close> on
  values that are not strings, \<open>loads\<close> is \<open>json.loads\<close> (\<^const>\<open>None\<close> for a decoding error).
\<close>

section \<open>Signing decisions\<close>

text \<open>The two numbers matched by \<open>^(\d+)\.(\d+)\<close>.\<close>

definition match_version :: "string \<Rightarrow> (nat \<times> nat) option" where
  "match_version v =
     (let major = takeWhile is_digit v; rest = dropWhile is_digit v;
          minor = takeWhile is_digit (drop 1 rest)
      in if major \<noteq> [] \<and> rest \<noteq> [] \<and> hd rest = CHR ''.'' \<and> minor \<noteq> []
         then Some (digits_value major, digits_value minor) else None)"

definition version_32_or_later :: "string \<Rightarrow> bool" where
  "version_32_or_later v =
     (case match_version v of
        Some (major, minor) \<Rightarrow> major > 3 \<or> major = 3 \<and> minor \<ge> 2
      | None \<Rightarrow> False)"

definition speaks_32_or_later :: "(json \<Rightarrow> string) \<Rightarrow> seller_agent \<Rightarrow> bool" where
  "speaks_32_or_later shown a = list_ex version_32_or_later (supported_versions shown a)"

definition build_headers :: "seller_agent \<Rightarrow> (string \<times> string) list" where
  "build_headers a =
     (let tok = (case operator_token a of
                   Some t \<Rightarrow> if agent_mode a = OPERATOR_AUTHORIZED \<and> t \<noteq> [] then Some t else token a
                 | None \<Rightarrow> token a)
      in case tok of
           Some t \<Rightarrow> (if t \<noteq> [] then [(''Authorization'', ''Bearer '' @ t)] else [])
         | None \<Rightarrow> [])"

definition has_authentication :: "json \<Rightarrow> bool" where
  "has_authentication config = (is_obj config \<and> truthy (getj (obj_of config) ''authentication''))"

text \<open>
  \<open>_has_webhook_authentication\<close>; the loops raise when \<open>accounts\<close> or \<open>notification_configs\<close> is
  a true value that cannot be iterated, or an account is a true value without \<open>get\<close>.
\<close>

fun any_account_authentication :: "json list \<Rightarrow> py_exn + bool" where
  "any_account_authentication [] = Inr False"
| "any_account_authentication (acc # accs) =
     res_bind (getattr_get (or_else acc (JObj [])) ''notification_configs'') (\<lambda>configs.
     res_bind (py_iter (or_else configs (JArr []))) (\<lambda>cs.
       if list_ex has_authentication cs then Inr True else any_account_authentication accs))"

definition has_webhook_authentication :: "dict \<Rightarrow> py_exn + bool" where
  "has_webhook_authentication args =
     (if has_authentication (getj args ''push_notification_config'') then Inr True
      else res_bind (py_iter (or_else (getj args ''accounts'') (JArr []))) any_account_authentication)"

text \<open>The set display unpacks the three lists of operation names.\<close>

definition should_sign :: "(json \<Rightarrow> string) \<Rightarrow> seller_agent \<Rightarrow> string \<Rightarrow> dict \<Rightarrow> py_exn + bool" where
  "should_sign shown a tool args =
     (let caps = request_signing_capabilities a
      in if getj caps ''supported'' \<noteq> JBool True \<or>
            getj caps ''covers_content_digest'' = JStr ''forbidden'' then Inr False
         else if \<not> speaks_32_or_later shown a then Inr False
         else
           res_bind (py_iter (or_else (getj caps ''supported_for'') (JArr []))) (\<lambda>xs.
           res_bind (py_iter (or_else (getj caps ''warn_for'') (JArr []))) (\<lambda>ys.
           res_bind (py_iter (or_else (getj caps ''required_for'') (JArr []))) (\<lambda>zs.
             if JStr tool \<in> set (xs @ ys @ zs) then Inr True
             else has_webhook_authentication args))))"

section \<open>Results\<close>

record tool_result =
  is_error :: bool
  structured_content :: json
  content :: "string option list"

datatype error_kind = ConnectionError "int option" | CircuitOpenError rat | ToolError

record seller_error =
  kind :: error_kind
  error_message :: string
  error_code :: json
  error_recovery :: recovery
  error_retry_after :: "rat option"
  error_payload :: dict
  error_retry_count :: int

fun first_json_text :: "(string \<Rightarrow> json option) \<Rightarrow> string option list \<Rightarrow> dict option" where
  "first_json_text loads [] = None"
| "first_json_text loads (item # items) =
     (case item of
        Some (c # cs) \<Rightarrow>
          (case loads (c # cs) of
             None \<Rightarrow> Some [(''raw'', JStr (c # cs))]
           | Some (JObj d) \<Rightarrow> Some d
           | Some v \<Rightarrow> Some [(''result'', v)])
      | _ \<Rightarrow> first_json_text loads items)"

definition parse_tool_result :: "(string \<Rightarrow> json option) \<Rightarrow> tool_result \<Rightarrow> dict" where
  "parse_tool_result loads r =
     (if is_obj (structured_content r) \<and> obj_of (structured_content r) \<noteq> []
      then obj_of (structured_content r)
      else case first_json_text loads (content r) of
             Some d \<Rightarrow> d
           | None \<Rightarrow> [(''status'', JStr ''empty_response'')])"

definition adcp_error :: "dict \<Rightarrow> dict option" where
  "adcp_error payload =
     (case getj payload ''adcp_error'' of
        JObj e \<Rightarrow> Some e
      | _ \<Rightarrow>
          (case getj payload ''errors'' of
             JArr (JObj e # _) \<Rightarrow> Some e
           | _ \<Rightarrow> None))"

definition tool_error_from_result ::
  "(json \<Rightarrow> string) \<Rightarrow> (string \<Rightarrow> json option) \<Rightarrow> string \<Rightarrow> tool_result \<Rightarrow> seller_error" where
  "tool_error_from_result shown loads tool r =
     (let payload = parse_tool_result loads r;
          error = (case adcp_error payload of Some e \<Rightarrow> e | None \<Rightarrow> []);
          message = text_of shown
            (or_else (getj error ''message'') (or_else (getj payload ''raw'')
              (or_else (getj payload ''message'') (JStr ''tool error''))))
      in \<lparr>kind = ToolError, error_message = tool @ '' failed: '' @ message,
          error_code = getj error ''code'',
          error_recovery = (if error \<noteq> [] then recovery_for error else Transient),
          error_retry_after = normalize_retry_after (getj error ''retry_after''),
          error_payload = payload, error_retry_count = 0\<rparr>)"

definition success_keys :: "string list" where
  "success_keys =
     [''products'', ''accounts'', ''media_buy_id'', ''media_buys'', ''formats'', ''task_id'']"

definition transient_error_object :: "json \<Rightarrow> bool" where
  "transient_error_object e = (is_obj e \<and> recovery_for (obj_of e) = Transient)"

definition transient_response_error :: "(json \<Rightarrow> string) \<Rightarrow> dict \<Rightarrow> seller_error option" where
  "transient_response_error shown payload =
     (case getj payload ''errors'' of
        JArr (e # es) \<Rightarrow>
          (if list_ex (has_key payload) success_keys then None
           else if \<not> list_all transient_error_object (e # es) then None
           else
             let first = obj_of e
             in Some \<lparr>kind = ToolError,
                  error_message = text_of shown (or_else (getj first ''message'')
                    (or_else (getj first ''code'') (JStr ''transient error''))),
                  error_code = getj first ''code'', error_recovery = Transient,
                  error_retry_after = normalize_retry_after (getj first ''retry_after''),
                  error_payload = payload, error_retry_count = 0\<rparr>)
      | _ \<Rightarrow> None)"

definition retry_permitted :: "seller_agent \<Rightarrow> string \<Rightarrow> dict \<Rightarrow> bool" where
  "retry_permitted a tool params =
     (if tool \<notin> set mutating_tasks then True
      else truthy (getj params ''idempotency_key'') \<and> idempotency_supported a)"

section \<open>One attempt\<close>

text \<open>
  The readings of the clock by \<open>allow_request\<close> and by the \<open>remaining_cooldown\<close> right after it
  are taken to be the same.
\<close>

datatype transport_answer = Failed string "int option" | Answered tool_result

record attempt =
  ask_time :: rat
  result_time :: rat
  answer :: transport_answer
  during :: "breaker_registry \<Rightarrow> breaker_registry"
  budget_time :: rat
  jitter :: rat
  meanwhile :: "breaker_registry \<Rightarrow> breaker_registry"

datatype call_outcome = Called_ok | Called_error | Refused

text \<open>
  What a call touches: the breakers, the metrics (one outcome per attempt), and the waits: for
  each retry the reading of the budget's clock and the delay slept.
\<close>

record client_world =
  registry :: breaker_registry
  outcomes :: "call_outcome list"
  waits :: "(rat \<times> rat) list"

definition on_breaker :: "string \<Rightarrow> (breaker \<Rightarrow> breaker) \<Rightarrow> breaker_registry \<Rightarrow> breaker_registry" where
  "on_breaker url f reg = (case registry_get url reg of (b, reg') \<Rightarrow> registry_put url (f b) reg')"

text \<open>Formatting \<open>{x:.0f}\<close> rounds half to even.\<close>

definition round_even :: "rat \<Rightarrow> int" where
  "round_even x =
     (let f = \<lfloor>x\<rfloor>; d = x - of_int f
      in if d < 1/2 \<or> d = 1/2 \<and> even f then f else f + 1)"

definition circuit_open_error :: "(json \<Rightarrow> string) \<Rightarrow> seller_agent \<Rightarrow> rat \<Rightarrow> seller_error" where
  "circuit_open_error shown a remaining =
     \<lparr>kind = CircuitOpenError remaining,
      error_message = ''Circuit open for '' @ text_of shown (agent_name a) @ '', retry in '' @
        shown (JInt (round_even remaining)) @ ''s'',
      error_code = JNull, error_recovery = Terminal, error_retry_after = None,
      error_payload = [], error_retry_count = 0\<rparr>"

definition connection_error :: "(json \<Rightarrow> string) \<Rightarrow> seller_agent \<Rightarrow> string \<Rightarrow> int option \<Rightarrow> seller_error" where
  "connection_error shown a text status =
     \<lparr>kind = ConnectionError status,
      error_message = ''Failed to connect to '' @ text_of shown (agent_name a) @ '' at '' @
        rstrip_char (CHR ''/'') (agent_url a) @ '': '' @ text,
      error_code = JNull, error_recovery = connection_recovery status, error_retry_after = None,
      error_payload = [], error_retry_count = 0\<rparr>"

definition call_once ::
  "(json \<Rightarrow> string) \<Rightarrow> (string \<Rightarrow> json option) \<Rightarrow> seller_agent \<Rightarrow> string \<Rightarrow> attempt \<Rightarrow> client_world \<Rightarrow>
     (seller_error + dict) \<times> client_world" where
  "call_once shown loads a tool att w =
     (let (cb, reg1) = registry_get (agent_url a) (registry w);
          (allowed, cb1) = allow_request (ask_time att) cb;
          reg2 = registry_put (agent_url a) cb1 reg1;
          failure = on_breaker (agent_url a) (record_failure (result_time att)) (during att reg2);
          success = on_breaker (agent_url a) record_success (during att reg2)
      in if \<not> allowed then
           (Inl (circuit_open_error shown a (remaining_cooldown (ask_time att) cb1)),
            w\<lparr>registry := reg2, outcomes := outcomes w @ [Refused]\<rparr>)
         else case answer att of
           Failed text status \<Rightarrow>
             (Inl (connection_error shown a text status),
              w\<lparr>registry := failure, outcomes := outcomes w @ [Called_error]\<rparr>)
         | Answered r \<Rightarrow>
             (if is_error r then
                let error = tool_error_from_result shown loads tool r
                in (Inl error,
                    w\<lparr>registry := (if error_recovery error = Transient then failure else success),
                      outcomes := outcomes w @ [Called_error]\<rparr>)
              else (Inr (parse_tool_result loads r),
                    w\<lparr>registry := success, outcomes := outcomes w @ [Called_ok]\<rparr>)))"

section \<open>The retry loop\<close>

definition hint_json :: "rat option \<Rightarrow> json" where
  "hint_json h = (case h of Some x \<Rightarrow> JFloat (Fin x) | None \<Rightarrow> JNull)"

text \<open>\<open>budget.next_delay(err.retry_after) if allowed and ... else None\<close>\<close>

definition ask_budget :: "bool \<Rightarrow> rat option \<Rightarrow> attempt \<Rightarrow> retry_budget \<Rightarrow> rat option \<times> retry_budget" where
  "ask_budget wanted hint att b =
     (if wanted then next_delay (hint_json hint, budget_time att, jitter att) b else (None, b))"

definition after_sleep :: "attempt \<Rightarrow> rat \<Rightarrow> client_world \<Rightarrow> client_world" where
  "after_sleep att d w =
     w\<lparr>registry := meanwhile att (registry w), waits := waits w @ [(budget_time att, d)]\<rparr>"

text \<open>The loop over the attempts' script; \<^const>\<open>None\<close> when the script ends before the call does.\<close>

fun call_loop ::
  "(json \<Rightarrow> string) \<Rightarrow> (string \<Rightarrow> json option) \<Rightarrow> seller_agent \<Rightarrow> string \<Rightarrow> bool \<Rightarrow> attempt list \<Rightarrow>
     retry_budget \<Rightarrow> client_world \<Rightarrow> ((seller_error + dict) \<times> retry_budget \<times> client_world) option"
where
  "call_loop shown loads a tool allowed [] b w = None"
| "call_loop shown loads a tool allowed (att # atts) b w =
     (case call_once shown loads a tool att w of
        (Inl err, w1) \<Rightarrow>
          (case ask_budget (allowed \<and> error_recovery err = Transient) (error_retry_after err) att b of
             (None, b1) \<Rightarrow> Some (Inl (err\<lparr>error_retry_count := retries_attempted b1\<rparr>), b1, w1)
           | (Some d, b1) \<Rightarrow>
               call_loop shown loads a tool allowed atts b1 (after_sleep att d w1))
      | (Inr response, w1) \<Rightarrow>
          (case transient_response_error shown response of
             None \<Rightarrow> Some (Inr response, b, w1)
           | Some tr \<Rightarrow>
               (case ask_budget allowed (error_retry_after tr) att b of
                  (None, b1) \<Rightarrow> Some (Inr response, b1, w1)
                | (Some d, b1) \<Rightarrow>
                    call_loop shown loads a tool allowed atts b1 (after_sleep att d w1))))"

definition call_seller_tool ::
  "(json \<Rightarrow> string) \<Rightarrow> (string \<Rightarrow> json option) \<Rightarrow> seller_agent \<Rightarrow> string \<Rightarrow> dict \<Rightarrow> attempt list \<Rightarrow>
     retry_budget \<Rightarrow> client_world \<Rightarrow> ((seller_error + dict) \<times> retry_budget \<times> client_world) option"
where
  "call_seller_tool shown loads a tool params atts b w =
     call_loop shown loads a tool (retry_permitted a tool params) atts b w"

section \<open>The loop as a client of the budget\<close>

lemma call_once_world:
  assumes "call_once shown loads a tool att w = (r, w')"
  shows "waits w' = waits w"
    and "\<exists>out. outcomes w' = outcomes w @ [out] \<and> (out = Called_ok \<longleftrightarrow> (\<exists>d. r = Inr d))"
  using assms
  by (auto simp: call_once_def Let_def split: prod.splits if_splits transport_answer.splits)

lemma ask_budget_cases:
  assumes "ask_budget wanted hint att b = (d, b')"
  shows "(d = None \<and> b' = b) \<or>
    (\<exists>x. d = Some x \<and> wanted \<and> next_delay (hint_json hint, budget_time att, jitter att) b = (Some x, b'))"
  using assms by (cases d) (auto simp: ask_budget_def dest: next_delay_refuse split: if_splits)

text \<open>
  A call that returns has been granted one delay per extra attempt: the delays slept are those
  of a run of the budget.
\<close>

lemma call_loop_meter:
  "call_loop shown loads a tool allowed atts b w = Some (r, b', w') \<Longrightarrow>
     \<exists>reqs ws. waits w' = waits w @ ws \<and> map (\<lambda>q. fst (snd q)) reqs = map fst ws \<and>
       meter_run next_delay reqs b = (map snd ws, b') \<and>
       length (outcomes w') = Suc (length (outcomes w) + length ws) \<and> (\<not> allowed \<longrightarrow> ws = [])"
proof (induction shown loads a tool allowed atts b w rule: call_loop.induct)
  case (2 shown loads a tool allowed att atts b w)
  obtain res w1 where once: "call_once shown loads a tool att w = (res, w1)" by fastforce
  have w1: "waits w1 = waits w" "length (outcomes w1) = Suc (length (outcomes w))"
    using call_once_world [OF once] by auto
  have step: ?case
    if ask: "ask_budget wanted hint att b = (Some d, b1)" "wanted \<longrightarrow> allowed"
      and IH: "\<exists>reqs ws. waits w' = waits (after_sleep att d w1) @ ws \<and> map (\<lambda>q. fst (snd q)) reqs = map fst ws \<and>
        meter_run next_delay reqs b1 = (map snd ws, b') \<and>
        length (outcomes w') = Suc (length (outcomes (after_sleep att d w1)) + length ws) \<and>
        (\<not> allowed \<longrightarrow> ws = [])"
    for wanted hint d b1
  proof -
    from ask_budget_cases [OF ask(1)] have "wanted"
      and nd: "next_delay (hint_json hint, budget_time att, jitter att) b = (Some d, b1)" by auto
    from IH obtain reqs ws where "waits w' = waits (after_sleep att d w1) @ ws"
      "map (\<lambda>q. fst (snd q)) reqs = map fst ws" "meter_run next_delay reqs b1 = (map snd ws, b')"
      "length (outcomes w') = Suc (length (outcomes (after_sleep att d w1)) + length ws)"
      "\<not> allowed \<longrightarrow> ws = []" by blast
    with nd w1 \<open>wanted\<close> ask(2) show ?thesis
      by (intro exI [of _ "(hint_json hint, budget_time att, jitter att) # reqs"]
            exI [of _ "(budget_time att, d) # ws"])
         (auto simp: after_sleep_def)
  qed
  have stop: ?case if "w' = w1" "b' = b"
    using that w1 by (intro exI [of _ "[]"]) simp
  show ?case
  proof (cases res)
    case (Inl err)
    obtain d b1 where ask: "ask_budget (allowed \<and> error_recovery err = Transient)
        (error_retry_after err) att b = (d, b1)" by fastforce
    show ?thesis
    proof (cases d)
      case None
      then show ?thesis using 2(3) stop once Inl ask ask_budget_cases [OF ask] by auto
    next
      case (Some x)
      then show ?thesis using 2(1) [OF once [symmetric] Inl ask [symmetric] Some] 2(3) once Inl ask
        by (intro step [OF ask [unfolded Some]]) auto
    qed
  next
    case (Inr response)
    show ?thesis
    proof (cases "transient_response_error shown response")
      case None
      then show ?thesis using 2(3) stop once Inr by auto
    next
      case (Some tr)
      obtain d b1 where ask: "ask_budget allowed (error_retry_after tr) att b = (d, b1)" by fastforce
      show ?thesis
      proof (cases d)
        case None
        then show ?thesis using 2(3) stop once Inr Some ask ask_budget_cases [OF ask] by auto
      next
        case (Some x)
        then show ?thesis
          using 2(2) [OF once [symmetric] Inr \<open>transient_response_error shown response = Some tr\<close>
              ask [symmetric] Some] 2(3) once Inr ask
            \<open>transient_response_error shown response = Some tr\<close>
          by (intro step [OF ask [unfolded Some]]) auto
      qed
    qed
  qed
qed simp

text \<open>The waits of a call that really sleeps: each one starts after the delays before it.\<close>

fun sleeps_through :: "rat \<Rightarrow> rat \<Rightarrow> (rat \<times> rat) list \<Rightarrow> bool" where
  "sleeps_through start acc [] = True"
| "sleeps_through start acc ((now, d) # ws) = (acc \<le> now - start \<and> sleeps_through start (acc + d) ws)"

lemma sleeps_through_slept:
  "meter_run next_delay reqs b = (map snd ws, b') \<Longrightarrow> map (\<lambda>q. fst (snd q)) reqs = map fst ws \<Longrightarrow>
     sleeps_through (started_at b) acc ws \<Longrightarrow> slept next_delay request_elapsed acc reqs b"
proof (induction reqs arbitrary: b ws acc)
  case (Cons q reqs)
  from Cons.prems(2) obtain now d ws1 where ws: "ws = (now, d) # ws1" by (cases ws) auto
  obtain o1 b1 where nd: "next_delay q b = (o1, b1)" by fastforce
  obtain ds1 where run: "meter_run next_delay reqs b1 = (ds1, b')"
    using Cons.prems(1) nd by (cases "meter_run next_delay reqs b1") auto
  have len: "length reqs = length ws1" using Cons.prems(2) ws by (auto dest: map_eq_imp_length_eq)
  show ?case
  proof (cases o1)
    case None
    have "ds1 = d # map snd ws1" using Cons.prems(1) nd None run ws by simp
    moreover have "length ds1 \<le> length reqs" using run
      by (induction reqs arbitrary: b1 ds1) (fastforce split: prod.splits option.splits)+
    ultimately show ?thesis using len by simp
  next
    case (Some x)
    then have "x = d" "ds1 = map snd ws1" using Cons.prems(1) nd run ws by auto
    with Some nd Cons.IH [of b1 ws1 "acc + d"] run Cons.prems(2,3) ws next_delay_keeps(3) [OF nd]
    show ?thesis by (cases q) (auto simp: request_elapsed_def)
  qed
qed simp

lemma retries_left_settings: "retries_left (budget_from_settings retries seconds now) \<le> 3"
  by (simp add: retries_left_def budget_from_settings_def post_init_def spec_max_retries_def)

text \<open>
  C4. One operation contacts a seller a bounded number of times: whatever the seller answers
  and the other calls do, a call under a fresh budget makes at most four attempts (one more
  than the configured retries), sleeps once between two attempts, and if the sleeps take at
  least their time they last at most 300 seconds in all.
\<close>

theorem call_seller_tool_bounded:
  assumes "call_seller_tool shown loads a tool params atts (budget_from_settings retries seconds now) w
      = Some (r, b', w')" and "waits w = []" and "outcomes w = []"
  shows "length (outcomes w') \<le> 4 \<and> int (length (outcomes w')) \<le> 1 + max 0 retries \<and>
    length (outcomes w') = Suc (length (waits w')) \<and>
    (sleeps_through now 0 (waits w') \<longrightarrow> sum_list (map snd (waits w')) \<le> 300)"
proof -
  let ?b = "budget_from_settings retries seconds now"
  from call_loop_meter [OF assms(1) [unfolded call_seller_tool_def]] assms(2,3)
  obtain reqs where reqs: "map (\<lambda>q. fst (snd q)) reqs = map fst (waits w')"
    and run: "meter_run next_delay reqs ?b = (map snd (waits w'), b')"
    and len: "length (outcomes w') = Suc (length (waits w'))" by auto
  have "started_at ?b = now" by (simp add: budget_from_settings_def post_init_def)
  then have "slept next_delay request_elapsed 0 reqs ?b" if "sleeps_through now 0 (waits w')"
    using sleeps_through_slept [OF run reqs] that by simp
  then show ?thesis using budget_run_bounds [OF run] len by simp
qed

section \<open>A concrete seller\<close>

definition example_seller :: seller_agent where
  "example_seller = new_agent ''s'' ''https://s.example/mcp''"

definition failing_attempt :: "rat \<Rightarrow> attempt" where
  "failing_attempt now =
     \<lparr>ask_time = now, result_time = now, answer = Failed ''timeout'' None, during = (\<lambda>r. r),
      budget_time = now, jitter = 1/2, meanwhile = (\<lambda>r. r)\<rparr>"

definition example_world :: "int \<Rightarrow> client_world" where
  "example_world threshold =
     \<lparr>registry = \<lparr>breakers = [], default_threshold = threshold, default_timeout = 60\<rparr>,
      outcomes = [], waits = []\<rparr>"

lemmas call_eval = call_once_def ask_budget_def after_sleep_def hint_json_def connection_error_def
  connection_recovery_def on_breaker_def registry_get_def registry_put_def example_seller_def
  failing_attempt_def example_world_def new_agent_def breaker_defs new_breaker_def set_default_def
  has_key_def registry_key_def rstrip_char_def retry_permitted_def mutating_tasks_def
  call_seller_tool_def

lemma example_call:
  "\<exists>err b' w'. call_seller_tool (\<lambda>x. []) (\<lambda>s. None) example_seller ''get_products'' []
     (map failing_attempt [0, 2, 6, 14]) (budget_from_settings 3 300 0) (example_world 5) = Some (Inl err, b', w') \<and>
     outcomes w' = [Called_error, Called_error, Called_error, Called_error] \<and>
     waits w' = [(0, 2), (2, 4), (6, 8)] \<and> error_recovery err = Transient \<and> error_retry_count err = 3"
  by (simp add: call_eval budget_eval)

lemma call_seller_tool_bounded_witness:
  "length [Called_error, Called_error, Called_error, Called_error] \<le> 4 \<and>
   sum_list (map snd [(0, 2), (2, 4), (6, 8 :: rat)]) \<le> (300::rat)"
proof -
  from example_call obtain err b' w' where
    run: "call_seller_tool (\<lambda>x. []) (\<lambda>s. None) example_seller ''get_products'' []
     (map failing_attempt [0, 2, 6, 14]) (budget_from_settings 3 300 0) (example_world 5) = Some (Inl err, b', w')"
    and w': "outcomes w' = [Called_error, Called_error, Called_error, Called_error]"
      "waits w' = [(0, 2), (2, 4), (6, 8)]" by blast
  show ?thesis using call_seller_tool_bounded [OF run] by (simp add: w' example_world_def)
qed

section \<open>Termination\<close>

lemma call_loop_returns:
  "retries_left b < length atts \<Longrightarrow> \<exists>res. call_loop shown loads a tool allowed atts b w = Some res"
proof (induction atts arbitrary: b w)
  case (Cons att atts)
  have "\<exists>res. call_loop shown loads a tool allowed atts b1 w1 = Some res"
    if "ask_budget wanted hint att b = (Some d, b1)" for wanted hint d b1 w1
  proof (rule Cons.IH)
    show "retries_left b1 < length atts"
      using ask_budget_cases [OF that] budget.grant Cons.prems by fastforce
  qed
  then show ?case
    by (auto split: prod.split sum.split option.split simp del: split_paired_Ex)
qed simp

text \<open>
  A call always returns: four answers of the transport are enough to end it under any
  settings, with the response or with an error.
\<close>

theorem call_seller_tool_returns:
  assumes "4 \<le> length atts"
  shows "\<exists>res. call_seller_tool shown loads a tool params atts (budget_from_settings retries seconds now) w
    = Some res"
  unfolding call_seller_tool_def
  by (rule call_loop_returns) (use assms retries_left_settings [of retries seconds now] in linarith)

lemma call_seller_tool_returns_witness:
  "\<exists>res. call_seller_tool (\<lambda>x. []) (\<lambda>s. None) example_seller ''get_products'' []
     (map failing_attempt [0, 2, 6, 14]) (budget_from_settings 9 900 0) (example_world 5) = Some res"
  by (rule call_seller_tool_returns) simp

section \<open>Mutations\<close>

text \<open>
  C12. A mutation that cannot be replayed safely (no \<open>idempotency_key\<close>, or a seller that does
  not declare replay support) is sent at most once per call: it returns after the first attempt,
  whatever the answer, without sleeping and without touching the budget.
\<close>

theorem unsafe_mutation_sent_once:
  assumes "tool \<in> set mutating_tasks"
    and "\<not> truthy (getj params ''idempotency_key'') \<or> \<not> idempotency_supported a"
  shows "\<exists>r w' out. call_seller_tool shown loads a tool params (att # atts) b w = Some (r, b, w') \<and>
     outcomes w' = outcomes w @ [out] \<and> waits w' = waits w"
proof -
  obtain r w1 where once: "call_once shown loads a tool att w = (r, w1)" by fastforce
  from call_once_world [OF this] obtain out where "waits w1 = waits w" "outcomes w1 = outcomes w @ [out]"
    by blast
  moreover have "\<exists>r'. call_seller_tool shown loads a tool params (att # atts) b w = Some (r', b, w1)"
    using assms once
    by (auto simp: call_seller_tool_def retry_permitted_def ask_budget_def split: sum.split option.split)
  ultimately show ?thesis by blast
qed

lemma unsafe_mutation_sent_once_witness:
  "\<exists>r w' out. call_seller_tool (\<lambda>x. []) (\<lambda>s. None) example_seller ''activate_signal'' []
     [failing_attempt 0] (budget_from_settings 3 300 0) (example_world 5) =
       Some (r, budget_from_settings 3 300 0, w') \<and>
     outcomes w' = outcomes (example_world 5) @ [out] \<and> waits w' = waits (example_world 5)"
  by (rule unsafe_mutation_sent_once) (simp_all add: mutating_tasks_def getj_def get_or_def)

section \<open>What reaches the caller\<close>

lemma call_loop_error:
  "call_loop shown loads a tool allowed atts b w = Some (Inl err, b', w') \<Longrightarrow>
     allowed \<Longrightarrow> error_recovery err = Transient \<Longrightarrow>
     error_retry_count err = retries_attempted b' \<and>
     (\<exists>att \<in> set atts. next_delay (hint_json (error_retry_after err), budget_time att, jitter att) b' = (None, b'))"
proof (induction atts arbitrary: b w)
  case (Cons att atts)
  obtain res w1 where once: "call_once shown loads a tool att w = (res, w1)" by fastforce
  have more: ?case if "call_loop shown loads a tool allowed atts b1 w2 = Some (Inl err, b', w')" for b1 w2
    using Cons.IH [OF that Cons.prems(2,3)] by auto
  show ?case
  proof (cases res)
    case (Inl e)
    obtain d b1 where ask: "ask_budget (allowed \<and> error_recovery e = Transient)
        (error_retry_after e) att b = (d, b1)" by fastforce
    show ?thesis
    proof (cases d)
      case None
      then have r: "err = e\<lparr>error_retry_count := retries_attempted b1\<rparr>" "b1 = b'"
        using Cons.prems(1) once Inl ask by auto
      then have "next_delay (hint_json (error_retry_after e), budget_time att, jitter att) b = (None, b')"
        using ask None Cons.prems(2,3) by (simp add: ask_budget_def)
      moreover from next_delay_refuse [OF this] have "b' = b" .
      ultimately show ?thesis using r by simp
    qed (use more Cons.prems(1) once Inl ask in auto)
  next
    case (Inr response)
    with Cons.prems(1) once obtain b1 w2 where
      "call_loop shown loads a tool allowed atts b1 w2 = Some (Inl err, b', w')"
      by (auto split: option.splits prod.splits)
    then show ?thesis by (rule more)
  qed
qed simp

text \<open>
  Transient failures are not given up early: when a retryable call raises a transient error,
  the budget really refused another delay for it (three retries made, or the delay would
  overrun the limit), and the error reports the number of retries made.
\<close>

theorem transient_error_exhausts_budget:
  assumes "call_seller_tool shown loads a tool params atts b w = Some (Inl err, b', w')"
    and "retry_permitted a tool params" and "error_recovery err = Transient"
  shows "error_retry_count err = retries_attempted b' \<and>
    (max_retries b' \<le> retries_attempted b' \<or>
     (\<exists>att \<in> set atts. max_seconds b' < budget_time att - started_at b' +
        (case error_retry_after err of Some h \<Rightarrow> clamp_retry_after h
         | None \<Rightarrow> backoff_delay (retries_attempted b') (jitter att))))"
proof -
  from call_loop_error [OF assms(1) [unfolded call_seller_tool_def] assms(2,3)]
  obtain att where "att \<in> set atts" "error_retry_count err = retries_attempted b'"
    "next_delay (hint_json (error_retry_after err), budget_time att, jitter att) b' = (None, b')" by blast
  then show ?thesis
    by (cases "error_retry_after err")
       (auto simp: next_delay.simps exhausted_def normalize_retry_after_def hint_json_def Let_def
          split: if_splits)
qed

lemma transient_error_exhausts_budget_witness:
  "\<exists>err b' w'. call_seller_tool (\<lambda>x. []) (\<lambda>s. None) example_seller ''get_products'' []
     (map failing_attempt [0, 2, 6, 14]) (budget_from_settings 3 300 0) (example_world 5) = Some (Inl err, b', w') \<and>
     error_retry_count err = retries_attempted b'"
proof -
  from example_call obtain err b' w' where
    run: "call_seller_tool (\<lambda>x. []) (\<lambda>s. None) example_seller ''get_products'' []
     (map failing_attempt [0, 2, 6, 14]) (budget_from_settings 3 300 0) (example_world 5) = Some (Inl err, b', w')"
    and e: "error_recovery err = Transient" by blast
  have "retry_permitted example_seller ''get_products'' []"
    by (simp add: retry_permitted_def mutating_tasks_def)
  from transient_error_exhausts_budget [OF run this e] run show ?thesis by blast
qed

section \<open>Health reports\<close>



end
