(* ===== verification/Seller_Session.thy ===== *)
theory Seller_Session
  imports Seller_Call
begin

text \<open>
  \<open>src/connections/session.py\<close>: a session keeps the seller's \<open>context_id\<close> and the asynchronous
  tasks it has seen, and repeats a call once when the seller says the context has expired.  The
  script of attempts is shared by the calls of one operation: each call takes what it needs.
\<close>

section \<open>The code\<close>

record seller_session =
  session_agent :: seller_agent
  context_id :: json
  active_tasks :: "(json \<times> dict) list"

definition new_session :: "seller_agent \<Rightarrow> seller_session" where
  "new_session a = \<lparr>session_agent = a, context_id = JNull, active_tasks = []\<rparr>"

definition reset_session :: "seller_session \<Rightarrow> seller_session" where
  "reset_session s = s\<lparr>context_id := JNull, active_tasks := []\<rparr>"

definition active_task_ids :: "seller_session \<Rightarrow> json list" where
  "active_task_ids s = map fst (active_tasks s)"

definition full_params :: "seller_session \<Rightarrow> dict \<Rightarrow> json option \<Rightarrow> json option \<Rightarrow> dict" where
  "full_params s params ctx push =
     (let p1 = (if truthy (context_id s) then dset ''context_id'' (context_id s) params else params);
          p2 = (case ctx of Some c \<Rightarrow> dset ''context'' c p1 | None \<Rightarrow> p1)
      in case push of Some c \<Rightarrow> dset ''push_notification_config'' c p2 | None \<Rightarrow> p2)"

text \<open>What a response leaves in the session; a task id that cannot be hashed raises \<open>TypeError\<close>.\<close>

definition note_response :: "string \<Rightarrow> dict \<Rightarrow> seller_session \<Rightarrow> (py_exn + dict) \<times> seller_session" where
  "note_response tool response s =
     (let s1 = (if has_key response ''context_id''
                then s\<lparr>context_id := getj response ''context_id''\<rparr> else s)
      in if has_key response ''task_id'' then
           (let task = getj response ''task_id''
            in if is_obj task \<or> is_arr task then (Inl TypeError, s1)
               else (Inr response,
                 s1\<lparr>active_tasks := dset task
                      [(''tool'', JStr tool), (''status'', get_or response ''status'' (JStr ''unknown''))]
                      (active_tasks s1)\<rparr>))
         else (Inr response, s1))"

datatype call_failure = SellerFailure seller_error | PyFailure py_exn

type_synonym session_result =
  "(call_failure + dict) \<times> seller_session \<times> retry_budget \<times> client_world \<times> attempt list"

text \<open>The attempts left of a script after a call.\<close>

definition attempts_left :: "client_world \<Rightarrow> client_world \<Rightarrow> attempt list \<Rightarrow> attempt list" where
  "attempts_left w w' atts = drop (length (outcomes w') - length (outcomes w)) atts"

definition session_call ::
  "(json \<Rightarrow> string) \<Rightarrow> (string \<Rightarrow> json option) \<Rightarrow> string \<Rightarrow> dict \<Rightarrow> json option \<Rightarrow> json option \<Rightarrow>
     attempt list \<Rightarrow> retry_budget \<Rightarrow> client_world \<Rightarrow> seller_session \<Rightarrow> session_result option"
where
  "session_call shown loads tool params ctx push atts b w s =
     (case call_seller_tool shown loads (session_agent s) tool (full_params s params ctx push) atts b w of
        None \<Rightarrow> None
      | Some (Inl err, b', w') \<Rightarrow> Some (Inl (SellerFailure err), s, b', w', attempts_left w w' atts)
      | Some (Inr response, b', w') \<Rightarrow>
          (case note_response tool response s of
             (Inl e, s') \<Rightarrow> Some (Inl (PyFailure e), s', b', w', attempts_left w w' atts)
           | (Inr r, s') \<Rightarrow> Some (Inr r, s', b', w', attempts_left w w' atts)))"

definition context_expired :: "seller_error \<Rightarrow> bool" where
  "context_expired err \<longleftrightarrow>
     (let msg = lower (error_message err)
      in contains msg ''context'' \<and> (contains msg ''not found'' \<or> contains msg ''expired''))"

definition session_call_with_retry ::
  "(json \<Rightarrow> string) \<Rightarrow> (string \<Rightarrow> json option) \<Rightarrow> string \<Rightarrow> dict \<Rightarrow> json option \<Rightarrow> json option \<Rightarrow>
     attempt list \<Rightarrow> retry_budget \<Rightarrow> client_world \<Rightarrow> seller_session \<Rightarrow> session_result option"
where
  "session_call_with_retry shown loads tool params ctx push atts b w s =
     (case session_call shown loads tool params ctx push atts b w s of
        None \<Rightarrow> None
      | Some (Inl (SellerFailure err), s1, b1, w1, atts1) \<Rightarrow>
          (if \<not> context_expired err \<or> exhausted b1
           then Some (Inl (SellerFailure err), s1, b1, w1, atts1)
           else session_call shown loads tool params ctx push atts1
                  (b1\<lparr>retries_attempted := retries_attempted b1 + 1\<rparr>) w1 (reset_session s1))
      | Some other \<Rightarrow> Some other)"

section \<open>One budget for both calls\<close>

lemma call_loop_contacts:
  assumes "call_loop shown loads a tool allowed atts b w = Some (r, b', w')"
  shows "length (outcomes w') + retries_left b' = Suc (length (outcomes w) + retries_left b)"
  using call_loop_meter [OF assms] budget.run_left by fastforce

lemma session_call_contacts:
  assumes "session_call shown loads tool params ctx push atts b w s = Some (r, s', b', w', atts')"
  shows "length (outcomes w') + retries_left b' = Suc (length (outcomes w) + retries_left b)"
  using assms call_loop_contacts
  by (fastforce simp: session_call_def call_seller_tool_def split: option.splits sum.splits prod.splits)

lemma session_operation_contacts:
  assumes "session_call_with_retry shown loads tool params ctx push atts
      (budget_from_settings retries seconds now) w s = Some (r, s', b', w', atts')"
  shows "length (outcomes w') \<le> length (outcomes w) + 4"
proof -
  let ?b = "budget_from_settings retries seconds now"
  from assms obtain r1 s1 b1 w1 atts1 where
    first: "session_call shown loads tool params ctx push atts ?b w s = Some (r1, s1, b1, w1, atts1)"
    by (auto simp: session_call_with_retry_def split: option.splits)
  note c1 = session_call_contacts [OF first]
  show ?thesis
  proof (cases "\<exists>err. r1 = Inl (SellerFailure err) \<and> context_expired err \<and> \<not> exhausted b1")
    case False
    then have "w' = w1"
      using assms first
      by (auto simp: session_call_with_retry_def split: sum.splits call_failure.splits if_splits)
    then show ?thesis using c1 retries_left_settings [of retries seconds now] by simp
  next
    case True
    then have "session_call shown loads tool params ctx push atts1
        (b1\<lparr>retries_attempted := retries_attempted b1 + 1\<rparr>) w1 (reset_session s1) = Some (r, s', b', w', atts')"
      using assms first by (auto simp: session_call_with_retry_def)
    from session_call_contacts [OF this] True c1 retries_left_settings [of retries seconds now]
    show ?thesis by (auto simp: retries_left_def exhausted_def)
  qed
qed

text \<open>
  The repetition after an expired context draws on the same budget: whatever the seller
  answers, an operation through a session contacts it at most four times in all.
\<close>

theorem session_operation_bounded:
  assumes "session_call_with_retry shown loads tool params ctx push atts
      (budget_from_settings retries seconds now) w s = Some (r, s', b', w', atts')"
  shows "length (outcomes w') \<le> length (outcomes w) + 4"
  by (rule session_operation_contacts [OF assms])

section \<open>A terminal error that is repeated\<close>

text \<open>
  The test seller configured by default lives at \<open>test-agent.adcontextprotocol.org\<close>, so every
  transport failure names \<open>context\<close>; with a 404 the message also says \<open>not found\<close>.
\<close>

definition test_agent :: seller_agent where
  "test_agent = new_agent ''AdCP Test Agent'' ''https://test-agent.adcontextprotocol.org/mcp''"

definition not_found_attempt :: "rat \<Rightarrow> attempt" where
  "not_found_attempt now = (failing_attempt now)\<lparr>answer := Failed ''404 Not Found'' (Some 404)\<rparr>"

definition not_found_error :: seller_error where
  "not_found_error = connection_error (\<lambda>v. []) test_agent ''404 Not Found'' (Some 404)"

lemma not_found_error_shown: "connection_error shown test_agent ''404 Not Found'' (Some 404) = not_found_error"
  by (simp add: not_found_error_def connection_error_def test_agent_def new_agent_def text_of_def)

lemma not_found_error_props:
  "error_recovery not_found_error = Terminal" "error_retry_after not_found_error = None"
  "context_expired not_found_error"
  by (code_simp, code_simp, code_simp)

lemma call_once_not_found:
  assumes "fst (allow_request (ask_time att) (fst (registry_get (agent_url test_agent) (registry w))))"
    and "answer att = Failed ''404 Not Found'' (Some 404)"
  shows "\<exists>w1. call_once shown loads test_agent tool att w = (Inl not_found_error, w1) \<and>
    outcomes w1 = outcomes w @ [Called_error]"
  using assms by (auto simp: call_once_def Let_def not_found_error_shown split: prod.splits)

lemma session_call_not_found:
  assumes "fst (allow_request (ask_time att) (fst (registry_get (agent_url test_agent) (registry w))))"
    and "answer att = Failed ''404 Not Found'' (Some 404)" and "session_agent s = test_agent"
  shows "\<exists>e w1. session_call shown loads tool params ctx push (att # atts) b w s =
      Some (Inl (SellerFailure e), s, b, w1, atts) \<and> e = not_found_error\<lparr>error_retry_count := retries_attempted b\<rparr> \<and>
      call_once shown loads test_agent tool att w = (Inl not_found_error, w1) \<and>
      outcomes w1 = outcomes w @ [Called_error]"
proof -
  from call_once_not_found [OF assms(1,2), of shown loads tool] obtain w1 where
    "call_once shown loads test_agent tool att w = (Inl not_found_error, w1)"
    "outcomes w1 = outcomes w @ [Called_error]" by blast
  then show ?thesis
    by (simp add: session_call_def call_seller_tool_def assms(3) ask_budget_def not_found_error_props
        attempts_left_def)
qed

text \<open>
  The repetition looks only at the error text: for a seller whose URL contains \<open>context\<close>
  (the default test agent does) a plain 404 of the transport counts as an expired context, so
  any tool, a mutation without \<open>idempotency_key\<close> included, is sent a second time although the
  error is terminal.
\<close>

theorem terminal_404_sent_twice:
  "\<exists>r s' b' w' rest. session_call_with_retry shown loads tool params ctx push
       [not_found_attempt 0, not_found_attempt 1] (budget_from_settings 3 300 0) (example_world 5)
       (new_session test_agent) = Some (r, s', b', w', rest) \<and>
     outcomes w' = [Called_error, Called_error] \<and> connection_recovery (Some 404) = Terminal"
proof -
  let ?b = "budget_from_settings 3 300 0"
  have allow0: "fst (allow_request (ask_time (not_found_attempt 0))
      (fst (registry_get (agent_url test_agent) (registry (example_world 5)))))"
    by (simp add: call_eval not_found_attempt_def test_agent_def)
  have ans: "answer (not_found_attempt t) = Failed ''404 Not Found'' (Some 404)" for t
    by (simp add: not_found_attempt_def)
  from session_call_not_found [OF allow0 ans, of "new_session test_agent" shown loads tool params ctx push]
  obtain w1 where first: "session_call shown loads tool params ctx push
      [not_found_attempt 0, not_found_attempt 1] ?b (example_world 5) (new_session test_agent) =
      Some (Inl (SellerFailure (not_found_error\<lparr>error_retry_count := retries_attempted ?b\<rparr>)),
        new_session test_agent, ?b, w1, [not_found_attempt 1])"
    and once: "call_once shown loads test_agent tool (not_found_attempt 0) (example_world 5) =
      (Inl not_found_error, w1)"
    and w1: "outcomes w1 = outcomes (example_world 5) @ [Called_error]"
    by (auto simp: new_session_def)
  have "fst (allow_request (ask_time (not_found_attempt 1))
      (fst (registry_get (agent_url test_agent) (registry w1))))"
    using once by (auto simp: call_eval not_found_attempt_def test_agent_def)
  from session_call_not_found [OF this ans, of "reset_session (new_session test_agent)" shown loads tool params
      ctx push "[]" "?b\<lparr>retries_attempted := retries_attempted ?b + 1\<rparr>"] w1
  have second: "\<exists>r s' b' w' rest. session_call shown loads tool params ctx push [not_found_attempt 1]
      (?b\<lparr>retries_attempted := retries_attempted ?b + 1\<rparr>) w1 (reset_session (new_session test_agent)) =
      Some (r, s', b', w', rest) \<and> outcomes w' = [Called_error, Called_error]"
    by (auto simp: reset_session_def new_session_def example_world_def)
  have "context_expired (not_found_error\<lparr>error_retry_count := n\<rparr>)" for n
    using not_found_error_props(3) by (simp add: context_expired_def)
  moreover have "\<not> exhausted ?b" by (simp add: budget_eval)
  moreover have "connection_recovery (Some 404) = Terminal" by (simp add: connection_recovery_def)
  ultimately show ?thesis using second by (simp add: session_call_with_retry_def first)
qed

lemma example_session_run:
  "\<exists>r s' b' w' rest. session_call_with_retry (\<lambda>x. []) (\<lambda>s. None) ''get_products'' [] None None
       (map failing_attempt [0, 2, 6, 14]) (budget_from_settings 3 300 0) (example_world 5)
       (new_session example_seller) = Some (r, s', b', w', rest) \<and> outcomes w' \<noteq> []"
proof -
  from example_call obtain err b' w' where
    run: "call_seller_tool (\<lambda>x. []) (\<lambda>s. None) example_seller ''get_products'' []
     (map failing_attempt [0, 2, 6, 14]) (budget_from_settings 3 300 0) (example_world 5) = Some (Inl err, b', w')"
    and w': "outcomes w' = [Called_error, Called_error, Called_error, Called_error]" by blast
  have params: "full_params (new_session example_seller) [] None None = []"
    "session_agent (new_session example_seller) = example_seller"
    by (simp_all add: full_params_def new_session_def)
  from run have ex: "\<not> context_expired err \<or> exhausted b'" by (auto simp: call_eval budget_eval)
  have call: "session_call (\<lambda>x. []) (\<lambda>s. None) ''get_products'' [] None None
      (map failing_attempt [0, 2, 6, 14]) (budget_from_settings 3 300 0) (example_world 5)
      (new_session example_seller) = Some (Inl (SellerFailure err), new_session example_seller, b', w',
        attempts_left (example_world 5) w' (map failing_attempt [0, 2, 6, 14]))"
    unfolding session_call_def params run option.case prod.case sum.case by (rule refl)
  have "outcomes w' \<noteq> []" by (simp add: w')
  then show ?thesis
    unfolding session_call_with_retry_def call option.case prod.case sum.case call_failure.case
    using ex by (simp only: if_True) blast
qed

lemma session_operation_bounded_witness:
  "\<exists>w' :: client_world. outcomes w' \<noteq> [] \<and> length (outcomes w') \<le> length (outcomes (example_world 5)) + 4"
proof -
  from example_session_run obtain r s' b' w' rest where
    run: "session_call_with_retry (\<lambda>x. []) (\<lambda>s. None) ''get_products'' [] None None
       (map failing_attempt [0, 2, 6, 14]) (budget_from_settings 3 300 0) (example_world 5)
       (new_session example_seller) = Some (r, s', b', w', rest)" and "outcomes w' \<noteq> []" by blast
  with session_operation_bounded [OF run] show ?thesis by blast
qed

end
