(* ===== verification/Safe_Fetch.thy ===== *)
theory Safe_Fetch
  imports Url_Canon
begin

text \<open>
  \<open>src/protocol/safe_fetch.py\<close>: the guarded fetch of trust-root documents.  What the code takes
  from libraries is gathered in a record of functions: splitting and joining URLs
  (\<open>urllib.parse\<close>), the classification of IP literals (\<open>ipaddress\<close>; \<^const>\<open>None\<close> for
  \<open>ValueError\<close>), the resolver (\<^const>\<open>None\<close> for \<open>OSError\<close>), the HTTP client, \<open>idna.encode\<close> and
  the JSON decoder, whose objects still have their duplicate keys.
\<close>

section \<open>The code\<close>

datatype redirect_rule = NO_REDIRECT | WWW_ONLY | SAME_SITE

record fetch_policy =
  max_bytes :: nat
  rule :: redirect_rule
  max_redirects :: nat
  max_depth :: nat

datatype fetch_error =
    NonHttps | NoHost | LocalHost | NonPublicLiteral | CannotResolve | NonPublicAddress string
  | RedirectRefused | HttpStatus int | DocumentTooLarge | MalformedJson | DuplicateKey string
  | NestingTooDeep | TooManyRedirects | FetchTimeout | HttpFailure | BadDocument string

datatype fetch_failure = FetchFailed fetch_error | FetchCrash py_exn

definition not_found :: "fetch_error \<Rightarrow> bool" where
  "not_found e = (e = HttpStatus 404)"

record url_parts =
  parts_scheme :: string
  parts_hostname :: string
  parts_port :: "py_exn + nat option"

record http_response =
  redirecting :: bool
  location :: string
  http_status :: int
  content_length :: string
  chunks :: "string list"

datatype http_answer = Response http_response | ClientError | ClientTimeout

record fetch_env =
  split_url :: "string \<Rightarrow> py_exn + url_parts"
  join_url :: "string \<Rightarrow> string \<Rightarrow> string"
  ip_info :: "string \<Rightarrow> (bool \<times> bool) option"
  resolve :: "string \<Rightarrow> nat \<Rightarrow> string list option"
  http_get :: "string \<Rightarrow> http_answer"
  idna_encode :: "string \<Rightarrow> string option"
  decode_json :: "string \<Rightarrow> json option"

text \<open>\<open>ip_info\<close> tells \<open>is_global\<close> and \<open>is_multicast\<close>.\<close>

definition is_public_ip :: "fetch_env \<Rightarrow> string \<Rightarrow> py_exn + bool" where
  "is_public_ip env v =
     (case ip_info env (takeWhile (\<lambda>c. c \<noteq> CHR ''%'') v) of
        None \<Rightarrow> Inl ValueError
      | Some (glob, multicast) \<Rightarrow> Inr (glob \<and> \<not> multicast))"

fun all_public :: "fetch_env \<Rightarrow> string list \<Rightarrow> fetch_failure + unit" where
  "all_public env [] = Inr ()"
| "all_public env (a # as) =
     (case is_public_ip env a of
        Inl e \<Rightarrow> Inl (FetchCrash e)
      | Inr ok \<Rightarrow> (if ok then all_public env as else Inl (FetchFailed (NonPublicAddress a))))"

definition assert_public_https_url :: "fetch_env \<Rightarrow> string \<Rightarrow> fetch_failure + unit" where
  "assert_public_https_url env url =
     (case split_url env url of
        Inl e \<Rightarrow> Inl (FetchCrash e)
      | Inr parts \<Rightarrow>
          let h = parts_hostname parts
          in if parts_scheme parts \<noteq> ''https'' then Inl (FetchFailed NonHttps)
             else if h = [] then Inl (FetchFailed NoHost)
             else if h = ''localhost'' \<or> ends_with h ''.localhost'' then Inl (FetchFailed LocalHost)
             else if ip_info env h \<noteq> None then
               (case is_public_ip env h of
                  Inl e \<Rightarrow> Inl (FetchCrash e)
                | Inr ok \<Rightarrow> (if ok then Inr () else Inl (FetchFailed NonPublicLiteral)))
             else
               (case parts_port parts of
                  Inl e \<Rightarrow> Inl (FetchCrash e)
                | Inr port \<Rightarrow>
                    (case resolve env h (case port of Some p \<Rightarrow> (if p = 0 then 443 else p) | None \<Rightarrow> 443) of
                       None \<Rightarrow> Inl (FetchFailed CannotResolve)
                     | Some [] \<Rightarrow> Inl (FetchFailed CannotResolve)
                     | Some addresses \<Rightarrow> all_public env addresses)))"

definition redirect_allowed :: "(string \<Rightarrow> string option) \<Rightarrow> redirect_rule \<Rightarrow> string \<Rightarrow> string \<Rightarrow> bool" where
  "redirect_allowed idna r original target =
     (case (canonicalize_url idna original, canonicalize_url idna target) of
        (Inr orig, Inr nxt) \<Rightarrow>
          (if scheme nxt \<noteq> ''https'' \<or> r = NO_REDIRECT then False
           else if drop (length (host orig)) (authority orig) \<noteq> drop (length (host nxt)) (authority nxt)
             then False
           else if host nxt = host orig then True
           else
             let is_www_pair = host nxt = ''www.'' @ host orig \<or> host orig = ''www.'' @ host nxt
             in if r = WWW_ONLY then is_www_pair
                else is_www_pair \<or> ends_with (host nxt) (CHR ''.'' # host orig))
      | _ \<Rightarrow> False)"

text \<open>The hook on the pairs of an object: the first repeated key is an error.\<close>

fun first_repeated :: "string list \<Rightarrow> (string \<times> json) list \<Rightarrow> string option" where
  "first_repeated seen [] = None"
| "first_repeated seen ((k, v) # ps) = (if k \<in> set seen then Some k else first_repeated (k # seen) ps)"

definition reject_duplicate_keys :: "(string \<times> json) list \<Rightarrow> fetch_error + dict" where
  "reject_duplicate_keys ps =
     (case first_repeated [] ps of Some k \<Rightarrow> Inl (DuplicateKey (take 32 k)) | None \<Rightarrow> Inr ps)"

text \<open>The decoder runs the hook on every object, the inner ones first.\<close>

fun hooked :: "json \<Rightarrow> fetch_error + json" and hooked_items :: "json list \<Rightarrow> fetch_error + json list"
  and hooked_pairs :: "(string \<times> json) list \<Rightarrow> fetch_error + (string \<times> json) list" where
  "hooked (JArr xs) = res_bind (hooked_items xs) (\<lambda>ys. Inr (JArr ys))"
| "hooked (JObj ps) = res_bind (hooked_pairs ps) (\<lambda>qs. res_bind (reject_duplicate_keys qs) (\<lambda>d. Inr (JObj d)))"
| "hooked v = Inr v"
| "hooked_items [] = Inr []"
| "hooked_items (x # xs) = res_bind (hooked x) (\<lambda>y. res_bind (hooked_items xs) (\<lambda>ys. Inr (y # ys)))"
| "hooked_pairs [] = Inr []"
| "hooked_pairs ((k, v) # ps) = res_bind (hooked v) (\<lambda>w. res_bind (hooked_pairs ps) (\<lambda>qs. Inr ((k, w) # qs)))"

text \<open>\<open>_depth\<close>: the stack of nodes with their levels, its top first.\<close>

fun children :: "json \<Rightarrow> json list" where
  "children (JObj d) = map snd d"
| "children (JArr xs) = xs"
| "children _ = []"

definition is_container :: "json \<Rightarrow> bool" where
  "is_container v \<longleftrightarrow> is_obj v \<or> is_arr v"

definition stack_size :: "(json \<times> nat) list \<Rightarrow> nat" where
  "stack_size st = sum_list (map (\<lambda>(v, l). Suc (size v)) st)"

lemma children_size: "sum_list (map (\<lambda>v. Suc (size v)) (children v)) \<le> size v"
proof (cases v)
  case (JArr xs)
  have "sum_list (map (\<lambda>v. Suc (size v)) xs) = size_list size xs"
    by (induction xs) auto
  then show ?thesis by (simp add: JArr)
next
  case (JObj d)
  have "sum_list (map (\<lambda>v. Suc (size v)) (map snd d)) \<le> size_list (size_prod (\<lambda>x. 0) size) d"
    by (induction d) auto
  then show ?thesis by (simp add: JObj)
qed auto

function depth_loop :: "(json \<times> nat) list \<Rightarrow> nat \<Rightarrow> nat" where
  "depth_loop [] deepest = deepest"
| "depth_loop ((node, level) # st) deepest =
     (if is_container node
      then depth_loop (rev (map (\<lambda>c. (c, level + 1)) (children node)) @ st) (max deepest level)
      else depth_loop st deepest)"
  by pat_completeness auto
termination
proof (relation "measure (stack_size \<circ> fst)")
  fix node :: json and level st deepest
  have "stack_size (rev (map (\<lambda>c. (c, level + 1)) (children node)) @ st) =
      sum_list (map (\<lambda>v. Suc (size v)) (children node)) + stack_size st"
    by (simp add: stack_size_def rev_map [symmetric] o_def sum_list_rev)
  then show "((rev (map (\<lambda>c. (c, level + 1)) (children node)) @ st, max deepest level), (node, level) # st, deepest)
      \<in> measure (stack_size \<circ> fst)"
    using children_size [of node] by (simp add: stack_size_def)
qed (auto simp: stack_size_def)

definition json_depth :: "json \<Rightarrow> nat" where
  "json_depth v = depth_loop [(v, 1)] 0"

definition parse_strict_json :: "fetch_env \<Rightarrow> string \<Rightarrow> nat \<Rightarrow> fetch_error + json" where
  "parse_strict_json env raw depth =
     (case decode_json env raw of
        None \<Rightarrow> Inl MalformedJson
      | Some v \<Rightarrow>
          res_bind (hooked v) (\<lambda>parsed.
            if depth < json_depth parsed then Inl NestingTooDeep else Inr parsed))"

definition number_of_digits :: "string \<Rightarrow> nat" where
  "number_of_digits s = foldl (\<lambda>n c. 10 * n + (code_of c - 48)) 0 s"

fun read_chunks :: "nat \<Rightarrow> nat \<Rightarrow> string \<Rightarrow> string list \<Rightarrow> fetch_error + string" where
  "read_chunks cap sofar acc [] = Inr acc"
| "read_chunks cap sofar acc (c # cs) =
     (if cap < sofar + length c then Inl DocumentTooLarge
      else read_chunks cap (sofar + length c) (acc @ c) cs)"

definition read_capped :: "http_response \<Rightarrow> nat \<Rightarrow> fetch_error + string" where
  "read_capped r cap =
     (let declared = content_length r
      in if declared \<noteq> [] \<and> list_all is_digit declared \<and> cap < number_of_digits declared
         then Inl DocumentTooLarge else read_chunks cap 0 [] (chunks r))"

text \<open>The loop over the hops, with the URLs that were contacted.\<close>

fun fetch_loop ::
  "fetch_env \<Rightarrow> fetch_policy \<Rightarrow> string \<Rightarrow> nat \<Rightarrow> string \<Rightarrow> (fetch_failure + json) \<times> string list" where
  "fetch_loop env pol url 0 current = (Inl (FetchFailed TooManyRedirects), [])"
| "fetch_loop env pol url (Suc n) current =
     (case assert_public_https_url env current of
        Inl e \<Rightarrow> (Inl e, [])
      | Inr _ \<Rightarrow>
          (case http_get env current of
             ClientError \<Rightarrow> (Inl (FetchFailed HttpFailure), [current])
           | ClientTimeout \<Rightarrow> (Inl (FetchFailed FetchTimeout), [current])
           | Response r \<Rightarrow>
               if redirecting r then
                 let target = join_url env current (location r)
                 in if location r = [] \<or> \<not> redirect_allowed (idna_encode env) (rule pol) url target
                    then (Inl (FetchFailed RedirectRefused), [current])
                    else (case fetch_loop env pol url n target of (res, urls) \<Rightarrow> (res, current # urls))
               else if http_status r \<noteq> 200 then (Inl (FetchFailed (HttpStatus (http_status r))), [current])
               else
                 (case res_bind (read_capped r (max_bytes pol)) (\<lambda>body. parse_strict_json env body (max_depth pol)) of
                    Inl e \<Rightarrow> (Inl (FetchFailed e), [current])
                  | Inr doc \<Rightarrow> (Inr doc, [current]))))"

definition fetch_json :: "fetch_env \<Rightarrow> string \<Rightarrow> fetch_policy \<Rightarrow> (fetch_failure + json) \<times> string list" where
  "fetch_json env url pol = fetch_loop env pol url (max_redirects pol + 1) url"

section \<open>Nesting depth\<close>

text \<open>The depth by recursion: a scalar has none, a container one more than what it holds.\<close>

fun nesting :: "json \<Rightarrow> nat" where
  "nesting (JArr xs) = Suc (foldr (\<lambda>x m. max (nesting x) m) xs 0)"
| "nesting (JObj d) = Suc (foldr (\<lambda>kv m. max (nesting (snd kv)) m) d 0)"
| "nesting _ = 0"

lemma nesting_children:
  "is_container v \<Longrightarrow> nesting v = Suc (foldr (\<lambda>x m. max (nesting x) m) (children v) 0)"
  by (cases v) (simp_all add: is_container_def foldr_map o_def)

lemma nesting_scalar: "\<not> is_container v \<Longrightarrow> nesting v = 0"
  by (cases v) (simp_all add: is_container_def)

definition reach_of :: "json \<times> nat \<Rightarrow> nat" where
  "reach_of = (\<lambda>(v, l). if is_container v then l + nesting v - 1 else 0)"

lemma foldr_max: "foldr (\<lambda>x m. max (f x) m) xs (max a b) = max a (foldr (\<lambda>x m. max (f x) m) xs (b::nat))"
  by (induction xs) (auto simp: max.left_commute)

lemma reach_of_children:
  "foldr (\<lambda>x m. max (reach_of x) m) (map (\<lambda>c. (c, Suc l)) cs) l =
     l + foldr (\<lambda>x m. max (nesting x) m) cs 0"
proof (induction cs)
  case (Cons c cs)
  have "max (reach_of (c, Suc l)) (l + n) = l + max (nesting c) n" for n
    by (cases "is_container c") (auto simp: reach_of_def nesting_scalar nesting_children)
  with Cons show ?case by simp
qed simp

lemma foldr_max_rev: "foldr (\<lambda>x m. max (f x) m) (rev xs) b = foldr (\<lambda>x m. max (f x) m) xs (b::nat)"
proof (induction xs arbitrary: b)
  case (Cons x xs)
  then show ?case by (simp add: foldr_max)
qed simp

lemma depth_loop_reach: "depth_loop st d = foldr (\<lambda>x m. max (reach_of x) m) st d"
proof (induction st d rule: depth_loop.induct)
  case (2 node level st deepest)
  show ?case
  proof (cases "is_container node")
    case True
    have "foldr (\<lambda>x m. max (reach_of x) m) (rev (map (\<lambda>c. (c, level + 1)) (children node)) @ st) (max deepest level)
        = foldr (\<lambda>x m. max (reach_of x) m) (map (\<lambda>c. (c, Suc level)) (children node))
            (max level (foldr (\<lambda>x m. max (reach_of x) m) st deepest))"
      by (simp add: foldr_max_rev max.commute [of deepest] foldr_max)
    also have "\<dots> = max (foldr (\<lambda>x m. max (reach_of x) m) st deepest)
        (level + foldr (\<lambda>x m. max (nesting x) m) (children node) 0)"
      by (simp only: max.commute [of level] foldr_max reach_of_children)
    finally show ?thesis
      using 2(1) [OF True] True by (simp add: reach_of_def nesting_children max.commute)
  next
    case False
    then show ?thesis using 2(2) by (simp add: reach_of_def)
  qed
qed simp

lemma json_depth_eq: "json_depth v = nesting v"
  by (cases "is_container v")
     (simp_all add: json_depth_def depth_loop_reach reach_of_def nesting_scalar nesting_children)

text \<open>
  The iterative depth of a JSON value, the loop over an explicit stack, is its nesting: what
  the limit of \<open>parse_strict_json\<close> bounds is the number of containers around a value.
\<close>

theorem json_depth_nesting: "json_depth v = nesting v"
  by (rule json_depth_eq)

section \<open>Duplicate keys\<close>

fun unambiguous :: "json \<Rightarrow> bool" where
  "unambiguous (JArr xs) = list_all unambiguous xs"
| "unambiguous (JObj d) = (distinct (map fst d) \<and> list_all (\<lambda>kv. unambiguous (snd kv)) d)"
| "unambiguous _ = True"

lemma first_repeated_None:
  "first_repeated seen ps = None \<longleftrightarrow> distinct (map fst ps) \<and> set seen \<inter> set (map fst ps) = {}"
  by (induction seen ps rule: first_repeated.induct) auto

lemma hooked_iff:
  "hooked v = Inr w \<longleftrightarrow> unambiguous v \<and> w = v"
  "hooked_items xs = Inr ys \<longleftrightarrow> list_all unambiguous xs \<and> ys = xs"
  "hooked_pairs ps = Inr qs \<longleftrightarrow> list_all (\<lambda>kv. unambiguous (snd kv)) ps \<and> qs = ps"
proof (induction v and xs and ps arbitrary: w and ys and qs rule: hooked_hooked_items_hooked_pairs.induct)
  case (2 ps)
  have "reject_duplicate_keys ps = Inr d \<longleftrightarrow> distinct (map fst ps) \<and> d = ps" for d
    using first_repeated_None [of "[]" ps] by (auto simp: reject_duplicate_keys_def split: option.splits)
  with 2 show ?case by (auto simp: res_bind_Inr_iff)
qed (auto simp: res_bind_Inr_iff)

lemma read_chunks_Inr:
  "read_chunks cap sofar acc cs = Inr body \<Longrightarrow> sofar = length acc \<Longrightarrow> sofar \<le> cap \<Longrightarrow>
     body = acc @ concat cs \<and> length body \<le> cap"
  by (induction cap sofar acc cs rule: read_chunks.induct) (auto split: if_splits)

section \<open>Fetching\<close>

lemma fetch_loop_result:
  "fetch_loop env pol url n current = (Inr doc, urls) \<Longrightarrow>
     \<exists>r body. http_get env (last urls) = Response r \<and> http_status r = 200 \<and> body = concat (chunks r) \<and>
       length body \<le> max_bytes pol \<and> decode_json env body = Some doc \<and> unambiguous doc \<and>
       nesting doc \<le> max_depth pol \<and> urls \<noteq> []"
proof (induction env pol url n current arbitrary: urls rule: fetch_loop.induct)
  case (2 env pol url n current)
  obtain u where ok: "assert_public_https_url env current = Inr u"
    using 2(2) by (cases "assert_public_https_url env current") auto
  obtain r where r: "http_get env current = Response r"
    using 2(2) ok by (cases "http_get env current") auto
  show ?case
  proof (cases "redirecting r")
    case True
    with 2(2) ok r obtain us where us: "fetch_loop env pol url n (join_url env current (location r)) = (Inr doc, us)"
      "urls = current # us" and go: "\<not> (location r = [] \<or>
        \<not> redirect_allowed (idna_encode env) (rule pol) url (join_url env current (location r)))"
      by (auto simp: Let_def split: if_splits prod.splits)
    from 2(1) [OF ok r True refl go us(1)] us(2) show ?thesis by auto
  next
    case False
    with 2(2) ok r obtain body where body: "read_capped r (max_bytes pol) = Inr body"
      "parse_strict_json env body (max_depth pol) = Inr doc" and s: "http_status r = 200" "urls = [current]"
      by (auto simp: res_bind_Inr_iff split: if_splits sum.splits)
    from body(1) have "body = concat (chunks r)" "length body \<le> max_bytes pol"
      using read_chunks_Inr [of "max_bytes pol" 0 "[]" "chunks r" body]
      by (auto simp: read_capped_def Let_def split: if_splits)
    moreover from body(2) have "decode_json env body = Some doc" "unambiguous doc" "nesting doc \<le> max_depth pol"
      by (auto simp: parse_strict_json_def res_bind_Inr_iff hooked_iff json_depth_eq
          split: option.splits if_splits)
    ultimately show ?thesis using r s by auto
  qed
qed simp

text \<open>The hosts a redirect may lead to: the same one, its www counterpart, a subdomain.\<close>

definition same_site :: "(string \<Rightarrow> string option) \<Rightarrow> string \<Rightarrow> string \<Rightarrow> bool" where
  "same_site idna original target \<longleftrightarrow>
     (\<exists>a b. canonicalize_url idna original = Inr a \<and> canonicalize_url idna target = Inr b \<and>
        scheme b = ''https'' \<and>
        drop (length (host a)) (authority a) = drop (length (host b)) (authority b) \<and>
        (host b = host a \<or> host b = ''www.'' @ host a \<or> host a = ''www.'' @ host b \<or>
         (\<exists>sub. host b = sub @ ''.'' @ host a)))"

lemma redirect_allowed_same_site:
  "redirect_allowed idna r original target \<Longrightarrow> same_site idna original target \<and> r \<noteq> NO_REDIRECT"
  by (auto simp: redirect_allowed_def same_site_def Let_def ends_with_iff split: sum.splits if_splits)

lemma fetch_loop_contained:
  "fetch_loop env pol url n current = (res, urls) \<Longrightarrow>
     length urls \<le> n \<and> (\<forall>u \<in> set urls. assert_public_https_url env u = Inr ()) \<and>
     (urls = [] \<or> hd urls = current) \<and>
     (\<forall>u \<in> set (tl urls). same_site (idna_encode env) url u \<and> rule pol \<noteq> NO_REDIRECT)"
proof (induction env pol url n current arbitrary: res urls rule: fetch_loop.induct)
  case (2 env pol url n current)
  show ?case
  proof (cases "assert_public_https_url env current")
    case (Inr u)
    show ?thesis
    proof (cases "\<exists>r. http_get env current = Response r \<and> redirecting r \<and> location r \<noteq> [] \<and>
        redirect_allowed (idna_encode env) (rule pol) url (join_url env current (location r))")
      case True
      then obtain r where r: "http_get env current = Response r" "redirecting r"
        and go: "\<not> (location r = [] \<or>
          \<not> redirect_allowed (idna_encode env) (rule pol) url (join_url env current (location r)))" by blast
      obtain res' us where us: "fetch_loop env pol url n (join_url env current (location r)) = (res', us)"
        by fastforce
      with 2(2) Inr r go have urls: "urls = current # us" by (auto simp: Let_def)
      from redirect_allowed_same_site go have site:
        "same_site (idna_encode env) url (join_url env current (location r))" "rule pol \<noteq> NO_REDIRECT" by blast+
      from 2(1) [OF Inr r refl go us] have
        IH: "length us \<le> n" "\<forall>u \<in> set us. assert_public_https_url env u = Inr ()"
          "us = [] \<or> hd us = join_url env current (location r)"
          "\<forall>u \<in> set (tl us). same_site (idna_encode env) url u \<and> rule pol \<noteq> NO_REDIRECT" by blast+
      then have "\<forall>u \<in> set us. same_site (idna_encode env) url u \<and> rule pol \<noteq> NO_REDIRECT"
        using site by (cases us) auto
      with IH urls Inr show ?thesis by simp
    next
      case False
      with 2(2) Inr have "urls = [current]"
        by (auto simp: Let_def split: http_answer.splits if_splits sum.splits)
      with Inr show ?thesis by simp
    qed
  qed (use 2(2) in simp)
qed simp

text \<open>
  C33. A fetch stays where it is allowed to go: it contacts at most one URL more than the
  redirects of the policy, every URL contacted has passed the check for public HTTPS targets,
  and every redirect followed stays on the site of the original URL (same port, HTTPS, the same
  host, its www counterpart or a subdomain); without redirects only the URL itself is contacted.
\<close>

theorem fetch_stays_on_site:
  assumes "fetch_json env url pol = (res, urls)"
  shows "length urls \<le> max_redirects pol + 1 \<and>
    list_all (\<lambda>u. assert_public_https_url env u = Inr ()) urls \<and>
    (urls = [] \<or> hd urls = url) \<and> list_all (same_site (idna_encode env) url) (tl urls) \<and>
    (rule pol = NO_REDIRECT \<longrightarrow> tl urls = [])"
  using fetch_loop_contained [OF assms [unfolded fetch_json_def]] by (cases urls) (auto simp: list_all_iff)

text \<open>
  C34. A document that a fetch accepts is the decoding of the body of a 200 answer within the
  size limit, has no object with a repeated key, and is nested at most as deep as the policy
  allows.
\<close>

theorem fetched_document_safe:
  assumes "fetch_json env url pol = (Inr doc, urls)"
  shows "\<exists>r. http_get env (last urls) = Response r \<and> http_status r = 200 \<and>
    length (concat (chunks r)) \<le> max_bytes pol \<and> decode_json env (concat (chunks r)) = Some doc \<and>
    unambiguous doc \<and> nesting doc \<le> max_depth pol"
  using fetch_loop_result [OF assms [unfolded fetch_json_def]] by auto

definition example_web :: "fetch_env" where
  "example_web =
     \<lparr>split_url = (\<lambda>u. Inr \<lparr>parts_scheme = ''https'', parts_hostname = ''a.example'', parts_port = Inr None\<rparr>),
      join_url = (\<lambda>u l. l),
      ip_info = (\<lambda>h. if h = ''8.8.8.8'' then Some (True, False) else None),
      resolve = (\<lambda>h p. Some [''8.8.8.8'']),
      http_get = (\<lambda>u. Response \<lparr>redirecting = False, location = [], http_status = 200,
        content_length = [], chunks = [''{'', ''}'']\<rparr>),
      idna_encode = Some, decode_json = (\<lambda>s. if s = ''{}'' then Some (JObj [(''x'', JArr [])]) else None)\<rparr>"

definition example_policy :: fetch_policy where
  "example_policy = \<lparr>max_bytes = 10, rule = SAME_SITE, max_redirects = 3, max_depth = 2\<rparr>"

lemma example_fetch:
  "fetch_json example_web ''https://a.example/x'' example_policy =
     (Inr (JObj [(''x'', JArr [])]), [''https://a.example/x''])"
  by (simp add: fetch_json_def example_web_def example_policy_def assert_public_https_url_def is_public_ip_def
      read_capped_def parse_strict_json_def reject_duplicate_keys_def json_depth_eq ends_with_def
      eval_nat_numeral Let_def)

lemma fetch_stays_on_site_witness:
  "list_all (\<lambda>u. assert_public_https_url example_web u = Inr ()) [''https://a.example/x'']"
  using fetch_stays_on_site [OF example_fetch] by simp

lemma fetched_document_safe_witness:
  "unambiguous (JObj [(''x'', JArr [])]) \<and> nesting (JObj [(''x'', JArr [])]) \<le> 2"
  using fetched_document_safe [OF example_fetch] by (simp add: example_policy_def)

end
