(* ===== verification/Ttl_Cache.thy ===== *)
theory Ttl_Cache
  imports Py_Prelude
begin

text \<open>
  What the caches of the trust-root documents have in common: an entry is used while its
  expiry lies in the future, and what a lookup returns is either a live entry or a fresh result
  stored with the lifetime of its kind.
\<close>

section \<open>The contract\<close>

text \<open>
  \<open>r\<close> is the result of the uncached computation; \<open>find_entry\<close> and \<open>expiry\<close> read an entry, \<open>answer_of\<close> is
  what it stands for; \<open>lookup\<close> at time \<open>now\<close> (stored at \<open>later\<close>) is the operation of the code.
\<close>

locale ttl_cache =
  fixes find_entry :: "'k \<Rightarrow> 'c \<Rightarrow> 'v option"
    and expiry :: "'v \<Rightarrow> rat"
    and answer_of :: "'v \<Rightarrow> 'r"
    and lifetime :: "'c \<Rightarrow> 'r \<Rightarrow> rat option"
    and lookup :: "rat \<Rightarrow> rat \<Rightarrow> 'r \<Rightarrow> 'k \<Rightarrow> 'c \<Rightarrow> 'r \<times> 'c"
  assumes hit: "find_entry k c = Some v \<Longrightarrow> now < expiry v \<Longrightarrow> lookup now later r k c = (answer_of v, c)"
    and miss: "(\<And>v. find_entry k c = Some v \<Longrightarrow> \<not> now < expiry v) \<Longrightarrow> fst (lookup now later r k c) = r"
    and stored: "(\<And>v. find_entry k c = Some v \<Longrightarrow> \<not> now < expiry v) \<Longrightarrow> lifetime c r = Some d \<Longrightarrow>
      \<exists>v. find_entry k (snd (lookup now later r k c)) = Some v \<and> expiry v = later + d \<and> answer_of v = r"
    and frame: "k' \<noteq> k \<Longrightarrow> find_entry k' (snd (lookup now later r k c)) = find_entry k' c"
begin

text \<open>A result with a lifetime is repeated, without loading, until it runs out.\<close>

lemma repeated:
  assumes "\<And>v. find_entry k c = Some v \<Longrightarrow> \<not> now < expiry v" and "lifetime c r = Some d" and "t < later + d"
  shows "fst (lookup t t' q k (snd (lookup now later r k c))) = r"
proof -
  from stored [OF assms(1,2)] obtain v where "find_entry k (snd (lookup now later r k c)) = Some v"
    "expiry v = later + d" "answer_of v = r" by blast
  with hit assms(3) show ?thesis by simp
qed

text \<open>Once it has run out the result is loaded again.\<close>

lemma reloaded:
  assumes "\<And>v. find_entry k c = Some v \<Longrightarrow> \<not> now < expiry v" and "lifetime c r = Some d" and "later + d \<le> t"
  shows "fst (lookup t t' q k (snd (lookup now later r k c))) = q"
proof -
  from stored [OF assms(1,2)] obtain v where "find_entry k (snd (lookup now later r k c)) = Some v"
    "expiry v = later + d" by blast
  with assms(3) show ?thesis by (intro miss) auto
qed

text \<open>A lookup of another key does not matter.\<close>

lemma undisturbed:
  assumes "k' \<noteq> k" and "find_entry k' c = Some v" and "t < expiry v"
  shows "fst (lookup t t' q k' (snd (lookup now later r k c))) = answer_of v"
proof -
  have "find_entry k' (snd (lookup now later r k c)) = Some v" using assms(1,2) by (simp add: frame)
  with hit assms(3) show ?thesis by simp
qed

end

end
