(* ===== verification/Adagents.thy ===== *)
theory Adagents
  imports Safe_Fetch Seller_Agent Ttl_Cache Url_Canon_Idem
begin

text \<open>
  \<open>src/authorization/adagents.py\<close>: whether a seller may sell the publisher properties a product
  claims.  \<open>str\<close> on values that are not strings, the ISO parser and the fetcher are arguments;
  sets of identifiers are lists.
\<close>

section \<open>The code\<close>

datatype scope_reason =
    NotYetEffective | Expired | CollectionScoped | CountryScoped | PlacementScoped | PlacementTagScoped

datatype deny_reason =
    NoPublisherProperties | BadSelector | AdagentsUnavailable fetch_error | DomainRevoked
  | NothingClaimed | UnknownProperties "string list" | AgentNotListed
  | OutOfScope "scope_reason list" | NotGranted "string list"

datatype auth_error = NotAuthorized "string option" deny_reason | AuthCrash py_exn

definition crashing :: "py_exn + 'a \<Rightarrow> auth_error + 'a" where
  "crashing r = (case r of Inl e \<Rightarrow> Inl (AuthCrash e) | Inr x \<Rightarrow> Inr x)"

lemma crashing_simps [simp, res_simps]:
  "crashing (Inl e) = Inl (AuthCrash e)" "crashing (Inr x) = Inr x"
  "crashing r = Inr y \<longleftrightarrow> r = Inr y" "crashing r = Inl (NotAuthorized d w) \<longleftrightarrow> False"
  by (auto simp: crashing_def split: sum.splits)

definition valid_property :: "json \<Rightarrow> bool" where
  "valid_property p = (is_obj p \<and> truthy (getj (obj_of p) ''property_id''))"

definition properties_of :: "dict \<Rightarrow> py_exn + dict list" where
  "properties_of document =
     res_bind (iter_or_empty (getj document ''properties'')) (\<lambda>ps.
       Inr (map obj_of (filter valid_property ps)))"

definition property_id :: "(json \<Rightarrow> string) \<Rightarrow> dict \<Rightarrow> string" where
  "property_id shown p = text_of shown (getj p ''property_id'')"

fun ids_with_tags :: "(json \<Rightarrow> string) \<Rightarrow> string list \<Rightarrow> dict list \<Rightarrow> py_exn + string list" where
  "ids_with_tags shown wanted [] = Inr []"
| "ids_with_tags shown wanted (p # ps) =
     res_bind (iter_or_empty (getj p ''tags'')) (\<lambda>tags.
     res_bind (ids_with_tags shown wanted ps) (\<lambda>ids.
       Inr (if list_ex (\<lambda>t. t \<in> set wanted) (map (text_of shown) tags)
            then property_id shown p # ids else ids)))"

text \<open>\<open>{str(x) for x in v or []}\<close>\<close>

definition text_set :: "(json \<Rightarrow> string) \<Rightarrow> json \<Rightarrow> py_exn + string list" where
  "text_set shown v = res_bind (iter_or_empty v) (\<lambda>xs. Inr (map (text_of shown) xs))"

definition claimed_ids :: "(json \<Rightarrow> string) \<Rightarrow> dict \<Rightarrow> dict list \<Rightarrow> py_exn + string list" where
  "claimed_ids shown selector props =
     (let selection = getj selector ''selection_type''
      in if selection = JStr ''all'' then Inr (map (property_id shown) props)
         else if selection = JStr ''by_id'' then text_set shown (getj selector ''property_ids'')
         else if selection = JStr ''by_tag'' then
           res_bind (text_set shown (getj selector ''property_tags'')) (\<lambda>wanted.
             ids_with_tags shown wanted props)
         else Inr [])"

text \<open>The domains of one \<open>publisher_properties\<close> selector of a grant.\<close>

definition selector_domains :: "(json \<Rightarrow> string) \<Rightarrow> dict \<Rightarrow> py_exn + string list" where
  "selector_domains shown sel =
     res_bind (if truthy (getj sel ''publisher_domain'') then Inr [getj sel ''publisher_domain'']
               else iter_or_empty (getj sel ''publisher_domains'')) (\<lambda>ds.
       Inr (map (\<lambda>d. lower (text_of shown d)) ds))"

fun granted_by_selectors ::
  "(json \<Rightarrow> string) \<Rightarrow> string \<Rightarrow> dict list \<Rightarrow> json list \<Rightarrow> py_exn + string list" where
  "granted_by_selectors shown domain props [] = Inr []"
| "granted_by_selectors shown domain props (sel # sels) =
     (if \<not> is_obj sel then granted_by_selectors shown domain props sels
      else
        res_bind (selector_domains shown (obj_of sel)) (\<lambda>ds.
        res_bind (if domain \<in> set ds then claimed_ids shown (obj_of sel) props else Inr []) (\<lambda>ids.
        res_bind (granted_by_selectors shown domain props sels) (\<lambda>rest. Inr (ids @ rest)))))"

definition granted_ids ::
  "(json \<Rightarrow> string) \<Rightarrow> dict \<Rightarrow> string \<Rightarrow> dict list \<Rightarrow> py_exn + string list" where
  "granted_ids shown entry domain props =
     (let kind = getj entry ''authorization_type''
      in if kind = JStr ''property_ids'' then text_set shown (getj entry ''property_ids'')
         else if kind = JStr ''property_tags'' then
           res_bind (text_set shown (getj entry ''property_tags'')) (\<lambda>wanted. ids_with_tags shown wanted props)
         else if kind = JStr ''inline_properties'' then
           res_bind (iter_or_empty (getj entry ''properties'')) (\<lambda>ps.
             Inr (map (\<lambda>p. property_id shown (obj_of p)) (filter valid_property ps)))
         else if kind = JStr ''publisher_properties'' then
           res_bind (iter_or_empty (getj entry ''publisher_properties'')) (granted_by_selectors shown domain props)
         else Inr [])"

text \<open>Whether a country scope excludes the buy; without countries it always does.\<close>

definition outside_countries :: "(json \<Rightarrow> string) \<Rightarrow> string list \<Rightarrow> json \<Rightarrow> py_exn + bool" where
  "outside_countries shown countries allowed =
     (if \<not> truthy allowed then Inr False
      else if countries = [] then Inr True
      else res_bind (text_set shown allowed) (\<lambda>cs.
        Inr (\<not> list_all (\<lambda>c. upper c \<in> set (map upper cs)) countries)))"

text \<open>\<open>countries\<close> and \<open>placement_ids\<close> are empty when they are not given.\<close>

definition entry_in_scope ::
  "(json \<Rightarrow> string) \<Rightarrow> iso_parser \<Rightarrow> int \<Rightarrow> string list \<Rightarrow> string list \<Rightarrow> dict \<Rightarrow> py_exn + scope_reason option"
where
  "entry_in_scope shown fromiso now countries placement_ids entry =
     (let start = parse_time fromiso (getj entry ''effective_from'');
          stop = parse_time fromiso (getj entry ''effective_until'')
      in if (case start of Some s \<Rightarrow> now < s | None \<Rightarrow> False) then Inr (Some NotYetEffective)
         else if (case stop of Some e \<Rightarrow> e \<le> now | None \<Rightarrow> False) then Inr (Some Expired)
         else if truthy (getj entry ''collections'') then Inr (Some CollectionScoped)
         else
           res_bind (outside_countries shown countries (getj entry ''countries'')) (\<lambda>outside.
             if outside then Inr (Some CountryScoped)
             else
               res_bind (text_set shown (getj entry ''placement_ids'')) (\<lambda>placements.
                 if placements \<noteq> [] \<and>
                    \<not> (placement_ids \<noteq> [] \<and> list_all (\<lambda>p. p \<in> set placements) placement_ids)
                 then Inr (Some PlacementScoped)
                 else if truthy (getj entry ''placement_tags'') \<and> placements = []
                 then Inr (Some PlacementTagScoped)
                 else Inr None)))"

definition product_placement_ids :: "(json \<Rightarrow> string) \<Rightarrow> dict \<Rightarrow> string list" where
  "product_placement_ids shown product =
     (case getj product ''placements'' of
        JArr ps \<Rightarrow>
          map (\<lambda>p. text_of shown (getj (obj_of p) ''placement_id''))
            (filter (\<lambda>p. is_obj p \<and> truthy (getj (obj_of p) ''placement_id'')) ps)
      | _ \<Rightarrow> [])"

section \<open>Documents and their cache\<close>

definition well_known_policy :: fetch_policy where
  "well_known_policy = \<lparr>max_bytes = 4194304, rule = SAME_SITE, max_redirects = 3, max_depth = 32\<rparr>"

definition explicit_policy :: fetch_policy where
  "explicit_policy = \<lparr>max_bytes = 4194304, rule = NO_REDIRECT, max_redirects = 3, max_depth = 32\<rparr>"

type_synonym fetcher = "string \<Rightarrow> fetch_policy \<Rightarrow> fetch_failure + json"

definition load_adagents :: "fetcher \<Rightarrow> string \<Rightarrow> fetch_failure + dict" where
  "load_adagents fetch domain =
     res_bind (fetch (''https://'' @ domain @ ''/.well-known/adagents.json'') well_known_policy) (\<lambda>v.
       if \<not> is_obj v then Inl (FetchFailed (BadDocument ''not a JSON object''))
       else
         res_bind
           (case getj (obj_of v) ''authoritative_location'' of
              JStr loc \<Rightarrow>
                (if \<not> starts_with loc ''https://''
                 then Inl (FetchFailed (BadDocument ''authoritative_location must be HTTPS''))
                 else res_bind (fetch loc explicit_policy) (\<lambda>w.
                   if \<not> is_obj w \<or> has_key (obj_of w) ''authoritative_location''
                   then Inl (FetchFailed (BadDocument ''nested reference'')) else Inr (obj_of w)))
            | _ \<Rightarrow> Inr (obj_of v)) (\<lambda>document.
           if \<not> is_arr (getj document ''authorized_agents'')
           then Inl (FetchFailed (BadDocument ''no authorized_agents array''))
           else Inr document))"

record adagents_entry =
  entry_expires :: rat
  entry_document :: "fetch_error + dict"

record authorizer =
  positive_ttl :: rat
  negative_ttl :: rat
  adagents_cache :: "(string \<times> adagents_entry) list"

text \<open>
  The clock reads \<open>t0\<close> at the lookup and \<open>t1\<close> when the result is stored; \<open>loaded\<close> is what \<open>_load\<close> gives when it runs.  An
  exception that is no \<open>FetchError\<close> is not cached.
\<close>

definition refresh_adagents ::
  "rat \<Rightarrow> fetch_failure + dict \<Rightarrow> string \<Rightarrow> authorizer \<Rightarrow> (fetch_failure + dict) \<times> authorizer" where
  "refresh_adagents t1 loaded key a =
     (case loaded of
        Inl (FetchFailed e) \<Rightarrow>
          (Inl (FetchFailed e),
           a\<lparr>adagents_cache := dset key \<lparr>entry_expires = t1 + negative_ttl a, entry_document = Inl e\<rparr>
               (adagents_cache a)\<rparr>)
      | Inl (FetchCrash e) \<Rightarrow> (Inl (FetchCrash e), a)
      | Inr d \<Rightarrow>
          (Inr d,
           a\<lparr>adagents_cache := dset key \<lparr>entry_expires = t1 + positive_ttl a, entry_document = Inr d\<rparr>
               (adagents_cache a)\<rparr>))"

definition get_adagents_with ::
  "rat \<Rightarrow> rat \<Rightarrow> fetch_failure + dict \<Rightarrow> string \<Rightarrow> authorizer \<Rightarrow> (fetch_failure + dict) \<times> authorizer"
where
  "get_adagents_with t0 t1 loaded key a =
     (case map_of (adagents_cache a) key of
        Some entry \<Rightarrow>
          if entry_expires entry > t0 then
            ((case entry_document entry of Inr d \<Rightarrow> Inr d | Inl e \<Rightarrow> Inl (FetchFailed e)), a)
          else refresh_adagents t1 loaded key a
      | None \<Rightarrow> refresh_adagents t1 loaded key a)"

record adagents_env =
  lookup_time :: rat
  store_time :: rat
  fetch_document :: fetcher

definition get_adagents ::
  "adagents_env \<Rightarrow> string \<Rightarrow> authorizer \<Rightarrow> (fetch_failure + dict) \<times> authorizer" where
  "get_adagents env domain a =
     get_adagents_with (lookup_time env) (store_time env)
       (load_adagents (fetch_document env) (lower domain)) (lower domain) a"

section \<open>Verification\<close>

fun collect_grants ::
  "(json \<Rightarrow> string) \<Rightarrow> iso_parser \<Rightarrow> int \<Rightarrow> string list \<Rightarrow> string list \<Rightarrow> string \<Rightarrow> dict list \<Rightarrow> dict list \<Rightarrow>
     py_exn + string list \<times> scope_reason list" where
  "collect_grants shown fromiso now countries placement_ids domain props [] = Inr ([], [])"
| "collect_grants shown fromiso now countries placement_ids domain props (entry # entries) =
     res_bind (entry_in_scope shown fromiso now countries placement_ids entry) (\<lambda>reason.
     res_bind (case reason of Some w \<Rightarrow> Inr [] | None \<Rightarrow> granted_ids shown entry domain props) (\<lambda>ids.
     res_bind (collect_grants shown fromiso now countries placement_ids domain props entries) (\<lambda>(granted, reasons).
       Inr (ids @ granted, (case reason of Some w \<Rightarrow> w # reasons | None \<Rightarrow> reasons)))))"

definition listed_entries :: "(string \<Rightarrow> string option) \<Rightarrow> string \<Rightarrow> dict \<Rightarrow> dict list" where
  "listed_entries idna seller document =
     map obj_of (filter (\<lambda>e. is_obj e \<and> is_str (getj (obj_of e) ''url'') \<and>
         urls_equivalent idna (str_of (getj (obj_of e) ''url'')) seller)
       (arr_of (getj document ''authorized_agents'')))"

definition revoked_domains :: "(json \<Rightarrow> string) \<Rightarrow> dict \<Rightarrow> py_exn + string list" where
  "revoked_domains shown document =
     res_bind (iter_or_empty (getj document ''revoked_publisher_domains'')) (\<lambda>rs.
       Inr (map (\<lambda>r. lower (text_of shown (get_or (obj_of r) ''publisher_domain'' (JStr []))))
         (filter is_obj rs)))"

definition minus_list :: "string list \<Rightarrow> string list \<Rightarrow> string list" where
  "minus_list xs ys = filter (\<lambda>x. x \<notin> set ys) xs"

text \<open>What \<open>_verify_selector\<close> does once it has the document.\<close>

definition verify_document ::
  "(json \<Rightarrow> string) \<Rightarrow> iso_parser \<Rightarrow> (string \<Rightarrow> string option) \<Rightarrow> int \<Rightarrow> string \<Rightarrow> string list \<Rightarrow> string list \<Rightarrow>
     dict \<Rightarrow> string \<Rightarrow> dict \<Rightarrow> auth_error + unit" where
  "verify_document shown fromiso idna now seller countries placement_ids selector domain document =
     res_bind (crashing (revoked_domains shown document)) (\<lambda>revoked.
     if domain \<in> set revoked then Inl (NotAuthorized (Some domain) DomainRevoked)
     else
       res_bind (crashing (properties_of document)) (\<lambda>props.
       res_bind (crashing (claimed_ids shown selector props)) (\<lambda>claimed.
       if claimed = [] then Inl (NotAuthorized (Some domain) NothingClaimed)
       else
         let unknown = minus_list claimed (map (property_id shown) props);
             entries = listed_entries idna seller document
         in if unknown \<noteq> [] \<and> getj selector ''selection_type'' = JStr ''by_id''
            then Inl (NotAuthorized (Some domain) (UnknownProperties unknown))
            else if entries = [] then Inl (NotAuthorized (Some domain) AgentNotListed)
            else
              res_bind (crashing (collect_grants shown fromiso now countries placement_ids domain props entries))
                (\<lambda>(granted, reasons).
                   let missing = minus_list claimed granted
                   in if missing = [] then Inr ()
                      else Inl (NotAuthorized (Some domain)
                        (if reasons \<noteq> [] then OutOfScope reasons else NotGranted missing))))))"

definition verify_selector ::
  "(json \<Rightarrow> string) \<Rightarrow> iso_parser \<Rightarrow> (string \<Rightarrow> string option) \<Rightarrow> int \<Rightarrow> adagents_env \<Rightarrow> string \<Rightarrow> string list \<Rightarrow>
     string list \<Rightarrow> json \<Rightarrow> authorizer \<Rightarrow> (auth_error + unit) \<times> authorizer" where
  "verify_selector shown fromiso idna now env seller countries placement_ids selector a =
     (if \<not> is_obj selector \<or> \<not> is_str (getj (obj_of selector) ''publisher_domain'')
      then (Inl (NotAuthorized None BadSelector), a)
      else
        let domain = lower (str_of (getj (obj_of selector) ''publisher_domain''))
        in case get_adagents env domain a of
             (Inl (FetchFailed e), a') \<Rightarrow> (Inl (NotAuthorized (Some domain) (AdagentsUnavailable e)), a')
           | (Inl (FetchCrash e), a') \<Rightarrow> (Inl (AuthCrash e), a')
           | (Inr document, a') \<Rightarrow>
               (verify_document shown fromiso idna now seller countries placement_ids (obj_of selector) domain document, a'))"

text \<open>Each selector is verified in its own environment, numbered by its position.\<close>

fun verify_selectors ::
  "(json \<Rightarrow> string) \<Rightarrow> iso_parser \<Rightarrow> (string \<Rightarrow> string option) \<Rightarrow> int \<Rightarrow> (nat \<Rightarrow> adagents_env) \<Rightarrow> string \<Rightarrow>
     string list \<Rightarrow> string list \<Rightarrow> nat \<Rightarrow> json list \<Rightarrow> authorizer \<Rightarrow> (auth_error + unit) \<times> authorizer" where
  "verify_selectors shown fromiso idna now envs seller countries placement_ids i [] a = (Inr (), a)"
| "verify_selectors shown fromiso idna now envs seller countries placement_ids i (sel # sels) a =
     (case verify_selector shown fromiso idna now (envs i) seller countries placement_ids sel a of
        (Inl e, a') \<Rightarrow> (Inl e, a')
      | (Inr _, a') \<Rightarrow>
          verify_selectors shown fromiso idna now envs seller countries placement_ids (Suc i) sels a')"

definition verify_product ::
  "(json \<Rightarrow> string) \<Rightarrow> iso_parser \<Rightarrow> (string \<Rightarrow> string option) \<Rightarrow> int \<Rightarrow> (nat \<Rightarrow> adagents_env) \<Rightarrow> string \<Rightarrow>
     dict \<Rightarrow> string list \<Rightarrow> authorizer \<Rightarrow> (auth_error + unit) \<times> authorizer" where
  "verify_product shown fromiso idna now envs seller product countries a =
     (case getj product ''publisher_properties'' of
        JArr (s # ss) \<Rightarrow>
          verify_selectors shown fromiso idna now envs seller countries (product_placement_ids shown product) 0 (s # ss) a
      | _ \<Rightarrow> (Inl (NotAuthorized None NoPublisherProperties), a))"

section \<open>The cache\<close>

definition adagents_answer :: "adagents_entry \<Rightarrow> fetch_failure + dict" where
  "adagents_answer entry = (case entry_document entry of Inr d \<Rightarrow> Inr d | Inl e \<Rightarrow> Inl (FetchFailed e))"

definition adagents_lifetime :: "authorizer \<Rightarrow> fetch_failure + dict \<Rightarrow> rat option" where
  "adagents_lifetime a r =
     (case r of Inr d \<Rightarrow> Some (positive_ttl a) | Inl (FetchFailed e) \<Rightarrow> Some (negative_ttl a)
      | Inl (FetchCrash e) \<Rightarrow> None)"

lemma refresh_adagents_fst [simp]: "fst (refresh_adagents t1 r key a) = r"
  by (auto simp: refresh_adagents_def split: sum.split fetch_failure.split)

lemma get_adagents_miss:
  "(\<And>v. map_of (adagents_cache a) key = Some v \<Longrightarrow> \<not> t0 < entry_expires v) \<Longrightarrow>
     get_adagents_with t0 t1 r key a = refresh_adagents t1 r key a"
  by (cases "map_of (adagents_cache a) key") (auto simp: get_adagents_with_def)

interpretation adagents: ttl_cache "\<lambda>k a. map_of (adagents_cache a) k" entry_expires adagents_answer
  adagents_lifetime get_adagents_with
proof unfold_locales
  fix k :: string and a :: authorizer and t0 t1 :: rat and r :: "fetch_failure + dict"
  show "map_of (adagents_cache a) k = Some v \<Longrightarrow> t0 < entry_expires v \<Longrightarrow>
      get_adagents_with t0 t1 r k a = (adagents_answer v, a)" for v
    by (simp add: get_adagents_with_def adagents_answer_def)
  show "fst (get_adagents_with t0 t1 r k a) = r"
    if "\<And>v. map_of (adagents_cache a) k = Some v \<Longrightarrow> \<not> t0 < entry_expires v"
    by (subst get_adagents_miss) (use that in auto)
  show "\<exists>v. map_of (adagents_cache (snd (get_adagents_with t0 t1 r k a))) k = Some v \<and>
      entry_expires v = t1 + d \<and> adagents_answer v = r"
    if "\<And>v. map_of (adagents_cache a) k = Some v \<Longrightarrow> \<not> t0 < entry_expires v"
      and "adagents_lifetime a r = Some d" for d
    using that(2) get_adagents_miss [OF that(1)]
    by (auto simp: refresh_adagents_def adagents_lifetime_def adagents_answer_def
        split: sum.splits fetch_failure.splits)
  show "map_of (adagents_cache (snd (get_adagents_with t0 t1 r k a))) k' = map_of (adagents_cache a) k'"
    if "k' \<noteq> k" for k'
    using that
    by (auto simp: get_adagents_with_def refresh_adagents_def split: option.split sum.split fetch_failure.split)
qed

lemma refresh_adagents_ttl [simp]:
  "positive_ttl (snd (refresh_adagents t1 r key a)) = positive_ttl a"
  "negative_ttl (snd (refresh_adagents t1 r key a)) = negative_ttl a"
  by (auto simp: refresh_adagents_def split: sum.split fetch_failure.split)

text \<open>
  A document that was fetched is reused, whatever the publisher serves meanwhile, for exactly
  the configured lifetime (a shorter one for a failure) and asked for again after it, under
  every spelling of the domain; other domains are not affected.
\<close>

theorem adagents_cached_for_ttl:
  assumes "adagents_cache a = []" and "get_adagents env domain a = (r, a1)"
    and "lower domain' = lower domain"
    and life: "life = (case r of Inr d \<Rightarrow> positive_ttl a | Inl x \<Rightarrow> negative_ttl a)"
    and not_crash: "\<And>x. r \<noteq> Inl (FetchCrash x)"
  shows "(lookup_time env' < store_time env + life \<longrightarrow> fst (get_adagents env' domain' a1) = r) \<and>
    (store_time env + life \<le> lookup_time env' \<longrightarrow>
       fst (get_adagents env' domain' a1) = load_adagents (fetch_document env') (lower domain'))"
proof -
  let ?r = "load_adagents (fetch_document env) (lower domain)"
  have cold: "\<And>v. map_of (adagents_cache a) (lower domain) = Some v \<Longrightarrow> \<not> lookup_time env < entry_expires v"
    by (simp add: assms(1))
  have r: "r = ?r" and a1: "a1 = snd (get_adagents_with (lookup_time env) (store_time env) ?r (lower domain) a)"
    using assms(2) adagents.miss [where later = "store_time env" and r = ?r and k = "lower domain" and c = a and
        now = "lookup_time env", OF cold] by (simp_all add: get_adagents_def)
  have "adagents_lifetime a ?r = Some life"
    using not_crash r life by (auto simp: adagents_lifetime_def split: sum.splits fetch_failure.splits)
  from adagents.repeated [OF cold this] adagents.reloaded [OF cold this] show ?thesis
    by (simp add: get_adagents_def a1 r assms(3))
qed

section \<open>Soundness\<close>

text \<open>An entry of the file grants a property to the buy.\<close>

definition entry_grants ::
  "(json \<Rightarrow> string) \<Rightarrow> iso_parser \<Rightarrow> int \<Rightarrow> string list \<Rightarrow> string list \<Rightarrow> string \<Rightarrow> dict list \<Rightarrow> dict \<Rightarrow> string \<Rightarrow> bool"
where
  "entry_grants shown fromiso now countries placement_ids domain props entry x \<longleftrightarrow>
     entry_in_scope shown fromiso now countries placement_ids entry = Inr None \<and>
     (\<exists>ids. granted_ids shown entry domain props = Inr ids \<and> x \<in> set ids)"

lemma collect_grants_set:
  "collect_grants shown fromiso now countries placement_ids domain props entries = Inr (granted, reasons) \<Longrightarrow>
     set granted = {x. \<exists>e \<in> set entries. entry_grants shown fromiso now countries placement_ids domain props e x}"
proof (induction entries arbitrary: granted reasons)
  case (Cons e es)
  then obtain reason ids granted' reasons' where
    r: "entry_in_scope shown fromiso now countries placement_ids e = Inr reason"
    and ids: "(case reason of Some w \<Rightarrow> Inr [] | None \<Rightarrow> granted_ids shown e domain props) = Inr ids"
    and rest: "collect_grants shown fromiso now countries placement_ids domain props es = Inr (granted', reasons')"
    and g: "granted = ids @ granted'"
    by (auto simp: res_bind_Inr_iff)
  have "set ids = {x. entry_grants shown fromiso now countries placement_ids domain props e x}"
    using r ids by (cases reason) (auto simp: entry_grants_def)
  with Cons.IH [OF rest] g show ?case by auto
qed simp

lemma minus_list_Nil: "minus_list xs ys = [] \<longleftrightarrow> set xs \<subseteq> set ys"
  by (auto simp: minus_list_def filter_empty_conv)

text \<open>The authorization a publisher's file has to give: the specification of \<open>_verify_selector\<close>.\<close>

definition file_authorizes ::
  "(json \<Rightarrow> string) \<Rightarrow> iso_parser \<Rightarrow> (string \<Rightarrow> string option) \<Rightarrow> int \<Rightarrow> string \<Rightarrow> string list \<Rightarrow> string list \<Rightarrow>
     dict \<Rightarrow> string \<Rightarrow> dict \<Rightarrow> bool" where
  "file_authorizes shown fromiso idna now seller countries placement_ids selector domain document \<longleftrightarrow>
     (\<exists>revoked props claimed.
        revoked_domains shown document = Inr revoked \<and> domain \<notin> set revoked \<and>
        properties_of document = Inr props \<and> claimed_ids shown selector props = Inr claimed \<and>
        claimed \<noteq> [] \<and>
        (getj selector ''selection_type'' = JStr ''by_id'' \<longrightarrow> set claimed \<subseteq> property_id shown ` set props) \<and>
        (\<forall>x \<in> set claimed. \<exists>e \<in> set (listed_entries idna seller document).
           entry_grants shown fromiso now countries placement_ids domain props e x))"

lemma verify_document_sound:
  assumes "verify_document shown fromiso idna now seller countries placement_ids selector domain document = Inr ()"
  shows "file_authorizes shown fromiso idna now seller countries placement_ids selector domain document"
proof -
  from assms obtain revoked props claimed granted reasons where
    v: "revoked_domains shown document = Inr revoked" "domain \<notin> set revoked"
      "properties_of document = Inr props" "claimed_ids shown selector props = Inr claimed" "claimed \<noteq> []"
      "minus_list claimed (map (property_id shown) props) = [] \<or> getj selector ''selection_type'' \<noteq> JStr ''by_id''"
      "collect_grants shown fromiso now countries placement_ids domain props (listed_entries idna seller document)
         = Inr (granted, reasons)"
      "minus_list claimed granted = []"
    by (auto simp: verify_document_def res_bind_Inr_iff Let_def split: if_splits)
  then show ?thesis
    using collect_grants_set [OF v(7)]
    unfolding file_authorizes_def by (auto simp: minus_list_Nil image_iff subset_iff)
qed

lemma verify_selectors_sound:
  "verify_selectors shown fromiso idna now envs seller countries placement_ids i sels a = (Inr (), a') \<Longrightarrow>
     \<forall>sel \<in> set sels. \<exists>d j b b' document. sel = JObj d \<and> is_str (getj d ''publisher_domain'') \<and>
       get_adagents (envs j) (lower (str_of (getj d ''publisher_domain''))) b = (Inr document, b') \<and>
       file_authorizes shown fromiso idna now seller countries placement_ids d
         (lower (str_of (getj d ''publisher_domain''))) document"
proof (induction sels arbitrary: i a)
  case (Cons sel sels)
  obtain r b' where one: "verify_selector shown fromiso idna now (envs i) seller countries placement_ids sel a = (r, b')"
    by fastforce
  with Cons.prems have r: "r = Inr ()"
    and rest: "verify_selectors shown fromiso idna now envs seller countries placement_ids (Suc i) sels b' = (Inr (), a')"
    by (auto split: sum.splits)
  from one r obtain d where sel: "sel = JObj d" "is_str (getj d ''publisher_domain'')"
    by (cases sel) (auto simp: verify_selector_def split: if_splits)
  from one r sel obtain document where
    "get_adagents (envs i) (lower (str_of (getj d ''publisher_domain''))) a = (Inr document, b')"
    "verify_document shown fromiso idna now seller countries placement_ids d
       (lower (str_of (getj d ''publisher_domain''))) document = Inr ()"
    by (auto simp: verify_selector_def Let_def split: prod.splits sum.splits fetch_failure.splits)
  with sel verify_document_sound Cons.IH [OF rest] show ?case by fastforce
qed simp


section \<open>A window that is not read\<close>

text \<open>
  A grant whose \<open>effective_until\<close> cannot be parsed (or is not a string) never expires: it is
  in scope whenever the same grant without an end is.
\<close>

theorem unreadable_expiry_ignored:
  assumes "parse_time fromiso v = None"
  shows "entry_in_scope shown fromiso now countries placement_ids (dset ''effective_until'' v entry) =
    entry_in_scope shown fromiso now countries placement_ids (dset ''effective_until'' JNull entry)"
proof -
  have "parse_time fromiso JNull = None" by (simp add: parse_time_def)
  with assms show ?thesis by (simp add: entry_in_scope_def cong: if_cong)
qed

lemma unreadable_expiry_ignored_witness:
  "entry_in_scope (\<lambda>x. []) (\<lambda>s. None) 9 [] [] (dset ''effective_until'' (JStr ''2020'') []) =
   entry_in_scope (\<lambda>x. []) (\<lambda>s. None) 9 [] [] (dset ''effective_until'' JNull [])"
  by (rule unreadable_expiry_ignored) (simp add: parse_time_def)

section \<open>A concrete publisher\<close>

abbreviation listed_url :: string where
  "listed_url \<equiv> ''HTTP://u@a.example:80/x/../%7ey?q''"

definition example_file :: dict where
  "example_file =
     [(''authorized_agents'', JArr [JObj [(''url'', JStr listed_url),
        (''authorization_type'', JStr ''property_ids''), (''property_ids'', JArr [JStr ''p1''])]]),
      (''properties'', JArr [JObj [(''property_id'', JStr ''p1'')]])]"

definition example_product :: dict where
  "example_product =
     [(''publisher_properties'', JArr [JObj [(''publisher_domain'', JStr ''p.example''),
        (''selection_type'', JStr ''all'')]])]"

definition example_fetching :: adagents_env where
  "example_fetching = \<lparr>lookup_time = 0, store_time = 1, fetch_document = (\<lambda>u p. Inr (JObj example_file))\<rparr>"

definition cold_authorizer :: authorizer where
  "cold_authorizer = \<lparr>positive_ttl = 86400, negative_ttl = 3600, adagents_cache = []\<rparr>"

lemma example_lower: "lower ''p.example'' = ''p.example''"
  by code_simp

lemma example_listed: "listed_entries example_idna ''http://a.example/~y?q'' example_file =
    [[(''url'', JStr listed_url), (''authorization_type'', JStr ''property_ids''),
      (''property_ids'', JArr [JStr ''p1''])]]"
proof -
  have "urls_equivalent example_idna listed_url ''http://a.example/~y?q''"
    using canonicalize_url_fixpoint [OF example_canonical example_pct_ok example_idna_stable] example_canonical
    by (simp add: urls_equivalent_def ends_with_def)
  then show ?thesis by (simp add: listed_entries_def example_file_def getj_def get_or_def)
qed

lemma example_document:
  "get_adagents example_fetching ''p.example'' cold_authorizer =
     (Inr example_file, cold_authorizer\<lparr>adagents_cache :=
        [(''p.example'', \<lparr>entry_expires = 86401, entry_document = Inr example_file\<rparr>)]\<rparr>)"
  by (simp add: get_adagents_def get_adagents_with_def refresh_adagents_def load_adagents_def example_lower
      example_fetching_def cold_authorizer_def) (simp add: example_file_def getj_def get_or_def)

lemma example_verified:
  "verify_product (\<lambda>x. []) (\<lambda>s. None) example_idna 0 (\<lambda>i. example_fetching) ''http://a.example/~y?q''
     example_product [] cold_authorizer = (Inr (), cold_authorizer\<lparr>adagents_cache :=
        [(''p.example'', \<lparr>entry_expires = 86401, entry_document = Inr example_file\<rparr>)]\<rparr>)"
proof -
  let ?props = "[[(''property_id'', JStr ''p1'')]]"
  let ?sel = "[(''publisher_domain'', JStr ''p.example''), (''selection_type'', JStr ''all'')]"
  have "revoked_domains (\<lambda>x. []) example_file = Inr []" "properties_of example_file = Inr ?props"
    by (simp_all add: revoked_domains_def properties_of_def iter_or_empty_def example_file_def getj_def get_or_def
        valid_property_def)
  moreover have "claimed_ids (\<lambda>x. []) ?sel ?props = Inr [''p1'']"
    by (simp add: claimed_ids_def property_id_def text_of_def getj_def get_or_def Let_def)
  ultimately have "verify_document (\<lambda>x. []) (\<lambda>s. None) example_idna 0 ''http://a.example/~y?q'' [] [] ?sel
      ''p.example'' example_file = Inr ()"
    by (simp add: verify_document_def example_listed Let_def entry_in_scope_def parse_time_def getj_def get_or_def
        outside_countries_def text_set_def iter_or_empty_def granted_ids_def text_of_def minus_list_def)
  then show ?thesis
    by (simp add: verify_product_def example_product_def verify_selector_def Let_def getj_def get_or_def
        example_lower example_document product_placement_ids_def)
qed


lemma adagents_cached_for_ttl_witness:
  "\<exists>a1. get_adagents example_fetching ''p.example'' cold_authorizer = (Inr example_file, a1) \<and>
     fst (get_adagents (example_fetching\<lparr>lookup_time := 86400, fetch_document := (\<lambda>u p. Inr JNull)\<rparr>)
       ''p.example'' a1) = Inr example_file"
  using adagents_cached_for_ttl [OF _ example_document refl refl,
      of "example_fetching\<lparr>lookup_time := 86400, fetch_document := (\<lambda>u p. Inr JNull)\<rparr>"] example_document
  by (auto simp: cold_authorizer_def example_fetching_def)

end
