(* ===== verification/Brand_Resolver.thy ===== *)
theory Brand_Resolver
  imports Adagents "HOL-Library.Char_ord" "HOL-Library.List_Lexorder"
begin

text \<open>
  \<open>src/brand/resolver.py\<close>: resolving a brand domain through its \<open>brand.json\<close> documents, and
  whether an operator may act for the brand.  The fetcher, \<open>str\<close> on values that are not strings
  and the ISO parser are arguments; each computation also tells which URLs it fetched.
\<close>

section \<open>Domains\<close>

definition normalize_domain :: "string \<Rightarrow> string" where
  "normalize_domain v = remove_suffix (lower (strip v)) ''.''"

text \<open>\<open>normalize_domain(str(d.get(k, "")))\<close>\<close>

definition domain_at :: "(json \<Rightarrow> string) \<Rightarrow> dict \<Rightarrow> string \<Rightarrow> string" where
  "domain_at shown d k = normalize_domain (text_of shown (get_or d k (JStr [])))"

definition truthy_item :: "string \<Rightarrow> json \<Rightarrow> bool" where
  "truthy_item k v = (is_obj v \<and> truthy (getj (obj_of v) k))"

text \<open>A brand reference; \<open>countries\<close> are stripped, upper-cased, sorted and made unique.\<close>

definition sorted_unique :: "string list \<Rightarrow> string list" where
  "sorted_unique xs = sort (remdups xs)"

definition build_brand_ref :: "string \<Rightarrow> string \<Rightarrow> string list \<Rightarrow> dict" where
  "build_brand_ref domain brand_id countries =
     (let r0 = [(''domain'', JStr (normalize_domain domain))];
          r1 = (if brand_id \<noteq> [] then dset ''brand_id'' (JStr brand_id) r0 else r0)
      in if countries \<noteq> []
         then dset ''countries'' (JArr (map JStr (sorted_unique
                (map (\<lambda>c. upper (strip c)) (filter (\<lambda>c. strip c \<noteq> []) countries))))) r1
         else r1)"

section \<open>Operators\<close>

fun upper_all :: "json list \<Rightarrow> py_exn + string list" where
  "upper_all [] = Inr []"
| "upper_all (JStr s # xs) = res_bind (upper_all xs) (\<lambda>ys. Inr (upper s # ys))"
| "upper_all (x # xs) = Inl AttributeError"

definition before :: "int \<Rightarrow> int option \<Rightarrow> bool" where
  "before now start = (case start of Some s \<Rightarrow> now < s | None \<Rightarrow> False)"

definition at_or_after :: "int \<Rightarrow> int option \<Rightarrow> bool" where
  "at_or_after now stop = (case stop of Some e \<Rightarrow> e \<le> now | None \<Rightarrow> False)"

definition operator_entry_authorizes ::
  "(json \<Rightarrow> string) \<Rightarrow> iso_parser \<Rightarrow> int \<Rightarrow> string \<Rightarrow> json \<Rightarrow> string \<Rightarrow> json \<Rightarrow> dict \<Rightarrow> py_exn + bool" where
  "operator_entry_authorizes shown fromiso now scope countries operator_domain brand_id entry =
     (if domain_at shown entry ''domain'' \<noteq> normalize_domain operator_domain then Inr False
      else case getj entry ''brands'' of
        JArr brands \<Rightarrow>
          if JStr ''*'' \<notin> set brands \<and> (brand_id = JNull \<or> brand_id \<notin> set brands) then Inr False
          else if before now (parse_time fromiso (getj entry ''valid_from'')) then Inr False
          else if at_or_after now (parse_time fromiso (getj entry ''valid_until'')) then Inr False
          else if is_arr (getj entry ''scopes'') \<and> JStr ''all'' \<notin> set (arr_of (getj entry ''scopes'')) \<and>
                  JStr scope \<notin> set (arr_of (getj entry ''scopes'')) then Inr False
          else if arr_of (getj entry ''countries'') \<noteq> [] then
            res_bind (iter_or_empty countries) (\<lambda>cs.
            res_bind (upper_all cs) (\<lambda>requested.
              Inr (requested \<noteq> [] \<and> list_all (\<lambda>c. c \<in> set (map (\<lambda>a. upper (text_of shown a))
                (arr_of (getj entry ''countries'')))) requested)))
          else Inr True
      | _ \<Rightarrow> Inr False)"

section \<open>Documents\<close>

datatype brand_code =
    BrandJsonUnavailable fetch_error | BrandJsonMalformed | BrandJsonRedirectLoop | BrandNotInPortfolio
  | BrandAmbiguous | BrandAgentOnly | HouseNotPortfolio | BrandRequired | OperatorNotAuthorized
  | RelationshipUnverified

datatype brand_failure = BrandError brand_code string | BrandCrash py_exn

definition brand_crash :: "py_exn + 'a \<Rightarrow> brand_failure + 'a" where
  "brand_crash r = (case r of Inl e \<Rightarrow> Inl (BrandCrash e) | Inr x \<Rightarrow> Inr x)"

definition max_document_hops :: nat where
  "max_document_hops = 3"

definition brand_well_known :: fetch_policy where
  "brand_well_known = \<lparr>max_bytes = 2097152, rule = WWW_ONLY, max_redirects = 3, max_depth = 32\<rparr>"

definition brand_explicit :: fetch_policy where
  "brand_explicit = \<lparr>max_bytes = 2097152, rule = NO_REDIRECT, max_redirects = 3, max_depth = 32\<rparr>"

definition brand_json_url :: "string \<Rightarrow> string" where
  "brand_json_url domain = ''https://'' @ domain @ ''/.well-known/brand.json''"

definition get_document :: "fetcher \<Rightarrow> string \<Rightarrow> fetch_policy \<Rightarrow> string \<Rightarrow> brand_failure + dict" where
  "get_document fetch url pol brand_domain =
     (case fetch url pol of
        Inl (FetchFailed e) \<Rightarrow> Inl (BrandError (BrandJsonUnavailable e) brand_domain)
      | Inl (FetchCrash e) \<Rightarrow> Inl (BrandCrash e)
      | Inr (JObj d) \<Rightarrow> Inr d
      | Inr v \<Rightarrow> Inl (BrandError BrandJsonMalformed brand_domain))"

text \<open>The loop of \<open>_follow\<close>, with the URLs fetched.\<close>

fun follow_loop ::
  "fetcher \<Rightarrow> string \<Rightarrow> nat \<Rightarrow> dict \<Rightarrow> string \<Rightarrow> (brand_failure + dict \<times> string) \<times> string list" where
  "follow_loop fetch brand_domain 0 doc current = (Inl (BrandError BrandJsonRedirectLoop brand_domain), [])"
| "follow_loop fetch brand_domain (Suc n) doc current =
     (case getj doc ''authoritative_location'' of
        JStr loc \<Rightarrow>
          if \<not> starts_with loc ''https://'' then (Inl (BrandError BrandJsonMalformed brand_domain), [])
          else (case get_document fetch loc brand_explicit brand_domain of
                  Inl e \<Rightarrow> (Inl e, [loc])
                | Inr doc' \<Rightarrow>
                    (case follow_loop fetch brand_domain n doc' current of (res, urls) \<Rightarrow> (res, loc # urls)))
      | _ \<Rightarrow>
          (case getj doc ''house'' of
             JStr house \<Rightarrow>
               let current' = normalize_domain house; url = brand_json_url current'
               in (case get_document fetch url brand_well_known brand_domain of
                     Inl e \<Rightarrow> (Inl e, [url])
                   | Inr doc' \<Rightarrow>
                       (case follow_loop fetch brand_domain n doc' current' of (res, urls) \<Rightarrow> (res, url # urls)))
           | _ \<Rightarrow> (Inr (doc, current), [])))"

definition follow_brand :: "fetcher \<Rightarrow> string \<Rightarrow> string \<Rightarrow> (brand_failure + dict \<times> string) \<times> string list" where
  "follow_brand fetch domain brand_domain =
     (case get_document fetch (brand_json_url domain) brand_well_known brand_domain of
        Inl e \<Rightarrow> (Inl e, [brand_json_url domain])
      | Inr doc \<Rightarrow>
          (case follow_loop fetch brand_domain (max_document_hops + 1) doc domain of
             (res, urls) \<Rightarrow> (res, brand_json_url domain # urls)))"

definition is_house_portfolio :: "dict \<Rightarrow> bool" where
  "is_house_portfolio doc \<longleftrightarrow>
     is_obj (getj doc ''house'') \<and> (has_key doc ''brands'' \<or> has_key doc ''brand_refs'')"

definition is_brand_canonical :: "dict \<Rightarrow> bool" where
  "is_brand_canonical doc \<longleftrightarrow>
     has_key doc ''id'' \<and> has_key doc ''names'' \<and> \<not> is_obj (getj doc ''house'')"

definition property_domains :: "(json \<Rightarrow> string) \<Rightarrow> dict \<Rightarrow> py_exn + string list" where
  "property_domains shown brand =
     res_bind (iter_or_empty (getj brand ''properties'')) (\<lambda>ps.
       Inr (map (\<lambda>p. remove_prefix (domain_at shown (obj_of p) ''identifier'') ''www.'')
         (filter (\<lambda>p. is_obj p \<and> getj (obj_of p) ''type'' = JStr ''website'' \<and>
            truthy (getj (obj_of p) ''identifier'')) ps)))"

section \<open>Resolution\<close>

record brand_resolution =
  br_domain :: string
  br_kind :: string
  br_brand_id :: json
  br_house_domain :: "string option"
  br_operators :: "dict list"
  br_verified :: bool
  br_brand_ids :: "string list"

text \<open>A failure of the package's own kind counts as not reciprocated.\<close>

definition leaf_reciprocates ::
  "(json \<Rightarrow> string) \<Rightarrow> fetcher \<Rightarrow> string \<Rightarrow> string \<Rightarrow> string \<Rightarrow> brand_failure + bool" where
  "leaf_reciprocates shown fetch leaf_domain house_domain query =
     (case get_document fetch (brand_json_url leaf_domain) brand_well_known query of
        Inl (BrandError c d) \<Rightarrow> Inr False
      | Inl (BrandCrash e) \<Rightarrow> Inl (BrandCrash e)
      | Inr leaf \<Rightarrow> Inr (domain_at shown leaf ''house_domain'' = house_domain))"

fun inline_hits :: "(json \<Rightarrow> string) \<Rightarrow> string \<Rightarrow> dict list \<Rightarrow> py_exn + json list" where
  "inline_hits shown query [] = Inr []"
| "inline_hits shown query (b # bs) =
     res_bind (property_domains shown b) (\<lambda>ds.
     res_bind (inline_hits shown query bs) (\<lambda>rest.
       Inr (if query \<in> set ds then getj b ''id'' # rest else rest)))"

definition resolve_portfolio_brand ::
  "(json \<Rightarrow> string) \<Rightarrow> fetcher \<Rightarrow> dict \<Rightarrow> string \<Rightarrow> json \<Rightarrow> brand_failure + json \<times> bool" where
  "resolve_portfolio_brand shown fetch doc query brand_id =
     (let house_domain = domain_at shown (obj_of (getj doc ''house'')) ''domain''
      in res_bind (brand_crash (iter_or_empty (getj doc ''brands''))) (\<lambda>brands.
         res_bind (brand_crash (iter_or_empty (getj doc ''brand_refs''))) (\<lambda>brand_refs.
           let inline = map obj_of (filter (truthy_item ''id'') brands);
               refs = map obj_of (filter (truthy_item ''brand_id'') brand_refs);
               reciprocated = (\<lambda>i leaf. res_bind (leaf_reciprocates shown fetch leaf house_domain query)
                                 (\<lambda>ok. Inr (i, ok)))
           in if truthy brand_id then
                (if list_ex (\<lambda>b. getj b ''id'' = brand_id) inline then Inr (brand_id, True)
                 else case List.find (\<lambda>r. getj r ''brand_id'' = brand_id) refs of
                   None \<Rightarrow> Inl (BrandError BrandNotInPortfolio query)
                 | Some r \<Rightarrow> reciprocated brand_id (domain_at shown r ''domain''))
              else
                res_bind (brand_crash (inline_hits shown query inline)) (\<lambda>hits.
                  let ref_hits = filter (\<lambda>r. domain_at shown r ''domain'' = query) refs
                  in if 1 < length hits + length ref_hits then Inl (BrandError BrandAmbiguous query)
                     else case hits of
                       h # _ \<Rightarrow> Inr (h, True)
                     | [] \<Rightarrow>
                         (case ref_hits of
                            r # _ \<Rightarrow> reciprocated (getj r ''brand_id'') query
                          | [] \<Rightarrow>
                              if length inline + length refs = 1 \<and> query = house_domain then
                                (case inline of
                                   b # _ \<Rightarrow> Inr (getj b ''id'', True)
                                 | [] \<Rightarrow> reciprocated (getj (hd refs) ''brand_id'')
                                           (domain_at shown (hd refs) ''domain''))
                              else Inr (JNull, query = house_domain))))))"

definition operators_of :: "dict \<Rightarrow> py_exn + dict list" where
  "operators_of doc =
     res_bind (iter_or_empty (getj doc ''authorized_operators'')) (\<lambda>os. Inr (map obj_of (filter is_obj os)))"

definition house_lists_brand :: "(json \<Rightarrow> string) \<Rightarrow> string \<Rightarrow> string \<Rightarrow> json \<Rightarrow> bool" where
  "house_lists_brand shown domain leaf_id r =
     (is_obj r \<and> domain_at shown (obj_of r) ''domain'' = domain \<and> getj (obj_of r) ''brand_id'' = JStr leaf_id)"

definition resolve_canonical ::
  "(json \<Rightarrow> string) \<Rightarrow> fetcher \<Rightarrow> dict \<Rightarrow> string \<Rightarrow> json \<Rightarrow> brand_failure + brand_resolution" where
  "resolve_canonical shown fetch doc domain brand_id =
     (let leaf_id = text_of shown (getj doc ''id'')
      in if truthy brand_id \<and> brand_id \<noteq> JStr leaf_id then Inl (BrandError BrandNotInPortfolio domain)
         else case getj doc ''house_domain'' of
           JStr house_raw \<Rightarrow>
             res_bind (fst (follow_brand fetch (normalize_domain house_raw) domain)) (\<lambda>(house_doc, house_domain).
               if \<not> is_house_portfolio house_doc then Inl (BrandError HouseNotPortfolio domain)
               else
                 res_bind (brand_crash (iter_or_empty (getj house_doc ''brand_refs''))) (\<lambda>refs.
                 res_bind (brand_crash (operators_of house_doc)) (\<lambda>ops.
                   Inr \<lparr>br_domain = domain, br_kind = ''brand_canonical'', br_brand_id = JStr leaf_id,
                        br_house_domain = Some (normalize_domain (text_of shown
                          (get_or (obj_of (getj house_doc ''house'')) ''domain'' (JStr house_domain)))),
                        br_operators = ops,
                        br_verified = list_ex (house_lists_brand shown domain leaf_id) refs,
                        br_brand_ids = []\<rparr>)))
         | _ \<Rightarrow>
             Inr \<lparr>br_domain = domain, br_kind = ''brand_canonical'', br_brand_id = JStr leaf_id,
                  br_house_domain = None, br_operators = [], br_verified = False, br_brand_ids = []\<rparr>)"

definition resolve_uncached ::
  "(json \<Rightarrow> string) \<Rightarrow> fetcher \<Rightarrow> string \<Rightarrow> json \<Rightarrow> brand_failure + brand_resolution" where
  "resolve_uncached shown fetch domain brand_id =
     res_bind (fst (follow_brand fetch domain domain)) (\<lambda>(doc, doc_domain).
       if is_house_portfolio doc then
         res_bind (resolve_portfolio_brand shown fetch doc domain brand_id) (\<lambda>(resolved_id, verified).
         res_bind (brand_crash (operators_of doc)) (\<lambda>ops.
         res_bind (brand_crash (iter_or_empty (getj doc ''brands''))) (\<lambda>brands.
           Inr \<lparr>br_domain = domain, br_kind = ''house_portfolio'', br_brand_id = resolved_id,
                br_house_domain = Some (normalize_domain (text_of shown
                  (get_or (obj_of (getj doc ''house'')) ''domain'' (JStr doc_domain)))),
                br_operators = ops, br_verified = verified,
                br_brand_ids = map (\<lambda>b. text_of shown (getj (obj_of b) ''id'')) (filter is_obj brands)\<rparr>)))
       else if is_brand_canonical doc then resolve_canonical shown fetch doc domain brand_id
       else if truthy (getj doc ''agents'') \<or> truthy (getj doc ''brand_agent'')
         then Inl (BrandError BrandAgentOnly domain)
       else Inl (BrandError BrandJsonMalformed domain))"

section \<open>The cache\<close>

record brand_entry =
  brand_expires :: rat
  brand_answer :: "brand_failure + brand_resolution"

record brand_resolver =
  brand_ttl :: rat
  brand_negative_ttl :: rat
  brand_cache :: "((string \<times> json) \<times> brand_entry) list"

definition negative_cached :: "brand_code \<Rightarrow> bool" where
  "negative_cached c \<longleftrightarrow>
     (case c of BrandJsonUnavailable e \<Rightarrow> True | BrandJsonMalformed \<Rightarrow> True | BrandJsonRedirectLoop \<Rightarrow> True
      | _ \<Rightarrow> False)"

definition refresh_brand ::
  "rat \<Rightarrow> brand_failure + brand_resolution \<Rightarrow> string \<times> json \<Rightarrow> brand_resolver \<Rightarrow>
     (brand_failure + brand_resolution) \<times> brand_resolver" where
  "refresh_brand later resolved key r =
     (case resolved of
        Inl (BrandError c d) \<Rightarrow>
          (resolved,
           if negative_cached c
           then r\<lparr>brand_cache := dset key \<lparr>brand_expires = later + brand_negative_ttl r, brand_answer = resolved\<rparr>
                  (brand_cache r)\<rparr>
           else r)
      | Inl (BrandCrash e) \<Rightarrow> (resolved, r)
      | Inr b \<Rightarrow>
          (resolved,
           r\<lparr>brand_cache := dset key \<lparr>brand_expires = later + brand_ttl r, brand_answer = resolved\<rparr>
               (brand_cache r)\<rparr>))"

text \<open>
  \<open>resolved\<close> is what \<open>_resolve_uncached\<close> gives when it runs; a forced refresh skips the lookup.
\<close>

definition resolve_with ::
  "bool \<Rightarrow> rat \<Rightarrow> rat \<Rightarrow> brand_failure + brand_resolution \<Rightarrow> string \<times> json \<Rightarrow> brand_resolver \<Rightarrow>
     (brand_failure + brand_resolution) \<times> brand_resolver" where
  "resolve_with force now later resolved key r =
     (case map_of (brand_cache r) key of
        Some entry \<Rightarrow>
          if \<not> force \<and> brand_expires entry > now then (brand_answer entry, r)
          else refresh_brand later resolved key r
      | None \<Rightarrow> refresh_brand later resolved key r)"

record brand_env =
  brand_lookup_time :: rat
  brand_store_time :: rat
  brand_now :: int
  brand_fetch :: fetcher

text \<open>A \<open>brand_id\<close> that cannot be hashed raises \<open>TypeError\<close>.\<close>

definition resolve_brand ::
  "(json \<Rightarrow> string) \<Rightarrow> brand_env \<Rightarrow> bool \<Rightarrow> string \<Rightarrow> json \<Rightarrow> brand_resolver \<Rightarrow>
     (brand_failure + brand_resolution) \<times> brand_resolver" where
  "resolve_brand shown env force domain brand_id r =
     (if is_obj brand_id \<or> is_arr brand_id then (Inl (BrandCrash TypeError), r)
      else resolve_with force (brand_lookup_time env) (brand_store_time env)
        (resolve_uncached shown (brand_fetch env) (normalize_domain domain) brand_id)
        (normalize_domain domain, brand_id) r)"

section \<open>Verification\<close>

fun some_entry_authorizes ::
  "(json \<Rightarrow> string) \<Rightarrow> iso_parser \<Rightarrow> int \<Rightarrow> string \<Rightarrow> json \<Rightarrow> string \<Rightarrow> json \<Rightarrow> dict list \<Rightarrow> py_exn + bool" where
  "some_entry_authorizes shown fromiso now scope countries operator_domain brand_id [] = Inr False"
| "some_entry_authorizes shown fromiso now scope countries operator_domain brand_id (e # es) =
     res_bind (operator_entry_authorizes shown fromiso now scope countries operator_domain brand_id e) (\<lambda>ok.
       if ok then Inr True
       else some_entry_authorizes shown fromiso now scope countries operator_domain brand_id es)"

text \<open>\<open>countries\<close> is \<^const>\<open>None\<close> when the argument is not given.\<close>

definition verify_operator ::
  "(json \<Rightarrow> string) \<Rightarrow> iso_parser \<Rightarrow> brand_env \<Rightarrow> bool \<Rightarrow> string \<Rightarrow> json option \<Rightarrow> dict \<Rightarrow> string \<Rightarrow> brand_resolver \<Rightarrow>
     (brand_failure + brand_resolution) \<times> brand_resolver" where
  "verify_operator shown fromiso env force scope countries brand operator_domain r =
     (let domain = domain_at shown brand ''domain''; brand_id = getj brand ''brand_id''
      in if domain = [] then (Inl (BrandError BrandRequired []), r)
         else if normalize_domain operator_domain = domain then
           (Inr \<lparr>br_domain = domain, br_kind = ''self'', br_brand_id = brand_id, br_house_domain = None,
                 br_operators = [], br_verified = True, br_brand_ids = []\<rparr>, r)
         else case resolve_brand shown env force domain brand_id r of
           (Inl e, r') \<Rightarrow> (Inl e, r')
         | (Inr res, r') \<Rightarrow>
             (if br_operators res = [] then Inl (BrandError OperatorNotAuthorized domain)
              else if \<not> br_verified res then Inl (BrandError RelationshipUnverified domain)
              else
                case some_entry_authorizes shown fromiso (brand_now env) scope
                       (case countries of Some c \<Rightarrow> c | None \<Rightarrow> getj brand ''countries'')
                       operator_domain (br_brand_id res) (br_operators res) of
                  Inl e \<Rightarrow> Inl (BrandCrash e)
                | Inr ok \<Rightarrow> (if ok then Inr res else Inl (BrandError OperatorNotAuthorized domain)), r'))"

section \<open>Document hops\<close>

lemma follow_step:
  assumes "follow_loop fetch b (Suc n) doc cur = (res, urls)"
  shows "res = Inr (doc, cur) \<and> urls = [] \<and> \<not> is_str (getj doc ''authoritative_location'') \<and>
      \<not> is_str (getj doc ''house'') \<or>
    (\<exists>e. res = Inl e) \<and> length urls \<le> 1 \<or>
    (\<exists>url doc' cur' rest. urls = url # rest \<and> follow_loop fetch b n doc' cur' = (res, rest))"
  using assms
  by (cases "getj doc ''authoritative_location''"; cases "getj doc ''house''")
     (auto simp: Let_def split: if_splits sum.splits prod.splits)

lemma follow_loop_result:
  "follow_loop fetch b n doc cur = (res, urls) \<Longrightarrow> length urls \<le> n \<and>
     (\<forall>d c. res = Inr (d, c) \<longrightarrow> length urls < n \<and> \<not> is_str (getj d ''authoritative_location'') \<and>
        \<not> is_str (getj d ''house''))"
proof (induction n arbitrary: doc cur res urls)
  case (Suc n)
  from follow_step [OF Suc.prems] Suc.IH show ?case by fastforce
qed simp

text \<open>
  Following a brand's redirects ends: whatever the documents say, at most five are fetched,
  and a document is accepted only when it redirects no further, after at most three hops.
\<close>

theorem follow_brand_bounded:
  assumes "follow_brand fetch domain brand_domain = (res, urls)"
  shows "length urls \<le> 5 \<and> (\<forall>d c. res = Inr (d, c) \<longrightarrow> length urls \<le> 4 \<and>
    \<not> is_str (getj d ''authoritative_location'') \<and> \<not> is_str (getj d ''house''))"
proof (cases "get_document fetch (brand_json_url domain) brand_well_known brand_domain")
  case (Inl e)
  then show ?thesis using assms by (auto simp: follow_brand_def)
next
  case (Inr doc)
  obtain rest where rest: "follow_loop fetch brand_domain 4 doc domain = (res, rest)" and "urls = brand_json_url domain # rest"
    using assms Inr by (auto simp: follow_brand_def max_document_hops_def split: prod.splits)
  with follow_loop_result [OF rest] show ?thesis by auto
qed

lemma follow_brand_bounded_witness:
  "length [brand_json_url ''a'', brand_json_url ''b''] \<le> 5"
proof -
  define docs :: fetcher where
    "docs = (\<lambda>u p. Inr (if u = brand_json_url ''a'' then JObj [(''house'', JStr ''b'')] else JObj []))"
  have n: "normalize_domain ''b'' = ''b''" "normalize_domain ''b'' \<noteq> ''a''" by (code_simp, code_simp)
  have "follow_brand docs ''a'' ''a'' = (Inr ([], ''b''), [brand_json_url ''a'', brand_json_url ''b''])"
    by (simp add: follow_brand_def get_document_def docs_def max_document_hops_def n eval_nat_numeral
        brand_json_url_def getj_def get_or_def)
  from follow_brand_bounded [OF this] show ?thesis by simp
qed

section \<open>The cache\<close>

definition brand_lifetime :: "brand_resolver \<Rightarrow> brand_failure + brand_resolution \<Rightarrow> rat option" where
  "brand_lifetime r res =
     (case res of
        Inr b \<Rightarrow> Some (brand_ttl r)
      | Inl (BrandError c d) \<Rightarrow> (if negative_cached c then Some (brand_negative_ttl r) else None)
      | Inl (BrandCrash e) \<Rightarrow> None)"

lemma refresh_brand_fst [simp]: "fst (refresh_brand later res key r) = res"
  by (auto simp: refresh_brand_def split: sum.split brand_failure.split)

lemma resolve_with_miss:
  "(\<And>v. map_of (brand_cache r) key = Some v \<Longrightarrow> \<not> now < brand_expires v) \<Longrightarrow>
     resolve_with False now later res key r = refresh_brand later res key r"
  by (cases "map_of (brand_cache r) key") (auto simp: resolve_with_def)

interpretation brands: ttl_cache "\<lambda>k r. map_of (brand_cache r) k" brand_expires brand_answer
  brand_lifetime "resolve_with False"
proof unfold_locales
  fix k and r :: brand_resolver and now later :: rat and res :: "brand_failure + brand_resolution"
  show "map_of (brand_cache r) k = Some v \<Longrightarrow> now < brand_expires v \<Longrightarrow>
      resolve_with False now later res k r = (brand_answer v, r)" for v
    by (simp add: resolve_with_def)
  show "fst (resolve_with False now later res k r) = res"
    if "\<And>v. map_of (brand_cache r) k = Some v \<Longrightarrow> \<not> now < brand_expires v"
    by (subst resolve_with_miss) (use that in auto)
  show "\<exists>v. map_of (brand_cache (snd (resolve_with False now later res k r))) k = Some v \<and>
      brand_expires v = later + d \<and> brand_answer v = res"
    if "\<And>v. map_of (brand_cache r) k = Some v \<Longrightarrow> \<not> now < brand_expires v"
      and "brand_lifetime r res = Some d" for d
    using that(2) resolve_with_miss [OF that(1)]
    by (auto simp: refresh_brand_def brand_lifetime_def split: sum.splits brand_failure.splits if_splits)
  show "map_of (brand_cache (snd (resolve_with False now later res k r))) k' = map_of (brand_cache r) k'"
    if "k' \<noteq> k" for k'
    using that
    by (auto simp: resolve_with_def refresh_brand_def split: option.split sum.split brand_failure.split)
qed

section \<open>Soundness\<close>

lemma some_entry_authorizes_iff:
  "some_entry_authorizes shown fromiso now scope countries operator_domain brand_id es = Inr True \<Longrightarrow>
     \<exists>e \<in> set es. operator_entry_authorizes shown fromiso now scope countries operator_domain brand_id e = Inr True"
  by (induction es) (auto simp: res_bind_Inr_iff split: if_splits)

lemma operator_entry_sound:
  assumes "operator_entry_authorizes shown fromiso now scope countries operator_domain brand_id e = Inr True"
  shows "domain_at shown e ''domain'' = normalize_domain operator_domain \<and>
    (\<exists>brands. getj e ''brands'' = JArr brands \<and>
       (JStr ''*'' \<in> set brands \<or> brand_id \<noteq> JNull \<and> brand_id \<in> set brands)) \<and>
    (\<forall>s. parse_time fromiso (getj e ''valid_from'') = Some s \<longrightarrow> s \<le> now) \<and>
    (\<forall>s. parse_time fromiso (getj e ''valid_until'') = Some s \<longrightarrow> now < s) \<and>
    (is_arr (getj e ''scopes'') \<longrightarrow>
       JStr ''all'' \<in> set (arr_of (getj e ''scopes'')) \<or> JStr scope \<in> set (arr_of (getj e ''scopes'')))"
  using assms
  by (auto simp: operator_entry_authorizes_def before_def at_or_after_def split: if_splits json.splits option.splits)


section \<open>Verified relationships\<close>

text \<open>
  A canonical brand document never brings operators on its own word: if such a resolution
  lists any operator as verified, they come from a house portfolio whose \<open>brand_refs\<close> name this
  domain with this brand id; without a house there are none.
\<close>

theorem canonical_brand_reciprocated:
  assumes "resolve_canonical shown fetch doc domain brand_id = Inr res"
  shows "if is_str (getj doc ''house_domain'')
    then \<exists>house d refs. fst (follow_brand fetch (normalize_domain (str_of (getj doc ''house_domain''))) domain) = Inr (house, d) \<and>
      is_house_portfolio house \<and> operators_of house = Inr (br_operators res) \<and>
      iter_or_empty (getj house ''brand_refs'') = Inr refs \<and>
      (br_verified res \<longleftrightarrow> list_ex (\<lambda>x. is_obj x \<and> domain_at shown (obj_of x) ''domain'' = domain \<and>
         JStr (text_of shown (getj doc ''id'')) = getj (obj_of x) ''brand_id'') refs)
    else br_operators res = [] \<and> \<not> br_verified res"
proof (cases "getj doc ''house_domain''")
  case (JStr h)
  with assms obtain house d refs where
    f: "fst (follow_brand fetch (normalize_domain h) domain) = Inr (house, d)" "is_house_portfolio house"
    and refs: "iter_or_empty (getj house ''brand_refs'') = Inr refs"
    and ops: "operators_of house = Inr (br_operators res)"
    and ver: "br_verified res = list_ex (house_lists_brand shown domain (text_of shown (getj doc ''id''))) refs"
    by (auto simp: resolve_canonical_def Let_def res_bind_Inr_iff brand_crash_def split: if_splits sum.splits prod.splits)
  have "house_lists_brand shown domain (text_of shown (getj doc ''id'')) =
      (\<lambda>x. is_obj x \<and> domain_at shown (obj_of x) ''domain'' = domain \<and>
         JStr (text_of shown (getj doc ''id'')) = getj (obj_of x) ''brand_id'')"
    by (auto simp: house_lists_brand_def)
  with f refs ops ver JStr show ?thesis by auto
qed (use assms in \<open>auto simp: resolve_canonical_def Let_def split: if_splits\<close>)

section \<open>A concrete brand\<close>

definition example_house :: dict where
  "example_house =
     [(''house'', JObj [(''domain'', JStr ''h'')]),
      (''brands'', JArr [JObj [(''id'', JStr ''b1'')]]),
      (''brand_refs'', JArr [JObj [(''domain'', JStr ''l''), (''brand_id'', JStr ''b2'')]]),
      (''authorized_operators'', JArr [JObj [(''domain'', JStr ''p''), (''brands'', JArr [JStr ''*''])]])]"

definition example_leaf :: dict where
  "example_leaf = [(''id'', JStr ''b2''), (''names'', JArr []), (''house_domain'', JStr ''h'')]"

definition example_brands :: fetcher where
  "example_brands = (\<lambda>u p. Inr (JObj (if u = brand_json_url ''h'' then example_house else example_leaf)))"

definition example_resolver :: brand_resolver where
  "example_resolver = \<lparr>brand_ttl = 10, brand_negative_ttl = 1, brand_cache = []\<rparr>"

definition example_brand_env :: brand_env where
  "example_brand_env = \<lparr>brand_lookup_time = 0, brand_store_time = 0, brand_now = 0, brand_fetch = example_brands\<rparr>"

lemma example_domains:
  "normalize_domain ''h'' = ''h''" "normalize_domain ''l'' = ''l''" "normalize_domain ''p'' = ''p''"
  "normalize_domain [] = []"
  by (code_simp, code_simp, code_simp, code_simp)

lemma example_follow:
  "follow_brand example_brands ''h'' b = (Inr (example_house, ''h''), [brand_json_url ''h''])"
  by (simp add: follow_brand_def get_document_def example_brands_def max_document_hops_def eval_nat_numeral)
     (simp add: example_house_def getj_def get_or_def)

lemma example_resolved:
  "\<exists>res. resolve_uncached (\<lambda>x. []) example_brands ''h'' (JStr ''b1'') = Inr res \<and> br_verified res \<and>
     br_operators res = [[(''domain'', JStr ''p''), (''brands'', JArr [JStr ''*''])]] \<and> br_brand_id res = JStr ''b1''"
proof -
  have "is_house_portfolio example_house" "getj example_house ''authorized_operators'' =
      JArr [JObj [(''domain'', JStr ''p''), (''brands'', JArr [JStr ''*''])]]"
    "getj example_house ''brands'' = JArr [JObj [(''id'', JStr ''b1'')]]"
    "getj example_house ''brand_refs'' = JArr [JObj [(''domain'', JStr ''l''), (''brand_id'', JStr ''b2'')]]"
    by (simp_all add: is_house_portfolio_def example_house_def getj_def get_or_def has_key_def)
  moreover from this have "resolve_portfolio_brand (\<lambda>x. []) example_brands example_house ''h'' (JStr ''b1'') = Inr (JStr ''b1'', True)"
    by (simp add: resolve_portfolio_brand_def Let_def brand_crash_def iter_or_empty_def truthy_item_def getj_def get_or_def)
  ultimately show ?thesis
    by (simp add: resolve_uncached_def example_follow operators_of_def brand_crash_def iter_or_empty_def)
qed

lemma example_operator:
  "\<exists>res r'. verify_operator (\<lambda>x. []) (\<lambda>s. None) example_brand_env False ''media_buying'' None
     [(''domain'', JStr ''h''), (''brand_id'', JStr ''b1'')] ''p'' example_resolver = (Inr res, r') \<and>
     br_kind res \<noteq> ''self''"
proof -
  from example_resolved obtain res where res: "resolve_uncached (\<lambda>x. []) example_brands ''h'' (JStr ''b1'') = Inr res"
    "br_verified res" "br_operators res = [[(''domain'', JStr ''p''), (''brands'', JArr [JStr ''*''])]]"
    "br_brand_id res = JStr ''b1''" by blast
  then have kind: "br_kind res \<noteq> ''self''"
    by (auto simp: resolve_uncached_def resolve_canonical_def res_bind_Inr_iff Let_def split: if_splits json.splits)
  obtain r1 where rb: "resolve_brand (\<lambda>x. []) example_brand_env False ''h'' (JStr ''b1'') example_resolver =
      (Inr res, r1)"
    by (simp add: resolve_brand_def resolve_with_def example_resolver_def example_brand_env_def example_domains
        refresh_brand_def res)
  have "operator_entry_authorizes (\<lambda>x. []) (\<lambda>s. None) 0 ''media_buying'' JNull ''p'' (JStr ''b1'')
      [(''domain'', JStr ''p''), (''brands'', JArr [JStr ''*''])] = Inr True"
    by (simp add: operator_entry_authorizes_def domain_at_def text_of_def example_domains getj_def get_or_def
        before_def at_or_after_def parse_time_def)
  moreover have "domain_at (\<lambda>x. []) [(''domain'', JStr ''h''), (''brand_id'', JStr ''b1'')] ''domain'' = ''h''"
    "getj [(''domain'', JStr ''h''), (''brand_id'', JStr ''b1'')] ''brand_id'' = JStr ''b1''"
    "getj [(''domain'', JStr ''h''), (''brand_id'', JStr ''b1'')] ''countries'' = JNull"
    by (simp_all add: domain_at_def text_of_def example_domains getj_def get_or_def)
  moreover have "brand_now example_brand_env = 0" by (simp add: example_brand_env_def)
  ultimately have "fst (verify_operator (\<lambda>x. []) (\<lambda>s. None) example_brand_env False ''media_buying'' None
     [(''domain'', JStr ''h''), (''brand_id'', JStr ''b1'')] ''p'' example_resolver) = Inr res"
    unfolding verify_operator_def Let_def using res
    by (simp add: example_domains rb)
  then show ?thesis using kind by (metis prod.collapse)
qed


lemma canonical_brand_reciprocated_witness:
  "\<exists>res. resolve_canonical (\<lambda>x. []) example_brands example_leaf ''l'' JNull = Inr res \<and> br_verified res"
proof -
  have leaf: "getj example_leaf ''id'' = JStr ''b2''" "getj example_leaf ''house_domain'' = JStr ''h''"
    by (simp_all add: example_leaf_def getj_def get_or_def)
  have h: "is_house_portfolio example_house" "getj example_house ''authorized_operators'' =
      JArr [JObj [(''domain'', JStr ''p''), (''brands'', JArr [JStr ''*''])]]"
    "getj example_house ''brand_refs'' = JArr [JObj [(''domain'', JStr ''l''), (''brand_id'', JStr ''b2'')]]"
    by (simp_all add: is_house_portfolio_def example_house_def getj_def get_or_def has_key_def)
  have "\<exists>res. resolve_canonical (\<lambda>x. []) example_brands example_leaf ''l'' JNull = Inr res"
    by (simp add: resolve_canonical_def leaf example_domains example_follow h text_of_def iter_or_empty_def
        brand_crash_def operators_of_def Let_def)
  then obtain res where res: "resolve_canonical (\<lambda>x. []) example_brands example_leaf ''l'' JNull = Inr res" ..
  from canonical_brand_reciprocated [OF res] leaf h have "br_verified res"
    by (simp add: example_domains example_follow iter_or_empty_def domain_at_def text_of_def getj_def get_or_def)
  with res show ?thesis by blast
qed

end
