(* ===== verification/Json_Text.thy ===== *)
theory Json_Text
  imports Py_Prelude "HOL-Library.Char_ord" "HOL-Library.List_Lexorder"
begin

text \<open>
  \<open>json.dumps\<close> with sorted keys and compact separators, the text by which an account's natural key
  is stored and found.  Text outside ASCII is written with \<open>\u\<close> escapes, by surrogate pairs beyond
  the basic plane.  \<open>shown\<close> gives the digits of a finite float.
\<close>

section \<open>Printing\<close>

fun nat_text :: "nat \<Rightarrow> string" where
  "nat_text n = (if n < 10 then [char_of (48 + n)] else nat_text (n div 10) @ [char_of (48 + n mod 10)])"

declare nat_text.simps [simp del]

definition int_text :: "int \<Rightarrow> string" where
  "int_text i = (if i < 0 then CHR ''-'' # nat_text (nat (- i)) else nat_text (nat i))"

definition hex_digit :: "nat \<Rightarrow> char" where
  "hex_digit n = char_of (if n < 10 then 48 + n else 87 + n)"

definition unicode_escape :: "nat \<Rightarrow> string" where
  "unicode_escape n =
     [CHR 0x5C, CHR ''u'', hex_digit (n div 4096 mod 16), hex_digit (n div 256 mod 16),
      hex_digit (n div 16 mod 16), hex_digit (n mod 16)]"

text \<open>The code points of a text in UTF-8.\<close>

fun code_points :: "string \<Rightarrow> nat list" where
  "code_points (a # b # c # d # s) =
     (if code_of a < 128 then code_of a # code_points (b # c # d # s)
      else if code_of a < 224 then (code_of a mod 32 * 64 + code_of b mod 64) # code_points (c # d # s)
      else if code_of a < 240
        then (code_of a mod 16 * 4096 + code_of b mod 64 * 64 + code_of c mod 64) # code_points (d # s)
      else (code_of a mod 8 * 262144 + code_of b mod 64 * 4096 + code_of c mod 64 * 64 + code_of d mod 64) # code_points s)"
| "code_points (a # b # c # []) =
     (if code_of a < 128 then code_of a # code_points [b, c]
      else if code_of a < 224 then (code_of a mod 32 * 64 + code_of b mod 64) # code_points [c]
      else [code_of a mod 16 * 4096 + code_of b mod 64 * 64 + code_of c mod 64])"
| "code_points (a # b # []) =
     (if code_of a < 128 then code_of a # code_points [b]
      else [code_of a mod 32 * 64 + code_of b mod 64])"
| "code_points (a # []) = [code_of a]"
| "code_points [] = []"

definition escape_char :: "nat \<Rightarrow> string" where
  "escape_char n =
     (if n = 34 then [CHR 0x5C, CHR 0x22]
      else if n = 92 then [CHR 0x5C, CHR 0x5C]
      else if n = 10 then [CHR 0x5C, CHR ''n'']
      else if n = 13 then [CHR 0x5C, CHR ''r'']
      else if n = 9 then [CHR 0x5C, CHR ''t'']
      else if n = 8 then [CHR 0x5C, CHR ''b'']
      else if n = 12 then [CHR 0x5C, CHR ''f'']
      else if 32 \<le> n \<and> n < 127 then [char_of n]
      else if n < 65536 then unicode_escape n
      else unicode_escape (55296 + (n - 65536) div 1024) @ unicode_escape (56320 + (n - 65536) mod 1024))"

definition quoted :: "string \<Rightarrow> string" where
  "quoted s = CHR 0x22 # concat (map escape_char (code_points s)) @ [CHR 0x22]"

fun dumps :: "(pyfloat \<Rightarrow> string) \<Rightarrow> json \<Rightarrow> string" where
  "dumps shown JNull = ''null''"
| "dumps shown (JBool b) = (if b then ''true'' else ''false'')"
| "dumps shown (JInt i) = int_text i"
| "dumps shown (JFloat f) =
     (case f of Fin q \<Rightarrow> shown f | PosInf \<Rightarrow> ''Infinity'' | NegInf \<Rightarrow> ''-Infinity'' | NotANum \<Rightarrow> ''NaN'')"
| "dumps shown (JStr s) = quoted s"
| "dumps shown (JArr xs) = ''['' @ join_with '','' (map (dumps shown) xs) @ '']''"
| "dumps shown (JObj d) =
     ''{'' @ join_with '',''
        (map snd (sort_key fst (map (\<lambda>(k, v). (k, quoted k @ '':'' @ dumps shown v)) d))) @ ''}''"

lemma dumps_examples:
  "dumps (\<lambda>f. []) (JObj [(''operator'', JStr ''nxflo.io''),
      (''brand'', JObj [(''domain'', JStr ''a.example''), (''countries'', JArr [JStr ''DE'', JStr ''US''])])]) =
   map (\<lambda>c. if c = CHR 0x27 then CHR 0x22 else c)
     (''{'' @ [CHR 0x27] @ ''brand'' @ [CHR 0x27] @ '':{'' @ [CHR 0x27] @ ''countries'' @ [CHR 0x27] @ '':['' @
      [CHR 0x27] @ ''DE'' @ [CHR 0x27] @ '','' @ [CHR 0x27] @ ''US'' @ [CHR 0x27] @ ''],'' @
      [CHR 0x27] @ ''domain'' @ [CHR 0x27] @ '':'' @ [CHR 0x27] @ ''a.example'' @ [CHR 0x27] @ ''},'' @
      [CHR 0x27] @ ''operator'' @ [CHR 0x27] @ '':'' @ [CHR 0x27] @ ''nxflo.io'' @ [CHR 0x27] @ ''}'')"
  by code_simp

end
