(* ===== verification/Py_State.thy ===== *)
theory Py_State
  imports Py_Prelude
begin

text \<open>
  Computations that change a state and may raise: what the components built on others are written
  in.  An exception leaves the changes made before it.
\<close>

named_theorems keeps_intros \<open>computations that keep an invariant\<close>

type_synonym ('s, 'e, 'a) action = "'s \<Rightarrow> ('e + 'a) \<times> 's"

definition ret :: "'a \<Rightarrow> ('s, 'e, 'a) action" where
  "ret x s = (Inr x, s)"

definition raise :: "'e \<Rightarrow> ('s, 'e, 'a) action" where
  "raise e s = (Inl e, s)"

definition lift_res :: "'e + 'a \<Rightarrow> ('s, 'e, 'a) action" where
  "lift_res r s = (r, s)"

definition sbind :: "('s, 'e, 'a) action \<Rightarrow> ('a \<Rightarrow> ('s, 'e, 'b) action) \<Rightarrow> ('s, 'e, 'b) action" where
  "sbind m f s = (case m s of (Inl e, s') \<Rightarrow> (Inl e, s') | (Inr x, s') \<Rightarrow> f x s')"

text \<open>\<open>try: m except e: h\<close>\<close>

definition handling :: "('s, 'e, 'a) action \<Rightarrow> ('e \<Rightarrow> ('s, 'e, 'a) action) \<Rightarrow> ('s, 'e, 'a) action" where
  "handling m h s = (case m s of (Inl e, s') \<Rightarrow> h e s' | (Inr x, s') \<Rightarrow> (Inr x, s'))"

definition modify :: "('s \<Rightarrow> 's) \<Rightarrow> ('s, 'e, unit) action" where
  "modify f s = (Inr (), f s)"

definition asking :: "('s \<Rightarrow> 'a) \<Rightarrow> ('s, 'e, 'a) action" where
  "asking f s = (Inr (f s), s)"

text \<open>A comprehension whose element expression acts on the state.\<close>

fun smap :: "('a \<Rightarrow> ('s, 'e, 'b) action) \<Rightarrow> 'a list \<Rightarrow> ('s, 'e, 'b list) action" where
  "smap f [] = ret []"
| "smap f (x # xs) = sbind (f x) (\<lambda>y. sbind (smap f xs) (\<lambda>ys. ret (y # ys)))"

lemmas action_defs = ret_def raise_def lift_res_def sbind_def handling_def modify_def asking_def

lemma action_simps [simp, res_simps]:
  "ret x s = (Inr x, s)" "raise e s = (Inl e, s)" "lift_res r s = (r, s)"
  "modify f s = (Inr (), f s)" "asking g s = (Inr (g s), s)"
  by (simp_all add: action_defs)

lemma sbind_simps [simp, res_simps]:
  "sbind (ret x) f = f x" "sbind (raise e) f = raise e" "sbind (asking g) f s = f (g s) s"
  "sbind (modify h) k s = k () (h s)" "sbind (lift_res (Inl e)) f = raise e" "sbind (lift_res (Inr x)) f = f x"
  by (simp_all add: fun_eq_iff action_defs)

lemma sbind_Inr_iff [res_simps]:
  "sbind m f s = (Inr y, s') \<longleftrightarrow> (\<exists>x s1. m s = (Inr x, s1) \<and> f x s1 = (Inr y, s'))"
  by (auto simp: sbind_def split: prod.splits sum.splits)

lemma sbind_Inl_iff [res_simps]:
  "sbind m f s = (Inl e, s') \<longleftrightarrow> m s = (Inl e, s') \<or> (\<exists>x s1. m s = (Inr x, s1) \<and> f x s1 = (Inl e, s'))"
  by (auto simp: sbind_def split: prod.splits sum.splits)

lemma handling_Inr_iff [res_simps]:
  "handling m h s = (Inr y, s') \<longleftrightarrow> m s = (Inr y, s') \<or> (\<exists>e s1. m s = (Inl e, s1) \<and> h e s1 = (Inr y, s'))"
  by (auto simp: handling_def split: prod.splits sum.splits)

lemma sbind_cong [fundef_cong]:
  "m s = m' s' \<Longrightarrow> s = s' \<Longrightarrow> (\<And>x s1. m' s' = (Inr x, s1) \<Longrightarrow> f x s1 = f' x s1) \<Longrightarrow> sbind m f s = sbind m' f' s'"
  by (auto simp: sbind_def split: prod.splits sum.splits)

text \<open>A computation on a part of the state, and one whose errors are seen as errors of another kind.\<close>

definition zoom :: "('s \<Rightarrow> 't) \<Rightarrow> ('t \<Rightarrow> 's \<Rightarrow> 's) \<Rightarrow> ('t, 'e, 'a) action \<Rightarrow> ('s, 'e, 'a) action" where
  "zoom get put m s = (case m (get s) of (r, t) \<Rightarrow> (r, put t s))"

definition map_error :: "('e \<Rightarrow> 'f) \<Rightarrow> ('s, 'e, 'a) action \<Rightarrow> ('s, 'f, 'a) action" where
  "map_error f m s = (case m s of (Inl e, s') \<Rightarrow> (Inl (f e), s') | (Inr x, s') \<Rightarrow> (Inr x, s'))"

definition map_left :: "('e \<Rightarrow> 'f) \<Rightarrow> 'e + 'a \<Rightarrow> 'f + 'a" where
  "map_left f r = (case r of Inl e \<Rightarrow> Inl (f e) | Inr x \<Rightarrow> Inr x)"

lemma map_left_simps [simp, res_simps]:
  "map_left f (Inl e) = Inl (f e)" "map_left f (Inr x) = Inr x"
  "map_left f r = Inr y \<longleftrightarrow> r = Inr y" "Inr y = map_left f r \<longleftrightarrow> r = Inr y"
  by (auto simp: map_left_def split: sum.splits)

lemma zoom_iff [res_simps]: "zoom get put m s = (r, s') \<longleftrightarrow> (\<exists>t. m (get s) = (r, t) \<and> s' = put t s)"
  by (auto simp: zoom_def split: prod.splits)

lemma map_error_Inr [res_simps]: "map_error f m s = (Inr x, s') \<longleftrightarrow> m s = (Inr x, s')"
  by (auto simp: map_error_def split: prod.splits sum.splits)

lemma map_error_Inl [res_simps]: "map_error f m s = (Inl e, s') \<longleftrightarrow> (\<exists>e0. m s = (Inl e0, s') \<and> e = f e0)"
  by (auto simp: map_error_def split: prod.splits sum.splits)

text \<open>An invariant kept by a computation, whether it raises or not.\<close>

definition keeps :: "('s \<Rightarrow> bool) \<Rightarrow> ('s, 'e, 'a) action \<Rightarrow> bool" where
  "keeps P m \<longleftrightarrow> (\<forall>s. P s \<longrightarrow> P (snd (m s)))"

lemma keepsD: "keeps P m \<Longrightarrow> m s = (r, s') \<Longrightarrow> P s \<Longrightarrow> P s'"
  by (metis keeps_def snd_conv)

lemma keeps_simple [keeps_intros, intro!]:
  "keeps P (ret x)" "keeps P (raise e)" "keeps P (lift_res r)" "keeps P (asking f)"
  by (simp_all add: keeps_def)

lemma keeps_modify [keeps_intros]: "(\<And>s. P s \<Longrightarrow> P (f s)) \<Longrightarrow> keeps P (modify f)"
  by (simp add: keeps_def)

lemma keeps_sbind [keeps_intros]: "keeps P m \<Longrightarrow> (\<And>x. keeps P (f x)) \<Longrightarrow> keeps P (sbind m f)"
  by (auto simp: keeps_def sbind_def split: prod.splits sum.splits)

lemma keeps_handling [keeps_intros]: "keeps P m \<Longrightarrow> (\<And>e. keeps P (h e)) \<Longrightarrow> keeps P (handling m h)"
  by (auto simp: keeps_def handling_def split: prod.splits sum.splits)

lemma keeps_if [keeps_intros]: "(c \<Longrightarrow> keeps P m) \<Longrightarrow> (\<not> c \<Longrightarrow> keeps P n) \<Longrightarrow> keeps P (if c then m else n)"
  by simp

lemma keeps_case_option [keeps_intros]:
  "(v = None \<Longrightarrow> keeps P m) \<Longrightarrow> (\<And>x. v = Some x \<Longrightarrow> keeps P (f x)) \<Longrightarrow> keeps P (case v of None \<Rightarrow> m | Some x \<Rightarrow> f x)"
  by (cases v) auto

lemma keeps_case_sum [keeps_intros]:
  "(\<And>x. v = Inl x \<Longrightarrow> keeps P (g x)) \<Longrightarrow> (\<And>x. v = Inr x \<Longrightarrow> keeps P (f x)) \<Longrightarrow> keeps P (case v of Inl x \<Rightarrow> g x | Inr x \<Rightarrow> f x)"
  by (cases v) auto

lemma keeps_case_prod [keeps_intros]: "(\<And>x y. keeps P (f x y)) \<Longrightarrow> keeps P (case v of (x, y) \<Rightarrow> f x y)"
  by (cases v) auto

lemma keeps_smap [keeps_intros]: "(\<And>x. keeps P (f x)) \<Longrightarrow> keeps P (smap f xs)"
  by (induction xs) (auto intro!: keeps_sbind)

lemma keeps_map_error [keeps_intros]: "keeps P m \<Longrightarrow> keeps P (map_error f m)"
  by (auto simp: keeps_def map_error_def split: prod.splits sum.splits)

lemma keeps_zoom [keeps_intros]:
  "(\<And>s. P s \<Longrightarrow> P (put (snd (m (get s))) s)) \<Longrightarrow> keeps P (zoom get put m)"
  by (auto simp: keeps_def zoom_def split: prod.splits) (metis snd_conv)

end
