(* ===== verification/Media_Buy_Requests.thy ===== *)
theory Media_Buy_Requests
  imports Seller_Call
begin

text \<open>
  \<open>src/buying/requests.py\<close> and the parameter builders of the tool wrappers of
  \<open>src/connections/seller.py\<close>: the payloads of AdCP requests.  The configured release
  (\<open>settings.adcp_version\<close>, digits and a dot) and the hexadecimal text of a fresh UUID are
  arguments.  An optional dictionary argument is the empty dictionary when it is absent; the
  code treats both alike.
\<close>

section \<open>Common parts\<close>

datatype request_error =
    NoAccount | NoBrand | AllocationWithProposal | UnknownAllocationMode json | NoGoals
  | ProposalWithoutBudget | NoPackages | PackagesWithoutBudget "json list"
  | OptimizedWithoutBudget

definition new_idempotency_key :: "string \<Rightarrow> string \<Rightarrow> string" where
  "new_idempotency_key prefix hex = prefix @ ''-'' @ hex"

definition with_version :: "string \<Rightarrow> dict \<Rightarrow> dict" where
  "with_version version params =
     set_default ''adcp_major_version''
       (JInt (int (digits_value (takeWhile (\<lambda>c. c \<noteq> CHR ''.'') version))))
       (set_default ''adcp_version'' (JStr version) params)"

definition build_get_products_request :: "string \<Rightarrow> string \<Rightarrow> dict \<Rightarrow> dict \<Rightarrow> dict" where
  "build_get_products_request version brief brand account =
     (let params = [(''buying_mode'', JStr ''brief''), (''brief'', JStr brief), (''brand'', JObj brand)];
          params' = (if account \<noteq> [] then dset ''account'' (JObj account) params else params)
      in with_version version params')"

section \<open>Format selection\<close>

definition format_ref :: "dict \<Rightarrow> dict" where
  "format_ref opt =
     (if truthy (getj opt ''publisher_domain'')
      then [(''scope'', JStr ''publisher''), (''publisher_domain'', getj opt ''publisher_domain''),
            (''format_option_id'', getj opt ''format_option_id'')]
      else [(''scope'', JStr ''product''), (''format_option_id'', getj opt ''format_option_id'')])"

definition format_selector :: "dict \<Rightarrow> py_exn + dict" where
  "format_selector product =
     res_bind (py_iter (or_else (getj product ''format_options'') (JArr []))) (\<lambda>items.
       let options = map obj_of (filter is_obj items);
           refs = map format_ref (filter (\<lambda>opt. truthy (getj opt ''format_option_id'')) options)
       in Inr
         (if refs \<noteq> [] then [(''format_option_refs'', JArr (map JObj refs))]
          else if length options = 1 \<and> truthy (getj (hd options) ''format_kind'') then
            (''format_kind'', getj (hd options) ''format_kind'') #
              (if is_obj (getj (hd options) ''params'')
               then [(''params'', getj (hd options) ''params'')] else [])
          else case getj product ''format_ids'' of
            JArr (x # xs) \<Rightarrow> (if options = [] then [(''format_ids'', JArr (x # xs))] else [])
          | _ \<Rightarrow> []))"

section \<open>Packages and budget\<close>

definition build_package ::
  "json \<Rightarrow> json \<Rightarrow> json \<Rightarrow> string \<Rightarrow> dict \<Rightarrow> dict \<Rightarrow> string \<Rightarrow> dict" where
  "build_package product_id pricing_option_id budget ref selector targeting pacing =
     (let p0 = [(''product_id'', product_id), (''pricing_option_id'', pricing_option_id),
                (''context'', JObj [(''buyer_ref'', JStr ref)])];
          p1 = (if budget \<noteq> JNull then dset ''budget'' budget p0 else p0);
          p2 = dict_update p1 selector;
          p3 = (if targeting \<noteq> [] then dset ''targeting_overlay'' (JObj targeting) p2 else p2)
      in if pacing \<noteq> [] then dset ''pacing'' (JStr pacing) p3 else p3)"

definition fixed_allocation :: dict where
  "fixed_allocation = [(''mode'', JStr ''fixed'')]"

definition resolve_budget_allocation :: "dict \<Rightarrow> bool \<Rightarrow> request_error + dict option" where
  "resolve_budget_allocation configured proposal =
     (if proposal then
        (if configured \<noteq> [] then Inl AllocationWithProposal else Inr None)
      else if configured = [] \<or> getj configured ''mode'' = JStr ''fixed'' then Inr (Some fixed_allocation)
      else if getj configured ''mode'' \<noteq> JStr ''seller_optimized''
        then Inl (UnknownAllocationMode (getj configured ''mode''))
      else case getj configured ''optimization_goals'' of
        JArr (g # gs) \<Rightarrow>
          Inr (Some [(''mode'', JStr ''seller_optimized''), (''optimization_goals'', JArr (g # gs))])
      | _ \<Rightarrow> Inl NoGoals)"

section \<open>create_media_buy\<close>

record create_args =
  arg_key :: string
  arg_account :: dict
  arg_brand :: dict
  arg_start :: string
  arg_end :: string
  arg_packages :: "dict list"
  arg_proposal :: string
  arg_total_budget :: dict
  arg_allocation :: dict
  arg_context :: dict
  arg_push :: dict
  arg_reporting :: dict

definition dset_if :: "bool \<Rightarrow> string \<Rightarrow> json \<Rightarrow> dict \<Rightarrow> dict" where
  "dset_if c k v d = (if c then dset k v d else d)"

definition packages_without_budget :: "dict list \<Rightarrow> json list" where
  "packages_without_budget ps =
     map (\<lambda>p. getj p ''product_id'') (filter (\<lambda>p. getj p ''budget'' = JNull) ps)"

text \<open>The branch on \<open>proposal_id\<close>.\<close>

definition request_body :: "create_args \<Rightarrow> dict option \<Rightarrow> dict \<Rightarrow> request_error + dict" where
  "request_body a allocation params =
     (if arg_proposal a \<noteq> [] then
        (if arg_total_budget a = [] then Inl ProposalWithoutBudget
         else Inr (dset ''total_budget'' (JObj (arg_total_budget a))
                (dset ''proposal_id'' (JStr (arg_proposal a)) params)))
      else if arg_packages a = [] then Inl NoPackages
      else
        let mode = (case allocation of Some al \<Rightarrow> getj al ''mode'' | None \<Rightarrow> JNull);
            missing = packages_without_budget (arg_packages a)
        in if mode = JStr ''fixed'' \<and> missing \<noteq> [] then Inl (PackagesWithoutBudget missing)
           else if mode = JStr ''seller_optimized'' \<and> arg_total_budget a = [] then Inl OptimizedWithoutBudget
           else Inr (dset_if (arg_total_budget a \<noteq> []) ''total_budget'' (JObj (arg_total_budget a))
                 (dset ''budget_allocation'' (case allocation of Some al \<Rightarrow> JObj al | None \<Rightarrow> JNull)
                 (dset ''packages'' (JArr (map JObj (arg_packages a))) params))))"

definition build_create_media_buy_request :: "string \<Rightarrow> create_args \<Rightarrow> request_error + dict" where
  "build_create_media_buy_request version a =
     (if arg_account a = [] then Inl NoAccount
      else if \<not> truthy (getj (arg_brand a) ''domain'') then Inl NoBrand
      else
        let params = [(''idempotency_key'', JStr (arg_key a)), (''account'', JObj (arg_account a)),
                      (''brand'', JObj (arg_brand a)), (''start_time'', JStr (arg_start a)),
                      (''end_time'', JStr (arg_end a))]
        in res_bind (resolve_budget_allocation (arg_allocation a) (arg_proposal a \<noteq> [])) (\<lambda>allocation.
           res_bind (request_body a allocation params) (\<lambda>p1.
             Inr (with_version version
               (dset_if (arg_reporting a \<noteq> []) ''reporting_webhook'' (JObj (arg_reporting a))
               (dset_if (arg_push a \<noteq> []) ''push_notification_config'' (JObj (arg_push a))
               (dset_if (arg_context a \<noteq> []) ''context'' (JObj (arg_context a)) p1)))))))"

section \<open>The tool wrappers\<close>

text \<open>\<open>idempotency_key or new_idempotency_key()\<close>\<close>

definition key_or_new :: "string \<Rightarrow> string \<Rightarrow> json" where
  "key_or_new given hex = JStr (if given \<noteq> [] then given else new_idempotency_key ''nxflo'' hex)"

definition update_media_buy_params ::
  "string \<Rightarrow> string \<Rightarrow> string \<Rightarrow> dict \<Rightarrow> bool option \<Rightarrow> string \<Rightarrow> dict list \<Rightarrow> string \<Rightarrow> dict" where
  "update_media_buy_params version hex media_buy_id account paused end_time packages given =
     (let p0 = [(''idempotency_key'', key_or_new given hex), (''account'', JObj account),
                (''media_buy_id'', JStr media_buy_id)];
          p1 = (case paused of Some b \<Rightarrow> dset ''paused'' (JBool b) p0 | None \<Rightarrow> p0)
      in with_version version
           (dset_if (packages \<noteq> []) ''packages'' (JArr (map JObj packages))
             (dset_if (end_time \<noteq> []) ''end_time'' (JStr end_time) p1)))"

definition sync_creatives_params :: "string \<Rightarrow> string \<Rightarrow> dict list \<Rightarrow> dict \<Rightarrow> string \<Rightarrow> dict" where
  "sync_creatives_params version hex creatives account given =
     with_version version
       [(''idempotency_key'', key_or_new given hex), (''account'', JObj account),
        (''creatives'', JArr (map JObj creatives))]"

definition performance_feedback_params :: "string \<Rightarrow> string \<Rightarrow> json \<Rightarrow> dict \<Rightarrow> string \<Rightarrow> dict" where
  "performance_feedback_params hex media_buy_id index period given =
     [(''idempotency_key'', key_or_new given hex), (''media_buy_id'', JStr media_buy_id),
      (''performance_index'', index), (''measurement_period'', JObj period)]"

definition activate_signal_params :: "string \<Rightarrow> dict \<Rightarrow> dict" where
  "activate_signal_params signal_id platform =
     [(''signal_id'', JStr signal_id), (''platform'', JObj platform)]"

definition get_signals_params :: "string \<Rightarrow> dict list \<Rightarrow> dict" where
  "get_signals_params brief platforms =
     dset_if (platforms \<noteq> []) ''platforms'' (JArr (map JObj platforms)) [(''signal_spec'', JStr brief)]"

definition tasks_get_params :: "string \<Rightarrow> bool \<Rightarrow> dict" where
  "tasks_get_params task_id include_result =
     [(''task_id'', JStr task_id), (''include_result'', JBool include_result)]"

definition tasks_list_params :: "dict \<Rightarrow> dict" where
  "tasks_list_params filters = dset_if (filters \<noteq> []) ''filters'' (JObj filters) []"

definition get_delivery_params :: "string \<Rightarrow> dict" where
  "get_delivery_params media_buy_id = [(''media_buy_ids'', JArr [JStr media_buy_id])]"

definition get_adcp_capabilities_params :: "string list \<Rightarrow> dict" where
  "get_adcp_capabilities_params protocols =
     dset_if (protocols \<noteq> []) ''protocols'' (JArr (map JStr protocols)) []"

lemma dset_if_simps [simp, dict_simps]:
  "map_of (dset_if c k v d) k' = (if c \<and> k' = k then Some v else map_of d k')"
  "getj (dset_if c k v d) k' = (if c \<and> k' = k then v else getj d k')"
  "has_key (dset_if c k v d) k' \<longleftrightarrow> c \<and> k' = k \<or> has_key d k'"
  by (simp_all add: dset_if_def)

lemma with_version_simps [simp, dict_simps]:
  "has_key (with_version version d) k \<longleftrightarrow> k = ''adcp_version'' \<or> k = ''adcp_major_version'' \<or> has_key d k"
  "has_key d k \<Longrightarrow> getj (with_version version d) k = getj d k"
  "k \<noteq> ''adcp_version'' \<Longrightarrow> k \<noteq> ''adcp_major_version'' \<Longrightarrow> getj (with_version version d) k = getj d k"
  by (auto simp: with_version_def)

lemma key_lookup [simp]:
  "has_key ((k, v) # d) k' \<longleftrightarrow> k = k' \<or> has_key d k'"
  "getj ((k, v) # d) k' = (if k = k' then v else getj d k')"
  "has_key [] k' = False" "getj [] k' = JNull"
  by (auto simp: has_key_def getj_def get_or_def)

section \<open>create_media_buy requests\<close>

definition valid_allocation :: "dict \<Rightarrow> bool" where
  "valid_allocation al \<longleftrightarrow>
     al = [] \<or> getj al ''mode'' = JStr ''fixed'' \<or>
     getj al ''mode'' = JStr ''seller_optimized'' \<and> (\<exists>g gs. getj al ''optimization_goals'' = JArr (g # gs))"

definition seller_optimized :: "dict \<Rightarrow> bool" where
  "seller_optimized al \<longleftrightarrow> getj al ''mode'' = JStr ''seller_optimized''"

text \<open>The inputs from which a schema-valid request can be formed.\<close>

definition acceptable :: "create_args \<Rightarrow> bool" where
  "acceptable a \<longleftrightarrow>
     arg_account a \<noteq> [] \<and> truthy (getj (arg_brand a) ''domain'') \<and>
     (if arg_proposal a \<noteq> []
      then arg_allocation a = [] \<and> arg_total_budget a \<noteq> []
      else arg_packages a \<noteq> [] \<and> valid_allocation (arg_allocation a) \<and>
        (if seller_optimized (arg_allocation a) then arg_total_budget a \<noteq> []
         else \<forall>p \<in> set (arg_packages a). getj p ''budget'' \<noteq> JNull))"

lemma packages_without_budget_iff: "packages_without_budget ps = [] \<longleftrightarrow> (\<forall>p \<in> set ps. getj p ''budget'' \<noteq> JNull)"
  by (auto simp: packages_without_budget_def filter_empty_conv)

lemma resolve_budget_allocation_cases:
  "resolve_budget_allocation al proposal =
     (if proposal then (if al \<noteq> [] then Inl AllocationWithProposal else Inr None)
      else if \<not> valid_allocation al
        then (if seller_optimized al then Inl NoGoals else Inl (UnknownAllocationMode (getj al ''mode'')))
      else if seller_optimized al
        then Inr (Some [(''mode'', JStr ''seller_optimized''), (''optimization_goals'', getj al ''optimization_goals'')])
      else Inr (Some fixed_allocation))"
  by (auto simp: resolve_budget_allocation_def valid_allocation_def seller_optimized_def
      split: json.split list.split)

text \<open>
  C13. A \<open>create_media_buy\<close> request is built exactly from acceptable inputs, and what is built
  meets the schema: the required fields are there, the request executes a proposal without
  packages or a budget allocation, or buys packages with an explicit allocation, fixed with a
  budget on every package or seller-optimized with goals and a total budget.
\<close>

theorem create_media_buy_request_valid:
  "(case build_create_media_buy_request version a of
      Inl e \<Rightarrow> \<not> acceptable a
    | Inr req \<Rightarrow>
        acceptable a \<and>
        list_all (has_key req) [''idempotency_key'', ''account'', ''brand'', ''start_time'',
          ''end_time'', ''adcp_version'', ''adcp_major_version''] \<and>
        getj req ''idempotency_key'' = JStr (arg_key a) \<and> getj req ''account'' = JObj (arg_account a) \<and>
        (if has_key req ''proposal_id''
         then \<not> has_key req ''packages'' \<and> \<not> has_key req ''budget_allocation'' \<and> truthy (getj req ''total_budget'')
         else truthy (getj req ''packages'') \<and>
           (case getj (obj_of (getj req ''budget_allocation'')) ''mode'' of
              JStr mode \<Rightarrow>
                (if mode = ''fixed'' then list_all (\<lambda>p. getj (obj_of p) ''budget'' \<noteq> JNull) (arr_of (getj req ''packages''))
                 else mode = ''seller_optimized'' \<and> truthy (getj req ''total_budget'') \<and>
                   truthy (getj (obj_of (getj req ''budget_allocation'')) ''optimization_goals''))
            | _ \<Rightarrow> False)))"
  by (auto simp: build_create_media_buy_request_def request_body_def resolve_budget_allocation_cases
      acceptable_def packages_without_budget_iff fixed_allocation_def valid_allocation_def
      seller_optimized_def Let_def list_all_iff split: if_splits)

section \<open>Replay safety of the wrappers\<close>

lemma key_or_new_truthy [simp]: "truthy (key_or_new given hex)"
  by (simp add: key_or_new_def new_idempotency_key_def)

lemma mutating_tasks_wrapped:
  "''update_media_buy'' \<in> set mutating_tasks" "''sync_creatives'' \<in> set mutating_tasks"
  "''provide_performance_feedback'' \<in> set mutating_tasks" "''activate_signal'' \<in> set mutating_tasks"
  "''create_media_buy'' \<in> set mutating_tasks"
  by (simp_all add: mutating_tasks_def)

text \<open>
  Every mutation the client can send carries an idempotency key, so it is retried exactly
  on the sellers that declare replay support, except \<open>activate_signal\<close>: its wrapper sends no key
  and a transient failure of it is never retried, on any seller.
\<close>

theorem wrappers_replay_safe:
  "(retry_permitted a ''update_media_buy''
      (update_media_buy_params version hex media_buy_id account paused end_time packages given)
      \<longleftrightarrow> idempotency_supported a) \<and>
   (retry_permitted a ''sync_creatives'' (sync_creatives_params version hex creatives account given)
      \<longleftrightarrow> idempotency_supported a) \<and>
   (retry_permitted a ''provide_performance_feedback''
      (performance_feedback_params hex media_buy_id index period given) \<longleftrightarrow> idempotency_supported a) \<and>
   \<not> retry_permitted a ''activate_signal'' (activate_signal_params signal_id platform)"
  by (auto simp: retry_permitted_def mutating_tasks_wrapped update_media_buy_params_def
      sync_creatives_params_def performance_feedback_params_def activate_signal_params_def Let_def
      split: option.split)

section \<open>Format routes\<close>

text \<open>The three routes a package can name its formats by, and none.\<close>

definition format_routes :: "dict \<Rightarrow> string list" where
  "format_routes sel =
     filter (has_key sel) [''format_option_refs'', ''format_kind'', ''format_ids'']"

definition product_options :: "dict \<Rightarrow> dict list" where
  "product_options product = map obj_of (filter is_obj (arr_of (getj product ''format_options'')))"

text \<open>
  A selector takes at most one format route; every reference it carries names an option of
  the product, publisher-scoped exactly when the option has a publisher, and the deprecated ids
  are used only for a product without format options.
\<close>

theorem format_selector_one_route:
  assumes "format_selector product = Inr sel" and "is_arr (getj product ''format_options'')"
  shows "length (format_routes sel) \<le> 1 \<and>
    (has_key sel ''format_option_refs'' \<longleftrightarrow>
       list_ex (\<lambda>opt. truthy (getj opt ''format_option_id'')) (product_options product)) \<and>
    (has_key sel ''format_ids'' \<longrightarrow> product_options product = []) \<and>
    (\<forall>ref \<in> set (arr_of (getj sel ''format_option_refs'')).
       \<exists>opt \<in> set (product_options product).
         getj (obj_of ref) ''format_option_id'' = getj opt ''format_option_id'' \<and>
         (getj (obj_of ref) ''scope'' = JStr ''publisher'' \<longleftrightarrow> truthy (getj opt ''publisher_domain'')))"
proof -
  from assms(2) obtain xs where xs: "getj product ''format_options'' = JArr xs"
    by (cases "getj product ''format_options''") auto
  define options where "options = product_options product"
  have opts: "map obj_of (filter is_obj xs) = options"
    by (simp add: options_def product_options_def xs)
  have iter: "py_iter (or_else (getj product ''format_options'') (JArr [])) = Inr xs"
    by (cases xs) (simp_all add: xs or_else_def)
  define with_id where "with_id = filter (\<lambda>opt. truthy (getj opt ''format_option_id'')) options"
  have sel: "sel = (if map format_ref with_id \<noteq> [] then [(''format_option_refs'', JArr (map JObj (map format_ref with_id)))]
      else if length options = 1 \<and> truthy (getj (hd options) ''format_kind'') then
        (''format_kind'', getj (hd options) ''format_kind'') #
          (if is_obj (getj (hd options) ''params'') then [(''params'', getj (hd options) ''params'')] else [])
      else case getj product ''format_ids'' of
        JArr (x # xs) \<Rightarrow> (if options = [] then [(''format_ids'', JArr (x # xs))] else [])
      | _ \<Rightarrow> [])"
    using assms(1) unfolding format_selector_def iter res_bind_simps opts Let_def with_id_def sum.inject
    by (rule sym)
  have ref: "getj (format_ref opt) ''format_option_id'' = getj opt ''format_option_id''"
    "getj (format_ref opt) ''scope'' = JStr ''publisher'' \<longleftrightarrow> truthy (getj opt ''publisher_domain'')" for opt
    by (simp_all add: format_ref_def)
  show ?thesis
  proof (cases "with_id = []")
    case True
    then have no: "\<not> list_ex (\<lambda>opt. truthy (getj opt ''format_option_id'')) options"
      by (auto simp: with_id_def filter_empty_conv list_ex_iff)
    show ?thesis
      using sel True no unfolding options_def [symmetric]
      by (auto simp: format_routes_def split: json.splits list.splits if_splits)
  next
    case False
    then have yes: "list_ex (\<lambda>opt. truthy (getj opt ''format_option_id'')) options"
      by (auto simp: with_id_def filter_empty_conv list_ex_iff)
    have "set with_id \<subseteq> set options" by (auto simp: with_id_def)
    with sel False yes ref show ?thesis unfolding options_def [symmetric]
      by (auto simp: format_routes_def)
  qed
qed

lemma format_selector_one_route_witness:
  "length (format_routes [(''format_option_refs'', JArr [JObj [(''scope'', JStr ''product''),
     (''format_option_id'', JStr ''o1'')]])]) \<le> 1"
proof -
  let ?product = "[(''format_options'', JArr [JObj [(''format_option_id'', JStr ''o1'')]])]"
  have sel: "format_selector ?product = Inr [(''format_option_refs'', JArr [JObj [(''scope'', JStr ''product''),
     (''format_option_id'', JStr ''o1'')]])]"
    by (simp add: format_selector_def or_else_def format_ref_def)
  show ?thesis using format_selector_one_route [OF sel] by simp
qed

end
