(* ===== verification/Account_Manager.thy ===== *)
theory Account_Manager
  imports Brand_Resolver Json_Text Py_State Media_Buy_Requests Seller_Session
begin

text \<open>
  \<open>src/accounts/manager.py\<close>: the accounts known per seller, their natural keys, provisioning, and
  the account reference sent with a call.  As in the code the tool caller is a parameter; it
  threads the state \<open>'w\<close> of the connections, which the manager does not look at.  Readings of the
  clock and hexadecimal texts of fresh UUIDs are fields of the environment.
\<close>

section \<open>Accounts\<close>

record seller_account =
  sa_seller_url :: string
  sa_mode :: account_mode
  sa_account_id :: json
  sa_name :: json
  sa_brand :: json
  sa_operator :: json
  sa_operator_unit :: json
  sa_currency :: json
  sa_timezone :: json
  sa_sandbox :: bool
  sa_status :: json
  sa_billing :: json
  sa_account_scope :: json
  sa_setup :: json
  sa_authorization :: json
  sa_errors :: "dict list"
  sa_raw :: dict
  sa_updated_at :: int
  sa_natural :: "dict option"

definition dict_or_null :: "json \<Rightarrow> json" where
  "dict_or_null v = (if is_obj v then v else JNull)"

definition account_from_wire ::
  "int \<Rightarrow> string \<Rightarrow> account_mode \<Rightarrow> dict \<Rightarrow> py_exn + seller_account" where
  "account_from_wire now url mode data =
     (let echoed = obj_of (getj data ''account'')
      in res_bind (iter_or_empty (getj data ''errors'')) (\<lambda>errs. Inr
        \<lparr>sa_seller_url = url, sa_mode = mode,
         sa_account_id = or_else (getj data ''account_id'') (getj echoed ''account_id''),
         sa_name = getj data ''name'',
         sa_brand = or_else (getj data ''brand'') (getj echoed ''brand''),
         sa_operator = or_else (getj data ''operator'') (getj echoed ''operator''),
         sa_operator_unit = getj data ''operator_unit'', sa_currency = getj data ''currency'',
         sa_timezone = getj data ''timezone'',
         sa_sandbox = truthy (get_or data ''sandbox'' (get_or echoed ''sandbox'' (JBool False))),
         sa_status = getj data ''status'', sa_billing = getj data ''billing'',
         sa_account_scope = getj data ''account_scope'', sa_setup = dict_or_null (getj data ''setup''),
         sa_authorization = dict_or_null (getj data ''authorization''),
         sa_errors = map obj_of (filter is_obj errs), sa_raw = data, sa_updated_at = now,
         sa_natural = None\<rparr>))"

text \<open>The domain, the brand id and the sorted countries; \<open>brand["domain"]\<close> may raise.\<close>

definition brand_key :: "(json \<Rightarrow> string) \<Rightarrow> json \<Rightarrow> py_exn + dict" where
  "brand_key shown brand =
     (case brand of
        JObj b \<Rightarrow>
          (if \<not> has_key b ''domain'' then Inl KeyError
           else
             let k0 = [(''domain'', JStr (lower (text_of shown (getj b ''domain''))))];
                 k1 = dset_if (truthy (getj b ''brand_id'')) ''brand_id'' (getj b ''brand_id'') k0
             in if \<not> truthy (getj b ''countries'') then Inr k1
                else res_bind (py_iter (getj b ''countries'')) (\<lambda>cs.
                  Inr (dset ''countries'' (JArr (map JStr
                    (sorted_unique (map (\<lambda>c. upper (text_of shown c)) cs)))) k1)))
      | _ \<Rightarrow> Inl TypeError)"

definition account_natural_key ::
  "(json \<Rightarrow> string) \<Rightarrow> bool \<Rightarrow> seller_account \<Rightarrow> py_exn + dict option" where
  "account_natural_key shown timezone_in_key acc =
     (case sa_natural acc of
        Some key \<Rightarrow> Inr (Some key)
      | None \<Rightarrow>
          if \<not> truthy (sa_brand acc) \<or> \<not> truthy (sa_operator acc) then Inr None
          else
            res_bind (brand_key shown (sa_brand acc)) (\<lambda>brand.
            res_bind (if truthy (sa_operator_unit acc) then getattr_get (sa_operator_unit acc) ''id''
                      else Inr JNull) (\<lambda>unit_id.
              let k0 = [(''brand'', JObj brand), (''operator'', sa_operator acc)];
                  k1 = dset_if (truthy unit_id) ''operator_unit'' (JObj [(''id'', unit_id)]) k0;
                  k2 = dset_if (truthy (sa_currency acc)) ''currency'' (sa_currency acc) k1;
                  k3 = dset_if (truthy (sa_timezone acc) \<and> timezone_in_key) ''timezone'' (sa_timezone acc) k2
              in Inr (Some (dset_if (sa_sandbox acc) ''sandbox'' (JBool True) k3)))))"

definition canonical_key :: "(json \<Rightarrow> string) \<Rightarrow> dict \<Rightarrow> string" where
  "canonical_key shown ref = dumps (\<lambda>f. shown (JFloat f)) (JObj ref)"

definition storage_key :: "(json \<Rightarrow> string) \<Rightarrow> seller_account \<Rightarrow> py_exn + string" where
  "storage_key shown acc =
     (if sa_mode acc = BUYER_DECLARED then
        res_bind (account_natural_key shown False acc) (\<lambda>natural.
          Inr (case natural of Some key \<Rightarrow> canonical_key shown key
               | None \<Rightarrow> ''id:'' @ text_of shown (sa_account_id acc)))
      else Inr (''id:'' @ text_of shown (sa_account_id acc)))"

definition account_ref :: "(json \<Rightarrow> string) \<Rightarrow> seller_account \<Rightarrow> py_exn + dict" where
  "account_ref shown acc =
     (if sa_mode acc = OPERATOR_AUTHORIZED \<and> truthy (sa_account_id acc)
      then Inr [(''account_id'', sa_account_id acc)]
      else res_bind (account_natural_key shown False acc) (\<lambda>natural.
        case natural of Some key \<Rightarrow> Inr key | None \<Rightarrow> Inl ValueError))"

section \<open>Errors\<close>

datatype account_error =
    SandboxUnsupported | CurrencyRequired | TimezoneRequired json | BillingInvalid
  | BillingNotSupported json string | ListAccountsUnsupported | ListAccountsFailed json
  | UnsupportedProvisioning | SyncAccountsUnsupported | SyncAccountsFailed json
  | AccountNotProvisioned | AccountNotFound "json list" | AccountAmbiguous "json list"
  | AccountFailed "dict list" | AccountNotUsable json json string | OperatorCredentialMissing

fun error_code_of :: "account_error \<Rightarrow> string" where
  "error_code_of SandboxUnsupported = ''sandbox_unsupported''"
| "error_code_of CurrencyRequired = ''currency_required''"
| "error_code_of (TimezoneRequired v) = ''timezone_required''"
| "error_code_of BillingInvalid = ''billing_invalid''"
| "error_code_of (BillingNotSupported v b) = ''billing_not_supported''"
| "error_code_of ListAccountsUnsupported = ''list_accounts_unsupported''"
| "error_code_of (ListAccountsFailed v) = ''list_accounts_failed''"
| "error_code_of UnsupportedProvisioning = ''unsupported_provisioning''"
| "error_code_of SyncAccountsUnsupported = ''sync_accounts_unsupported''"
| "error_code_of (SyncAccountsFailed v) = ''sync_accounts_failed''"
| "error_code_of AccountNotProvisioned = ''account_not_provisioned''"
| "error_code_of (AccountNotFound ids) = ''account_not_found''"
| "error_code_of (AccountAmbiguous ids) = ''account_ambiguous''"
| "error_code_of (AccountFailed es) = ''account_failed''"
| "error_code_of (AccountNotUsable st setup task) = ''account_not_usable''"
| "error_code_of OperatorCredentialMissing = ''operator_credential_missing''"

datatype account_failure = AccountError account_error | CallFailed call_failure

definition py_fail :: "py_exn + 'a \<Rightarrow> ('s, account_failure, 'a) action" where
  "py_fail r = lift_res (case r of Inl e \<Rightarrow> Inl (CallFailed (PyFailure e)) | Inr x \<Rightarrow> Inr x)"

section \<open>The manager\<close>

record account_row =
  ar_seller_url :: string
  ar_account_key :: string
  ar_account_id :: json
  ar_name :: json
  ar_brand :: json
  ar_operator :: json
  ar_sandbox :: int
  ar_status :: json
  ar_billing :: json
  ar_account_mode :: string
  ar_raw :: dict
  ar_updated_at :: int

record account_manager =
  operator_domain :: string
  known_accounts :: "(string \<times> (string \<times> seller_account) list) list"
  accounts_db :: bool
  accounts_table :: "((string \<times> string) \<times> account_row) list"

text \<open>The settings, the clock, the UUID texts and the environment.\<close>

record account_env =
  acc_shown :: "json \<Rightarrow> string"
  acc_loads :: "string \<Rightarrow> json option"
  acc_environ :: environment
  acc_now :: int
  acc_hex :: string
  acc_version :: string
  acc_sandbox :: bool
  acc_currency :: string
  acc_timezone :: string
  acc_billing :: string
  acc_auto_provision :: bool

definition new_manager :: "string \<Rightarrow> account_manager" where
  "new_manager domain =
     \<lparr>operator_domain = lower domain, known_accounts = [], accounts_db = False, accounts_table = []\<rparr>"

type_synonym 'w tool_caller = "seller_agent \<Rightarrow> string \<Rightarrow> dict \<Rightarrow> ('w, call_failure, dict) action"

type_synonym ('w, 'a) account_action = "(account_manager \<times> 'w, account_failure, 'a) action"

definition seller_key :: "string \<Rightarrow> string" where
  "seller_key url = rstrip_char (CHR ''/'') url"

definition accounts_for :: "string \<Rightarrow> account_manager \<Rightarrow> seller_account list" where
  "accounts_for url m =
     map snd (case map_of (known_accounts m) (seller_key url) of Some accs \<Rightarrow> accs | None \<Rightarrow> [])"

definition all_accounts :: "account_manager \<Rightarrow> seller_account list" where
  "all_accounts m = concat (map (\<lambda>(u, accs). map snd accs) (known_accounts m))"

definition find_account :: "string \<Rightarrow> string \<Rightarrow> account_manager \<Rightarrow> seller_account option" where
  "find_account url key m =
     (case map_of (known_accounts m) (seller_key url) of Some accs \<Rightarrow> map_of accs key | None \<Rightarrow> None)"

definition remember_account :: "string \<Rightarrow> seller_account \<Rightarrow> account_manager \<Rightarrow> account_manager" where
  "remember_account key acc m =
     (let url = seller_key (sa_seller_url acc);
          accs = (case map_of (known_accounts m) url of Some accs \<Rightarrow> accs | None \<Rightarrow> [])
      in m\<lparr>known_accounts := dset url (dset key acc accs) (known_accounts m)\<rparr>)"

definition account_row_of :: "string \<Rightarrow> seller_account \<Rightarrow> account_row" where
  "account_row_of key acc =
     \<lparr>ar_seller_url = sa_seller_url acc, ar_account_key = key, ar_account_id = sa_account_id acc,
      ar_name = sa_name acc, ar_brand = sa_brand acc, ar_operator = sa_operator acc,
      ar_sandbox = (if sa_sandbox acc then 1 else 0), ar_status = sa_status acc,
      ar_billing = sa_billing acc, ar_account_mode = mode_value (sa_mode acc), ar_raw = sa_raw acc,
      ar_updated_at = sa_updated_at acc\<rparr>"

text \<open>A new and an existing row end with the same columns.\<close>

definition persist_account :: "string \<Rightarrow> seller_account \<Rightarrow> account_manager \<Rightarrow> account_manager" where
  "persist_account key acc m =
     (if \<not> accounts_db m then m
      else m\<lparr>accounts_table := dset (sa_seller_url acc, key) (account_row_of key acc) (accounts_table m)\<rparr>)"

definition store_account :: "(json \<Rightarrow> string) \<Rightarrow> seller_account \<Rightarrow> ('w, seller_account) account_action" where
  "store_account shown acc =
     sbind (py_fail (storage_key shown acc)) (\<lambda>key.
     sbind (modify (\<lambda>(m, w). (persist_account key acc (remember_account key acc m), w))) (\<lambda>_.
       ret acc))"

text \<open>One row of \<open>init_db\<close>; keys are written by \<open>_persist\<close>, so a loaded one is an object.\<close>

definition account_of_row ::
  "(json \<Rightarrow> string) \<Rightarrow> (string \<Rightarrow> json option) \<Rightarrow> int \<Rightarrow> account_row \<Rightarrow> py_exn + seller_account" where
  "account_of_row shown loads now r =
     res_bind (mode_of_value (if ar_account_mode r \<noteq> [] then ar_account_mode r else ''buyer_declared'')) (\<lambda>mode.
     res_bind (account_from_wire now (ar_seller_url r) mode (ar_raw r)) (\<lambda>acc.
     res_bind (if starts_with (ar_account_key r) ''id:'' then Inr None
               else case loads (ar_account_key r) of
                      Some v \<Rightarrow> Inr (Some (obj_of v)) | None \<Rightarrow> Inl ValueError) (\<lambda>natural.
       Inr (acc\<lparr>sa_brand := or_else (sa_brand acc) (ar_brand r),
                sa_operator := or_else (sa_operator acc) (ar_operator r),
                sa_natural := natural, sa_updated_at := ar_updated_at r\<rparr>))))"

fun load_rows ::
  "(json \<Rightarrow> string) \<Rightarrow> (string \<Rightarrow> json option) \<Rightarrow> int \<Rightarrow> account_row list \<Rightarrow> account_manager \<Rightarrow>
     py_exn + account_manager" where
  "load_rows shown loads now [] m = Inr m"
| "load_rows shown loads now (r # rs) m =
     res_bind (account_of_row shown loads now r) (\<lambda>acc.
     res_bind (storage_key shown acc) (\<lambda>key.
       load_rows shown loads now rs (remember_account key acc m)))"

definition accounts_init_db :: "account_env \<Rightarrow> account_manager \<Rightarrow> py_exn + account_manager" where
  "accounts_init_db env m =
     load_rows (acc_shown env) (acc_loads env) (acc_now env) (map snd (accounts_table m))
       (m\<lparr>accounts_db := True\<rparr>)"

section \<open>Natural keys\<close>

definition currency_for :: "account_env \<Rightarrow> dict \<Rightarrow> account_error + string option" where
  "currency_for env caps =
     (case getj caps ''supported_account_currency_modes'' of
        JArr (x # xs) \<Rightarrow>
          (if JStr ''per_media_buy'' \<in> set (x # xs) then Inr None
           else if acc_currency env = [] then Inl CurrencyRequired
           else Inr (Some (upper (acc_currency env))))
      | _ \<Rightarrow> Inr None)"

definition buyer_selected :: "dict \<Rightarrow> bool" where
  "buyer_selected caps \<longleftrightarrow>
     is_obj (getj caps ''timezone'') \<and>
     getj (obj_of (getj caps ''timezone'')) ''account_selection'' = JStr ''buyer_selected''"

definition timezone_for :: "account_env \<Rightarrow> dict \<Rightarrow> account_failure + string option" where
  "timezone_for env caps =
     (if \<not> buyer_selected caps then Inr None
      else
        let allowed = or_else (getj (obj_of (getj caps ''timezone'')) ''supported_timezones'') (JArr [])
        in if acc_timezone env = [] then Inl (AccountError (TimezoneRequired allowed))
           else if \<not> truthy allowed then Inr (Some (acc_timezone env))
           else case py_in (acc_timezone env) allowed of
             Inl e \<Rightarrow> Inl (CallFailed (PyFailure e))
           | Inr listed \<Rightarrow>
               (if listed then Inr (Some (acc_timezone env))
                else Inl (AccountError (TimezoneRequired allowed))))"

definition account_err :: "account_error + 'a \<Rightarrow> account_failure + 'a" where
  "account_err r = (case r of Inl e \<Rightarrow> Inl (AccountError e) | Inr x \<Rightarrow> Inr x)"

definition manager_natural_key ::
  "account_env \<Rightarrow> string \<Rightarrow> seller_agent \<Rightarrow> dict \<Rightarrow> account_failure + dict" where
  "manager_natural_key env operator seller brand =
     (let caps = account_capabilities seller
      in res_bind (case brand_key (acc_shown env) (JObj brand) of
                     Inl e \<Rightarrow> Inl (CallFailed (PyFailure e)) | Inr b \<Rightarrow> Inr b) (\<lambda>brand'.
         res_bind (account_err (currency_for env caps)) (\<lambda>currency.
         res_bind (timezone_for env caps) (\<lambda>tz.
           let k0 = [(''brand'', JObj brand'), (''operator'', JStr operator)];
               k1 = (case currency of Some c \<Rightarrow> dset ''currency'' (JStr c) k0 | None \<Rightarrow> k0);
               k2 = (case tz of Some z \<Rightarrow> dset ''timezone'' (JStr z) k1 | None \<Rightarrow> k1)
           in if \<not> acc_sandbox env then Inr k2
              else if caps \<noteq> [] \<and> getj caps ''sandbox'' \<noteq> JBool True
                then Inl (AccountError SandboxUnsupported)
              else Inr (dset ''sandbox'' (JBool True) k2)))))"

definition billing_parties :: "string list" where
  "billing_parties = [''operator'', ''agent'', ''advertiser'']"

definition billing_for :: "account_env \<Rightarrow> seller_agent \<Rightarrow> string \<Rightarrow> account_error + string" where
  "billing_for env seller requested =
     (let billing = lower (if requested \<noteq> [] then requested else acc_billing env)
      in if billing \<notin> set billing_parties then Inl BillingInvalid
         else case getj (account_capabilities seller) ''supported_billing'' of
           JArr (x # xs) \<Rightarrow>
             (if JStr billing \<in> set (x # xs) then Inr billing
              else Inl (BillingNotSupported (JArr (x # xs)) billing))
         | _ \<Rightarrow> Inr billing)"

definition manager_from_wire ::
  "account_env \<Rightarrow> seller_agent \<Rightarrow> dict \<Rightarrow> py_exn + seller_account" where
  "manager_from_wire env seller data =
     res_bind (account_from_wire (acc_now env) (agent_url seller) (agent_mode seller) data) (\<lambda>acc.
       if sa_mode acc = BUYER_DECLARED then
         res_bind (account_natural_key (acc_shown env) (buyer_selected (account_capabilities seller)) acc) (\<lambda>natural.
           Inr (acc\<lparr>sa_natural := natural\<rparr>))
       else Inr acc)"

section \<open>Protocol tasks\<close>

definition tool_call :: "'w tool_caller \<Rightarrow> seller_agent \<Rightarrow> string \<Rightarrow> dict \<Rightarrow> ('w, dict) account_action" where
  "tool_call call seller tool params =
     (\<lambda>(m, w). case call seller tool params w of
        (Inl e, w') \<Rightarrow> (Inl (CallFailed e), (m, w')) | (Inr r, w') \<Rightarrow> (Inr r, (m, w')))"

definition store_items :: "account_env \<Rightarrow> seller_agent \<Rightarrow> json list \<Rightarrow> ('w, seller_account list) account_action" where
  "store_items env seller items =
     smap (\<lambda>item. sbind (py_fail (manager_from_wire env seller (obj_of item))) (store_account (acc_shown env)))
       (filter is_obj items)"

definition list_params :: "dict \<Rightarrow> string \<Rightarrow> bool option \<Rightarrow> json \<Rightarrow> dict" where
  "list_params account status sandbox cursor =
     (let p1 = dset_if (account \<noteq> []) ''account'' (JObj account) [];
          p2 = dset_if (status \<noteq> []) ''status'' (JStr status) p1;
          p3 = (case sandbox of Some b \<Rightarrow> dset ''sandbox'' (JBool b) p2 | None \<Rightarrow> p2)
      in dset_if (truthy cursor) ''pagination'' (JObj [(''cursor'', cursor)]) p3)"

text \<open>The cursor of the next page, if there is one.\<close>

definition next_cursor :: "dict \<Rightarrow> py_exn + json" where
  "next_cursor response =
     (let pagination = or_else (getj response ''pagination'') (JObj [])
      in res_bind (getattr_get pagination ''has_more'') (\<lambda>more.
           if truthy more then getattr_get pagination ''cursor'' else Inr JNull))"

fun list_pages ::
  "account_env \<Rightarrow> 'w tool_caller \<Rightarrow> seller_agent \<Rightarrow> dict \<Rightarrow> string \<Rightarrow> bool option \<Rightarrow> nat \<Rightarrow> json \<Rightarrow>
     seller_account list \<Rightarrow> ('w, seller_account list) account_action" where
  "list_pages env call seller account status sandbox 0 cursor found = ret found"
| "list_pages env call seller account status sandbox (Suc n) cursor found =
     sbind (tool_call call seller ''list_accounts''
              (with_version (acc_version env) (list_params account status sandbox cursor))) (\<lambda>response.
       if truthy (getj response ''errors'') \<and> \<not> has_key response ''accounts''
       then raise (AccountError (ListAccountsFailed (getj response ''errors'')))
       else
         sbind (py_fail (iter_or_empty (getj response ''accounts''))) (\<lambda>items.
         sbind (store_items env seller items) (\<lambda>accs.
         sbind (py_fail (next_cursor response)) (\<lambda>cursor'.
           if \<not> truthy cursor' then ret (found @ accs)
           else list_pages env call seller account status sandbox n cursor' (found @ accs)))))"

definition max_pages :: nat where
  "max_pages = 10"

definition list_accounts ::
  "account_env \<Rightarrow> 'w tool_caller \<Rightarrow> seller_agent \<Rightarrow> dict \<Rightarrow> string \<Rightarrow> bool option \<Rightarrow>
     ('w, seller_account list) account_action" where
  "list_accounts env call seller account status sandbox =
     sbind (py_fail (has_tool seller ''list_accounts'')) (\<lambda>offered.
       if \<not> offered then raise (AccountError ListAccountsUnsupported)
       else list_pages env call seller account status sandbox max_pages JNull [])"

text \<open>An account returned for the one entry that was declared is tracked under the key that was sent.\<close>

definition declared_account :: "dict \<Rightarrow> seller_account \<Rightarrow> seller_account" where
  "declared_account key acc =
     acc\<lparr>sa_brand := or_else (sa_brand acc) (getj key ''brand''),
         sa_operator := or_else (sa_operator acc) (getj key ''operator''),
         sa_sandbox := sa_sandbox acc \<or> truthy (getj key ''sandbox''),
         sa_natural := Some key\<rparr>"

definition sync_items ::
  "account_env \<Rightarrow> seller_agent \<Rightarrow> dict \<Rightarrow> bool \<Rightarrow> json list \<Rightarrow> ('w, seller_account list) account_action" where
  "sync_items env seller key dry_run items =
     smap (\<lambda>item.
         sbind (py_fail (manager_from_wire env seller (obj_of item))) (\<lambda>acc.
           if dry_run then ret (declared_account key acc)
           else store_account (acc_shown env) (declared_account key acc)))
       (filter is_obj items)"

definition sync_params :: "account_env \<Rightarrow> dict \<Rightarrow> string \<Rightarrow> bool \<Rightarrow> dict" where
  "sync_params env key billing dry_run =
     dset_if dry_run ''dry_run'' (JBool True)
       [(''idempotency_key'', JStr (new_idempotency_key ''nxflo'' (acc_hex env))),
        (''accounts'', JArr [JObj (dset ''billing'' (JStr billing) key)])]"

definition sync_accounts ::
  "account_env \<Rightarrow> 'w tool_caller \<Rightarrow> seller_agent \<Rightarrow> dict \<Rightarrow> string \<Rightarrow> bool \<Rightarrow>
     ('w, seller_account list) account_action" where
  "sync_accounts env call seller brand billing dry_run =
     (if agent_mode seller \<noteq> BUYER_DECLARED then raise (AccountError UnsupportedProvisioning)
      else
        sbind (py_fail (has_tool seller ''sync_accounts'')) (\<lambda>offered.
          if \<not> offered then raise (AccountError SyncAccountsUnsupported)
          else
            sbind (asking (\<lambda>(m, w). operator_domain m)) (\<lambda>operator.
            sbind (lift_res (manager_natural_key env operator seller brand)) (\<lambda>key.
            sbind (lift_res (account_err (billing_for env seller billing))) (\<lambda>party.
            sbind (tool_call call seller ''sync_accounts''
                     (with_version (acc_version env) (sync_params env key party dry_run))) (\<lambda>response.
              if truthy (getj response ''errors'') \<and> \<not> has_key response ''accounts''
              then raise (AccountError (SyncAccountsFailed (getj response ''errors'')))
              else
                sbind (py_fail (iter_or_empty (getj response ''accounts'')))
                  (sync_items env seller key dry_run)))))))"

section \<open>Account references\<close>

definition task_allowed_statuses :: "string \<Rightarrow> string list" where
  "task_allowed_statuses task =
     (if task \<in> {''get_products'', ''update_media_buy'', ''sync_creatives''}
      then [''active'', ''payment_required''] else [''active''])"

text \<open>\<open>status in allowed\<close> on a frozen set: a status that cannot be hashed raises.\<close>

definition status_allowed :: "string list \<Rightarrow> seller_account \<Rightarrow> py_exn + bool" where
  "status_allowed allowed acc =
     (if is_obj (sa_status acc) \<or> is_arr (sa_status acc) then Inl TypeError
      else Inr (sa_status acc \<in> JStr ` set allowed))"

definition status_error :: "string \<Rightarrow> seller_account option \<Rightarrow> account_error" where
  "status_error task known =
     (case known of
        None \<Rightarrow> AccountNotFound []
      | Some acc \<Rightarrow>
          (if sa_errors acc \<noteq> [] then AccountFailed (sa_errors acc)
           else AccountNotUsable (sa_status acc) (sa_setup acc) task))"

text \<open>The first account listed under the key, else the one known before.\<close>

fun under_key ::
  "(json \<Rightarrow> string) \<Rightarrow> string \<Rightarrow> seller_account \<Rightarrow> seller_account list \<Rightarrow> py_exn + seller_account" where
  "under_key shown key known [] = Inr known"
| "under_key shown key known (a # as) =
     res_bind (storage_key shown a) (\<lambda>k. if k = key then Inr a else under_key shown key known as)"

definition usable_account :: "account_env \<Rightarrow> seller_account \<Rightarrow> bool" where
  "usable_account env a \<longleftrightarrow>
     sa_status a = JStr ''active'' \<and> (\<not> acc_sandbox env \<or> sa_sandbox a)"

definition account_matches ::
  "(json \<Rightarrow> string) \<Rightarrow> dict \<Rightarrow> seller_account \<Rightarrow> py_exn + bool" where
  "account_matches shown brand a =
     (if \<not> truthy (sa_brand a) then Inr False
      else case sa_brand a of
        JObj b \<Rightarrow>
          Inr (lower (text_of shown (get_or b ''domain'' (JStr []))) =
                 lower (text_of shown (get_or brand ''domain'' (JStr []))) \<and>
               (\<not> truthy (getj brand ''brand_id'') \<or> getj b ''brand_id'' = getj brand ''brand_id''))
      | _ \<Rightarrow> Inl AttributeError)"

fun res_filter :: "('a \<Rightarrow> 'e + bool) \<Rightarrow> 'a list \<Rightarrow> 'e + 'a list" where
  "res_filter p [] = Inr []"
| "res_filter p (x # xs) =
     res_bind (p x) (\<lambda>b. res_bind (res_filter p xs) (\<lambda>ys. Inr (if b then x # ys else ys)))"

definition account_id_ref :: "seller_account \<Rightarrow> dict" where
  "account_id_ref a = [(''account_id'', sa_account_id a)]"

text \<open>The choice among the accounts of an operator-authorized seller.\<close>

definition choose_account ::
  "account_env \<Rightarrow> dict \<Rightarrow> seller_account list \<Rightarrow> account_failure + dict" where
  "choose_account env brand listed =
     (let accounts = filter (\<lambda>a. truthy (sa_account_id a)) listed;
          usable = filter (usable_account env) accounts
      in if length usable = 1 \<and> length accounts = 1 then Inr (account_id_ref (hd usable))
         else case res_filter (account_matches (acc_shown env) brand) usable of
           Inl e \<Rightarrow> Inl (CallFailed (PyFailure e))
         | Inr matches \<Rightarrow>
             (if length matches = 1 then Inr (account_id_ref (hd matches))
              else Inl (AccountError
                (if matches \<noteq> [] \<or> length usable > 1 then AccountAmbiguous (map sa_account_id usable)
                 else AccountNotFound (map sa_account_id usable)))))"

definition resolve_account_id ::
  "account_env \<Rightarrow> 'w tool_caller \<Rightarrow> seller_agent \<Rightarrow> dict \<Rightarrow> ('w, dict) account_action" where
  "resolve_account_id env call seller brand =
     (if (case operator_token seller of Some (c # cs) \<Rightarrow> False | _ \<Rightarrow> True)
      then raise (AccountError OperatorCredentialMissing)
      else case seller_env (acc_environ env) ''NXFLO_OPERATOR_ACCOUNT_ID'' (agent_url seller) of
        Some pinned \<Rightarrow> ret [(''account_id'', JStr pinned)]
      | None \<Rightarrow>
          sbind (list_accounts env call seller [] [] (if acc_sandbox env then Some True else None)) (\<lambda>listed.
            lift_res (choose_account env brand listed)))"

text \<open>\<open>_find\<close> with the key's text.\<close>

definition find_known ::
  "account_env \<Rightarrow> seller_agent \<Rightarrow> dict \<Rightarrow> ('w, seller_account option) account_action" where
  "find_known env seller key =
     asking (\<lambda>(m, w). find_account (agent_url seller) (canonical_key (acc_shown env) key) m)"

text \<open>The last part of \<open>resolve_account_ref\<close>: a seller that does not know the account.\<close>

definition provision_account ::
  "account_env \<Rightarrow> 'w tool_caller \<Rightarrow> seller_agent \<Rightarrow> dict \<Rightarrow> string \<Rightarrow> bool option \<Rightarrow> dict \<Rightarrow>
     ('w, dict) account_action" where
  "provision_account env call seller brand task provision key =
     sbind (py_fail (has_tool seller ''sync_accounts'')) (\<lambda>offered.
       if \<not> offered then ret key
       else if \<not> (case provision of Some b \<Rightarrow> b | None \<Rightarrow> acc_auto_provision env)
         then raise (AccountError AccountNotProvisioned)
       else
         sbind (sync_accounts env call seller brand [] False) (\<lambda>synced.
           case synced of
             [] \<Rightarrow> raise (AccountError (status_error task None))
           | known # _ \<Rightarrow>
               sbind (py_fail (status_allowed (task_allowed_statuses task) known)) (\<lambda>ok.
                 if ok then ret key else raise (AccountError (status_error task (Some known))))))"

definition refresh_account ::
  "account_env \<Rightarrow> 'w tool_caller \<Rightarrow> seller_agent \<Rightarrow> string \<Rightarrow> dict \<Rightarrow> seller_account \<Rightarrow> ('w, dict) account_action"
where
  "refresh_account env call seller task key known =
     sbind (py_fail (has_tool seller ''list_accounts'')) (\<lambda>offered.
       if \<not> offered then raise (AccountError (status_error task (Some known)))
       else
         sbind (list_accounts env call seller key [] None) (\<lambda>listed.
         sbind (py_fail (under_key (acc_shown env) (canonical_key (acc_shown env) key) known listed)) (\<lambda>now_known.
         sbind (py_fail (status_allowed (task_allowed_statuses task) now_known)) (\<lambda>ok.
           if ok then ret key else raise (AccountError (status_error task (Some now_known)))))))"

definition resolve_account_ref ::
  "account_env \<Rightarrow> 'w tool_caller \<Rightarrow> seller_agent \<Rightarrow> dict \<Rightarrow> string \<Rightarrow> bool option \<Rightarrow> ('w, dict) account_action"
where
  "resolve_account_ref env call seller brand task provision =
     (if agent_mode seller = OPERATOR_AUTHORIZED then resolve_account_id env call seller brand
      else
        sbind (asking (\<lambda>(m, w). operator_domain m)) (\<lambda>operator.
        sbind (lift_res (manager_natural_key env operator seller brand)) (\<lambda>key.
        sbind (find_known env seller key) (\<lambda>found.
          case found of
            None \<Rightarrow> provision_account env call seller brand task provision key
          | Some known \<Rightarrow>
              sbind (py_fail (status_allowed (task_allowed_statuses task) known)) (\<lambda>ok.
                if ok then ret key else refresh_account env call seller task key known)))))"

definition known_discovery_ref ::
  "account_env \<Rightarrow> seller_agent \<Rightarrow> dict \<Rightarrow> ('w, dict option) account_action" where
  "known_discovery_ref env seller key =
     sbind (find_known env seller key) (\<lambda>found.
       case found of
         None \<Rightarrow> ret None
       | Some known \<Rightarrow>
           sbind (py_fail (status_allowed (task_allowed_statuses ''get_products'') known)) (\<lambda>ok.
             ret (if ok then Some key else None)))"

definition discovery_account_ref ::
  "account_env \<Rightarrow> 'w tool_caller \<Rightarrow> seller_agent \<Rightarrow> dict \<Rightarrow> ('w, dict option) account_action" where
  "discovery_account_ref env call seller brand =
     (if getj (account_capabilities seller) ''required_for_products'' = JBool True then
        sbind (resolve_account_ref env call seller brand ''get_products'' None) (\<lambda>ref. ret (Some ref))
      else if agent_mode seller = OPERATOR_AUTHORIZED then
        ret (case seller_env (acc_environ env) ''NXFLO_OPERATOR_ACCOUNT_ID'' (agent_url seller) of
               Some pinned \<Rightarrow>
                 (case operator_token seller of
                    Some (c # cs) \<Rightarrow> Some [(''account_id'', JStr pinned)] | _ \<Rightarrow> None)
             | None \<Rightarrow> None)
      else
        sbind (asking (\<lambda>(m, w). operator_domain m)) (\<lambda>operator.
          case manager_natural_key env operator seller brand of
            Inl (AccountError e) \<Rightarrow> ret None
          | Inl (CallFailed e) \<Rightarrow> raise (CallFailed e)
          | Inr key \<Rightarrow> known_discovery_ref env seller key))"

section \<open>The store\<close>

text \<open>Accounts lie under their seller and their storage key.\<close>

definition accounts_filed :: "(json \<Rightarrow> string) \<Rightarrow> account_manager \<Rightarrow> bool" where
  "accounts_filed shown m \<longleftrightarrow>
     (\<forall>(url, accs) \<in> set (known_accounts m). \<forall>(key, acc) \<in> set accs.
        storage_key shown acc = Inr key \<and> seller_key (sa_seller_url acc) = url)"

lemma accounts_filedD:
  "accounts_filed shown m \<Longrightarrow> (url, accs) \<in> set (known_accounts m) \<Longrightarrow> (key, acc) \<in> set accs \<Longrightarrow>
     storage_key shown acc = Inr key \<and> seller_key (sa_seller_url acc) = url"
  unfolding accounts_filed_def by blast

lemma accounts_filedI:
  "(\<And>url accs key acc. (url, accs) \<in> set (known_accounts m) \<Longrightarrow> (key, acc) \<in> set accs \<Longrightarrow>
     storage_key shown acc = Inr key \<and> seller_key (sa_seller_url acc) = url) \<Longrightarrow> accounts_filed shown m"
  unfolding accounts_filed_def by blast

lemma seller_key_idem [simp]: "seller_key (seller_key url) = seller_key url"
proof -
  have "dropWhile P (dropWhile P xs) = dropWhile P xs" for P :: "char \<Rightarrow> bool" and xs
    by (induction xs) auto
  then show ?thesis by (simp add: seller_key_def rstrip_char_def)
qed

lemma set_dset_subset: "set (dset k v d) \<subseteq> insert (k, v) (set d)"
  by (induction d) auto

lemma remember_account_filed:
  assumes "accounts_filed shown m" "storage_key shown acc = Inr key"
  shows "accounts_filed shown (remember_account key acc m)"
proof -
  let ?url = "seller_key (sa_seller_url acc)"
  let ?accs = "case map_of (known_accounts m) ?url of Some accs \<Rightarrow> accs | None \<Rightarrow> []"
  have old: "storage_key shown a = Inr k \<and> seller_key (sa_seller_url a) = ?url" if "(k, a) \<in> set ?accs" for k a
  proof (cases "map_of (known_accounts m) ?url")
    case (Some accs)
    with that have "(k, a) \<in> set accs" by simp
    with accounts_filedD [OF assms(1) map_of_SomeD [OF Some]] show ?thesis by blast
  qed (use that in simp)
  have new: "storage_key shown a = Inr k \<and> seller_key (sa_seller_url a) = ?url"
    if "(k, a) \<in> set (dset key acc ?accs)" for k a
  proof -
    from that set_dset_subset [of key acc ?accs] have "(k, a) = (key, acc) \<or> (k, a) \<in> set ?accs" by blast
    with old assms(2) show ?thesis by blast
  qed
  have "(u, accs) = (?url, dset key acc ?accs) \<or> (u, accs) \<in> set (known_accounts m)"
    if "(u, accs) \<in> set (known_accounts (remember_account key acc m))" for u accs
    using that set_dset_subset [of ?url "dset key acc ?accs" "known_accounts m"]
    by (auto simp: remember_account_def Let_def)
  with new accounts_filedD [OF assms(1)] show ?thesis by (intro accounts_filedI) blast
qed

lemma persist_account_simps [simp]:
  "known_accounts (persist_account key acc m) = known_accounts m"
  "operator_domain (persist_account key acc m) = operator_domain m"
  "accounts_db (persist_account key acc m) = accounts_db m"
  by (simp_all add: persist_account_def)

lemma remember_account_simps [simp]:
  "operator_domain (remember_account key acc m) = operator_domain m"
  "accounts_db (remember_account key acc m) = accounts_db m"
  "accounts_table (remember_account key acc m) = accounts_table m"
  by (simp_all add: remember_account_def Let_def)

lemma find_account_remember [simp]:
  "find_account url k (remember_account key acc m) =
     (if seller_key url = seller_key (sa_seller_url acc) \<and> k = key then Some acc else find_account url k m)"
  by (auto simp: find_account_def remember_account_def Let_def split: option.splits)

lemma persist_account_filed [simp]: "accounts_filed shown (persist_account key acc m) = accounts_filed shown m"
  by (simp add: accounts_filed_def)

text \<open>What every operation of the manager keeps, whatever its caller does.\<close>

locale account_invariant =
  fixes env :: account_env and inv :: "account_manager \<Rightarrow> bool"
  assumes stored: "\<And>m acc key. inv m \<Longrightarrow> storage_key (acc_shown env) acc = Inr key \<Longrightarrow>
    inv (persist_account key acc (remember_account key acc m))"
begin

abbreviation kept :: "(account_manager \<times> 'w, account_failure, 'a) action \<Rightarrow> bool" where
  "kept \<equiv> keeps (\<lambda>(m, w). inv m)"

lemma kept_py_fail [intro!]: "kept (py_fail r)"
  by (auto simp: py_fail_def)

lemma kept_tool_call [intro!]: "kept (tool_call call seller tool params)"
  by (auto simp: keeps_def tool_call_def split: prod.splits sum.splits)

lemma kept_store [intro!]: "kept (store_account (acc_shown env) acc)"
  by (auto simp: keeps_def store_account_def py_fail_def sbind_def stored split: sum.splits)


lemma kept_list_pages:
  "kept (list_pages env call seller account status sandbox n cursor found)"
  by (induction n arbitrary: cursor found)
     (auto intro!: keeps_intros kept_store simp: store_items_def)

lemma kept_list_accounts [intro]: "kept (list_accounts env call seller account status sandbox)"
  by (auto intro!: keeps_intros kept_list_pages simp: list_accounts_def)

lemma kept_sync_accounts [intro]: "kept (sync_accounts env call seller brand billing dry_run)"
  by (auto intro!: keeps_intros kept_store simp: sync_accounts_def sync_items_def)

lemma kept_resolve_account_ref [intro]:
  "kept (resolve_account_ref env call seller brand task provision)"
  unfolding resolve_account_ref_def resolve_account_id_def provision_account_def refresh_account_def find_known_def
  by (auto intro!: keeps_intros split: list.split)

lemma kept_discovery_account_ref [intro]:
  "kept (discovery_account_ref env call seller brand)"
  unfolding discovery_account_ref_def known_discovery_ref_def find_known_def
  by (auto intro!: keeps_intros kept_resolve_account_ref split: account_failure.split)

end

interpretation filed: account_invariant env "accounts_filed (acc_shown env)" for env
  by unfold_locales (simp add: remember_account_filed)

interpretation domain: account_invariant env "\<lambda>m. operator_domain m = d" for env d
  by unfold_locales simp

text \<open>
  The accounts are filed where they will be looked up: each one under the address of its seller
  and under its own storage key, after any operation of the manager, whatever the seller answers
  and whether or not the operation raises.
\<close>

theorem accounts_stay_filed:
  assumes "accounts_filed (acc_shown env) m"
  shows "accounts_filed (acc_shown env) (fst (snd (resolve_account_ref env call seller brand task provision (m, w)))) \<and>
    accounts_filed (acc_shown env) (fst (snd (discovery_account_ref env call seller brand (m, w)))) \<and>
    accounts_filed (acc_shown env) (fst (snd (list_accounts env call seller account status sandbox (m, w)))) \<and>
    accounts_filed (acc_shown env) (fst (snd (sync_accounts env call seller brand billing dry_run (m, w))))"
proof -
  have final: "accounts_filed (acc_shown env) (fst (snd (act (m, w))))"
    if "keeps (\<lambda>(m, w). accounts_filed (acc_shown env) m) act"
    for act :: "(account_manager \<times> 'a, account_failure, 'b) action"
    using keepsD [OF that, of "(m, w)"] assms by (cases "act (m, w)") fastforce
  show ?thesis
    by (intro conjI final filed.kept_resolve_account_ref filed.kept_discovery_account_ref
        filed.kept_list_accounts filed.kept_sync_accounts)
qed

section \<open>What account operations do to the connections\<close>

text \<open>An invariant of the connections that calls of the two account tools keep.\<close>

locale connection_invariant =
  fixes call :: "'w tool_caller" and winv :: "'w \<Rightarrow> bool"
  assumes account_call: "\<And>seller tool params w. tool = ''list_accounts'' \<or> tool = ''sync_accounts'' \<Longrightarrow>
    winv w \<Longrightarrow> winv (snd (call seller tool params w))"
begin

abbreviation connected :: "(account_manager \<times> 'w, account_failure, 'a) action \<Rightarrow> bool" where
  "connected \<equiv> keeps (\<lambda>(m, w). winv w)"

lemma connected_py_fail [intro!]: "connected (py_fail r)"
  by (auto simp: py_fail_def)

lemma connected_tool_call [intro!]:
  assumes "tool = ''list_accounts'' \<or> tool = ''sync_accounts''"
  shows "connected (tool_call call seller tool params)"
  unfolding keeps_def
proof (intro allI impI)
  fix s :: "account_manager \<times> 'w"
  assume "case s of (m, w) \<Rightarrow> winv w"
  moreover obtain m w where "s = (m, w)" by fastforce
  moreover obtain r w' where "call seller tool params w = (r, w')" by fastforce
  ultimately show "case snd (tool_call call seller tool params s) of (m, w) \<Rightarrow> winv w"
    using account_call [OF assms, of w seller params] by (cases r) (simp_all add: tool_call_def)
qed

lemma connected_store [intro!]: "connected (store_account shown acc)"
  by (auto simp: keeps_def store_account_def py_fail_def sbind_def split: sum.splits prod.splits)

lemma connected_list_pages: "connected (list_pages env call seller account status sandbox n cursor found)"
  by (induction n arbitrary: cursor found)
     (auto intro!: keeps_intros connected_store simp: store_items_def)

lemma connected_list_accounts: "connected (list_accounts env call seller account status sandbox)"
  by (auto intro!: keeps_intros connected_list_pages simp: list_accounts_def)

lemma connected_sync_accounts: "connected (sync_accounts env call seller brand billing dry_run)"
  by (auto intro!: keeps_intros connected_store simp: sync_accounts_def sync_items_def)

lemma connected_resolve_account_ref: "connected (resolve_account_ref env call seller brand task provision)"
  unfolding resolve_account_ref_def resolve_account_id_def provision_account_def refresh_account_def find_known_def
  by (auto intro!: keeps_intros connected_list_accounts connected_sync_accounts split: list.split)

lemma connected_discovery_account_ref: "connected (discovery_account_ref env call seller brand)"
  unfolding discovery_account_ref_def known_discovery_ref_def find_known_def
  by (auto intro!: keeps_intros connected_resolve_account_ref split: account_failure.split)

end

section \<open>What a seller has said\<close>

lemma smap_results:
  "smap f xs s = (Inr ys, s') \<Longrightarrow> y \<in> set ys \<Longrightarrow> \<exists>x \<in> set xs. \<exists>s1 s2. f x s1 = (Inr y, s2)"
  by (induction xs arbitrary: s ys) (auto simp: sbind_Inr_iff, blast+)

lemma py_fail_Inr [simp]: "py_fail r s = (Inr x, s') \<longleftrightarrow> r = Inr x \<and> s' = s"
  by (auto simp: py_fail_def split: sum.splits)

lemma store_account_result: "store_account shown acc s = (Inr a, s') \<Longrightarrow> a = acc"
  by (auto simp: store_account_def sbind_Inr_iff)

text \<open>An account object in an answer of the seller to \<open>list_accounts\<close> or \<open>sync_accounts\<close>.\<close>

definition returned_by :: "'w tool_caller \<Rightarrow> seller_agent \<Rightarrow> string \<Rightarrow> dict \<Rightarrow> bool" where
  "returned_by call seller tool data \<longleftrightarrow>
     (\<exists>params w response w'. call seller tool params w = (Inr response, w') \<and>
        JObj data \<in> set (arr_of (getj response ''accounts'')))"

lemma iter_objects:
  "iter_or_empty v = Inr items \<Longrightarrow> item \<in> set items \<Longrightarrow> is_obj item \<Longrightarrow> JObj (obj_of item) \<in> set (arr_of v)"
  by (cases v; cases item) (auto simp: iter_or_empty_def split: if_splits)

lemma tool_call_Inr: "tool_call call seller tool params (m, w) = (Inr r, (m', w')) \<longleftrightarrow>
    call seller tool params w = (Inr r, w') \<and> m' = m"
  by (auto simp: tool_call_def split: prod.splits sum.splits)

lemma store_items_result:
  assumes "store_items env seller items s = (Inr accs, s')" "a \<in> set accs"
  shows "\<exists>item \<in> set items. is_obj item \<and> manager_from_wire env seller (obj_of item) = Inr a"
  using smap_results [OF assms [unfolded store_items_def]]
  by (fastforce simp: sbind_Inr_iff dest: store_account_result)

lemma list_pages_returned:
  "list_pages env call seller account status sandbox n cursor found (m, w) = (Inr accs, s') \<Longrightarrow> a \<in> set accs \<Longrightarrow>
     a \<in> set found \<or> (\<exists>data. returned_by call seller ''list_accounts'' data \<and> manager_from_wire env seller data = Inr a)"
proof (induction n arbitrary: cursor found m w)
  case (Suc n)
  let ?params = "with_version (acc_version env) (list_params account status sandbox cursor)"
  from Suc.prems(1) obtain response m1 w1 items new m2 w2 c where
    call: "call seller ''list_accounts'' ?params w = (Inr response, w1)"
    and items: "iter_or_empty (getj response ''accounts'') = Inr items"
    and new: "store_items env seller items (m1, w1) = (Inr new, (m2, w2))"
    and rest: "accs = found @ new \<or>
      list_pages env call seller account status sandbox n c (found @ new) (m2, w2) = (Inr accs, s')"
    by (simp add: sbind_Inr_iff tool_call_Inr split: if_splits) (elim exE conjE disjE; force)+
  have "\<exists>data. returned_by call seller ''list_accounts'' data \<and> manager_from_wire env seller data = Inr a"
    if a: "a \<in> set new"
  proof -
    from store_items_result [OF new a] obtain item where item: "item \<in> set items" "is_obj item"
      "manager_from_wire env seller (obj_of item) = Inr a" by blast
    with call iter_objects [OF items item(1,2)] show ?thesis unfolding returned_by_def by blast
  qed
  with rest Suc.IH [of c "found @ new" m2 w2] Suc.prems(2) show ?case by (auto split: if_splits)
qed simp

lemma list_accounts_returned:
  assumes "list_accounts env call seller account status sandbox (m, w) = (Inr accs, s')" "a \<in> set accs"
  shows "\<exists>data. returned_by call seller ''list_accounts'' data \<and> manager_from_wire env seller data = Inr a"
  using assms list_pages_returned [of env call seller account status sandbox max_pages JNull "[]" m w accs s' a]
  by (auto simp: list_accounts_def sbind_Inr_iff split: if_splits)

lemma sync_accounts_returned:
  assumes "sync_accounts env call seller brand billing dry_run (m, w) = (Inr accs, s')" "a \<in> set accs"
  shows "\<exists>key data acc. manager_natural_key env (operator_domain m) seller brand = Inr key \<and>
    returned_by call seller ''sync_accounts'' data \<and> manager_from_wire env seller data = Inr acc \<and>
    a = declared_account key acc"
proof -
  from assms(1) obtain key party response m1 w1 items where
    key: "manager_natural_key env (operator_domain m) seller brand = Inr key"
    and call: "call seller ''sync_accounts'' (with_version (acc_version env) (sync_params env key party dry_run)) w = (Inr response, w1)"
    and items: "iter_or_empty (getj response ''accounts'') = Inr items"
    and new: "sync_items env seller key dry_run items (m1, w1) = (Inr accs, s')"
    by (auto simp: sync_accounts_def sbind_Inr_iff tool_call_Inr split: if_splits)
  from smap_results [OF new [unfolded sync_items_def] assms(2)] obtain item acc where
    item: "item \<in> set items" "is_obj item" "manager_from_wire env seller (obj_of item) = Inr acc"
    "a = declared_account key acc"
    by (auto simp: sbind_Inr_iff split: if_splits dest: store_account_result)
  with key call iter_objects [OF items item(1,2)] show ?thesis unfolding returned_by_def by blast
qed

section \<open>References are vouched for\<close>

text \<open>
  An account that the seller has just returned and that stands for the key: one listed under the
  key's text, or the answer to the declaration of the key.
\<close>

definition vouched :: "account_env \<Rightarrow> 'w tool_caller \<Rightarrow> seller_agent \<Rightarrow> dict \<Rightarrow> seller_account \<Rightarrow> bool" where
  "vouched env call seller key acc \<longleftrightarrow>
     (\<exists>data. returned_by call seller ''list_accounts'' data \<and> manager_from_wire env seller data = Inr acc \<and>
        storage_key (acc_shown env) acc = Inr (canonical_key (acc_shown env) key)) \<or>
     (\<exists>data acc0. returned_by call seller ''sync_accounts'' data \<and> manager_from_wire env seller data = Inr acc0 \<and>
        acc = declared_account key acc0)"

lemma under_key_result:
  "under_key shown key known as = Inr a \<Longrightarrow> a = known \<or> a \<in> set as \<and> storage_key shown a = Inr key"
  by (induction as) (auto simp: res_bind_Inr_iff split: if_splits)

lemma refresh_account_vouched:
  assumes "refresh_account env call seller task key known (m, w) = (Inr ref, s')"
    and "status_allowed (task_allowed_statuses task) known = Inr False"
  shows "ref = key \<and> (\<exists>acc. vouched env call seller key acc \<and> status_allowed (task_allowed_statuses task) acc = Inr True)"
proof -
  let ?text = "canonical_key (acc_shown env) key"
  from assms(1) obtain listed m1 w1 acc where ref: "ref = key"
    and listed: "list_accounts env call seller key [] None (m, w) = (Inr listed, (m1, w1))"
    and acc: "under_key (acc_shown env) ?text known listed = Inr acc"
    and ok: "status_allowed (task_allowed_statuses task) acc = Inr True"
    by (auto simp: refresh_account_def sbind_Inr_iff split: if_splits)
  from ok assms(2) have "acc \<noteq> known" by auto
  with under_key_result [OF acc] have in_list: "acc \<in> set listed" "storage_key (acc_shown env) acc = Inr ?text" by auto
  from list_accounts_returned [OF listed in_list(1)] in_list(2) ref ok show ?thesis unfolding vouched_def by blast
qed

lemma provision_account_vouched:
  assumes "provision_account env call seller brand task provision key (m, w) = (Inr ref, s')"
    and "manager_natural_key env (operator_domain m) seller brand = Inr key"
  shows "ref = key \<and>
    (has_tool seller ''sync_accounts'' = Inr False \<and> s' = (m, w) \<or>
     (\<exists>acc. vouched env call seller key acc \<and> status_allowed (task_allowed_statuses task) acc = Inr True))"
proof -
  consider "has_tool seller ''sync_accounts'' = Inr False" "ref = key" "s' = (m, w)"
    | synced m1 w1 where "sync_accounts env call seller brand [] False (m, w) = (Inr synced, (m1, w1))"
        "(case synced of
            [] \<Rightarrow> raise (AccountError (status_error task None))
          | known # _ \<Rightarrow>
              sbind (py_fail (status_allowed (task_allowed_statuses task) known)) (\<lambda>ok.
                if ok then ret key else raise (AccountError (status_error task (Some known))))) (m1, w1) = (Inr ref, s')"
    using assms(1) by (auto simp: provision_account_def sbind_Inr_iff split: if_splits)
  then show ?thesis
  proof cases
    case 2
    then obtain acc rest where acc: "synced = acc # rest"
      "status_allowed (task_allowed_statuses task) acc = Inr True" "ref = key"
      by (cases synced) (auto simp: sbind_Inr_iff split: if_splits)
    from sync_accounts_returned [OF 2(1), of acc] assms(2) acc have "vouched env call seller key acc"
      by (auto simp: vouched_def)
    with acc show ?thesis by blast
  qed simp
qed

text \<open>
  C18. The reference for an account-scoped call on a buyer-declared seller fails closed: what is
  returned is the natural key of the brand, and the account behind it has a status that allows the
  task, either in the records of the manager or in an answer of the seller just received; the one
  exception is a seller without \<open>sync_accounts\<close> that the manager knows nothing about, which will
  provision the account itself, and then nothing has been changed or called.
\<close>

theorem account_ref_fails_closed:
  assumes "resolve_account_ref env call seller brand task provision (m, w) = (Inr ref, s')"
    and "agent_mode seller = BUYER_DECLARED"
  shows "manager_natural_key env (operator_domain m) seller brand = Inr ref \<and>
    ((\<exists>acc. (find_account (agent_url seller) (canonical_key (acc_shown env) ref) m = Some acc \<or>
           vouched env call seller ref acc) \<and>
         status_allowed (task_allowed_statuses task) acc = Inr True) \<or>
     find_account (agent_url seller) (canonical_key (acc_shown env) ref) m = None \<and>
     has_tool seller ''sync_accounts'' = Inr False \<and> s' = (m, w))"
proof -
  from assms obtain key where key: "manager_natural_key env (operator_domain m) seller brand = Inr key"
    and rest: "(case find_account (agent_url seller) (canonical_key (acc_shown env) key) m of
            None \<Rightarrow> provision_account env call seller brand task provision key
          | Some known \<Rightarrow>
              sbind (py_fail (status_allowed (task_allowed_statuses task) known)) (\<lambda>ok.
                if ok then ret key else refresh_account env call seller task key known)) (m, w) = (Inr ref, s')"
    by (auto simp: resolve_account_ref_def sbind_Inr_iff find_known_def)
  have "ref = key \<and> ((\<exists>acc. (find_account (agent_url seller) (canonical_key (acc_shown env) key) m = Some acc \<or>
             vouched env call seller key acc) \<and> status_allowed (task_allowed_statuses task) acc = Inr True) \<or>
         find_account (agent_url seller) (canonical_key (acc_shown env) key) m = None \<and>
         has_tool seller ''sync_accounts'' = Inr False \<and> s' = (m, w))"
  proof (cases "find_account (agent_url seller) (canonical_key (acc_shown env) key) m")
    case None
    with rest provision_account_vouched [of env call seller brand task provision key m w ref s'] key
    show ?thesis by auto
  next
    case (Some known)
    with rest refresh_account_vouched [of env call seller task key known m w ref s'] show ?thesis
      by (auto simp: sbind_Inr_iff split: if_splits)
  qed
  with key show ?thesis by auto
qed

section \<open>Operator-authorized sellers\<close>

lemma choose_account_result:
  assumes "choose_account env brand listed = Inr ref"
  shows "\<exists>acc \<in> set listed. ref = account_id_ref acc \<and> usable_account env acc \<and> truthy (sa_account_id acc) \<and>
    (filter (\<lambda>a. truthy (sa_account_id a)) listed = [acc] \<or>
     res_filter (account_matches (acc_shown env) brand)
       (filter (usable_account env) (filter (\<lambda>a. truthy (sa_account_id a)) listed)) = Inr [acc])"
proof -
  define accounts where "accounts = filter (\<lambda>a. truthy (sa_account_id a)) listed"
  define usable where "usable = filter (usable_account env) accounts"
  have sub: "set ys \<subseteq> set xs" if "res_filter p xs = Inr ys" for p :: "seller_account \<Rightarrow> py_exn + bool" and xs ys
    using that by (induction xs arbitrary: ys) (fastforce simp: res_bind_Inr_iff split: if_splits)+
  consider acc where "usable = [acc]" "length accounts = 1" "ref = account_id_ref acc"
    | acc where "res_filter (account_matches (acc_shown env) brand) usable = Inr [acc]" "ref = account_id_ref acc"
    using assms unfolding choose_account_def Let_def accounts_def [symmetric] usable_def [symmetric]
    by (auto simp: length_Suc_conv split: if_splits sum.splits)
  then show ?thesis
  proof cases
    case 1
    then obtain a where a: "accounts = [a]" by (auto simp: length_Suc_conv)
    with 1 have "acc = a" "usable_account env a" by (auto simp: usable_def split: if_splits)
    moreover have "a \<in> set accounts" using a by simp
    ultimately show ?thesis using 1 a by (auto simp: accounts_def)
  next
    case 2
    then have "acc \<in> set usable" using sub by fastforce
    with 2 show ?thesis by (auto simp: accounts_def usable_def)
  qed
qed

text \<open>
  C19. On an operator-authorized seller no account is ever guessed: the operator's credential is
  configured, and the account is the pinned one, or an active one of those just listed (a sandbox
  account when the buyer runs in the sandbox) which is the only one listed or the only one usable
  for the brand.
\<close>

theorem account_id_never_guessed:
  assumes "resolve_account_ref env call seller brand task provision (m, w) = (Inr ref, s')"
    and "agent_mode seller = OPERATOR_AUTHORIZED"
  shows "(\<exists>c cs. operator_token seller = Some (c # cs)) \<and>
    (case seller_env (acc_environ env) ''NXFLO_OPERATOR_ACCOUNT_ID'' (agent_url seller) of
       Some pinned \<Rightarrow> ref = [(''account_id'', JStr pinned)] \<and> s' = (m, w)
     | None \<Rightarrow>
         (\<exists>listed. \<exists>acc \<in> set listed.
            list_accounts env call seller [] [] (if acc_sandbox env then Some True else None) (m, w) = (Inr listed, s') \<and>
            ref = account_id_ref acc \<and> usable_account env acc \<and> truthy (sa_account_id acc) \<and>
            (filter (\<lambda>a. truthy (sa_account_id a)) listed = [acc] \<or>
             res_filter (account_matches (acc_shown env) brand)
               (filter (usable_account env) (filter (\<lambda>a. truthy (sa_account_id a)) listed)) = Inr [acc])))"
proof -
  from assms have res: "resolve_account_id env call seller brand (m, w) = (Inr ref, s')"
    by (simp add: resolve_account_ref_def)
  then obtain c cs where tok: "operator_token seller = Some (c # cs)"
    by (auto simp: resolve_account_id_def split: option.splits list.splits if_splits)
  show ?thesis
  proof (cases "seller_env (acc_environ env) ''NXFLO_OPERATOR_ACCOUNT_ID'' (agent_url seller)")
    case None
    with res tok obtain listed where
      "list_accounts env call seller [] [] (if acc_sandbox env then Some True else None) (m, w) = (Inr listed, s')"
      "choose_account env brand listed = Inr ref"
      by (auto simp: resolve_account_id_def sbind_Inr_iff)
    with choose_account_result [OF this(2)] tok None show ?thesis by auto
  qed (use res tok in \<open>simp add: resolve_account_id_def\<close>)
qed

section \<open>Discovery\<close>

text \<open>
  Looking for products has no effect on accounts: unless the seller requires an account for
  it, the reference sent with \<open>get_products\<close> is found without calling the seller or changing a
  record, and it is one of the records with a suitable status, or the pinned account.
\<close>

theorem discovery_never_provisions:
  assumes "discovery_account_ref env call seller brand (m, w) = (r, s')"
    and "getj (account_capabilities seller) ''required_for_products'' \<noteq> JBool True"
  shows "s' = (m, w) \<and>
    (case r of
       Inr (Some ref) \<Rightarrow>
         (if agent_mode seller = OPERATOR_AUTHORIZED
          then \<exists>pinned. seller_env (acc_environ env) ''NXFLO_OPERATOR_ACCOUNT_ID'' (agent_url seller) = Some pinned \<and>
            ref = [(''account_id'', JStr pinned)]
          else manager_natural_key env (operator_domain m) seller brand = Inr ref \<and>
            (\<exists>acc. find_account (agent_url seller) (canonical_key (acc_shown env) ref) m = Some acc \<and>
               status_allowed [''active'', ''payment_required''] acc = Inr True))
     | _ \<Rightarrow> True)"
proof (cases "agent_mode seller")
  case OPERATOR_AUTHORIZED
  with assms show ?thesis by (auto simp: discovery_account_ref_def split: option.splits list.splits)
next
  case BUYER_DECLARED
  show ?thesis
  proof (cases "manager_natural_key env (operator_domain m) seller brand")
    case (Inl e)
    with assms BUYER_DECLARED show ?thesis by (cases e) (auto simp: discovery_account_ref_def)
  next
    case (Inr key)
    have py: "py_fail q s = ((case q of Inl e \<Rightarrow> Inl (CallFailed (PyFailure e)) | Inr x \<Rightarrow> Inr x), s)"
      for q :: "py_exn + bool" and s :: "account_manager \<times> 'a" by (simp add: py_fail_def)
    from assms BUYER_DECLARED Inr have "known_discovery_ref env seller key (m, w) = (r, s')"
      by (simp add: discovery_account_ref_def)
    with Inr BUYER_DECLARED show ?thesis
      by (cases "find_account (agent_url seller) (canonical_key (acc_shown env) key) m")
         (auto simp: known_discovery_ref_def find_known_def sbind_def py task_allowed_statuses_def split: sum.splits)
  qed
qed

section \<open>Bounds\<close>

text \<open>A caller that counts its calls.\<close>

definition counted :: "'w tool_caller \<Rightarrow> (nat \<times> 'w) tool_caller" where
  "counted call seller tool params =
     (\<lambda>(n, w). case call seller tool params w of (r, w') \<Rightarrow> (r, (Suc n, w')))"

definition calls_made :: "account_manager \<times> nat \<times> 'w \<Rightarrow> nat" where
  "calls_made s = fst (snd s)"

definition costs :: "nat \<Rightarrow> (account_manager \<times> nat \<times> 'w, 'e, 'a) action \<Rightarrow> bool" where
  "costs k act \<longleftrightarrow> (\<forall>s. calls_made (snd (act s)) \<le> calls_made s + k)"

lemma costs_simple: "costs k (ret x)" "costs k (raise e)" "costs k (lift_res r)" "costs k (asking f)" "costs k (py_fail q)"
  by (simp_all add: costs_def py_fail_def)

lemma costs_sbind: "costs j act \<Longrightarrow> (\<And>x. costs k (f x)) \<Longrightarrow> j + k \<le> n \<Longrightarrow> costs n (sbind act f)"
  unfolding costs_def
proof (intro allI)
  fix s
  assume act: "\<forall>s. calls_made (snd (act s)) \<le> calls_made s + j"
    and f: "\<And>x. \<forall>s. calls_made (snd (f x s)) \<le> calls_made s + k" and n: "j + k \<le> n"
  obtain r s1 where r: "act s = (r, s1)" by (cases "act s")
  with act have "calls_made s1 \<le> calls_made s + j" by (metis snd_conv)
  with r f n show "calls_made (snd (sbind act f s)) \<le> calls_made s + n"
    by (cases r) (auto simp: sbind_def intro: order_trans [OF f [rule_format]])
qed

lemma costs_tool_call: "costs 1 (tool_call (counted call) seller tool params)"
  by (auto simp: costs_def tool_call_def counted_def calls_made_def split: prod.splits sum.splits)

lemma costs_call_sbind: "(\<And>x. costs n (f x)) \<Longrightarrow> costs (Suc n) (sbind (tool_call (counted call) seller tool params) f)"
  by (rule costs_sbind [where j = 1 and k = n, OF costs_tool_call]) simp_all

lemma costs_store: "costs 0 (store_account shown acc)"
  by (auto simp: costs_def store_account_def calls_made_def py_fail_def sbind_def split: prod.splits sum.splits)

lemma costs_smap: "(\<And>x. costs 0 (f x)) \<Longrightarrow> costs 0 (smap f xs)"
  by (induction xs) (auto intro!: costs_simple costs_sbind [where j = 0 and k = 0])

lemma costs_if: "costs k a \<Longrightarrow> costs k b \<Longrightarrow> costs k (if c then a else b)"
  by simp

lemma costs_free_sbind: "costs 0 act \<Longrightarrow> (\<And>x. costs n (f x)) \<Longrightarrow> costs n (sbind act f)"
  by (rule costs_sbind [where j = 0 and k = n]) simp_all

lemma costs_items: "costs 0 (store_items env seller items)" "costs 0 (sync_items env seller key dry_run items)"
  unfolding store_items_def sync_items_def
  by (auto intro!: costs_smap costs_free_sbind costs_simple costs_store)

lemma costs_list_pages: "costs n (list_pages env (counted call) seller account status sandbox n cursor found)"
proof (induction n arbitrary: cursor found)
  case (Suc n)
  have more: "costs n (if c then m else list_pages env (counted call) seller account status sandbox n cur acc)"
    if "costs n m" for c m cur acc using that Suc by simp
  show ?case unfolding list_pages.simps
    by (rule costs_call_sbind) (auto intro!: costs_free_sbind costs_if costs_simple costs_items more Suc)
qed (simp add: costs_simple)

lemma costs_list_accounts: "costs 10 (list_accounts env (counted call) seller account status sandbox)"
  unfolding list_accounts_def
  by (auto intro!: costs_free_sbind costs_simple costs_if costs_list_pages simp: max_pages_def)

lemma costs_sync_accounts: "costs 1 (sync_accounts env (counted call) seller brand billing dry_run)"
  unfolding sync_accounts_def
  unfolding One_nat_def
  by (intro costs_if costs_simple costs_free_sbind [OF costs_simple(5)] costs_free_sbind [OF costs_simple(4)]
      costs_free_sbind [OF costs_simple(3)] costs_call_sbind costs_free_sbind [OF costs_simple(5), of 0] costs_items)

lemma costs_mono: "costs k act \<Longrightarrow> k \<le> n \<Longrightarrow> costs n act"
  unfolding costs_def by (meson add_left_mono le_trans)

lemma costs_case_list: "costs n a \<Longrightarrow> (\<And>x xs. costs n (f x xs)) \<Longrightarrow> costs n (case v of [] \<Rightarrow> a | x # xs \<Rightarrow> f x xs)"
  by (cases v) auto

lemma costs_case_option: "costs n a \<Longrightarrow> (\<And>x. costs n (f x)) \<Longrightarrow> costs n (case v of None \<Rightarrow> a | Some x \<Rightarrow> f x)"
  by (cases v) auto

lemma costs_then: "costs n act \<Longrightarrow> (\<And>x. costs 0 (f x)) \<Longrightarrow> costs n (sbind act f)"
  by (rule costs_sbind [where j = n and k = 0]) simp_all

lemma costs_provision: "costs 10 (provision_account env (counted call) seller brand task provision key)"
proof -
  have "costs 1 (provision_account env (counted call) seller brand task provision key)"
    unfolding provision_account_def
    by (intro costs_free_sbind [OF costs_simple(5)] costs_if costs_simple costs_then costs_sync_accounts costs_case_list)
  then show ?thesis by (rule costs_mono) simp
qed

lemma costs_refresh: "costs 10 (refresh_account env (counted call) seller task key known)"
  unfolding refresh_account_def
  by (intro costs_free_sbind [OF costs_simple(5)] costs_if costs_simple costs_then costs_list_accounts)

lemma costs_resolve_id: "costs 10 (resolve_account_id env (counted call) seller brand)"
  unfolding resolve_account_id_def
  by (intro costs_if costs_simple costs_case_option costs_then costs_list_accounts)

text \<open>
  Resolving an account reference makes a bounded number of tool calls, whatever the seller
  answers: at most ten, the pages of one listing.
\<close>

theorem account_resolution_bounded:
  "calls_made (snd (resolve_account_ref env (counted call) seller brand task provision (m, 0, w))) \<le> 10"
proof -
  have "costs 10 (resolve_account_ref env (counted call) seller brand task provision)"
    unfolding resolve_account_ref_def find_known_def
    by (intro costs_if costs_resolve_id costs_free_sbind [OF costs_simple(4)] costs_free_sbind [OF costs_simple(3)]
        costs_case_option costs_provision costs_free_sbind [OF costs_simple(5)] costs_simple costs_refresh)
  then have "calls_made (snd (resolve_account_ref env (counted call) seller brand task provision (m, 0, w))) \<le>
      calls_made (m, 0 :: nat, w) + 10" unfolding costs_def by blast
  then show ?thesis by (simp add: calls_made_def)
qed

section \<open>Natural keys and billing\<close>

definition fixed_currency :: "dict \<Rightarrow> bool" where
  "fixed_currency caps \<longleftrightarrow>
     (\<exists>x xs. getj caps ''supported_account_currency_modes'' = JArr (x # xs) \<and> JStr ''per_media_buy'' \<notin> set (x # xs))"

lemma currency_for_cases:
  "currency_for env caps =
     (if \<not> fixed_currency caps then Inr None
      else if acc_currency env = [] then Inl CurrencyRequired else Inr (Some (upper (acc_currency env))))"
  by (auto simp: currency_for_def fixed_currency_def split: json.split list.split)

text \<open>
  The natural key follows the seller's account rules: besides brand and operator it has a
  currency exactly for sellers with fixed-currency accounts, a time zone exactly for sellers that
  let the buyer choose one and then one they support, and the sandbox mark exactly when the buyer
  runs in the sandbox, which a seller with account capabilities must then offer.
\<close>

theorem natural_key_follows_rules:
  assumes "manager_natural_key env operator seller brand = Inr key"
  shows "map fst key = [''brand'', ''operator''] @ (if fixed_currency (account_capabilities seller) then [''currency''] else []) @
      (if buyer_selected (account_capabilities seller) then [''timezone''] else []) @
      (if acc_sandbox env then [''sandbox''] else []) \<and>
    getj key ''operator'' = JStr operator \<and>
    (\<exists>b. getj key ''brand'' = JObj b \<and> brand_key (acc_shown env) (JObj brand) = Inr b) \<and>
    (if fixed_currency (account_capabilities seller)
     then getj key ''currency'' = JStr (upper (acc_currency env)) \<and> acc_currency env \<noteq> [] else True) \<and>
    (if buyer_selected (account_capabilities seller)
     then getj key ''timezone'' = JStr (acc_timezone env) \<and>
       (let zones = getj (obj_of (getj (account_capabilities seller) ''timezone'')) ''supported_timezones''
        in \<not> truthy zones \<or> py_in (acc_timezone env) zones = Inr True) else True) \<and>
    (if acc_sandbox env
     then account_capabilities seller = [] \<or> getj (account_capabilities seller) ''sandbox'' = JBool True else True)"
proof -
  let ?caps = "account_capabilities seller"
  from assms obtain b cur tz where b: "brand_key (acc_shown env) (JObj brand) = Inr b"
    and cur: "currency_for env ?caps = Inr cur" and tz: "timezone_for env ?caps = Inr tz"
    and sand: "acc_sandbox env \<Longrightarrow> ?caps = [] \<or> getj ?caps ''sandbox'' = JBool True"
    and key: "key = (let k0 = [(''brand'', JObj b), (''operator'', JStr operator)];
               k1 = (case cur of Some c \<Rightarrow> dset ''currency'' (JStr c) k0 | None \<Rightarrow> k0);
               k2 = (case tz of Some z \<Rightarrow> dset ''timezone'' (JStr z) k1 | None \<Rightarrow> k1)
           in if \<not> acc_sandbox env then k2 else dset ''sandbox'' (JBool True) k2)"
    by (auto simp: manager_natural_key_def Let_def res_bind_Inr_iff account_err_def split: sum.splits if_splits)
  have cur': "cur = (if fixed_currency ?caps then Some (upper (acc_currency env)) else None)"
    "fixed_currency ?caps \<Longrightarrow> acc_currency env \<noteq> []"
    using cur by (auto simp: currency_for_cases split: if_splits)
  have tz': "tz = (if buyer_selected ?caps then Some (acc_timezone env) else None)"
    "buyer_selected ?caps \<Longrightarrow> (let zones = getj (obj_of (getj ?caps ''timezone'')) ''supported_timezones''
        in \<not> truthy zones \<or> py_in (acc_timezone env) zones = Inr True)"
    using tz by (auto simp: timezone_for_def Let_def or_else_def split: if_splits sum.splits)
  show ?thesis unfolding key
    using b cur' tz' sand by (auto simp: Let_def key_lookup)
qed

text \<open>
  The party that is billed is never remapped: it is the one asked for, or else the configured
  one, in lower case, it is one of the three the protocol knows, and a seller that lists billing
  parties lists it.
\<close>

lemma billing_never_remapped:
  assumes "billing_for env seller requested = Inr party"
  shows "party = lower (if requested \<noteq> [] then requested else acc_billing env) \<and>
    party \<in> {''operator'', ''agent'', ''advertiser''} \<and>
    (case getj (account_capabilities seller) ''supported_billing'' of
       JArr (x # xs) \<Rightarrow> JStr party \<in> set (x # xs) | _ \<Rightarrow> True)"
  using assms by (auto simp: billing_for_def billing_parties_def Let_def split: if_splits json.splits list.splits)

section \<open>Examples\<close>

definition example_account_env :: account_env where
  "example_account_env =
     \<lparr>acc_shown = (\<lambda>v. []), acc_loads = (\<lambda>s. None), acc_environ = (\<lambda>n. None), acc_now = 0, acc_hex = ''0'',
      acc_version = ''3.2'', acc_sandbox = False, acc_currency = ''eur'', acc_timezone = [],
      acc_billing = ''operator'', acc_auto_provision = True\<rparr>"

definition example_account_seller :: "account_mode \<Rightarrow> seller_agent" where
  "example_account_seller mode =
     (new_agent ''s'' ''https://s.example/mcp'')\<lparr>agent_mode := mode, operator_token := Some ''t'',
       agent_tools := JArr [JStr ''list_accounts'', JStr ''sync_accounts''],
       capabilities := [(''account'', JObj [(''supported_account_currency_modes'', JArr [JStr ''fixed''])])]\<rparr>"

definition example_caller :: "unit tool_caller" where
  "example_caller seller tool params w =
     (Inr [(''accounts'', JArr [JObj [(''account_id'', JStr ''a1''), (''status'', JStr ''active'')]])], w)"

definition example_brand :: dict where
  "example_brand = [(''domain'', JStr ''B.example'')]"

definition example_manager :: account_manager where
  "example_manager = new_manager ''Op.example''"

definition example_key :: dict where
  "example_key = [(''brand'', JObj [(''domain'', JStr ''b.example'')]), (''operator'', JStr ''op.example''),
     (''currency'', JStr ''EUR'')]"

definition resolved_to :: "dict \<Rightarrow> (account_failure + dict) \<times> 's \<Rightarrow> bool" where
  "resolved_to ref r = (case fst r of Inr d \<Rightarrow> d = ref | Inl e \<Rightarrow> False)"

lemma resolved_toD: "resolved_to ref r \<Longrightarrow> \<exists>s'. r = (Inr ref, s')"
  by (cases r) (auto simp: resolved_to_def split: sum.splits)

lemma example_account_resolved:
  "resolved_to example_key (resolve_account_ref example_account_env example_caller
     (example_account_seller BUYER_DECLARED) example_brand ''create_media_buy'' None (example_manager, ()))"
  by code_simp

lemma example_account_id_resolved:
  "resolved_to [(''account_id'', JStr ''a1'')] (resolve_account_ref example_account_env example_caller
     (example_account_seller OPERATOR_AUTHORIZED) example_brand ''create_media_buy'' None (example_manager, ()))"
  by code_simp

theorem accounts_stay_filed_witness:
  "accounts_filed (acc_shown example_account_env) example_manager \<and>
   accounts_filed (acc_shown example_account_env) (fst (snd (resolve_account_ref example_account_env example_caller
     (example_account_seller BUYER_DECLARED) example_brand ''create_media_buy'' None (example_manager, ()))))"
proof -
  have filed: "accounts_filed (acc_shown example_account_env) example_manager"
    by (simp add: accounts_filed_def example_manager_def new_manager_def)
  show ?thesis by (rule conjI [OF filed conjunct1 [OF accounts_stay_filed [OF filed]]])
qed

theorem account_ref_fails_closed_witness:
  "\<exists>acc. (find_account (agent_url (example_account_seller BUYER_DECLARED))
           (canonical_key (acc_shown example_account_env) example_key) example_manager = Some acc \<or>
         vouched example_account_env example_caller (example_account_seller BUYER_DECLARED) example_key acc) \<and>
       status_allowed (task_allowed_statuses ''create_media_buy'') acc = Inr True"
proof -
  from resolved_toD [OF example_account_resolved] obtain s' where
    res: "resolve_account_ref example_account_env example_caller (example_account_seller BUYER_DECLARED)
      example_brand ''create_media_buy'' None (example_manager, ()) = (Inr example_key, s')" by blast
  have "has_tool (example_account_seller BUYER_DECLARED) ''sync_accounts'' = Inr True"
    "agent_mode (example_account_seller BUYER_DECLARED) = BUYER_DECLARED" by code_simp+
  with account_ref_fails_closed [OF res] show ?thesis by auto
qed

theorem account_id_never_guessed_witness:
  "\<exists>acc. [(''account_id'', JStr ''a1'')] = account_id_ref acc \<and> usable_account example_account_env acc"
proof -
  from resolved_toD [OF example_account_id_resolved] obtain s' where
    res: "resolve_account_ref example_account_env example_caller (example_account_seller OPERATOR_AUTHORIZED)
      example_brand ''create_media_buy'' None (example_manager, ()) = (Inr [(''account_id'', JStr ''a1'')], s')" by blast
  have "agent_mode (example_account_seller OPERATOR_AUTHORIZED) = OPERATOR_AUTHORIZED" by code_simp
  moreover have "seller_env (acc_environ example_account_env) v u = None" for v u
    by (simp add: example_account_env_def seller_env_def)
  ultimately show ?thesis using account_id_never_guessed [OF res] by auto
qed

theorem discovery_never_provisions_witness:
  "\<exists>r. discovery_account_ref example_account_env example_caller (example_account_seller BUYER_DECLARED) example_brand
     (example_manager, ()) = (r, (example_manager, ()))"
proof -
  obtain r s' where res: "discovery_account_ref example_account_env example_caller
    (example_account_seller BUYER_DECLARED) example_brand (example_manager, ()) = (r, s')" by (rule prod.exhaust)
  have "getj (account_capabilities (example_account_seller BUYER_DECLARED)) ''required_for_products'' \<noteq> JBool True"
    by code_simp
  with discovery_never_provisions [OF res] res show ?thesis by blast
qed

theorem natural_key_follows_rules_witness:
  "manager_natural_key example_account_env ''op.example'' (example_account_seller BUYER_DECLARED) example_brand = Inr example_key \<and>
   getj example_key ''operator'' = JStr ''op.example''"
proof -
  have "case manager_natural_key example_account_env ''op.example'' (example_account_seller BUYER_DECLARED) example_brand of
      Inr k \<Rightarrow> k = example_key | Inl e \<Rightarrow> False" by code_simp
  then have key: "manager_natural_key example_account_env ''op.example'' (example_account_seller BUYER_DECLARED)
      example_brand = Inr example_key" by (auto split: sum.splits)
  from natural_key_follows_rules [OF key] key show ?thesis by blast
qed

text \<open>
  A seller without fixed-currency accounts that nevertheless echoes a currency: its listing is filed
  under another key than the one that was sent, and the pending record is never brought up to date.
\<close>

definition pending_account :: dict where
  "pending_account = [(''brand'', JObj [(''domain'', JStr ''b.example'')]), (''operator'', JStr ''op.example''),
     (''status'', JStr ''pending_approval'')]"

definition echoing_caller :: "unit tool_caller" where
  "echoing_caller seller tool params w =
     (Inr [(''accounts'', JArr [JObj (if tool = ''sync_accounts'' then pending_account
        else dset ''currency'' (JStr ''USD'') (dset ''status'' (JStr ''active'') pending_account))])], w)"

definition plain_account_seller :: seller_agent where
  "plain_account_seller = (example_account_seller BUYER_DECLARED)\<lparr>capabilities := []\<rparr>"

lemma echoed_currency_hides_account:
  "case resolve_account_ref example_account_env echoing_caller plain_account_seller example_brand
      ''create_media_buy'' None (example_manager, ()) of
     (r, s) \<Rightarrow> fst (resolve_account_ref example_account_env echoing_caller plain_account_seller example_brand
        ''create_media_buy'' None s) =
      Inl (AccountError (AccountNotUsable (JStr ''pending_approval'') JNull ''create_media_buy''))"
  by code_simp

end
