(* ===== verification/Seller_Network.thy ===== *)
theory Seller_Network
  imports Seller_Session Account_Manager
begin

text \<open>
  The sessions of the orchestrator (\<open>get_seller_session\<close> and \<open>_session_call\<close> of
  \<open>src/buying/orchestrator.py\<close>): one session per seller address, and a fresh retry budget for every
  operation.  The attempts of all calls are numbered; \<open>nth_attempt\<close> gives what the transport answers to each.
  Four attempts are always enough, so the number drawn per call is no restriction.
\<close>

section \<open>The code\<close>

record net_env =
  nth_attempt :: "nat \<Rightarrow> attempt"
  budget_clock :: "nat \<Rightarrow> rat"
  cfg_retries :: int
  cfg_seconds :: rat
  net_shown :: "json \<Rightarrow> string"
  net_loads :: "string \<Rightarrow> json option"

record net =
  net_world :: client_world
  seller_sessions :: "(string \<times> seller_session) list"
  attempts_made :: nat
  tool_log :: "(string \<times> string \<times> dict) list"

text \<open>\<open>tool_log\<close> is the history of the operations: the seller's address, the tool, the parameters.\<close>

definition get_seller_session :: "seller_agent \<Rightarrow> net \<Rightarrow> seller_session" where
  "get_seller_session a n =
     (case map_of (seller_sessions n) (rstrip_char (CHR ''/'') (agent_url a)) of
        Some s \<Rightarrow> s | None \<Rightarrow> new_session a)"

definition next_attempts :: "net_env \<Rightarrow> net \<Rightarrow> attempt list" where
  "next_attempts env n = map (nth_attempt env) [attempts_made n ..< attempts_made n + 4]"

definition call_budget :: "net_env \<Rightarrow> net \<Rightarrow> retry_budget" where
  "call_budget env n = budget_from_settings (cfg_retries env) (cfg_seconds env) (budget_clock env (attempts_made n))"

text \<open>The last case never happens (\<open>session_operation_returns\<close>).\<close>

definition orchestrator_call :: "net_env \<Rightarrow> net tool_caller" where
  "orchestrator_call env a tool params n =
     (case session_call_with_retry (net_shown env) (net_loads env) tool params None None
             (next_attempts env n) (call_budget env n) (net_world n) (get_seller_session a n) of
        Some (r, s', b', w', rest) \<Rightarrow>
          (r, n\<lparr>net_world := w',
                seller_sessions := dset (rstrip_char (CHR ''/'') (agent_url a)) s' (seller_sessions n),
                attempts_made := attempts_made n + (4 - length rest),
                tool_log := tool_log n @ [(agent_url a, tool, params)]\<rparr>)
      | None \<Rightarrow> (Inl (PyFailure TypeError), n))"

section \<open>Every operation returns\<close>

lemma session_call_returns:
  "retries_left b < length atts \<Longrightarrow> \<exists>res. session_call shown loads tool params ctx push atts b w s = Some res"
  using call_loop_returns [of b atts shown loads "session_agent s" tool
      "retry_permitted (session_agent s) tool (full_params s params ctx push)" w]
  by (auto simp: session_call_def call_seller_tool_def split: sum.split prod.split)

lemma call_loop_left:
  assumes "call_loop shown loads a tool allowed atts b w = Some (r, b', w')"
  shows "length (outcomes w') \<le> length (outcomes w) + length atts"
  using assms
proof (induction shown loads a tool allowed atts b w rule: call_loop.induct)
  case (2 shown loads a tool allowed att atts b w)
  obtain res w1 where once: "call_once shown loads a tool att w = (res, w1)" by fastforce
  have w1: "length (outcomes w1) = Suc (length (outcomes w))" using call_once_world [OF once] by auto
  have sleep: "length (outcomes (after_sleep att d w1)) = Suc (length (outcomes w))" for d
    using w1 by (simp add: after_sleep_def)
  show ?case
  proof (cases res)
    case (Inl err)
    obtain d b1 where ask: "ask_budget (allowed \<and> error_recovery err = Transient) (error_retry_after err) att b = (d, b1)"
      by fastforce
    show ?thesis
    proof (cases d)
      case None
      then show ?thesis using 2(3) once Inl ask w1 by auto
    next
      case (Some x)
      then show ?thesis using 2(1) [OF once [symmetric] Inl ask [symmetric] Some] 2(3) once Inl ask sleep by auto
    qed
  next
    case (Inr response)
    show ?thesis
    proof (cases "transient_response_error shown response")
      case None
      then show ?thesis using 2(3) once Inr w1 by auto
    next
      case (Some tr)
      note tr = this
      obtain d b1 where ask: "ask_budget allowed (error_retry_after tr) att b = (d, b1)" by fastforce
      show ?thesis
      proof (cases d)
        case None
        then show ?thesis using 2(3) once Inr tr ask w1 by auto
      next
        case (Some x)
        then show ?thesis
          using 2(2) [OF once [symmetric] Inr tr ask [symmetric] Some] 2(3) once Inr ask tr sleep by auto
      qed
    qed
  qed
qed simp

lemma session_call_left:
  assumes "session_call shown loads tool params ctx push atts b w s = Some (r, s', b', w', atts')"
  shows "length atts' + length (outcomes w') = length atts + length (outcomes w)"
proof -
  have left: "atts' = attempts_left w w' atts" and contacts: "length (outcomes w) \<le> length (outcomes w')"
    "length (outcomes w') \<le> length (outcomes w) + length atts"
    using assms call_loop_left call_loop_meter
    by (fastforce simp: session_call_def call_seller_tool_def split: option.splits sum.splits prod.splits)+
  then show ?thesis by (simp add: attempts_left_def)
qed

lemma session_operation_returns:
  assumes "retries_left b < length atts"
  shows "\<exists>res. session_call_with_retry shown loads tool params ctx push atts b w s = Some res"
proof -
  from session_call_returns [OF assms] obtain r s1 b1 w1 atts1 where
    first: "session_call shown loads tool params ctx push atts b w s = Some (r, s1, b1, w1, atts1)" by (metis prod.exhaust)
  show ?thesis
  proof (cases "\<exists>err. r = Inl (SellerFailure err) \<and> context_expired err \<and> \<not> exhausted b1")
    case True
    have "retries_left (b1\<lparr>retries_attempted := retries_attempted b1 + 1\<rparr>) < length atts1"
      using True session_call_left [OF first] session_call_contacts [OF first] assms
      by (auto simp: retries_left_def exhausted_def)
    from session_call_returns [OF this] True first show ?thesis by (auto simp: session_call_with_retry_def)
  qed (use first in \<open>auto simp: session_call_with_retry_def split: sum.split call_failure.split\<close>)
qed

lemma orchestrator_call_result:
  "\<exists>r s' b' w' rest. session_call_with_retry (net_shown env) (net_loads env) tool params None None
       (next_attempts env n) (call_budget env n) (net_world n) (get_seller_session a n) = Some (r, s', b', w', rest) \<and>
     orchestrator_call env a tool params n =
       (r, n\<lparr>net_world := w', attempts_made := attempts_made n + (4 - length rest),
             seller_sessions := dset (rstrip_char (CHR ''/'') (agent_url a)) s' (seller_sessions n),
             tool_log := tool_log n @ [(agent_url a, tool, params)]\<rparr>) \<and>
     length (outcomes w') \<le> length (outcomes (net_world n)) + 4"
proof -
  have "retries_left (call_budget env n) < length (next_attempts env n)"
    using retries_left_settings [of "cfg_retries env" "cfg_seconds env" "budget_clock env (attempts_made n)"]
    by (simp add: call_budget_def next_attempts_def)
  from session_operation_returns [OF this] obtain r s' b' w' rest where
    res: "session_call_with_retry (net_shown env) (net_loads env) tool params None None
       (next_attempts env n) (call_budget env n) (net_world n) (get_seller_session a n) = Some (r, s', b', w', rest)"
    by (metis prod.exhaust)
  then show ?thesis
    using session_operation_contacts [OF res [unfolded call_budget_def]] by (simp add: orchestrator_call_def)
qed

text \<open>
  C37. Every operation of the orchestrator on a seller ends after at most four attempts, whatever the
  transport answers and whichever settings are configured, and touches the session of that seller only.
\<close>

theorem orchestrator_call_returns:
  "\<exists>r s' b' w' rest. session_call_with_retry (net_shown env) (net_loads env) tool params None None
       (next_attempts env n) (call_budget env n) (net_world n) (get_seller_session a n) = Some (r, s', b', w', rest) \<and>
     orchestrator_call env a tool params n =
       (r, n\<lparr>net_world := w', attempts_made := attempts_made n + (4 - length rest),
             seller_sessions := dset (rstrip_char (CHR ''/'') (agent_url a)) s' (seller_sessions n),
             tool_log := tool_log n @ [(agent_url a, tool, params)]\<rparr>) \<and>
     length (outcomes w') \<le> length (outcomes (net_world n)) + 4"
  by (rule orchestrator_call_result)

section \<open>Sessions keep their agent\<close>

lemma session_call_agent:
  "session_call shown loads tool params ctx push atts b w s = Some (r, s', b', w', atts') \<Longrightarrow>
     session_agent s' = session_agent s"
  by (auto simp: session_call_def note_response_def Let_def split: option.splits sum.splits prod.splits if_splits)

lemma session_call_with_retry_agent:
  "session_call_with_retry shown loads tool params ctx push atts b w s = Some (r, s', b', w', atts') \<Longrightarrow>
     session_agent s' = session_agent s"
  by (auto simp: session_call_with_retry_def reset_session_def split: option.splits sum.splits prod.splits
      call_failure.splits if_splits dest!: session_call_agent)

lemma orchestrator_call_agent:
  assumes "map_of (seller_sessions n) url = Some s"
  shows "\<exists>s'. map_of (seller_sessions (snd (orchestrator_call env a tool params n))) url = Some s' \<and>
    session_agent s' = session_agent s"
proof -
  from orchestrator_call_result obtain r s' b' w' rest where
    res: "session_call_with_retry (net_shown env) (net_loads env) tool params None None
       (next_attempts env n) (call_budget env n) (net_world n) (get_seller_session a n) = Some (r, s', b', w', rest)"
    and call: "orchestrator_call env a tool params n =
       (r, n\<lparr>net_world := w', attempts_made := attempts_made n + (4 - length rest),
             seller_sessions := dset (rstrip_char (CHR ''/'') (agent_url a)) s' (seller_sessions n),
             tool_log := tool_log n @ [(agent_url a, tool, params)]\<rparr>)" by blast
  from session_call_with_retry_agent [OF res] call assms show ?thesis by (auto simp: get_seller_session_def)
qed

lemma orchestrator_call_log [simp]:
  "tool_log (snd (orchestrator_call env a tool params n)) = tool_log n @ [(agent_url a, tool, params)]"
  using orchestrator_call_result [of env tool params n a] by auto

section \<open>Account calls in the log\<close>

definition only_account_calls :: "(string \<times> string \<times> dict) list \<Rightarrow> net \<Rightarrow> bool" where
  "only_account_calls old n \<longleftrightarrow>
     (\<exists>new. tool_log n = old @ new \<and> list_all (\<lambda>(u, t, p). t = ''list_accounts'' \<or> t = ''sync_accounts'') new)"

lemma only_account_calls_refl [simp]: "only_account_calls (tool_log n) n"
  by (simp add: only_account_calls_def)

interpretation account_log: connection_invariant "orchestrator_call env" "only_account_calls old" for env old
  by unfold_locales (auto simp: only_account_calls_def)

end
