(* ===== verification/Discovery.thy ===== *)
theory Discovery
  imports Seller_Call
begin

text \<open>
  The rest of \<open>src/discovery/registry.py\<close>: parsing the registry's listing, the fallback from one
  registry to the next, the configured sellers, probing a seller, and putting the sources
  together.  The answers of the registries and of the well-known documents (package \<open>httpx\<close>), the
  tool listing (package \<open>fastmcp\<close>) and \<open>urlparse\<close> are arguments; \<open>call\<close> is the tool caller, which
  threads the state \<open>'w\<close> of the connections.  What \<open>asyncio.gather\<close> runs concurrently is taken in
  the order of the list.
\<close>

section \<open>The registry\<close>

definition registry_base_urls :: "string \<Rightarrow> string \<Rightarrow> string list" where
  "registry_base_urls primary fallback =
     fold (\<lambda>url urls.
         let base = rstrip_char (CHR ''/'') url
         in if base \<noteq> [] \<and> base \<notin> set urls then urls @ [base] else urls)
       [primary, fallback] []"

text \<open>A URL that is no string makes the lookup of the token raise \<open>TypeError\<close>.\<close>

definition parse_registry_entry ::
  "(json \<Rightarrow> string) \<Rightarrow> environment \<Rightarrow> dict \<Rightarrow> py_exn + seller_agent option" where
  "parse_registry_entry shown env entry =
     (if getj entry ''type'' \<noteq> JStr ''sales'' then Inr None
      else
        let proto = lower (text_of shown (or_else (getj entry ''protocol'') (JStr ''mcp'')));
            url = or_else (getj entry ''mcp_endpoint'')
                    (if proto = ''mcp'' then getj entry ''url'' else JNull);
            member = obj_of (getj entry ''member'')
        in if \<not> truthy url then Inr None
           else case url of
             JStr addr \<Rightarrow>
               Inr (Some ((new_agent [] addr)\<lparr>
                 agent_name := get_or entry ''name'' (JStr ''Unknown''),
                 token := seller_env env ''NXFLO_SELLER_TOKEN'' addr,
                 agent_type := ''sales'',
                 agent_tools := or_else (get_or entry ''tools'' (JArr [])) (JArr []),
                 agent_status := (case getj entry ''health'' of
                    JObj health \<Rightarrow> get_or health ''status'' (JStr ''unknown'') | _ \<Rightarrow> JStr ''unknown''),
                 source := ''registry'', protocol := proto,
                 member_slug := getj member ''slug'', member_name := getj member ''display_name'',
                 agent_description := getj entry ''description''\<rparr>))
           | _ \<Rightarrow> Inl TypeError)"

text \<open>An exchange with a registry fails (\<open>httpx.HTTPError\<close>, a body that is no JSON) or gives JSON.\<close>

datatype http_json = HttpUnavailable | HttpDocument json

text \<open>
  \<open>_fetch_registry_listing\<close>; \<^const>\<open>None\<close> stands for the errors \<open>fetch_registry_agents\<close> catches.
  A document that is neither a list nor a dictionary has no \<open>get\<close>: \<open>AttributeError\<close>, which it does
  not catch.
\<close>

definition registry_listing :: "http_json \<Rightarrow> py_exn + dict list option" where
  "registry_listing ans =
     (case ans of
        HttpUnavailable \<Rightarrow> Inr None
      | HttpDocument data \<Rightarrow>
          res_bind (case data of JArr xs \<Rightarrow> Inr (JArr xs) | JObj d \<Rightarrow> Inr (get_or d ''agents'' (JArr []))
                    | _ \<Rightarrow> Inl AttributeError) (\<lambda>entries.
            case entries of JArr xs \<Rightarrow> Inr (Some (map obj_of (filter is_obj xs))) | _ \<Rightarrow> Inr None))"

definition listed_agents :: "'a option list \<Rightarrow> 'a list" where
  "listed_agents xs = map the (filter (\<lambda>a. a \<noteq> None) xs)"

fun agents_from :: "(json \<Rightarrow> string) \<Rightarrow> environment \<Rightarrow> (string \<Rightarrow> http_json) \<Rightarrow> string list \<Rightarrow>
    py_exn + seller_agent list" where
  "agents_from shown env fetch [] = Inr []"
| "agents_from shown env fetch (base # bases) =
     res_bind (registry_listing (fetch (base @ ''/agents''))) (\<lambda>listing.
       case listing of
         None \<Rightarrow> agents_from shown env fetch bases
       | Some entries \<Rightarrow>
           res_bind (res_map (parse_registry_entry shown env) entries) (\<lambda>agents. Inr (listed_agents agents)))"

definition fetch_registry_agents ::
  "(json \<Rightarrow> string) \<Rightarrow> environment \<Rightarrow> (string \<Rightarrow> http_json) \<Rightarrow> string \<Rightarrow> string \<Rightarrow> py_exn + seller_agent list"
where
  "fetch_registry_agents shown env fetch primary fallback =
     agents_from shown env fetch (registry_base_urls primary fallback)"

section \<open>Configured sellers\<close>

record seller_config =
  cfg_name :: string
  cfg_url :: string
  cfg_token :: "string option"
  cfg_enabled :: bool

definition plain_seller :: "string \<Rightarrow> string \<Rightarrow> seller_config" where
  "plain_seller name url = \<lparr>cfg_name = name, cfg_url = url, cfg_token = None, cfg_enabled = True\<rparr>"

definition default_sellers :: "environment \<Rightarrow> seller_config list" where
  "default_sellers env =
     [(plain_seller ''AdCP Test Agent'' ''https://test-agent.adcontextprotocol.org/mcp'')
        \<lparr>cfg_token := env ''NXFLO_SELLER_TOKEN_ADCP_TEST''\<rparr>,
      plain_seller ''Adzymic SPH'' ''https://sph.sales-agent.adzymic.ai/mcp'',
      plain_seller ''Adzymic MediaCorp'' ''https://mediacorp.sales-agent.adzymic.ai/mcp'',
      plain_seller ''Adzymic APX'' ''https://apx.sales-agent.adzymic.ai/mcp'',
      plain_seller ''Adzymic TSL'' ''https://tsl.sales-agent.adzymic.ai/mcp'',
      plain_seller ''Bidcliq'' ''https://agents.bidcliq.com/mcp'',
      plain_seller ''Content Ignite'' ''https://sales-agent.contentignite.com/mcp'',
      plain_seller ''Advertible'' ''https://adcp.4dvertible.com/mcp'',
      plain_seller ''Swivel'' ''https://adcp-mcp-server-286099387629.us-central1.run.app/mcp'']"

definition configured_agent :: "environment \<Rightarrow> seller_config \<Rightarrow> seller_agent" where
  "configured_agent env s =
     (new_agent (cfg_name s) (cfg_url s))\<lparr>
       token := (case cfg_token s of
           Some (c # cs) \<Rightarrow> Some (c # cs) | _ \<Rightarrow> seller_env env ''NXFLO_SELLER_TOKEN'' (cfg_url s)),
       source := ''config'', agent_status := JStr ''unknown''\<rparr>"

definition get_configured_sellers :: "environment \<Rightarrow> seller_config list \<Rightarrow> seller_agent list" where
  "get_configured_sellers env sellers = map (configured_agent env) (filter cfg_enabled sellers)"

section \<open>Probing\<close>

definition note_portfolio :: "json \<Rightarrow> seller_agent \<Rightarrow> seller_agent" where
  "note_portfolio media_buy a =
     (case media_buy of
        JObj (f # fs) \<Rightarrow> a\<lparr>portfolio := get_or (f # fs) ''portfolio'' (JObj [])\<rparr> | _ \<Rightarrow> a)"

definition apply_capabilities :: "dict \<Rightarrow> seller_agent \<Rightarrow> py_exn + seller_agent" where
  "apply_capabilities caps a =
     (let protocols = get_or caps ''supported_protocols'' (JArr []);
          a1 = a\<lparr>capabilities := caps,
                 adcp_versions := (case get_or caps ''adcp'' (JObj []) of
                    JObj info \<Rightarrow> get_or info ''major_versions'' (JArr []) | _ \<Rightarrow> JArr []),
                 supported_protocols := protocols,
                 extensions_supported := get_or caps ''extensions_supported'' (JArr [])\<rparr>;
          a2 = note_portfolio (getj caps ''media_buy'') a1
      in if \<not> truthy protocols then Inr a2
         else
           res_bind (py_in ''media_buy'' protocols) (\<lambda>sells.
             if sells then Inr (a2\<lparr>agent_type := ''sales''\<rparr>)
             else res_bind (py_in ''signals'' protocols) (\<lambda>signals.
               Inr (if signals then a2\<lparr>agent_type := ''signals''\<rparr> else a2))))"

definition classify_by_tools :: "string list \<Rightarrow> seller_agent \<Rightarrow> seller_agent" where
  "classify_by_tools tools a =
     (if list_ex (\<lambda>t. t \<in> set tools) sales_tools then a\<lparr>agent_type := ''sales''\<rparr>
      else if list_ex (\<lambda>t. t \<in> set tools) signals_tools then a\<lparr>agent_type := ''signals''\<rparr>
      else if list_ex (\<lambda>t. t \<in> set tools) creative_tools then a\<lparr>agent_type := ''creative''\<rparr>
      else a)"

text \<open>
  The environment of a probe: the listed tools of a seller (\<^const>\<open>None\<close> for a \<open>SellerError\<close>), the
  origin of a URL (\<^const>\<open>None\<close> for the \<open>ValueError\<close> of \<open>urlparse\<close>) and the answers to GET requests with
  status 200.
\<close>

record probe_env =
  list_tools :: "seller_agent \<Rightarrow> string list option"
  origin_of :: "string \<Rightarrow> string option"
  get_json :: "string \<Rightarrow> http_json"

definition fetch_server_card :: "probe_env \<Rightarrow> string \<Rightarrow> py_exn + json" where
  "fetch_server_card penv base_url =
     (case origin_of penv base_url of
        None \<Rightarrow> Inl ValueError
      | Some origin \<Rightarrow>
          (case get_json penv (origin @ ''/.well-known/mcp.json'') of
             HttpDocument data \<Rightarrow> Inr data
           | HttpUnavailable \<Rightarrow>
               (case get_json penv (origin @ ''/.well-known/server.json'') of
                  HttpDocument data \<Rightarrow> Inr data
                | HttpUnavailable \<Rightarrow> Inr JNull)))"

definition extract_adcp_meta :: "json \<Rightarrow> py_exn + json" where
  "extract_adcp_meta doc =
     (case doc of
        JObj d \<Rightarrow>
          (case get_or d ''_meta'' (JObj []) of
             JObj meta \<Rightarrow> Inr (get_or meta ''adcontextprotocol.org'' (JObj []))
           | _ \<Rightarrow> Inl AttributeError)
      | _ \<Rightarrow> Inl AttributeError)"

definition apply_server_card :: "json \<Rightarrow> seller_agent \<Rightarrow> py_exn + seller_agent" where
  "apply_server_card doc a =
     (if \<not> truthy doc then Inr a
      else
        res_bind (extract_adcp_meta doc) (\<lambda>meta.
          if truthy meta \<and> \<not> truthy (supported_protocols a)
          then (case meta of
                  JObj m \<Rightarrow>
                    Inr (a\<lparr>server_card := doc,
                           supported_protocols := get_or m ''protocols_supported'' (JArr []),
                           extensions_supported := get_or m ''extensions_supported'' (JArr [])\<rparr>)
                | _ \<Rightarrow> Inl AttributeError)
          else Inr (a\<lparr>server_card := doc\<rparr>)))"

type_synonym 'w capability_call = "seller_agent \<Rightarrow> 'w \<Rightarrow> (seller_error + dict) \<times> 'w"

text \<open>The capabilities of a seller that offers them; its error is only logged.\<close>

definition learn_capabilities ::
  "'w capability_call \<Rightarrow> string list \<Rightarrow> seller_agent \<Rightarrow> 'w \<Rightarrow> (py_exn + seller_agent) \<times> 'w" where
  "learn_capabilities call tools a w =
     (if ''get_adcp_capabilities'' \<in> set tools
      then (case call a w of
              (Inl err, w') \<Rightarrow> (Inr a, w')
            | (Inr caps, w') \<Rightarrow> (apply_capabilities caps a, w'))
      else (Inr a, w))"

definition probe_seller ::
  "environment \<Rightarrow> string \<Rightarrow> probe_env \<Rightarrow> 'w capability_call \<Rightarrow> seller_agent \<Rightarrow> 'w \<Rightarrow>
     (py_exn + seller_agent) \<times> 'w" where
  "probe_seller env global_mode penv call a w =
     (case list_tools penv a of
        None \<Rightarrow> (Inr (a\<lparr>agent_status := JStr ''error''\<rparr>), w)
      | Some tools \<Rightarrow>
          (let a1 = classify_by_tools tools
                      (a\<lparr>agent_tools := JArr (map JStr tools), agent_status := JStr ''online''\<rparr>);
               (learnt, w') = learn_capabilities call tools a1 w
           in (res_bind learnt (\<lambda>a2. res_bind (apply_account_config env global_mode a2) (\<lambda>a3.
                 res_bind (fetch_server_card penv (agent_url a3)) (\<lambda>doc. apply_server_card doc a3))), w')))"

fun probe_all ::
  "environment \<Rightarrow> string \<Rightarrow> probe_env \<Rightarrow> 'w capability_call \<Rightarrow> seller_agent list \<Rightarrow> 'w \<Rightarrow>
     (py_exn + seller_agent list) \<times> 'w" where
  "probe_all env global_mode penv call [] w = (Inr [], w)"
| "probe_all env global_mode penv call (a # as) w =
     (case probe_seller env global_mode penv call a w of
        (r, w1) \<Rightarrow>
          (case probe_all env global_mode penv call as w1 of
             (rs, w2) \<Rightarrow> (res_bind r (\<lambda>a'. res_bind rs (\<lambda>as'. Inr (a' # as'))), w2)))"

section \<open>All sources\<close>

definition normalize_seller_url :: "string \<Rightarrow> string" where
  "normalize_seller_url url = lower (remove_suffix (rstrip_char (CHR ''/'') url) ''/mcp'')"

fun add_unknown :: "seller_agent list \<Rightarrow> string list \<Rightarrow> seller_agent list \<Rightarrow> seller_agent list" where
  "add_unknown [] known acc = acc"
| "add_unknown (a # as) known acc =
     (let norm = normalize_seller_url (agent_url a)
      in if norm \<in> set known then add_unknown as known acc
         else add_unknown as (norm # known) (acc @ [a]))"

record discovery_env =
  disc_shown :: "json \<Rightarrow> string"
  disc_env :: environment
  disc_mode :: string
  disc_fetch :: "string \<Rightarrow> http_json"
  disc_primary :: string
  disc_fallback :: string
  disc_sellers :: "seller_config list"
  disc_probe :: probe_env

definition known_sellers :: "discovery_env \<Rightarrow> py_exn + seller_agent list" where
  "known_sellers denv =
     (let sellers = get_configured_sellers (disc_env denv) (disc_sellers denv)
      in res_bind (fetch_registry_agents (disc_shown denv) (disc_env denv) (disc_fetch denv)
                     (disc_primary denv) (disc_fallback denv)) (\<lambda>agents.
           Inr (add_unknown agents (map (\<lambda>a. normalize_seller_url (agent_url a)) sellers) sellers)))"

text \<open>After a probe the sellers that can sell are counted for the log, which may raise, too.\<close>

definition discover_all_sellers ::
  "discovery_env \<Rightarrow> 'w capability_call \<Rightarrow> bool \<Rightarrow> 'w \<Rightarrow> (py_exn + seller_agent list) \<times> 'w" where
  "discover_all_sellers denv call probe w =
     (case known_sellers denv of
        Inl e \<Rightarrow> (Inl e, w)
      | Inr sellers \<Rightarrow>
          if probe then
            (case probe_all (disc_env denv) (disc_mode denv) (disc_probe denv) call sellers w of
               (r, w') \<Rightarrow>
                 (res_bind r (\<lambda>probed. res_bind (res_map can_sell probed) (\<lambda>_. Inr probed)), w'))
          else (res_map (apply_account_config (disc_env denv) (disc_mode denv)) sellers, w))"

section \<open>What is found\<close>

abbreviation site :: "seller_agent \<Rightarrow> string" where
  "site a \<equiv> normalize_seller_url (agent_url a)"

lemma add_unknown_new:
  "\<exists>new. add_unknown as known acc = acc @ new \<and> set new \<subseteq> set as \<and> distinct (map site new) \<and>
     site ` set new \<inter> set known = {} \<and> site ` set as \<subseteq> set known \<union> site ` set new"
proof (induction as known acc rule: add_unknown.induct)
  case (2 a as known acc)
  show ?case
  proof (cases "site a \<in> set known")
    case True
    with 2(1) show ?thesis by (fastforce simp: Let_def)
  next
    case False
    with 2(2) obtain new where "add_unknown as (site a # known) (acc @ [a]) = (acc @ [a]) @ new"
      "set new \<subseteq> set as" "distinct (map site new)" "site ` set new \<inter> set (site a # known) = {}"
      "site ` set as \<subseteq> set (site a # known) \<union> site ` set new" by fastforce
    with False show ?thesis by (intro exI [of _ "a # new"]) auto
  qed
qed simp

text \<open>Probing and configuring a seller keep its address and its credential.\<close>

definition address :: "seller_agent \<Rightarrow> string \<times> string option" where
  "address a = (agent_url a, token a)"

lemma note_portfolio_address [simp]:
  "agent_url (note_portfolio v a) = agent_url a" "token (note_portfolio v a) = token a"
  by (simp_all add: note_portfolio_def split: json.split list.split)

lemma apply_capabilities_address: "apply_capabilities caps a = Inr a' \<Longrightarrow> address a' = address a"
  by (auto simp: apply_capabilities_def address_def Let_def res_bind_Inr_iff split: if_splits)

lemma apply_account_config_address: "apply_account_config env m a = Inr a' \<Longrightarrow> address a' = address a"
  by (auto simp: apply_account_config_def address_def res_bind_Inr_iff)

lemma apply_server_card_address: "apply_server_card doc a = Inr a' \<Longrightarrow> address a' = address a"
  by (auto simp: apply_server_card_def address_def res_bind_Inr_iff split: if_splits json.splits)

lemma classify_by_tools_address [simp]: "address (classify_by_tools tools a) = address a"
  by (simp add: classify_by_tools_def address_def)

lemma learn_capabilities_address:
  "learn_capabilities call tools a w = (Inr a', w') \<Longrightarrow> address a' = address a"
  by (auto simp: learn_capabilities_def split: if_splits prod.splits sum.splits dest: apply_capabilities_address)

lemma probe_seller_address: "probe_seller env m penv call a w = (Inr a', w') \<Longrightarrow> address a' = address a"
proof -
  assume probe: "probe_seller env m penv call a w = (Inr a', w')"
  have start: "address (a\<lparr>agent_tools := t, agent_status := st\<rparr>) = address a" for t st
    by (simp add: address_def)
  show ?thesis
  proof (cases "list_tools penv a")
    case None
    with probe show ?thesis by (auto simp: probe_seller_def address_def)
  next
    case (Some tools)
    let ?a1 = "classify_by_tools tools (a\<lparr>agent_tools := JArr (map JStr tools), agent_status := JStr ''online''\<rparr>)"
    obtain learnt w2 where learnt: "learn_capabilities call tools ?a1 w = (learnt, w2)" by fastforce
    with probe Some obtain a2 where "learnt = Inr a2" and
      "res_bind (apply_account_config env m a2) (\<lambda>a3.
         res_bind (fetch_server_card penv (agent_url a3)) (\<lambda>doc. apply_server_card doc a3)) = Inr a'"
      by (auto simp: probe_seller_def Let_def res_bind_Inr_iff)
    with learn_capabilities_address [of call tools ?a1 w a2 w2] learnt show ?thesis
      by (auto simp: res_bind_Inr_iff start dest!: apply_account_config_address apply_server_card_address)
  qed
qed

lemma probe_all_address: "probe_all env m penv call as w = (Inr as', w') \<Longrightarrow> map address as' = map address as"
  by (induction env m penv call as w arbitrary: as' w' rule: probe_all.induct)
     (auto simp: res_bind_Inr_iff split: prod.splits dest: probe_seller_address)

lemma res_map_address:
  "res_map f as = Inr as' \<Longrightarrow> (\<And>a a'. f a = Inr a' \<Longrightarrow> address a' = address a) \<Longrightarrow> map address as' = map address as"
  by (induction as arbitrary: as') (auto simp: res_bind_Inr_iff)

lemma discover_address:
  assumes "discover_all_sellers denv call probe w = (Inr sellers, w')"
  shows "\<exists>known. known_sellers denv = Inr known \<and> map address sellers = map address known"
  using assms
  by (auto simp: discover_all_sellers_def res_bind_Inr_iff split: sum.splits if_splits prod.splits
      dest: probe_all_address elim!: res_map_address [OF _ apply_account_config_address])

text \<open>
  Whether or not sellers are probed, discovery lists the enabled configured sellers first and
  after them registry agents, no two for the same site and none for the site of a configured
  seller; no listed agent is lost to anything but a seller already there, and every seller keeps
  the credential it was found with.
\<close>

theorem discovery_merges_sources:
  assumes "discover_all_sellers denv call probe w = (Inr sellers, w')"
  shows "\<exists>regs new.
    fetch_registry_agents (disc_shown denv) (disc_env denv) (disc_fetch denv) (disc_primary denv) (disc_fallback denv) = Inr regs \<and>
    map address sellers = map address (get_configured_sellers (disc_env denv) (disc_sellers denv)) @ map address new \<and>
    set new \<subseteq> set regs \<and> distinct (map site new) \<and>
    site ` set new \<inter> site ` set (get_configured_sellers (disc_env denv) (disc_sellers denv)) = {} \<and>
    site ` set regs \<subseteq> site ` set sellers"
proof -
  let ?conf = "get_configured_sellers (disc_env denv) (disc_sellers denv)"
  from discover_address [OF assms] obtain known regs where addr: "map address sellers = map address known"
    and regs: "fetch_registry_agents (disc_shown denv) (disc_env denv) (disc_fetch denv) (disc_primary denv) (disc_fallback denv) = Inr regs"
    and known: "known = add_unknown regs (map site ?conf) ?conf"
    by (auto simp: known_sellers_def Let_def res_bind_Inr_iff)
  from add_unknown_new [of regs "map site ?conf" ?conf] known obtain new where
    new: "known = ?conf @ new" "set new \<subseteq> set regs" "distinct (map site new)"
      "site ` set new \<inter> site ` set ?conf = {}" "site ` set regs \<subseteq> site ` set ?conf \<union> site ` set new" by auto
  have "map (normalize_seller_url \<circ> fst \<circ> address) sellers = map (normalize_seller_url \<circ> fst \<circ> address) known"
    using addr by (metis map_map)
  then have "site ` set sellers = site ` set known"
    by (metis (no_types, lifting) address_def comp_apply fst_conv image_cong list.set_map)
  with addr new regs show ?thesis by (intro exI [of _ regs] exI [of _ new]) (auto simp: image_Un)
qed

text \<open>
  The registries are asked in order, and the first one that does not fail decides: its listing,
  entry by entry, is the result, and when all of them fail there are no registry agents.  A document
  without \<open>get\<close> is no failure of this kind: it raises, and the next registry is not asked.
\<close>

theorem registry_fallback:
  "fetch_registry_agents shown env fetch primary fallback =
     (case List.find (\<lambda>base. registry_listing (fetch (base @ ''/agents'')) \<noteq> Inr None)
             (registry_base_urls primary fallback) of
        None \<Rightarrow> Inr []
      | Some base \<Rightarrow>
          res_bind (registry_listing (fetch (base @ ''/agents''))) (\<lambda>listing.
            res_bind (res_map (parse_registry_entry shown env) (the listing)) (\<lambda>agents.
              Inr (listed_agents agents))))"
proof -
  have "agents_from shown env fetch bases =
     (case List.find (\<lambda>base. registry_listing (fetch (base @ ''/agents'')) \<noteq> Inr None) bases of
        None \<Rightarrow> Inr []
      | Some base \<Rightarrow>
          res_bind (registry_listing (fetch (base @ ''/agents''))) (\<lambda>listing.
            res_bind (res_map (parse_registry_entry shown env) (the listing)) (\<lambda>agents. Inr (listed_agents agents))))"
    for bases
    by (induction bases) (auto simp: res_bind_def split: sum.splits option.splits)
  then show ?thesis unfolding fetch_registry_agents_def .
qed

lemma parse_registry_entry_buyable:
  assumes "parse_registry_entry shown env entry = Inr (Some a)"
  shows "getj entry ''type'' = JStr ''sales''" "agent_url a \<noteq> []" "source a = ''registry''"
    "token a = seller_env env ''NXFLO_SELLER_TOKEN'' (agent_url a)"
    "truthy (getj entry ''mcp_endpoint'') \<or> protocol a = ''mcp''"
  using assms
  by (auto simp: parse_registry_entry_def Let_def or_else_def new_agent_def split: if_splits json.splits)

section \<open>A seller that stops discovery\<close>

lemma probe_seller_numeric_protocols:
  assumes "list_tools penv a = Some tools" "''get_adcp_capabilities'' \<in> set tools"
    and "\<forall>s v. agent_url s = agent_url a \<longrightarrow> fst (call s v) = Inr caps"
    and "getj caps ''supported_protocols'' = JInt n" "n \<noteq> 0"
  shows "fst (probe_seller env m penv call a w) = Inl TypeError"
proof -
  let ?a1 = "classify_by_tools tools (a\<lparr>agent_tools := JArr (map JStr tools), agent_status := JStr ''online''\<rparr>)"
  have "agent_url ?a1 = agent_url a" by (simp add: classify_by_tools_def)
  with assms(3) obtain w' where "call ?a1 w = (Inr caps, w')" by (metis prod.collapse)
  moreover have "get_or caps ''supported_protocols'' x = JInt n" for x
    using assms(4) by (auto simp: getj_def get_or_def split: option.splits)
  ultimately show ?thesis
    using assms by (simp add: probe_seller_def Let_def learn_capabilities_def apply_capabilities_def)
qed

text \<open>
  Discovery is only as robust as its worst seller: one that declares \<open>supported_protocols\<close> to be
  a number makes the membership test raise \<open>TypeError\<close>, which no handler catches, so the probe of all
  sellers fails.
\<close>

theorem one_seller_stops_discovery:
  assumes "known_sellers denv = Inr sellers" "a \<in> set sellers"
    and "list_tools (disc_probe denv) a = Some tools" "''get_adcp_capabilities'' \<in> set tools"
    and "\<forall>s v. agent_url s = agent_url a \<longrightarrow> fst (call s v) = Inr caps"
    and "getj caps ''supported_protocols'' = JInt n" "n \<noteq> 0"
  shows "\<exists>e. fst (discover_all_sellers denv call True w) = Inl e"
proof -
  have "\<exists>e. fst (probe_all env m (disc_probe denv) call as w) = Inl e" if "a \<in> set as" for env m as w
    using that
  proof (induction as arbitrary: w)
    case (Cons b as)
    obtain r w1 where r: "probe_seller env m (disc_probe denv) call b w = (r, w1)" by fastforce
    obtain rs w2 where rs: "probe_all env m (disc_probe denv) call as w1 = (rs, w2)" by fastforce
    show ?case
    proof (cases "a = b")
      case True
      then have "r = Inl TypeError"
        using probe_seller_numeric_protocols [OF assms(3-7), where env = env and m = m and w = w] r by simp
      with r rs show ?thesis by simp
    next
      case False
      with Cons rs obtain e where "rs = Inl e" by (metis fst_conv set_ConsD)
      with r rs show ?thesis by (cases r) auto
    qed
  qed simp
  from this [OF assms(2), where env = "disc_env denv" and m = "disc_mode denv" and w = w] assms(1) show ?thesis
    by (auto simp: discover_all_sellers_def split: prod.splits)
qed

section \<open>Examples\<close>

definition example_discovery :: discovery_env where
  "example_discovery =
     \<lparr>disc_shown = (\<lambda>v. []), disc_env = (\<lambda>n. None), disc_mode = ''auto'',
      disc_fetch = (\<lambda>u. if u = ''https://r2/agents''
        then HttpDocument (JArr [JObj [(''type'', JStr ''sales''), (''url'', JStr ''https://A.example/mcp/'')],
               JObj [(''type'', JStr ''sales''), (''url'', JStr ''https://b.example'')],
               JObj [(''type'', JStr ''signals'')]])
        else HttpUnavailable),
      disc_primary = ''https://r1/'', disc_fallback = ''https://r2'',
      disc_sellers = [plain_seller ''A'' ''https://a.example/mcp''],
      disc_probe = \<lparr>list_tools = (\<lambda>a. Some [''get_adcp_capabilities'']), origin_of = Some,
                    get_json = (\<lambda>u. HttpUnavailable)\<rparr>\<rparr>"

definition example_call :: "unit capability_call" where
  "example_call s w = (Inr [(''supported_protocols'', JInt 1)], w)"

definition example_urls :: "string list" where
  "example_urls = [''https://a.example/mcp'', ''https://b.example'']"

lemma example_discovery_sellers:
  "case discover_all_sellers example_discovery example_call False () of
     (Inr sellers, w) \<Rightarrow> map agent_url sellers = example_urls
   | (Inl e, w) \<Rightarrow> False"
  by code_simp

lemma example_discovery_found:
  "\<exists>sellers. discover_all_sellers example_discovery example_call False () = (Inr sellers, ()) \<and>
     map agent_url sellers = example_urls"
proof -
  obtain r w where "discover_all_sellers example_discovery example_call False () = (r, w)" by (rule prod.exhaust)
  with example_discovery_sellers show ?thesis by (cases r) simp_all
qed

theorem discovery_merges_sources_witness:
  "\<exists>sellers regs. discover_all_sellers example_discovery example_call False () = (Inr sellers, ()) \<and>
     map agent_url sellers = example_urls \<and> site ` set regs \<subseteq> site ` set sellers"
proof -
  from example_discovery_found obtain sellers where
    sellers: "discover_all_sellers example_discovery example_call False () = (Inr sellers, ())"
    "map agent_url sellers = example_urls" by blast
  from discovery_merges_sources [OF sellers(1)] sellers show ?thesis by blast
qed

theorem one_seller_stops_discovery_witness:
  "\<exists>e. fst (discover_all_sellers example_discovery example_call True ()) = Inl e"
proof -
  from example_discovery_found obtain sellers where
    sellers: "discover_all_sellers example_discovery example_call False () = (Inr sellers, ())"
    "map agent_url sellers = example_urls" by blast
  from discover_address [OF sellers(1)] obtain known where known: "known_sellers example_discovery = Inr known"
    "map address sellers = map address known" by blast
  from sellers(2) have "sellers \<noteq> []" by (auto simp: example_urls_def)
  with known(2) obtain a where a: "a \<in> set known" by (cases known) auto
  have tools: "list_tools (disc_probe example_discovery) a = Some [''get_adcp_capabilities'']"
    by (simp add: example_discovery_def)
  have call: "\<forall>s v. agent_url s = agent_url a \<longrightarrow> fst (example_call s v) = Inr [(''supported_protocols'', JInt 1)]"
    by (simp add: example_call_def)
  show ?thesis
    by (rule one_seller_stops_discovery [OF known(1) a tools _ call, where n = 1]) (simp_all add: getj_def get_or_def)
qed

end
