(* ===== verification/Op_Tracker.thy ===== *)
theory Op_Tracker
  imports Seller_Agent
begin

text \<open>
  \<open>src/buying/tracker.py\<close> with the table \<open>operations\<close> of \<open>src/models/schema.py\<close>: the tracked
  operations in memory, the gauge of operations by status, and the rows that survive a restart.
  Times are microseconds.  Fields copied from a seller's response are JSON values; a column
  stores the value it is given; which values a database refuses is shown in \<open>Db_Schema\<close>.
\<close>

section \<open>The code\<close>

datatype task_status =
    PENDING | SUBMITTED | WORKING | INPUT_REQUIRED | COMPLETED | FAILED | CANCELED
  | AUTH_REQUIRED | REJECTED | UNKNOWN

definition status_values :: "(string \<times> task_status) list" where
  "status_values =
     [(''pending'', PENDING), (''submitted'', SUBMITTED), (''working'', WORKING),
      (''input-required'', INPUT_REQUIRED), (''completed'', COMPLETED), (''failed'', FAILED),
      (''canceled'', CANCELED), (''auth-required'', AUTH_REQUIRED), (''rejected'', REJECTED),
      (''unknown'', UNKNOWN)]"

fun status_value :: "task_status \<Rightarrow> string" where
  "status_value PENDING = ''pending''"
| "status_value SUBMITTED = ''submitted''"
| "status_value WORKING = ''working''"
| "status_value INPUT_REQUIRED = ''input-required''"
| "status_value COMPLETED = ''completed''"
| "status_value FAILED = ''failed''"
| "status_value CANCELED = ''canceled''"
| "status_value AUTH_REQUIRED = ''auth-required''"
| "status_value REJECTED = ''rejected''"
| "status_value UNKNOWN = ''unknown''"

definition status_of_value :: "string \<Rightarrow> task_status option" where
  "status_of_value s = map_of status_values s"

definition polling_interval :: "task_status \<Rightarrow> int option" where
  "polling_interval s = (case s of WORKING \<Rightarrow> Some 5 | SUBMITTED \<Rightarrow> Some 60 | _ \<Rightarrow> None)"

definition terminal_status :: "task_status \<Rightarrow> bool" where
  "terminal_status s \<longleftrightarrow> s \<in> {COMPLETED, FAILED, CANCELED, REJECTED}"

record tracked_operation =
  op_id :: string
  operation_type :: string
  op_seller_name :: json
  op_seller_url :: string
  op_status :: task_status
  op_task_id :: json
  op_context_id :: json
  op_media_buy_id :: json
  buyer_ref :: json
  request_data :: dict
  response_data :: dict
  op_error :: json
  created_at :: int
  updated_at :: int
  poll_count :: int
  application_context :: dict
  webhook_config :: json
  input_required_message :: json
  input_required_data :: json
  creative_deadline :: json

definition new_operation :: "string \<Rightarrow> string \<Rightarrow> json \<Rightarrow> string \<Rightarrow> string \<Rightarrow> dict \<Rightarrow> int \<Rightarrow> tracked_operation" where
  "new_operation uuid typ seller_nm seller_addr ref req now =
     \<lparr>op_id = uuid, operation_type = typ, op_seller_name = seller_nm, op_seller_url = seller_addr,
      op_status = PENDING, op_task_id = JNull, op_context_id = JNull, op_media_buy_id = JNull,
      buyer_ref = JStr ref, request_data = req, response_data = [], op_error = JNull,
      created_at = now, updated_at = now, poll_count = 0, application_context = [],
      webhook_config = JNull, input_required_message = JNull, input_required_data = JNull,
      creative_deadline = JNull\<rparr>"

text \<open>A row of the table; JSON columns may be null.\<close>

record operation_row =
  row_id :: string
  row_type :: string
  row_seller_name :: json
  row_seller_url :: string
  row_status :: string
  row_task_id :: json
  row_context_id :: json
  row_media_buy_id :: json
  row_buyer_ref :: json
  row_request_data :: json
  row_response_data :: json
  row_error :: json
  row_poll_count :: int
  row_created_at :: int
  row_updated_at :: int
  row_application_context :: json
  row_webhook_config :: json
  row_input_required_message :: json
  row_input_required_data :: json
  row_creative_deadline :: json

record op_tracker =
  operations :: "(string \<times> tracked_operation) list"
  db_enabled :: bool
  operations_current :: "task_status \<Rightarrow> int"
  operations_created_total :: "string \<Rightarrow> nat"
  operations_table :: "(string \<times> operation_row) list"
  flush_clock :: "tracked_operation \<Rightarrow> operation_row \<Rightarrow> int"

text \<open>\<open>flush_clock\<close> is the time at which the ORM writes an operation over its row.\<close>

definition new_tracker :: "(tracked_operation \<Rightarrow> operation_row \<Rightarrow> int) \<Rightarrow> op_tracker" where
  "new_tracker clock = \<lparr>operations = [], db_enabled = False, operations_current = (\<lambda>s. 0),
     operations_created_total = (\<lambda>t. 0), operations_table = [], flush_clock = clock\<rparr>"

definition operation_of_row :: "operation_row \<Rightarrow> tracked_operation" where
  "operation_of_row r =
     \<lparr>op_id = row_id r, operation_type = row_type r, op_seller_name = row_seller_name r,
      op_seller_url = row_seller_url r,
      op_status = (case status_of_value (row_status r) of Some s \<Rightarrow> s | None \<Rightarrow> UNKNOWN),
      op_task_id = row_task_id r, op_context_id = row_context_id r,
      op_media_buy_id = row_media_buy_id r, buyer_ref = row_buyer_ref r,
      request_data = obj_of (or_else (row_request_data r) (JObj [])),
      response_data = obj_of (or_else (row_response_data r) (JObj [])),
      op_error = row_error r, created_at = row_created_at r, updated_at = row_updated_at r,
      poll_count = row_poll_count r,
      application_context = obj_of (or_else (row_application_context r) (JObj [])),
      webhook_config = row_webhook_config r, input_required_message = row_input_required_message r,
      input_required_data = row_input_required_data r, creative_deadline = row_creative_deadline r\<rparr>"

text \<open>\<open>init_db\<close> after the migrations: every row becomes an operation in memory.\<close>

definition tracker_init_db :: "op_tracker \<Rightarrow> op_tracker" where
  "tracker_init_db t =
     t\<lparr>db_enabled := True,
       operations := fold (\<lambda>(k, r). AList.update (row_id r) (operation_of_row r))
                       (operations_table t) (operations t)\<rparr>"

definition new_row :: "tracked_operation \<Rightarrow> operation_row" where
  "new_row p =
     \<lparr>row_id = op_id p, row_type = operation_type p, row_seller_name = op_seller_name p,
      row_seller_url = op_seller_url p, row_status = status_value (op_status p),
      row_task_id = op_task_id p, row_context_id = op_context_id p,
      row_media_buy_id = op_media_buy_id p, row_buyer_ref = buyer_ref p,
      row_request_data = JObj (request_data p), row_response_data = JObj (response_data p),
      row_error = op_error p, row_poll_count = poll_count p, row_created_at = created_at p,
      row_updated_at = updated_at p, row_application_context = JObj (application_context p),
      row_webhook_config = webhook_config p, row_input_required_message = input_required_message p,
      row_input_required_data = input_required_data p, row_creative_deadline = creative_deadline p\<rparr>"

text \<open>
  Assigning to the columns of a row.  Only what has changed is written, and \<open>updated_at\<close> has \<open>onupdate\<close>: where
  other columns change and it does not, the row gets the time of writing.
\<close>

definition assign_row :: "tracked_operation \<Rightarrow> operation_row \<Rightarrow> operation_row" where
  "assign_row p r =
     r\<lparr>row_status := status_value (op_status p), row_task_id := op_task_id p,
       row_context_id := op_context_id p, row_media_buy_id := op_media_buy_id p,
       row_request_data := JObj (request_data p), row_response_data := JObj (response_data p),
       row_error := op_error p, row_poll_count := poll_count p, row_updated_at := updated_at p,
       row_application_context := JObj (application_context p),
       row_webhook_config := webhook_config p,
       row_input_required_message := input_required_message p,
       row_input_required_data := input_required_data p,
       row_creative_deadline := creative_deadline p\<rparr>"

definition update_row :: "int \<Rightarrow> tracked_operation \<Rightarrow> operation_row \<Rightarrow> operation_row" where
  "update_row now p r =
     (if updated_at p = row_updated_at r \<and> assign_row p r \<noteq> r then (assign_row p r)\<lparr>row_updated_at := now\<rparr>
      else assign_row p r)"

definition persist :: "tracked_operation \<Rightarrow> op_tracker \<Rightarrow> op_tracker" where
  "persist p t =
     (if \<not> db_enabled t then t
      else case map_of (operations_table t) (op_id p) of
        Some existing \<Rightarrow>
          t\<lparr>operations_table := dset (op_id p) (update_row (flush_clock t p existing) p existing) (operations_table t)\<rparr>
      | None \<Rightarrow> t\<lparr>operations_table := dset (op_id p) (new_row p) (operations_table t)\<rparr>)"

definition create_operation ::
  "string \<Rightarrow> int \<Rightarrow> string \<Rightarrow> json \<Rightarrow> string \<Rightarrow> string \<Rightarrow> dict \<Rightarrow> op_tracker \<Rightarrow>
     tracked_operation \<times> op_tracker" where
  "create_operation uuid now typ seller_nm seller_addr ref req t =
     (let p = new_operation uuid typ seller_nm seller_addr ref req now;
          t1 = t\<lparr>operations := dset uuid p (operations t),
                 operations_created_total :=
                   (operations_created_total t)(typ := operations_created_total t typ + 1),
                 operations_current :=
                   (operations_current t)(PENDING := operations_current t PENDING + 1)\<rparr>
      in (p, persist p t1))"

text \<open>Moving one operation of the gauge from a status to another.\<close>

definition move_gauge :: "task_status \<Rightarrow> task_status \<Rightarrow> op_tracker \<Rightarrow> op_tracker" where
  "move_gauge old new t =
     (if new = old then t
      else let g = (operations_current t)(old := operations_current t old - 1)
           in t\<lparr>operations_current := g(new := g new + 1)\<rparr>)"

definition store_operation :: "tracked_operation \<Rightarrow> op_tracker \<Rightarrow> op_tracker" where
  "store_operation p t = t\<lparr>operations := dset (op_id p) p (operations t)\<rparr>"

definition dashed :: "string \<Rightarrow> string" where
  "dashed s = map (\<lambda>c. if c = CHR ''_'' then CHR ''-'' else c) s"

definition response_status ::
  "(json \<Rightarrow> string) \<Rightarrow> string \<Rightarrow> dict \<Rightarrow> tracked_operation \<Rightarrow> tracked_operation" where
  "response_status shown status_str response p =
     (case status_of_value status_str of
        Some s \<Rightarrow> p\<lparr>op_status := s\<rparr>
      | None \<Rightarrow>
          (if has_key response ''error'' \<or> has_key response ''errors'' then
             p\<lparr>op_status := FAILED,
               op_error := JStr (text_of shown
                 (or_else (getj response ''error'') (getj response ''errors'')))\<rparr>
           else p\<lparr>op_status := UNKNOWN\<rparr>))"

definition response_fields :: "dict \<Rightarrow> tracked_operation \<Rightarrow> tracked_operation" where
  "response_fields response p =
     (let p1 = (if has_key response ''task_id'' then p\<lparr>op_task_id := getj response ''task_id''\<rparr> else p);
          p2 = (if has_key response ''context_id''
                then p1\<lparr>op_context_id := getj response ''context_id''\<rparr> else p1);
          p3 = (if has_key response ''media_buy_id''
                then p2\<lparr>op_media_buy_id := getj response ''media_buy_id''\<rparr> else p2);
          p4 = (if has_key response ''creative_deadline''
                then p3\<lparr>creative_deadline := getj response ''creative_deadline''\<rparr> else p3);
          p5 = (if op_status p4 = INPUT_REQUIRED
                then p4\<lparr>input_required_message := get_or response ''message'' (JStr []),
                        input_required_data := JObj (filter (\<lambda>(k, v).
                          k \<notin> {''status'', ''message'', ''context_id'', ''task_id''}) response)\<rparr>
                else p4)
      in if is_obj (getj response ''context'')
         then p5\<lparr>application_context := obj_of (getj response ''context'')\<rparr> else p5)"

text \<open>
  An unknown id raises \<open>KeyError\<close>; a \<open>status\<close> that is not a string raises \<open>AttributeError\<close> after
  \<open>updated_at\<close> and \<open>response_data\<close> have been replaced.
\<close>

definition update_from_response ::
  "(json \<Rightarrow> string) \<Rightarrow> int \<Rightarrow> string \<Rightarrow> dict \<Rightarrow> op_tracker \<Rightarrow>
     (py_exn + tracked_operation) \<times> op_tracker" where
  "update_from_response shown now oid response t =
     (case map_of (operations t) oid of
        None \<Rightarrow> (Inl KeyError, t)
      | Some p \<Rightarrow>
          (let p0 = p\<lparr>updated_at := now, response_data := response\<rparr>
           in case get_or response ''status'' (JStr []) of
                JStr s \<Rightarrow>
                  (let p1 = response_fields response
                              (response_status shown (dashed (lower s)) response p0)
                   in (Inr p1, move_gauge (op_status p) (op_status p1) (store_operation p1 t)))
              | _ \<Rightarrow> (Inl AttributeError, store_operation p0 t)))"

definition mark_failed ::
  "int \<Rightarrow> string \<Rightarrow> string \<Rightarrow> op_tracker \<Rightarrow> (py_exn + tracked_operation) \<times> op_tracker" where
  "mark_failed now oid error t =
     (case map_of (operations t) oid of
        None \<Rightarrow> (Inl KeyError, t)
      | Some p \<Rightarrow>
          (let p1 = p\<lparr>op_status := FAILED, op_error := JStr error, updated_at := now\<rparr>
           in (Inr p1, move_gauge (op_status p) FAILED (store_operation p1 t))))"

definition get_operation :: "string \<Rightarrow> op_tracker \<Rightarrow> tracked_operation option" where
  "get_operation oid t = map_of (operations t) oid"

definition get_by_buyer_ref :: "string \<Rightarrow> op_tracker \<Rightarrow> tracked_operation option" where
  "get_by_buyer_ref ref t = List.find (\<lambda>p. buyer_ref p = JStr ref) (map snd (operations t))"

definition get_pending :: "op_tracker \<Rightarrow> tracked_operation list" where
  "get_pending t = filter (\<lambda>p. op_status p \<in> {SUBMITTED, WORKING}) (map snd (operations t))"

definition get_input_required :: "op_tracker \<Rightarrow> tracked_operation list" where
  "get_input_required t = filter (\<lambda>p. op_status p = INPUT_REQUIRED) (map snd (operations t))"

text \<open>Sorting in reverse keeps the order of operations created at the same time.\<close>

definition list_all_operations :: "op_tracker \<Rightarrow> tracked_operation list" where
  "list_all_operations t = sort_key (\<lambda>p. - created_at p) (map snd (operations t))"

section \<open>Status values\<close>

lemma status_of_value_inverse [simp]: "status_of_value (status_value s) = Some s"
  by (cases s) (simp_all add: status_of_value_def status_values_def)

lemma status_of_value_iff: "status_of_value v = Some s \<longleftrightarrow> v = status_value s"
  by (cases s) (auto simp: status_of_value_def status_values_def split: if_splits)

section \<open>The gauge\<close>

definition count_status :: "task_status \<Rightarrow> (string \<times> tracked_operation) list \<Rightarrow> int" where
  "count_status s ops = int (length (filter (\<lambda>(k, p). op_status p = s) ops))"

definition keyed_by_id :: "(string \<times> tracked_operation) list \<Rightarrow> bool" where
  "keyed_by_id ops \<longleftrightarrow> distinct (map fst ops) \<and> (\<forall>(k, p) \<in> set ops. op_id p = k)"

abbreviation one_if :: "bool \<Rightarrow> int" where
  "one_if c \<equiv> (if c then 1 else 0)"

lemma count_status_present:
  "map_of ops k = Some p \<Longrightarrow>
     count_status s (dset k p' ops) =
       count_status s ops - one_if (op_status p = s) + one_if (op_status p' = s)"
  by (induction ops) (auto simp: count_status_def split: if_splits)

lemma count_status_absent:
  "map_of ops k = None \<Longrightarrow>
     count_status s (dset k p' ops) = count_status s ops + one_if (op_status p' = s)"
  by (induction ops) (auto simp: count_status_def split: if_splits)

lemma keyed_by_id_dset: "keyed_by_id ops \<Longrightarrow> op_id p = k \<Longrightarrow> keyed_by_id (dset k p ops)"
proof -
  assume "keyed_by_id ops" "op_id p = k"
  moreover have "set (dset k p ops) \<subseteq> insert (k, p) (set ops)"
    by (induction ops) auto
  ultimately show ?thesis by (auto simp: keyed_by_id_def)
qed

lemma keyed_by_id_lookup: "keyed_by_id ops \<Longrightarrow> map_of ops k = Some p \<Longrightarrow> op_id p = k"
  by (auto simp: keyed_by_id_def dest: map_of_SomeD)

lemma response_updates [simp]:
  "op_id (response_status shown st response p) = op_id p"
  "op_id (response_fields response p) = op_id p"
  "op_status (response_fields response p) = op_status p"
  by (auto simp: response_status_def response_fields_def Let_def split: option.splits)

lemma move_gauge_simps [simp]:
  "operations (move_gauge old new t) = operations t"
  "operations_table (move_gauge old new t) = operations_table t"
  "db_enabled (move_gauge old new t) = db_enabled t"
  "operations_current (move_gauge old new t) s =
     operations_current t s - one_if (s = old) + one_if (s = new)"
  by (auto simp: move_gauge_def Let_def)

lemma store_operation_simps [simp]:
  "operations (store_operation p t) = dset (op_id p) p (operations t)"
  "operations_current (store_operation p t) = operations_current t"
  "operations_table (store_operation p t) = operations_table t"
  by (simp_all add: store_operation_def)

lemma persist_simps [simp]:
  "operations (persist p t) = operations t"
  "operations_current (persist p t) = operations_current t"
  "flush_clock (persist p t) = flush_clock t"
  by (auto simp: persist_def split: option.splits)

text \<open>The public operations of the tracker.\<close>

inductive tracker_step :: "(json \<Rightarrow> string) \<Rightarrow> op_tracker \<Rightarrow> op_tracker \<Rightarrow> bool" for shown where
  create: "map_of (operations t) uuid = None \<Longrightarrow>
     tracker_step shown t (snd (create_operation uuid now ty nm addr ref req t))"
| update: "tracker_step shown t (snd (update_from_response shown now oid response t))"
| mark: "tracker_step shown t (snd (mark_failed now oid err t))"
| save: "get_operation oid t = Some p \<Longrightarrow> tracker_step shown t (persist p t)"

definition gauge_lags :: "(task_status \<Rightarrow> int) \<Rightarrow> op_tracker \<Rightarrow> bool" where
  "gauge_lags lag t \<longleftrightarrow> keyed_by_id (operations t) \<and>
     (\<forall>s. operations_current t s + lag s = count_status s (operations t))"

lemma gauge_lags_step: "tracker_step shown t t' \<Longrightarrow> gauge_lags lag t \<Longrightarrow> gauge_lags lag t'"
proof (induction rule: tracker_step.induct)
  case (create t uuid now ty nm addr ref req)
  then show ?case
    by (auto simp: gauge_lags_def create_operation_def Let_def new_operation_def keyed_by_id_dset
        count_status_absent)
next
  case (update t now oid response)
  show ?case
  proof (cases "map_of (operations t) oid")
    case None
    then show ?thesis using update by (simp add: update_from_response_def)
  next
    case (Some p)
    with update have [simp]: "op_id p = oid" "map_of (operations t) oid = Some p"
      by (auto simp: gauge_lags_def keyed_by_id_lookup)
    from update show ?thesis
      by (auto simp: gauge_lags_def update_from_response_def Let_def keyed_by_id_dset
          count_status_present split: json.split)
  qed
next
  case (mark t now oid err)
  show ?case
  proof (cases "map_of (operations t) oid")
    case (Some p)
    with mark have [simp]: "op_id p = oid" "map_of (operations t) oid = Some p"
      by (auto simp: gauge_lags_def keyed_by_id_lookup)
    from mark show ?thesis
      by (auto simp: gauge_lags_def mark_failed_def Let_def keyed_by_id_dset count_status_present)
  qed (use mark in \<open>simp add: mark_failed_def\<close>)
qed (auto simp: gauge_lags_def)

lemma keyed_by_id_load:
  "keyed_by_id ops \<Longrightarrow> keyed_by_id (fold (\<lambda>(k, r). AList.update (row_id r) (operation_of_row r)) rows ops)"
proof (induction rows arbitrary: ops)
  case (Cons kr rows)
  obtain k r where "kr = (k, r)" by (cases kr)
  with Cons show ?case by (simp add: keyed_by_id_dset operation_of_row_def)
qed simp

text \<open>
  Through any sequence of creations, responses, local failures and saves, the gauge of a
  status equals the number of operations in that status less those that were already in it when
  the tracker was loaded: exact for a tracker that started empty, short by the loaded operations
  after a restart.
\<close>

theorem operations_gauge_exact:
  assumes "(tracker_step shown)\<^sup>*\<^sup>* (tracker_init_db ((new_tracker clock)\<lparr>operations_table := rows\<rparr>)) t"
  shows "operations_current t s =
    count_status s (operations t) -
    count_status s (operations (tracker_init_db ((new_tracker clock)\<lparr>operations_table := rows\<rparr>)))"
proof -
  let ?t0 = "tracker_init_db ((new_tracker clock)\<lparr>operations_table := rows\<rparr>)"
  have "gauge_lags (\<lambda>s. count_status s (operations ?t0)) ?t0"
    using keyed_by_id_load [of "[]" rows]
    by (simp add: gauge_lags_def tracker_init_db_def new_tracker_def keyed_by_id_def)
  with assms have "gauge_lags (\<lambda>s. count_status s (operations ?t0)) t"
    by (induction rule: rtranclp_induct) (auto intro: gauge_lags_step)
  then have "operations_current t s + count_status s (operations ?t0) = count_status s (operations t)"
    by (simp add: gauge_lags_def)
  then show ?thesis by simp
qed

definition example_row :: operation_row where
  "example_row = new_row ((new_operation ''op1'' ''create_media_buy'' (JStr ''s'') ''u'' ''ref'' [] 0)
     \<lparr>op_status := SUBMITTED, op_task_id := JStr ''t1''\<rparr>)"

definition example_loaded :: op_tracker where
  "example_loaded = tracker_init_db ((new_tracker (\<lambda>p r. 0))\<lparr>operations_table := [(''op1'', example_row)]\<rparr>)"

lemmas tracker_eval = update_from_response_def response_status_def response_fields_def
  move_gauge_def store_operation_def example_loaded_def example_row_def tracker_init_db_def
  new_tracker_def operation_of_row_def new_row_def new_operation_def status_of_value_def
  status_values_def get_or_def getj_def has_key_def Let_def dashed_def

lemma example_completed:
  "lower ''completed'' = ''completed''" "lower ''working'' = ''working''"
  by (code_simp, code_simp)

lemma operations_gauge_exact_witness:
  "operations_current (snd (update_from_response (\<lambda>x. []) 5 ''op1'' [(''status'', JStr ''completed'')] example_loaded))
     SUBMITTED = -1"
proof -
  have step: "(tracker_step (\<lambda>x. []))\<^sup>*\<^sup>* (tracker_init_db ((new_tracker (\<lambda>p r. 0))\<lparr>operations_table := [(''op1'', example_row)]\<rparr>))
      (snd (update_from_response (\<lambda>x. []) 5 ''op1'' [(''status'', JStr ''completed'')] example_loaded))"
    unfolding example_loaded_def by (rule r_into_rtranclp) (rule tracker_step.update)
  show ?thesis
    using operations_gauge_exact [OF step, of SUBMITTED]
    by (simp add: tracker_eval example_completed count_status_def)
qed

section \<open>Crash recovery\<close>

text \<open>The row of an operation belongs to it: the columns that are never rewritten agree.\<close>

definition rows_belong :: "op_tracker \<Rightarrow> bool" where
  "rows_belong t \<longleftrightarrow>
     distinct (map fst (operations_table t)) \<and>
     (\<forall>(k, r) \<in> set (operations_table t). row_id r = k) \<and>
     (\<forall>k p r. map_of (operations t) k = Some p \<longrightarrow> map_of (operations_table t) k = Some r \<longrightarrow>
        row_type r = operation_type p \<and> row_seller_name r = op_seller_name p \<and>
        row_seller_url r = op_seller_url p \<and> row_buyer_ref r = buyer_ref p \<and>
        row_created_at r = created_at p)"

lemma operation_of_new_row [simp]: "operation_of_row (new_row p) = p"
  by (simp add: operation_of_row_def new_row_def or_else_def)

lemma update_row_simps [simp]:
  "row_id (update_row now p r) = row_id r" "row_status (update_row now p r) = status_value (op_status p)"
  by (simp_all add: update_row_def assign_row_def)

lemma updated_at_written:
  "row_updated_at (update_row now p r) = updated_at p \<or>
     row_updated_at (update_row now p r) = now \<and> row_updated_at r = updated_at p"
  by (simp add: update_row_def assign_row_def)

lemma operation_of_update_row:
  assumes "row_id r = op_id p" "row_type r = operation_type p" "row_seller_name r = op_seller_name p"
    "row_seller_url r = op_seller_url p" "row_buyer_ref r = buyer_ref p" "row_created_at r = created_at p"
  shows "operation_of_row (update_row now p r) = p\<lparr>updated_at := row_updated_at (update_row now p r)\<rparr>"
  using assms by (simp add: operation_of_row_def update_row_def assign_row_def or_else_def)

text \<open>What a saved operation is when it is loaded again.\<close>

definition reloads :: "op_tracker \<Rightarrow> tracked_operation \<Rightarrow> tracked_operation \<Rightarrow> bool" where
  "reloads t p q \<longleftrightarrow> (\<exists>u. q = p\<lparr>updated_at := u\<rparr> \<and>
     (u = updated_at p \<or> (\<exists>r. map_of (operations_table t) (op_id p) = Some r \<and> row_updated_at r = updated_at p \<and> u = flush_clock t p r)))"

lemma reloads_fields:
  "reloads t p q \<Longrightarrow> op_id q = op_id p \<and> operation_type q = operation_type p \<and> op_seller_name q = op_seller_name p \<and>
     op_seller_url q = op_seller_url p \<and> buyer_ref q = buyer_ref p \<and> created_at q = created_at p \<and> op_status q = op_status p"
  by (auto simp: reloads_def)

lemma load_lookup:
  "distinct (map fst rows) \<Longrightarrow> \<forall>(k, r) \<in> set rows. row_id r = k \<Longrightarrow>
     map_of (fold (\<lambda>(k, r). AList.update (row_id r) (operation_of_row r)) rows ops) i =
       (case map_of rows i of Some r \<Rightarrow> Some (operation_of_row r) | None \<Rightarrow> map_of ops i)"
proof (induction rows arbitrary: ops)
  case (Cons kr rows)
  obtain k r where kr: "kr = (k, r)" by (cases kr)
  with Cons.prems have "map_of rows k = None" by (simp add: map_of_eq_None_iff)
  with Cons kr show ?case by (auto split: option.splits)
qed simp

lemma persist_row:
  assumes "db_enabled t" and "rows_belong t" and "keyed_by_id (operations t)"
    and "get_operation oid t = Some p"
  shows "\<exists>r. map_of (operations_table (persist p t)) oid = Some r \<and> row_id r = oid \<and>
    reloads t p (operation_of_row r) \<and> distinct (map fst (operations_table (persist p t))) \<and>
    (\<forall>(k, r) \<in> set (operations_table (persist p t)). row_id r = k)"
proof -
  have oid: "op_id p = oid" using assms(3,4) by (simp add: get_operation_def keyed_by_id_lookup)
  have set: "set (dset k v xs) \<subseteq> insert (k, v) (set xs)" for k :: string and v :: operation_row and xs
    by (induction xs) auto
  show ?thesis
  proof (cases "map_of (operations_table t) oid")
    case None
    have "row_id (new_row p) = oid" by (simp add: new_row_def oid)
    moreover have "reloads t p p" by (auto simp: reloads_def intro!: exI [of _ "updated_at p"])
    ultimately show ?thesis using None assms(1,2) oid set [of oid "new_row p" "operations_table t"]
      by (auto simp: persist_def rows_belong_def)
  next
    case (Some r)
    let ?r = "update_row (flush_clock t p r) p r"
    from Some assms(2,4) have "row_id r = oid" and "operation_of_row ?r = p\<lparr>updated_at := row_updated_at ?r\<rparr>"
      by (auto intro!: operation_of_update_row simp: rows_belong_def get_operation_def oid dest: map_of_SomeD)
    moreover from this have "reloads t p (operation_of_row ?r)"
      using updated_at_written [of "flush_clock t p r" p r] Some oid by (auto simp: reloads_def)
    ultimately show ?thesis
      using Some assms(1,2) oid set [of oid ?r "operations_table t"]
      by (auto simp: persist_def rows_belong_def)
  qed
qed

text \<open>
  A saved operation survives a crash: after \<open>_persist\<close>, a tracker restarted from the table
  holds the operation that was saved, status, identifiers, seller response and polling state
  included; only the time of its last change may be the one at which the row was written.
\<close>

theorem persisted_operation_recovered:
  assumes "db_enabled t" and "rows_belong t" and "keyed_by_id (operations t)"
    and "get_operation oid t = Some p"
  shows "\<exists>q. get_operation oid (tracker_init_db
     ((new_tracker clock)\<lparr>operations_table := operations_table (persist p t)\<rparr>)) = Some q \<and> reloads t p q"
proof -
  from persist_row [OF assms] obtain r where
    "map_of (operations_table (persist p t)) oid = Some r" "reloads t p (operation_of_row r)"
    "distinct (map fst (operations_table (persist p t)))"
    "\<forall>(k, r) \<in> set (operations_table (persist p t)). row_id r = k" by blast
  then show ?thesis
    by (simp add: get_operation_def tracker_init_db_def new_tracker_def load_lookup)
qed

lemma persisted_operation_recovered_witness:
  "\<exists>q. get_operation ''op1'' (tracker_init_db ((new_tracker (\<lambda>p r. 0))\<lparr>operations_table := operations_table
     (persist (operation_of_row example_row) example_loaded)\<rparr>)) = Some q \<and> reloads example_loaded (operation_of_row example_row) q"
  by (rule persisted_operation_recovered)
     (simp_all add: tracker_eval rows_belong_def keyed_by_id_def get_operation_def)

text \<open>Saving an operation whose time has not changed gives the row another one.\<close>

lemma onupdate_overwrites:
  "updated_at p = row_updated_at r \<Longrightarrow> op_error p \<noteq> row_error r \<Longrightarrow> row_updated_at (update_row now p r) = now"
  by (cases r) (simp add: update_row_def assign_row_def)

section \<open>Late responses\<close>

text \<open>
  A terminal status is not final: a late or replayed response with status \<open>working\<close> puts a
  completed, failed, canceled or rejected operation back among those the poller polls, and the
  response recorded when it ended is overwritten.
\<close>

theorem terminal_not_absorbing:
  assumes "get_operation oid t = Some p" and "terminal_status (op_status p)"
    and "keyed_by_id (operations t)"
  shows "\<exists>p' t'. update_from_response shown now oid [(''status'', JStr ''working'')] t = (Inr p', t') \<and>
     p' \<in> set (get_pending t') \<and> response_data p' = [(''status'', JStr ''working'')] \<and>
     polling_interval (op_status p') = Some 5"
proof -
  have p: "map_of (operations t) oid = Some p" "op_id p = oid"
    using assms(1,3) by (simp_all add: get_operation_def keyed_by_id_lookup)
  define p' where "p' = p\<lparr>updated_at := now, response_data := [(''status'', JStr ''working'')],
    op_status := WORKING\<rparr>"
  have E: "response_fields [(''status'', JStr ''working'')] (response_status shown (dashed (lower ''working''))
      [(''status'', JStr ''working'')] (p\<lparr>updated_at := now, response_data := [(''status'', JStr ''working'')]\<rparr>)) = p'"
    by (simp add: p'_def tracker_eval example_completed)
  have status: "op_status p' = WORKING" by (simp add: p'_def)
  have "update_from_response shown now oid [(''status'', JStr ''working'')] t =
      (Inr p', move_gauge (op_status p) WORKING (store_operation p' t))"
    using status by (simp add: update_from_response_def p Let_def get_or_def E del: response_updates)
  moreover have "p' \<in> set (get_pending (move_gauge (op_status p) WORKING (store_operation p' t)))"
  proof -
    have "map_of (dset oid p' (operations t)) oid = Some p'" by simp
    from map_of_SomeD [OF this] have "p' \<in> snd ` set (dset oid p' (operations t))"
      by (metis image_eqI snd_conv)
    moreover have "op_id p' = oid" "op_status p' = WORKING" by (simp_all add: p'_def p)
    ultimately show ?thesis by (simp add: get_pending_def)
  qed
  moreover have "response_data p' = [(''status'', JStr ''working'')]" "polling_interval (op_status p') = Some 5"
    by (simp_all add: p'_def polling_interval_def)
  ultimately show ?thesis by blast
qed

definition example_done :: op_tracker where
  "example_done = example_loaded\<lparr>operations := [(''op1'', (operation_of_row example_row)\<lparr>op_status := COMPLETED\<rparr>)]\<rparr>"

lemma terminal_not_absorbing_witness:
  "\<exists>p' t'. update_from_response (\<lambda>x. []) 9 ''op1'' [(''status'', JStr ''working'')] example_done = (Inr p', t') \<and>
     p' \<in> set (get_pending t') \<and> response_data p' = [(''status'', JStr ''working'')] \<and>
     polling_interval (op_status p') = Some 5"
  by (rule terminal_not_absorbing [where p = "(operation_of_row example_row)\<lparr>op_status := COMPLETED\<rparr>"])
     (simp_all add: example_done_def get_operation_def terminal_status_def keyed_by_id_def
        operation_of_row_def example_row_def new_row_def new_operation_def)

section \<open>All statuses\<close>

instantiation task_status :: enum
begin

definition enum_task_status :: "task_status list" where
  "enum_task_status = map snd status_values"

definition enum_all_task_status :: "(task_status \<Rightarrow> bool) \<Rightarrow> bool" where
  "enum_all_task_status P = list_all P (map snd status_values)"

definition enum_ex_task_status :: "(task_status \<Rightarrow> bool) \<Rightarrow> bool" where
  "enum_ex_task_status P = list_ex P (map snd status_values)"

instance
proof
  have all: "s \<in> set (map snd status_values)" for s :: task_status by (cases s) (simp_all add: status_values_def)
  then show univ: "(UNIV :: task_status set) = set enum_class.enum" by (auto simp: enum_task_status_def)
  show "distinct (enum_class.enum :: task_status list)" by (simp add: enum_task_status_def status_values_def)
  show "enum_class.enum_all P = Ball UNIV P" for P :: "task_status \<Rightarrow> bool"
    unfolding enum_all_task_status_def list_all_iff using all by blast
  show "enum_class.enum_ex P = Bex UNIV P" for P :: "task_status \<Rightarrow> bool"
    unfolding enum_ex_task_status_def list_ex_iff using all by blast
qed

end

lemma count_all_statuses: "(\<Sum>s \<in> UNIV. count_status s ops) = int (length ops)"
proof (induction ops)
  case (Cons kp ops)
  have "count_status s (kp # ops) = one_if (op_status (snd kp) = s) + count_status s ops" for s
    by (cases kp) (simp add: count_status_def)
  then have "(\<Sum>s \<in> UNIV. count_status s (kp # ops)) =
      (\<Sum>s \<in> UNIV. one_if (op_status (snd kp) = s)) + (\<Sum>s \<in> UNIV. count_status s ops)"
    by (simp only: sum.distrib)
  also have "(\<Sum>s \<in> UNIV. one_if (op_status (snd kp) = s)) = 1" by (simp add: sum.delta')
  finally show ?case using Cons by simp
qed (simp add: count_status_def)

text \<open>
  The gauges of all statuses together account for every operation: with what was loaded at the start
  they add up to the number of operations, after any operation of the tracker.
\<close>

theorem gauges_add_up:
  assumes "gauge_lags lag t" and "(tracker_step shown)\<^sup>*\<^sup>* t t'"
  shows "(\<Sum>s \<in> UNIV. operations_current t' s + lag s) = int (length (operations t'))"
proof -
  have "gauge_lags lag t'"
    using assms(2,1) by (induction rule: rtranclp_induct) (auto intro: gauge_lags_step)
  then have "operations_current t' s + lag s = count_status s (operations t')" for s by (simp add: gauge_lags_def)
  then show ?thesis by (simp add: count_all_statuses)
qed

lemma gauges_add_up_witness:
  "(\<Sum>s \<in> UNIV. operations_current (snd (create_operation ''op1'' 0 ''create_media_buy'' (JStr ''s'') ''u'' ''r'' [] (new_tracker (\<lambda>p r. 0)))) s + 0) = (1 :: int)"
proof -
  have start: "gauge_lags (\<lambda>s. 0) (new_tracker (\<lambda>p r. 0))"
    by (simp add: gauge_lags_def new_tracker_def keyed_by_id_def count_status_def)
  have "tracker_step (\<lambda>v. []) (new_tracker (\<lambda>p r. 0)) (snd (create_operation ''op1'' 0 ''create_media_buy'' (JStr ''s'') ''u'' ''r'' [] (new_tracker (\<lambda>p r. 0))))"
    by (rule tracker_step.create) (simp add: new_tracker_def)
  then have "(tracker_step (\<lambda>v. []))\<^sup>*\<^sup>* (new_tracker (\<lambda>p r. 0)) (snd (create_operation ''op1'' 0 ''create_media_buy'' (JStr ''s'') ''u'' ''r'' [] (new_tracker (\<lambda>p r. 0))))"
    by (rule r_into_rtranclp)
  from gauges_add_up [OF start this] show ?thesis by (simp add: create_operation_def new_tracker_def Let_def)
qed

end
