(* ===== verification/Poller.thy ===== *)
theory Poller
  imports Op_Tracker
begin

text \<open>
  \<open>src/buying/poller.py\<close>: one tick of the background loop over the pending operations.  The
  answer of \<open>tasks/get\<close> is an argument (\<^const>\<open>None\<close> when the call raises: each poll makes a
  single attempt under a budget without retries), and so is the loop's clock when it looks at
  an operation.  The timestamps of the last polls live as long as the loop.
\<close>

section \<open>The code\<close>

record poller_state =
  tracker :: op_tracker
  poll_timestamps :: "(string \<times> rat) list"
  polled :: "(string \<times> rat) list"

text \<open>\<open>polled\<close> is the history of the calls made: the operation and the reading of the clock.\<close>

definition find_seller :: "seller_agent list \<Rightarrow> tracked_operation \<Rightarrow> seller_agent option" where
  "find_seller sellers p =
     List.find (\<lambda>s. rstrip_char (CHR ''/'') (agent_url s) = rstrip_char (CHR ''/'') (op_seller_url p)) sellers"

text \<open>
  \<open>_poll_single\<close>: an exception of the call or of the tracker is logged and swallowed; what the
  tracker has already changed stays changed.
\<close>

definition poll_single ::
  "(json \<Rightarrow> string) \<Rightarrow> int \<Rightarrow> string \<Rightarrow> dict option \<Rightarrow> op_tracker \<Rightarrow> op_tracker" where
  "poll_single shown wall oid response t =
     (case response of
        None \<Rightarrow> t
      | Some r \<Rightarrow>
          (case update_from_response shown wall oid r t of
             (Inl e, t1) \<Rightarrow> t1
           | (Inr p, t1) \<Rightarrow>
               (let p' = p\<lparr>poll_count := poll_count p + 1\<rparr>
                in persist p' (store_operation p' t1))))"

definition due :: "rat \<Rightarrow> tracked_operation \<Rightarrow> (string \<times> rat) list \<Rightarrow> bool" where
  "due now p stamps \<longleftrightarrow>
     (case polling_interval (op_status p) of
        None \<Rightarrow> False
      | Some interval \<Rightarrow>
          \<not> now - (case map_of stamps (op_id p) of Some l \<Rightarrow> l | None \<Rightarrow> 0) < of_int interval)"

text \<open>The body of the loop for one pending operation; \<open>env\<close> gives the clock and the answer.\<close>

definition poll_one ::
  "(json \<Rightarrow> string) \<Rightarrow> int \<Rightarrow> seller_agent list \<Rightarrow> (string \<Rightarrow> rat \<times> dict option) \<Rightarrow> string \<Rightarrow>
     poller_state \<Rightarrow> poller_state" where
  "poll_one shown wall sellers env oid st =
     (case get_operation oid (tracker st) of
        None \<Rightarrow> st
      | Some p \<Rightarrow>
          (case env oid of (now, response) \<Rightarrow>
             if \<not> truthy (op_task_id p) then st
             else if \<not> due now p (poll_timestamps st) then st
             else if find_seller sellers p = None then st
             else
               let t1 = poll_single shown wall oid response (tracker st);
                   finished = (case get_operation oid t1 of
                                 Some q \<Rightarrow> terminal_status (op_status q) | None \<Rightarrow> False);
                   stamps = dset oid now (poll_timestamps st)
               in st\<lparr>tracker := t1,
                     poll_timestamps := (if finished then AList.delete oid stamps else stamps),
                     polled := polled st @ [(oid, now)]\<rparr>))"

definition poll_tick ::
  "(json \<Rightarrow> string) \<Rightarrow> int \<Rightarrow> seller_agent list \<Rightarrow> (string \<Rightarrow> rat \<times> dict option) \<Rightarrow>
     poller_state \<Rightarrow> poller_state" where
  "poll_tick shown wall sellers env st =
     fold (poll_one shown wall sellers env) (map op_id (get_pending (tracker st))) st"

section \<open>Pacing\<close>

lemma poll_one_polled:
  assumes "poll_one shown wall sellers env oid st = st'"
  shows "polled st' = polled st \<or>
    (\<exists>p. get_operation oid (tracker st) = Some p \<and> polled st' = polled st @ [(oid, fst (env oid))] \<and>
       truthy (op_task_id p) \<and> due (fst (env oid)) p (poll_timestamps st) \<and>
       find_seller sellers p \<noteq> None)"
proof (cases "get_operation oid (tracker st)")
  case None
  then show ?thesis using assms by (auto simp: poll_one_def)
next
  case (Some p)
  obtain now response where "env oid = (now, response)" by fastforce
  with assms Some show ?thesis
    by (cases "truthy (op_task_id p)"; cases "due now p (poll_timestamps st)"; cases "find_seller sellers p")
       (auto simp: poll_one_def Let_def)
qed

text \<open>Between two polls of one operation the interval of its status passes, unless it ended.\<close>

lemma due_status:
  "due now p stamps \<Longrightarrow> op_status p \<in> {SUBMITTED, WORKING} \<and>
     (case map_of stamps (op_id p) of
        Some l \<Rightarrow> (if op_status p = WORKING then 5 else 60) \<le> now - l | None \<Rightarrow> True)"
  by (auto simp: due_def polling_interval_def not_less split: task_status.splits option.splits if_splits)

lemma dset_other_value: "k \<noteq> k' \<Longrightarrow> map_of (AList.delete k' xs) k = map_of xs k"
  by (simp add: AList.delete_conv')

lemma update_from_response_other:
  assumes "keyed_by_id (operations t)" and "k \<noteq> oid"
  shows "map_of (operations (snd (update_from_response shown wall oid r t))) k = map_of (operations t) k"
  using assms keyed_by_id_lookup [OF assms(1), of oid]
  by (auto simp: update_from_response_def Let_def split: option.split json.split)

lemma poll_single_other:
  assumes "keyed_by_id (operations t)" and "k \<noteq> oid"
  shows "map_of (operations (poll_single shown wall oid r t)) k = map_of (operations t) k"
proof (cases r)
  case (Some d)
  obtain res t1 where u: "update_from_response shown wall oid d t = (res, t1)" by fastforce
  have "res = Inr p \<Longrightarrow> op_id p = oid" for p
    using u keyed_by_id_lookup [OF assms(1), of oid]
    by (auto simp: update_from_response_def Let_def split: option.splits json.splits)
  then show ?thesis
    using Some u assms(2) update_from_response_other [OF assms, of shown wall d]
    by (auto simp: poll_single_def Let_def split: sum.splits)
qed (simp add: poll_single_def)

lemma update_from_response_keyed:
  assumes "keyed_by_id (operations t)"
  shows "keyed_by_id (operations (snd (update_from_response shown wall oid r t)))"
  using assms keyed_by_id_lookup [OF assms, of oid]
  by (auto simp: update_from_response_def Let_def keyed_by_id_dset split: option.split json.split)

lemma poll_single_keyed:
  assumes "keyed_by_id (operations t)"
  shows "keyed_by_id (operations (poll_single shown wall oid r t))"
proof (cases r)
  case (Some d)
  obtain res t1 where u: "update_from_response shown wall oid d t = (res, t1)" by fastforce
  with update_from_response_keyed [OF assms, of shown wall oid d] have "keyed_by_id (operations t1)" by simp
  with Some u show ?thesis by (cases res) (simp_all add: poll_single_def Let_def keyed_by_id_dset)
qed (simp add: poll_single_def assms)

text \<open>Polling one operation does not disturb the others.\<close>

lemma poll_one_frame:
  assumes "keyed_by_id (operations (tracker st))"
    and st': "st' = poll_one shown wall sellers env oid st"
  shows "keyed_by_id (operations (tracker st'))"
    and "k \<noteq> oid \<Longrightarrow> get_operation k (tracker st') = get_operation k (tracker st)"
    and "k \<noteq> oid \<Longrightarrow> map_of (poll_timestamps st') k = map_of (poll_timestamps st) k"
proof -
  have "st' = st \<or> (\<exists>r stamps. tracker st' = poll_single shown wall oid r (tracker st) \<and>
      poll_timestamps st' = stamps \<and> (\<forall>k. k \<noteq> oid \<longrightarrow> map_of stamps k = map_of (poll_timestamps st) k))"
    unfolding st' poll_one_def
    by (auto simp: Let_def dset_other_value split: option.split prod.split)
  then show "keyed_by_id (operations (tracker st'))"
    and "k \<noteq> oid \<Longrightarrow> get_operation k (tracker st') = get_operation k (tracker st)"
    and "k \<noteq> oid \<Longrightarrow> map_of (poll_timestamps st') k = map_of (poll_timestamps st) k"
    using poll_single_keyed [OF assms(1)] poll_single_other [OF assms(1)] assms(1)
    by (auto simp: get_operation_def)
qed

definition fair_poll :: "poller_state \<Rightarrow> string \<times> rat \<Rightarrow> bool" where
  "fair_poll st q \<longleftrightarrow>
     (\<exists>p. get_operation (fst q) (tracker st) = Some p \<and> truthy (op_task_id p) \<and>
        op_status p \<in> {SUBMITTED, WORKING} \<and>
        (\<forall>l. map_of (poll_timestamps st) (fst q) = Some l \<longrightarrow>
           (if op_status p = WORKING then 5 else 60) \<le> snd q - l))"

lemma poll_fold:
  assumes "keyed_by_id (operations (tracker st))" and "distinct ids"
  shows "\<exists>new. polled (fold (poll_one shown wall sellers env) ids st) = polled st @ new \<and>
    distinct (map fst new) \<and> set (map fst new) \<subseteq> set ids \<and> (\<forall>q \<in> set new. fair_poll st q)"
  using assms
proof (induction ids arbitrary: st)
  case Nil
  show ?case by simp
next
  case (Cons oid ids)
  let ?st = "poll_one shown wall sellers env oid st"
  note frame = poll_one_frame [OF Cons.prems(1), of ?st shown wall sellers env oid, OF refl]
  from Cons.IH [OF frame(1)] Cons.prems(2) obtain new where
    new: "polled (fold (poll_one shown wall sellers env) ids ?st) = polled ?st @ new"
      "distinct (map fst new)" "set (map fst new) \<subseteq> set ids" "\<forall>q \<in> set new. fair_poll ?st q"
    by auto
  have fair: "fair_poll st q" if "q \<in> set new" for q
  proof -
    from that new(3) Cons.prems(2) have "fst q \<noteq> oid" by auto
    then have "fair_poll ?st q = fair_poll st q" by (simp add: fair_poll_def frame(2,3))
    with that new(4) show ?thesis by simp
  qed
  from poll_one_polled [of shown wall sellers env oid st ?st, OF refl] consider "polled ?st = polled st"
    | p where "get_operation oid (tracker st) = Some p" "polled ?st = polled st @ [(oid, fst (env oid))]"
        "truthy (op_task_id p)" "due (fst (env oid)) p (poll_timestamps st)" by blast
  then show ?case
  proof cases
    case 1
    with new fair show ?thesis by auto
  next
    case (2 p)
    have "op_id p = oid"
      using 2(1) Cons.prems(1) by (simp add: get_operation_def keyed_by_id_lookup)
    with 2 due_status [OF 2(4)] have "fair_poll st (oid, fst (env oid))"
      by (auto simp: fair_poll_def)
    with 2(2) new fair Cons.prems(2) show ?thesis
      by (intro exI [of _ "(oid, fst (env oid)) # new"]) auto
  qed
qed

lemma pending_ids:
  "keyed_by_id (operations t) \<Longrightarrow> distinct (map op_id (get_pending t))"
proof -
  assume k: "keyed_by_id (operations t)"
  then have ids: "map op_id (map snd (operations t)) = map fst (operations t)"
    by (auto simp: keyed_by_id_def)
  have "distinct (map op_id (map snd (operations t)))" unfolding ids using k by (simp add: keyed_by_id_def)
  then show ?thesis unfolding get_pending_def by (rule distinct_map_filter)
qed

text \<open>
  A tick of the poller contacts each operation at most once, and only one that is submitted
  or working, has a remote task, and was last polled at least 60 (submitted) or 5 (working)
  seconds ago.
\<close>

theorem poll_tick_fair:
  assumes "keyed_by_id (operations (tracker st))"
  shows "\<exists>new. polled (poll_tick shown wall sellers env st) = polled st @ new \<and>
    distinct (map fst new) \<and> (\<forall>q \<in> set new. fair_poll st q)"
  using poll_fold [OF assms pending_ids [OF assms], of shown wall sellers env]
  by (auto simp: poll_tick_def)

definition example_poller :: poller_state where
  "example_poller = \<lparr>tracker = example_loaded, poll_timestamps = [(''op1'', 10)], polled = []\<rparr>"

lemma poll_tick_fair_witness:
  "\<exists>new. polled (poll_tick (\<lambda>x. []) 0 [new_agent ''s'' ''u/''] (\<lambda>oid. (70, None)) example_poller) = [] @ new \<and>
     new = [(''op1'', 70)] \<and> (\<forall>q \<in> set new. fair_poll example_poller q)"
proof -
  have "keyed_by_id (operations (tracker example_poller))"
    by (simp add: example_poller_def tracker_eval keyed_by_id_def)
  from poll_tick_fair [OF this, of "\<lambda>x. []" 0 "[new_agent ''s'' ''u/'']" "\<lambda>oid. (70, None)"]
  obtain new where "polled (poll_tick (\<lambda>x. []) 0 [new_agent ''s'' ''u/''] (\<lambda>oid. (70, None)) example_poller) =
      polled example_poller @ new" "\<forall>q \<in> set new. fair_poll example_poller q" by blast
  moreover have "polled (poll_tick (\<lambda>x. []) 0 [new_agent ''s'' ''u/''] (\<lambda>oid. (70, None)) example_poller) =
      [(''op1'', 70)]"
    by (simp add: poll_tick_def poll_one_def example_poller_def tracker_eval get_pending_def get_operation_def
        due_def polling_interval_def find_seller_def new_agent_def rstrip_char_def poll_single_def)
  ultimately show ?thesis by (simp add: example_poller_def)
qed

end
