(* ===== verification/Webhook_Receiver.thy ===== *)
theory Webhook_Receiver
  imports Op_Tracker Url_Canon
begin

text \<open>
  \<open>src/webhooks/config.py\<close> and \<open>src/webhooks/receiver.py\<close>: the webhook URLs and credentials
  handed to sellers, and the two handlers of incoming webhooks.  The keyed hash in hexadecimal,
  the plain hash, the validation of the payload (package \<open>pydantic\<close>), \<open>json.loads\<close>, the ISO
  parser and \<open>str\<close> are gathered in a record of functions.  The handlers are those of a
  receiver that has a tracker; without one they answer 503 and do nothing.
\<close>

section \<open>Configuration\<close>

record webhook_settings =
  webhook_base_url :: string
  webhook_secret :: string
  webhook_auth_scheme :: string
  runtime_secret :: "string option"

text \<open>\<open>fresh\<close> is the token that would be generated.\<close>

definition get_webhook_secret :: "string \<Rightarrow> webhook_settings \<Rightarrow> string \<times> webhook_settings" where
  "get_webhook_secret fresh s =
     (if webhook_secret s \<noteq> [] then (webhook_secret s, s)
      else case runtime_secret s of
             Some tok \<Rightarrow> (tok, s)
           | None \<Rightarrow> (fresh, s\<lparr>runtime_secret := Some fresh\<rparr>))"

definition webhook_url :: "string \<Rightarrow> string \<Rightarrow> string \<Rightarrow> string" where
  "webhook_url base typ operation_id =
     rstrip_char (CHR ''/'') base @ ''/webhooks/adcp/'' @ typ @ ''/'' @ operation_id"

definition webhook_authentication :: "string \<Rightarrow> string \<Rightarrow> json" where
  "webhook_authentication auth_scheme cred =
     JObj [(''schemes'', JArr [JStr auth_scheme]), (''credentials'', JStr cred)]"

text \<open>The optional arguments are empty when they are not given.\<close>

definition build_push_notification_config ::
  "string \<Rightarrow> string \<Rightarrow> string \<Rightarrow> string \<Rightarrow> string \<Rightarrow> string \<Rightarrow> webhook_settings \<Rightarrow>
     (py_exn + dict) \<times> webhook_settings" where
  "build_push_notification_config fresh typ operation_id base auth_scheme secret s =
     (let url = (if base \<noteq> [] then base else webhook_base_url s);
          sch = (if auth_scheme \<noteq> [] then auth_scheme else webhook_auth_scheme s)
      in if url = [] then (Inl ValueError, s)
         else case (if secret \<noteq> [] then (secret, s) else get_webhook_secret fresh s) of
           (cred, s') \<Rightarrow>
             (Inr [(''url'', JStr (webhook_url url typ operation_id)),
                   (''authentication'', webhook_authentication sch cred)], s'))"

definition build_reporting_webhook ::
  "string \<Rightarrow> string \<Rightarrow> string \<Rightarrow> string list \<Rightarrow> string \<Rightarrow> string \<Rightarrow> string \<Rightarrow> webhook_settings \<Rightarrow>
     (py_exn + dict) \<times> webhook_settings" where
  "build_reporting_webhook fresh operation_id frequency metrics base auth_scheme secret s =
     (case build_push_notification_config fresh ''reporting'' operation_id base auth_scheme secret s of
        (Inl e, s') \<Rightarrow> (Inl e, s')
      | (Inr d, s') \<Rightarrow>
          (Inr (d @ [(''reporting_frequency'', JStr frequency),
             (''requested_metrics'', JArr (map JStr
                (if metrics \<noteq> [] then metrics else [''impressions'', ''clicks'', ''spend''])))]), s'))"

section \<open>Authentication\<close>

record webhook_payload =
  pl_task_id :: string
  pl_status :: string
  pl_timestamp :: string
  pl_message :: string
  pl_context_id :: string
  pl_result :: dict

record webhook_env =
  hmac_hex :: "string \<Rightarrow> string \<Rightarrow> string"
  hash_hex :: "string \<Rightarrow> string"
  validate_payload :: "string \<Rightarrow> webhook_payload option"
  loads :: "string \<Rightarrow> json option"
  from_iso :: iso_parser
  py_text :: "json \<Rightarrow> string"

datatype http_failure = HttpError int string | ServerError py_exn

record webhook_request =
  headers :: "(string \<times> string) list"
  body :: string

text \<open>\<open>headers.get(name, "")\<close>; names are in lower case.\<close>

definition header :: "webhook_request \<Rightarrow> string \<Rightarrow> string" where
  "header r name = (case map_of (headers r) name of Some v \<Rightarrow> v | None \<Rightarrow> [])"

text \<open>\<open>hmac.compare_digest\<close> on texts raises \<open>TypeError\<close> unless both are ASCII.\<close>

definition compare_digest :: "string \<Rightarrow> string \<Rightarrow> py_exn + bool" where
  "compare_digest a b = (if is_ascii a \<and> is_ascii b then Inr (a = b) else Inl TypeError)"

definition verify_hmac_signature ::
  "webhook_env \<Rightarrow> string \<Rightarrow> string \<Rightarrow> string \<Rightarrow> string \<Rightarrow> py_exn + bool" where
  "verify_hmac_signature env bod signature timestamp secret =
     (if \<not> starts_with signature ''sha256='' then Inr False
      else compare_digest signature (''sha256='' @ hmac_hex env secret (timestamp @ bod)))"

definition verify_bearer_auth :: "string \<Rightarrow> string \<Rightarrow> py_exn + bool" where
  "verify_bearer_auth auth_header expected =
     (if \<not> starts_with auth_header ''Bearer '' then Inr False
      else compare_digest (drop 7 auth_header) expected)"

text \<open>The scheme and the credential stored with the operation, if any.\<close>

definition first_scheme :: "json \<Rightarrow> py_exn + json" where
  "first_scheme schemes =
     (case schemes of
        JArr (x # xs) \<Rightarrow> Inr x
      | JStr (c # cs) \<Rightarrow> Inr (JStr [c])
      | JObj d \<Rightarrow> Inl KeyError
      | _ \<Rightarrow> Inl TypeError)"

definition stored_auth :: "json \<Rightarrow> json \<times> json \<Rightarrow> py_exn + json \<times> json" where
  "stored_auth config defaults =
     (if \<not> truthy config then Inr defaults
      else
        case config of
          JObj d \<Rightarrow>
            (case get_or d ''authentication'' (JObj []) of
               JObj auth \<Rightarrow>
                 res_bind (if truthy (getj auth ''schemes'') then first_scheme (getj auth ''schemes'')
                           else Inr (fst defaults)) (\<lambda>sch.
                   Inr (sch, if truthy (getj auth ''credentials'') then getj auth ''credentials''
                             else snd defaults))
             | _ \<Rightarrow> Inl AttributeError)
        | _ \<Rightarrow> Inl AttributeError)"

definition checked :: "string \<Rightarrow> py_exn + bool \<Rightarrow> http_failure + unit" where
  "checked detail r =
     (case r of Inl e \<Rightarrow> Inl (ServerError e)
      | Inr ok \<Rightarrow> (if ok then Inr () else Inl (HttpError 401 detail)))"

definition check_scheme :: "webhook_env \<Rightarrow> webhook_request \<Rightarrow> json \<Rightarrow> json \<Rightarrow> http_failure + unit" where
  "check_scheme env r sch secret =
     (if sch = JStr ''HMAC-SHA256'' then
        (let signature = (if header r ''x-adcp-signature'' \<noteq> [] then header r ''x-adcp-signature''
                          else header r ''x-webhook-signature'');
             timestamp = (if header r ''x-adcp-timestamp'' \<noteq> [] then header r ''x-adcp-timestamp''
                          else header r ''x-webhook-timestamp'')
         in if signature = [] \<or> timestamp = [] then Inl (HttpError 401 ''Missing HMAC signature headers'')
            else if \<not> starts_with signature ''sha256='' then Inl (HttpError 401 ''Invalid HMAC signature'')
            else case secret of
              JStr key \<Rightarrow>
                checked ''Invalid HMAC signature'' (verify_hmac_signature env (body r) signature timestamp key)
            | _ \<Rightarrow> Inl (ServerError AttributeError))
      else case sch of
        JStr s \<Rightarrow>
          (if lower s = ''bearer'' then
             (if \<not> starts_with (header r ''authorization'') ''Bearer ''
              then Inl (HttpError 401 ''Invalid Bearer token'')
              else case secret of
                JStr key \<Rightarrow> checked ''Invalid Bearer token'' (verify_bearer_auth (header r ''authorization'') key)
              | _ \<Rightarrow> Inl (ServerError TypeError))
           else Inr ())
      | _ \<Rightarrow> Inl (ServerError AttributeError))"

definition verify_auth ::
  "webhook_env \<Rightarrow> webhook_request \<Rightarrow> string \<Rightarrow> string \<Rightarrow> tracked_operation option \<Rightarrow> http_failure + unit" where
  "verify_auth env r default_scheme secret op =
     (case stored_auth (case op of Some p \<Rightarrow> webhook_config p | None \<Rightarrow> JNull)
             (JStr default_scheme, JStr secret) of
        Inl e \<Rightarrow> Inl (ServerError e)
      | Inr (sch, sec) \<Rightarrow> check_scheme env r sch sec)"

section \<open>Events\<close>

record event_row =
  ev_task_id :: json
  ev_operation_id :: string
  ev_status :: string
  ev_timestamp :: int

record webhook_world =
  ww_tracker :: op_tracker
  ww_settings :: webhook_settings
  ww_events :: "(string \<times> event_row) list"

text \<open>An unreadable timestamp is replaced by the current time.\<close>

definition check_idempotency ::
  "webhook_env \<Rightarrow> int \<Rightarrow> string \<Rightarrow> string \<Rightarrow> string \<Rightarrow> string \<Rightarrow> json \<Rightarrow> webhook_world \<Rightarrow> bool \<times> webhook_world" where
  "check_idempotency env now event_id task_id operation_id status timestamp w =
     (let ts = (case timestamp of
                  JStr s \<Rightarrow> (case from_iso env s of Some (local_time, off) \<Rightarrow> local_time | None \<Rightarrow> now)
                | _ \<Rightarrow> now)
      in case map_of (ww_events w) event_id of
           Some existing \<Rightarrow> (True, w)
         | None \<Rightarrow>
             (False, w\<lparr>ww_events := dset event_id
                \<lparr>ev_task_id = JStr task_id, ev_operation_id = operation_id, ev_status = status,
                 ev_timestamp = ts\<rparr> (ww_events w)\<rparr>))"

section \<open>Status webhooks\<close>

definition too_old :: "webhook_env \<Rightarrow> int \<Rightarrow> string \<Rightarrow> bool" where
  "too_old env now timestamp =
     (case from_iso env timestamp of
        Some (local_time, Some off) \<Rightarrow> \<bar>now - (local_time - off)\<bar> > 300000000
      | _ \<Rightarrow> False)"

definition event_id_of :: "webhook_payload \<Rightarrow> string" where
  "event_id_of p = pl_task_id p @ '':'' @ pl_status p @ '':'' @ pl_timestamp p"

definition webhook_response :: "webhook_payload \<Rightarrow> dict" where
  "webhook_response p =
     (let r0 = [(''status'', JStr (pl_status p))];
          r1 = (if pl_message p \<noteq> [] then dset ''message'' (JStr (pl_message p)) r0 else r0);
          r2 = (if pl_context_id p \<noteq> [] then dset ''context_id'' (JStr (pl_context_id p)) r1 else r1);
          r3 = (if pl_task_id p \<noteq> [] then dset ''task_id'' (JStr (pl_task_id p)) r2 else r2)
      in dict_update r3 (pl_result p))"

definition apply_webhook ::
  "webhook_env \<Rightarrow> int \<Rightarrow> string \<Rightarrow> dict \<Rightarrow> webhook_world \<Rightarrow> (http_failure + string) \<times> webhook_world" where
  "apply_webhook env now operation_id response w =
     (case get_operation operation_id (ww_tracker w) of
        None \<Rightarrow> (Inr ''processed'', w)
      | Some p \<Rightarrow>
          (case update_from_response (py_text env) now (op_id p) response (ww_tracker w) of
             (Inl e, t) \<Rightarrow> (Inl (ServerError e), w\<lparr>ww_tracker := t\<rparr>)
           | (Inr p', t) \<Rightarrow> (Inr ''processed'', w\<lparr>ww_tracker := persist p' t\<rparr>)))"

text \<open>
  The handler: \<open>now\<close> is the current time (UTC), \<open>fresh\<close> the token a first use of the secret
  would generate.  The answer is the \<open>status\<close> of the returned object.
\<close>

definition receive_webhook ::
  "webhook_env \<Rightarrow> int \<Rightarrow> string \<Rightarrow> string \<Rightarrow> webhook_request \<Rightarrow> webhook_world \<Rightarrow>
     (http_failure + string) \<times> webhook_world" where
  "receive_webhook env now fresh operation_id r w =
     (case get_webhook_secret fresh (ww_settings w) of
        (secret, s') \<Rightarrow>
          let w0 = w\<lparr>ww_settings := s'\<rparr>
          in case verify_auth env r (webhook_auth_scheme s') secret (get_operation operation_id (ww_tracker w)) of
               Inl e \<Rightarrow> (Inl e, w0)
             | Inr _ \<Rightarrow>
                 (case validate_payload env (body r) of
                    None \<Rightarrow> (Inl (HttpError 400 ''Invalid payload''), w0)
                  | Some payload \<Rightarrow>
                      if too_old env now (pl_timestamp payload) then (Inl (HttpError 400 ''Timestamp too old''), w0)
                      else case check_idempotency env now (event_id_of payload) (pl_task_id payload) operation_id
                                  (pl_status payload) (JStr (pl_timestamp payload)) w0 of
                        (True, w1) \<Rightarrow> (Inr ''already_processed'', w1)
                      | (False, w1) \<Rightarrow> apply_webhook env now operation_id (webhook_response payload) w1))"

section \<open>Reporting webhooks\<close>

definition add_report ::
  "string \<Rightarrow> json \<Rightarrow> tracked_operation \<Rightarrow> py_exn + tracked_operation" where
  "add_report received payload p =
     (case get_or (response_data p) ''reporting_webhooks'' (JArr []) of
        JArr reports \<Rightarrow>
          Inr (p\<lparr>response_data := dset ''reporting_webhooks''
            (JArr (reports @ [JObj [(''received_at'', JStr received), (''data'', payload)]])) (response_data p)\<rparr>)
      | _ \<Rightarrow> Inl AttributeError)"

text \<open>\<open>received\<close> is the current time as text.\<close>

definition receive_reporting_webhook ::
  "webhook_env \<Rightarrow> int \<Rightarrow> string \<Rightarrow> string \<Rightarrow> string \<Rightarrow> webhook_request \<Rightarrow> webhook_world \<Rightarrow>
     (http_failure + string) \<times> webhook_world" where
  "receive_reporting_webhook env now received fresh operation_id r w =
     (case get_webhook_secret fresh (ww_settings w) of
        (secret, s') \<Rightarrow>
          let w0 = w\<lparr>ww_settings := s'\<rparr>
          in case verify_auth env r (webhook_auth_scheme s') secret (get_operation operation_id (ww_tracker w)) of
               Inl e \<Rightarrow> (Inl e, w0)
             | Inr _ \<Rightarrow>
                 (case loads env (body r) of
                    None \<Rightarrow> (Inl (HttpError 400 ''Invalid JSON''), w0)
                  | Some (JObj d) \<Rightarrow>
                      (let report_id = (if truthy (getj d ''report_id'') then text_of (py_text env) (getj d ''report_id'')
                                        else take 16 (hash_hex env (body r)))
                       in case check_idempotency env now (''report:'' @ operation_id @ '':'' @ report_id)
                                 operation_id operation_id ''reporting''
                                 (get_or d ''timestamp'' (JStr received)) w0 of
                            (True, w1) \<Rightarrow> (Inr ''already_processed'', w1)
                          | (False, w1) \<Rightarrow>
                              (case get_operation operation_id (ww_tracker w1) of
                                 None \<Rightarrow> (Inr ''processed'', w1)
                               | Some p \<Rightarrow>
                                   (case add_report received (JObj d) p of
                                      Inl e \<Rightarrow> (Inl (ServerError e), w1)
                                    | Inr p' \<Rightarrow>
                                        (Inr ''processed'',
                                         w1\<lparr>ww_tracker := persist p' (store_operation p' (ww_tracker w1))\<rparr>))))
                  | Some v \<Rightarrow> (Inl (ServerError AttributeError), w0)))"

section \<open>Routes\<close>

text \<open>
  The routes of the router in the order of their declaration; a request goes to the first one
  whose pattern matches the segments of the path after the prefix \<open>/webhooks/adcp\<close>.
\<close>

datatype path_part = Literal string | Parameter string

datatype webhook_handler = StatusHandler | ReportingHandler

definition webhook_routes :: "(path_part list \<times> webhook_handler) list" where
  "webhook_routes =
     [([Parameter ''task_type'', Parameter ''operation_id''], StatusHandler),
      ([Literal ''reporting'', Parameter ''operation_id''], ReportingHandler)]"

fun part_matches :: "path_part \<Rightarrow> string \<Rightarrow> bool" where
  "part_matches (Literal l) s = (s = l)"
| "part_matches (Parameter p) s = (s \<noteq> [])"

definition route_matches :: "path_part list \<Rightarrow> string list \<Rightarrow> bool" where
  "route_matches pat segs = list_all2 part_matches pat segs"

definition dispatch :: "(path_part list \<times> webhook_handler) list \<Rightarrow> string list \<Rightarrow> webhook_handler option" where
  "dispatch routes segs = map_option snd (List.find (\<lambda>(pat, h). route_matches pat segs) routes)"

section \<open>Authentication\<close>

text \<open>The requests that the receiver takes for authentic, for a scheme and a credential.\<close>

definition authentic :: "webhook_env \<Rightarrow> webhook_request \<Rightarrow> json \<Rightarrow> json \<Rightarrow> bool" where
  "authentic env r sch secret \<longleftrightarrow>
     (if sch = JStr ''HMAC-SHA256'' then
        \<exists>key ts. secret = JStr key \<and> ts \<noteq> [] \<and> ts \<in> snd ` set (headers r) \<and>
          ''sha256='' @ hmac_hex env key (ts @ body r) \<in> snd ` set (headers r)
      else \<exists>s. sch = JStr s \<and>
        (lower s = ''bearer'' \<longrightarrow> (\<exists>key. secret = JStr key \<and> header r ''authorization'' = ''Bearer '' @ key)))"

lemma header_in: "header r name \<noteq> [] \<Longrightarrow> header r name \<in> snd ` set (headers r)"
  by (force simp: header_def dest: map_of_SomeD split: option.splits)

lemma compare_digest_True: "compare_digest a b = Inr True \<Longrightarrow> a = b"
  by (simp add: compare_digest_def split: if_splits)

lemma checked_Inr: "checked detail r = Inr () \<longleftrightarrow> r = Inr True"
  by (auto simp: checked_def split: sum.splits)

lemma check_scheme_authentic:
  assumes "check_scheme env r sch secret = Inr ()"
  shows "authentic env r sch secret"
proof (cases "sch = JStr ''HMAC-SHA256''")
  case True
  define signature where "signature = (if header r ''x-adcp-signature'' \<noteq> [] then header r ''x-adcp-signature''
    else header r ''x-webhook-signature'')"
  define ts where "ts = (if header r ''x-adcp-timestamp'' \<noteq> [] then header r ''x-adcp-timestamp''
    else header r ''x-webhook-timestamp'')"
  from assms True obtain key where key: "secret = JStr key" "signature \<noteq> []" "ts \<noteq> []"
    "verify_hmac_signature env (body r) signature ts key = Inr True"
    by (auto simp: check_scheme_def signature_def [symmetric] ts_def [symmetric] Let_def checked_Inr
        split: if_splits json.splits)
  then have "signature = ''sha256='' @ hmac_hex env key (ts @ body r)"
    by (auto simp: verify_hmac_signature_def dest: compare_digest_True split: if_splits)
  moreover have "signature \<in> snd ` set (headers r)" "ts \<in> snd ` set (headers r)"
    using key header_in unfolding signature_def ts_def by (auto split: if_splits)
  ultimately show ?thesis using True key by (auto simp: authentic_def)
next
  case False
  with assms obtain s where s: "sch = JStr s" by (cases sch) (auto simp: check_scheme_def)
  show ?thesis
  proof (cases "lower s = ''bearer''")
    case True
    with assms False s obtain key where "secret = JStr key"
      "verify_bearer_auth (header r ''authorization'') key = Inr True"
      by (auto simp: check_scheme_def checked_Inr split: if_splits json.splits)
    moreover from this(2) have "header r ''authorization'' = ''Bearer '' @ key"
      by (auto simp: verify_bearer_auth_def starts_with_iff dest!: compare_digest_True split: if_splits)
    ultimately show ?thesis using False s by (auto simp: authentic_def)
  qed (use False s in \<open>auto simp: authentic_def\<close>)
qed

text \<open>
  C22. Only authentic webhooks have an effect: if a delivery changes the operations or the
  recorded events, or is answered with success, then the request carries the right keyed hash
  over its timestamp and body, or the right bearer token, for the scheme and the credential of
  the operation, or that scheme is one the receiver does not know, which it lets through.
\<close>

theorem webhook_effect_authentic:
  assumes "receive_webhook env now fresh oid r w = (res, w')"
    and "ww_tracker w' \<noteq> ww_tracker w \<or> ww_events w' \<noteq> ww_events w \<or> res = Inr s"
  shows "\<exists>sch secret. authentic env r sch secret \<and>
    stored_auth (case get_operation oid (ww_tracker w) of Some p \<Rightarrow> webhook_config p | None \<Rightarrow> JNull)
      (JStr (webhook_auth_scheme (ww_settings w)), JStr (fst (get_webhook_secret fresh (ww_settings w)))) =
      Inr (sch, secret)"
proof -
  obtain key s' where k: "get_webhook_secret fresh (ww_settings w) = (key, s')" by fastforce
  then have s': "webhook_auth_scheme s' = webhook_auth_scheme (ww_settings w)"
    by (auto simp: get_webhook_secret_def split: if_splits option.splits)
  have "verify_auth env r (webhook_auth_scheme s') key (get_operation oid (ww_tracker w)) = Inr ()"
    using assms k
    by (cases "verify_auth env r (webhook_auth_scheme s') key (get_operation oid (ww_tracker w))")
       (auto simp: receive_webhook_def Let_def)
  then show ?thesis
    using check_scheme_authentic k s'
    by (fastforce simp: verify_auth_def split: sum.splits)
qed

section \<open>Deliveries\<close>

lemma get_webhook_secret_again:
  "get_webhook_secret fresh s = (key, s') \<Longrightarrow> get_webhook_secret fresh' s' = (key, s') \<and>
     webhook_auth_scheme s' = webhook_auth_scheme s"
  by (auto simp: get_webhook_secret_def split: if_splits option.splits)

lemma update_keeps_webhook_config:
  assumes "keyed_by_id (operations t)"
  shows "map_option webhook_config (get_operation oid (snd (update_from_response shown now oid' r t))) =
    map_option webhook_config (get_operation oid t)"
proof -
  have "webhook_config (response_fields r (response_status shown st r p)) = webhook_config p" for st p
    by (auto simp: response_fields_def response_status_def Let_def split: option.splits)
  then show ?thesis
    using keyed_by_id_lookup [OF assms, of oid']
    by (auto simp: update_from_response_def get_operation_def Let_def split: option.split json.split)
qed

lemma verify_auth_config:
  "map_option webhook_config p = map_option webhook_config q \<Longrightarrow>
     verify_auth env r sch key p = verify_auth env r sch key q"
  by (cases p; cases q) (auto simp: verify_auth_def)

lemma apply_webhook_keeps:
  assumes "apply_webhook env now oid response w = (res, w')" and "keyed_by_id (operations (ww_tracker w))"
  shows "ww_events w' = ww_events w" "ww_settings w' = ww_settings w"
    "map_option webhook_config (get_operation oid (ww_tracker w')) =
       map_option webhook_config (get_operation oid (ww_tracker w))"
proof -
  show "ww_events w' = ww_events w" "ww_settings w' = ww_settings w"
    using assms by (auto simp: apply_webhook_def split: option.splits prod.splits sum.splits)
  show "map_option webhook_config (get_operation oid (ww_tracker w')) =
       map_option webhook_config (get_operation oid (ww_tracker w))"
  proof (cases "get_operation oid (ww_tracker w)")
    case (Some p)
    obtain r t where u: "update_from_response (py_text env) now (op_id p) response (ww_tracker w) = (r, t)"
      by fastforce
    with update_keeps_webhook_config [OF assms(2), of oid "py_text env" now "op_id p" response]
    have "map_option webhook_config (get_operation oid t) = map_option webhook_config (get_operation oid (ww_tracker w))"
      by simp
    with assms(1) Some u show ?thesis
      by (auto simp: apply_webhook_def get_operation_def split: sum.splits)
  qed (use assms in \<open>auto simp: apply_webhook_def\<close>)
qed

text \<open>A delivery that got past the check for duplicates is answered as processed from then on.\<close>

lemma delivered_twice:
  assumes first: "receive_webhook env now fresh oid r w = (res, w')"
    and keyed: "keyed_by_id (operations (ww_tracker w))"
    and payload: "validate_payload env (body r) = Some p"
    and seen: "map_of (ww_events w') (event_id_of p) \<noteq> None"
    and auth: "\<forall>code detail. res \<noteq> Inl (HttpError code detail)"
    and verified: "verify_auth env r (webhook_auth_scheme (ww_settings w))
      (fst (get_webhook_secret fresh (ww_settings w))) (get_operation oid (ww_tracker w)) = Inr ()"
    and young: "\<not> too_old env now' (pl_timestamp p)"
  shows "receive_webhook env now' fresh' oid r w' = (Inr ''already_processed'', w')"
proof -
  obtain key s' where k: "get_webhook_secret fresh (ww_settings w) = (key, s')" by fastforce
  note again = get_webhook_secret_again [OF k, of fresh']
  define w0 where "w0 = w\<lparr>ww_settings := s'\<rparr>"
  obtain dup w1 where c: "check_idempotency env now (event_id_of p) (pl_task_id p) oid (pl_status p)
      (JStr (pl_timestamp p)) w0 = (dup, w1)" by fastforce
  have w1: "ww_settings w1 = s'" "ww_tracker w1 = ww_tracker w"
    using c by (auto simp: check_idempotency_def w0_def Let_def split: option.splits)
  have "ww_settings w' = s' \<and>
    map_option webhook_config (get_operation oid (ww_tracker w')) =
      map_option webhook_config (get_operation oid (ww_tracker w))"
  proof (cases "too_old env now (pl_timestamp p)")
    case True
    with first k verified again payload auth show ?thesis
      by (auto simp: receive_webhook_def Let_def)
  next
    case False
    show ?thesis
    proof (cases dup)
      case True
      with False first k verified again payload c w1 show ?thesis
        by (auto simp: receive_webhook_def Let_def w0_def)
    next
      case dup: False
      with False first k verified again payload c
      have "apply_webhook env now oid (webhook_response p) w1 = (res, w')"
        by (auto simp: receive_webhook_def Let_def w0_def)
      from apply_webhook_keeps [OF this] keyed w1 show ?thesis by simp
    qed
  qed
  then have s: "ww_settings w' = s'"
    and v: "verify_auth env r (webhook_auth_scheme s') key (get_operation oid (ww_tracker w')) = Inr ()"
    using verified verify_auth_config [of "get_operation oid (ww_tracker w')" "get_operation oid (ww_tracker w)"]
      k again by auto
  have "w'\<lparr>ww_settings := s'\<rparr> = w'" using s by (cases w') simp
  then show ?thesis
    using again s v payload young seen
    by (auto simp: receive_webhook_def check_idempotency_def Let_def split: option.splits)
qed

lemma events_kept:
  "apply_webhook env now oid response w = (res, w') \<Longrightarrow> ww_events w' = ww_events w"
  by (auto simp: apply_webhook_def split: option.splits prod.splits sum.splits)

lemma success_stages:
  assumes "receive_webhook env now fresh oid r w = (Inr s, w')"
  obtains p where "validate_payload env (body r) = Some p"
    "verify_auth env r (webhook_auth_scheme (ww_settings w))
      (fst (get_webhook_secret fresh (ww_settings w))) (get_operation oid (ww_tracker w)) = Inr ()"
    "map_of (ww_events w') (event_id_of p) \<noteq> None"
proof -
  obtain key s' where k: "get_webhook_secret fresh (ww_settings w) = (key, s')" by fastforce
  have sch: "webhook_auth_scheme s' = webhook_auth_scheme (ww_settings w)"
    using get_webhook_secret_again [OF k] by simp
  define w0 where "w0 = w\<lparr>ww_settings := s'\<rparr>"
  have v: "verify_auth env r (webhook_auth_scheme s') key (get_operation oid (ww_tracker w)) = Inr ()"
    using assms k
    by (cases "verify_auth env r (webhook_auth_scheme s') key (get_operation oid (ww_tracker w))")
       (auto simp: receive_webhook_def Let_def)
  from assms k v obtain p where p: "validate_payload env (body r) = Some p"
    "\<not> too_old env now (pl_timestamp p)"
    by (auto simp: receive_webhook_def Let_def split: option.splits if_splits)
  obtain dup w1 where c: "check_idempotency env now (event_id_of p) (pl_task_id p) oid (pl_status p)
      (JStr (pl_timestamp p)) w0 = (dup, w1)" by fastforce
  then have "map_of (ww_events w1) (event_id_of p) \<noteq> None"
    by (auto simp: check_idempotency_def Let_def split: option.splits)
  moreover have "ww_events w' = ww_events w1"
    using assms k v p c
    by (cases dup) (auto simp: receive_webhook_def Let_def w0_def [symmetric] dest: events_kept)
  ultimately show thesis using that p(1) v k sch by simp
qed

text \<open>
  C38. Deliveries are idempotent: once a webhook has been answered with success, the same request
  delivered again (within its freshness) changes nothing and is answered as already processed.
\<close>

theorem webhook_delivered_once:
  assumes "receive_webhook env now fresh oid r w = (Inr s, w')"
    and "keyed_by_id (operations (ww_tracker w))"
    and "\<And>p. validate_payload env (body r) = Some p \<Longrightarrow> \<not> too_old env now' (pl_timestamp p)"
  shows "receive_webhook env now' fresh' oid r w' = (Inr ''already_processed'', w')"
proof -
  from success_stages [OF assms(1)] obtain p where p: "validate_payload env (body r) = Some p"
    "verify_auth env r (webhook_auth_scheme (ww_settings w))
      (fst (get_webhook_secret fresh (ww_settings w))) (get_operation oid (ww_tracker w)) = Inr ()"
    "map_of (ww_events w') (event_id_of p) \<noteq> None" .
  show ?thesis
    by (rule delivered_twice [OF assms(1,2) p(1,3) _ p(2) assms(3) [OF p(1)]]) simp
qed

text \<open>
  The event is recorded before the operation is updated: when the update fails (here a
  \<open>result\<close> whose \<open>status\<close> is not a string), the delivery is answered with a server error, the
  operation keeps its status, and the redelivery it provokes is answered as already processed,
  so the update is lost.
\<close>

theorem failed_update_lost:
  assumes "keyed_by_id (operations (ww_tracker w))" and "get_operation oid (ww_tracker w) = Some op"
    and "verify_auth env r (webhook_auth_scheme (ww_settings w))
      (fst (get_webhook_secret fresh (ww_settings w))) (Some op) = Inr ()"
    and "validate_payload env (body r) = Some p" and "map_of (ww_events w) (event_id_of p) = None"
    and "\<not> too_old env now (pl_timestamp p)" and "\<not> too_old env now' (pl_timestamp p)"
    and bad: "\<not> is_str (get_or (webhook_response p) ''status'' (JStr []))"
  shows "\<exists>w' op'. receive_webhook env now fresh oid r w = (Inl (ServerError AttributeError), w') \<and>
    get_operation oid (ww_tracker w') = Some op' \<and> op_status op' = op_status op \<and>
    receive_webhook env now' fresh' oid r w' = (Inr ''already_processed'', w')"
proof -
  obtain key s' where k: "get_webhook_secret fresh (ww_settings w) = (key, s')" by fastforce
  have sch: "webhook_auth_scheme s' = webhook_auth_scheme (ww_settings w)"
    using get_webhook_secret_again [OF k] by simp
  obtain w1 where c: "check_idempotency env now (event_id_of p) (pl_task_id p) oid (pl_status p)
      (JStr (pl_timestamp p)) (w\<lparr>ww_settings := s'\<rparr>) = (False, w1)"
    and w1: "ww_tracker w1 = ww_tracker w" "map_of (ww_events w1) (event_id_of p) \<noteq> None"
    using assms(5) by (auto simp: check_idempotency_def Let_def)
  have id: "op_id op = oid" "map_of (operations (ww_tracker w)) oid = Some op"
    using assms(1,2) by (simp_all add: get_operation_def keyed_by_id_lookup)
  define op' where "op' = op\<lparr>updated_at := now, response_data := webhook_response p\<rparr>"
  define w' where "w' = w1\<lparr>ww_tracker := store_operation op' (ww_tracker w)\<rparr>"
  have "update_from_response (py_text env) now oid (webhook_response p) (ww_tracker w) =
      (Inl AttributeError, store_operation op' (ww_tracker w))"
    using bad by (auto simp: update_from_response_def id op'_def Let_def split: json.split)
  then have first: "receive_webhook env now fresh oid r w = (Inl (ServerError AttributeError), w')"
    using k sch c assms(2-4,6) w1 by (simp add: receive_webhook_def Let_def apply_webhook_def id w'_def)
  have "map_of (ww_events w') (event_id_of p) \<noteq> None" using w1 by (simp add: w'_def)
  from delivered_twice [OF first assms(1) assms(4) this] assms(2,3,7)
  have "receive_webhook env now' fresh' oid r w' = (Inr ''already_processed'', w')" by simp
  moreover have "get_operation oid (ww_tracker w') = Some op'"
    by (simp add: w'_def get_operation_def op'_def id)
  ultimately show ?thesis using first by (auto simp: op'_def)
qed

section \<open>Routing\<close>

text \<open>
  The reporting handler is unreachable: the status route, declared first, matches every path
  of the reporting route, so a reporting webhook sent to the URL that was handed out is taken
  for a status update.
\<close>

theorem reporting_route_shadowed:
  "dispatch webhook_routes segs \<noteq> Some ReportingHandler \<and>
   dispatch webhook_routes [''reporting'', c # cs] = Some StatusHandler"
proof -
  have "route_matches [Parameter ''task_type'', Parameter ''operation_id''] segs"
    if "route_matches [Literal ''reporting'', Parameter ''operation_id''] segs"
    using that by (auto simp: route_matches_def list_all2_Cons1)
  then show ?thesis by (auto simp: dispatch_def webhook_routes_def route_matches_def)
qed

section \<open>A concrete delivery\<close>

definition example_hooks :: webhook_env where
  "example_hooks =
     \<lparr>hmac_hex = (\<lambda>k m. k), hash_hex = (\<lambda>b. b),
      validate_payload = (\<lambda>b. Some \<lparr>pl_task_id = ''t1'', pl_status = ''working'', pl_timestamp = ''now'',
        pl_message = [], pl_context_id = [], pl_result = (if b = ''bad'' then [(''status'', JNull)] else [])\<rparr>),
      loads = (\<lambda>b. None), from_iso = (\<lambda>s. None), py_text = (\<lambda>x. [])\<rparr>"

definition example_delivery :: "string \<Rightarrow> webhook_request" where
  "example_delivery bod =
     \<lparr>headers = [(''x-adcp-signature'', ''sha256=k''), (''x-adcp-timestamp'', ''now'')], body = bod\<rparr>"

definition example_receiver :: webhook_world where
  "example_receiver =
     \<lparr>ww_tracker = example_loaded\<lparr>db_enabled := False\<rparr>,
      ww_settings = \<lparr>webhook_base_url = [], webhook_secret = ''k'', webhook_auth_scheme = ''HMAC-SHA256'',
        runtime_secret = None\<rparr>,
      ww_events = []\<rparr>"

lemma example_ascii: "is_ascii ''sha256=k''"
  by (simp add: is_ascii_def code_of_def)

lemma example_verified_hook:
  "verify_auth example_hooks (example_delivery b) ''HMAC-SHA256'' ''k'' (Some (operation_of_row example_row)) = Inr ()"
  using example_ascii
  by (simp add: verify_auth_def stored_auth_def operation_of_row_def example_row_def new_row_def new_operation_def
      check_scheme_def example_delivery_def header_def verify_hmac_signature_def compare_digest_def checked_def
      example_hooks_def Let_def)

lemma example_operation:
  "get_operation ''op1'' (ww_tracker example_receiver) = Some (operation_of_row example_row)"
  "keyed_by_id (operations (ww_tracker example_receiver))"
  by (simp_all add: example_receiver_def tracker_eval get_operation_def keyed_by_id_def)

lemma failed_update_lost_witness:
  "\<exists>w'. receive_webhook example_hooks 0 [] ''op1'' (example_delivery ''bad'') example_receiver =
      (Inl (ServerError AttributeError), w') \<and>
    receive_webhook example_hooks 1 [] ''op1'' (example_delivery ''bad'') w' = (Inr ''already_processed'', w')"
proof -
  have "verify_auth example_hooks (example_delivery ''bad'') (webhook_auth_scheme (ww_settings example_receiver))
      (fst (get_webhook_secret [] (ww_settings example_receiver))) (Some (operation_of_row example_row)) = Inr ()"
    using example_verified_hook by (simp add: example_receiver_def get_webhook_secret_def)
  from failed_update_lost [OF example_operation(2,1) this, where now = 0 and now' = 1 and fresh' = "[]"]
  show ?thesis
    by (fastforce simp: example_hooks_def example_delivery_def example_receiver_def too_old_def
        webhook_response_def dict_update_def get_or_def Let_def)
qed

lemma example_received:
  "\<exists>w'. receive_webhook example_hooks 0 [] ''op1'' (example_delivery ''ok'') example_receiver = (Inr ''processed'', w')"
proof -
  have "verify_auth example_hooks (example_delivery ''ok'') (webhook_auth_scheme (ww_settings example_receiver))
      ''k'' (get_operation ''op1'' (ww_tracker example_receiver)) = Inr ()"
    using example_verified_hook example_operation by (simp add: example_receiver_def)
  moreover have "\<exists>p t. update_from_response (\<lambda>x. []) 0 ''op1'' [(''status'', JStr ''working''), (''task_id'', JStr ''t1'')]
      (ww_tracker example_receiver) = (Inr p, t)"
    using example_operation(1)
    by (auto simp: update_from_response_def get_operation_def get_or_def Let_def)
  moreover have "op_id (operation_of_row example_row) = ''op1''"
    by (simp add: operation_of_row_def example_row_def new_row_def new_operation_def)
  ultimately show ?thesis
    using example_operation(1)
    by (auto simp: receive_webhook_def get_webhook_secret_def example_receiver_def example_hooks_def
        example_delivery_def too_old_def check_idempotency_def event_id_of_def apply_webhook_def
        webhook_response_def dict_update_def Let_def)
qed

lemma webhook_delivered_once_witness:
  "\<exists>w'. receive_webhook example_hooks 9 [] ''op1'' (example_delivery ''ok'') w' = (Inr ''already_processed'', w')"
proof -
  from example_received obtain w' where
    first: "receive_webhook example_hooks 0 [] ''op1'' (example_delivery ''ok'') example_receiver = (Inr ''processed'', w')" ..
  show ?thesis
    using webhook_delivered_once [OF first example_operation(2), of 9 "[]"]
    by (auto simp: too_old_def example_hooks_def)
qed

lemma webhook_effect_authentic_witness:
  "\<exists>sch secret. authentic example_hooks (example_delivery ''ok'') sch secret"
proof -
  from example_received obtain w' where
    first: "receive_webhook example_hooks 0 [] ''op1'' (example_delivery ''ok'') example_receiver = (Inr ''processed'', w')" ..
  from webhook_effect_authentic [OF first] show ?thesis by blast
qed

end
