(* ===== verification/Orchestrator.thy ===== *)
theory Orchestrator
  imports Seller_Network Discovery Poller Adagents Webhook_Receiver "HOL-Library.Product_Lexorder"
begin

text \<open>
  \<open>src/buying/orchestrator.py\<close>, the state it keeps and the first half of its work: sessions,
  discovery, finding products and ranking them.  The orchestrator owns the tracker, the account
  manager, the two authorities (brand and publishers), the sessions and the products seen last;
  the readings of clocks, the fresh identifiers and the settings of one operation are a record of
  the environment.
\<close>

section \<open>State and environment\<close>

record seller_product =
  sp_seller :: seller_agent
  sp_product_id :: json
  sp_name :: json
  sp_description :: json
  sp_price_cpm :: json
  sp_channels :: json
  sp_formats :: "json list"
  sp_format_ids :: json
  sp_pricing_option_id :: json
  sp_raw :: dict

record orchestrator =
  orch_tracker :: op_tracker
  orch_sellers :: "seller_agent list"
  orch_net :: net
  orch_accounts :: account_manager
  orch_brands :: brand_resolver
  orch_authorizer :: authorizer
  orch_products :: "((string \<times> string) \<times> dict) list"
  orch_webhooks :: webhook_settings

datatype buy_error =
    BrandFailed brand_failure | SellerUnauthorized auth_error | ProductNotDiscovered json
  | NoAccount account_failure | BadRequest request_error | NotSellerOptimized
  | SellerFailed call_failure | PyFailed py_exn

record orch_env =
  oe_shown :: "json \<Rightarrow> string"
  oe_fromiso :: iso_parser
  oe_idna :: "string \<Rightarrow> string option"
  oe_hostname :: "string \<Rightarrow> string"
  oe_error_text :: "buy_error \<Rightarrow> string"
  oe_now :: int
  oe_later :: int
  oe_uuid :: string
  oe_ref_hex :: string
  oe_key_hex :: string
  oe_default_end :: string
  oe_fresh_secret :: string
  oe_version :: string
  oe_net :: net_env
  oe_account :: account_env
  oe_brand :: brand_env
  oe_adagents :: "nat \<Rightarrow> nat \<Rightarrow> adagents_env"
  oe_auth_now :: int
  oe_operator_domain :: string
  oe_skip_check :: bool
  oe_brand_url :: string

type_synonym 'a orch_action = "(orchestrator, buy_error, 'a) action"

definition on_net :: "(net, call_failure, 'a) action \<Rightarrow> 'a orch_action" where
  "on_net act = map_error SellerFailed (zoom orch_net (\<lambda>n o'. o'\<lparr>orch_net := n\<rparr>) act)"

definition on_accounts :: "(account_manager \<times> net, account_failure, 'a) action \<Rightarrow> 'a orch_action" where
  "on_accounts act = map_error NoAccount
     (zoom (\<lambda>o'. (orch_accounts o', orch_net o')) (\<lambda>(m, n) o'. o'\<lparr>orch_accounts := m, orch_net := n\<rparr>) act)"

definition on_tracker :: "(op_tracker, py_exn, 'a) action \<Rightarrow> 'a orch_action" where
  "on_tracker act = map_error PyFailed (zoom orch_tracker (\<lambda>t o'. o'\<lparr>orch_tracker := t\<rparr>) act)"

definition on_brands :: "(brand_resolver, brand_failure, 'a) action \<Rightarrow> 'a orch_action" where
  "on_brands act = map_error BrandFailed (zoom orch_brands (\<lambda>b o'. o'\<lparr>orch_brands := b\<rparr>) act)"

definition on_authorizer :: "(authorizer, auth_error, 'a) action \<Rightarrow> 'a orch_action" where
  "on_authorizer act = map_error SellerUnauthorized (zoom orch_authorizer (\<lambda>a o'. o'\<lparr>orch_authorizer := a\<rparr>) act)"

definition on_webhooks :: "(webhook_settings, py_exn, 'a) action \<Rightarrow> 'a orch_action" where
  "on_webhooks act = map_error PyFailed (zoom orch_webhooks (\<lambda>w o'. o'\<lparr>orch_webhooks := w\<rparr>) act)"

definition py_step :: "py_exn + 'a \<Rightarrow> 'a orch_action" where
  "py_step r = lift_res (map_left PyFailed r)"

section \<open>Brands and sellers\<close>

definition domain_from_url :: "(string \<Rightarrow> string) \<Rightarrow> string \<Rightarrow> string" where
  "domain_from_url hostname url =
     remove_prefix (normalize_domain (hostname (if contains url ''://'' then url else ''https://'' @ url))) ''www.''"

definition brand_ref :: "orch_env \<Rightarrow> string \<Rightarrow> string \<Rightarrow> string list \<Rightarrow> string \<Rightarrow> dict" where
  "brand_ref env brand_domain brand_id countries brand_url =
     build_brand_ref
       (if brand_domain \<noteq> [] then brand_domain
        else domain_from_url (oe_hostname env) (if brand_url \<noteq> [] then brand_url else oe_brand_url env))
       brand_id countries"

definition session_call_of :: "orch_env \<Rightarrow> seller_agent \<Rightarrow> string \<Rightarrow> dict \<Rightarrow> dict orch_action" where
  "session_call_of env seller tool params = on_net (orchestrator_call (oe_net env) seller tool params)"

definition same_seller :: "string \<Rightarrow> string \<Rightarrow> bool" where
  "same_seller u v \<longleftrightarrow> rstrip_char (CHR ''/'') u = rstrip_char (CHR ''/'') v"

definition find_seller_by_url :: "string \<Rightarrow> orchestrator \<Rightarrow> seller_agent option" where
  "find_seller_by_url url o' = List.find (\<lambda>s. same_seller (agent_url s) url) (orch_sellers o')"

definition sales_sellers :: "orchestrator \<Rightarrow> py_exn + seller_agent list" where
  "sales_sellers o' = res_filter can_sell (orch_sellers o')"

definition capability_caller :: "orch_env \<Rightarrow> net capability_call" where
  "capability_caller env a n =
     (let atts = next_attempts (oe_net env) n
      in case call_seller_tool (net_shown (oe_net env)) (net_loads (oe_net env)) a ''get_adcp_capabilities''
                (get_adcp_capabilities_params []) atts (call_budget (oe_net env) n) (net_world n) of
           Some (r, b', w') \<Rightarrow>
             (r, n\<lparr>net_world := w',
                   attempts_made := attempts_made n + (length (outcomes w') - length (outcomes (net_world n))),
                   tool_log := tool_log n @ [(agent_url a, ''get_adcp_capabilities'', get_adcp_capabilities_params [])]\<rparr>)
         | None \<Rightarrow> (Inr [], n))"

definition discover_sellers :: "orch_env \<Rightarrow> discovery_env \<Rightarrow> bool \<Rightarrow> seller_agent list orch_action" where
  "discover_sellers env denv probe o' =
     (case discover_all_sellers denv (capability_caller env) probe (orch_net o') of
        (Inl e, n) \<Rightarrow> (Inl (PyFailed e), o'\<lparr>orch_net := n\<rparr>)
      | (Inr sellers, n) \<Rightarrow> (Inr sellers, o'\<lparr>orch_net := n, orch_sellers := sellers\<rparr>))"

section \<open>Products\<close>

text \<open>The first CPM option: its rate and its id.\<close>

fun cpm_option :: "json list \<Rightarrow> py_exn + (json \<times> json) option" where
  "cpm_option [] = Inr None"
| "cpm_option (JObj opt # opts) =
     (if getj opt ''pricing_model'' = JStr ''cpm''
      then Inr (Some (getj opt ''rate'', getj opt ''pricing_option_id'')) else cpm_option opts)"
| "cpm_option (opt # opts) = Inl AttributeError"

definition price_and_option :: "dict \<Rightarrow> py_exn + json \<times> json" where
  "price_and_option p =
     res_bind (py_iter (get_or p ''pricing_options'' (JArr []))) (\<lambda>opts.
     res_bind (cpm_option opts) (\<lambda>cpm.
       let (price, option_id) = (case cpm of Some x \<Rightarrow> x | None \<Rightarrow> (JNull, JNull))
       in if truthy option_id \<or> opts = [] then Inr (price, option_id)
          else res_bind (getattr_get (hd opts) ''pricing_option_id'') (\<lambda>oid. Inr (price, oid))))"

definition legacy_format_id :: "string \<Rightarrow> dict \<Rightarrow> json option" where
  "legacy_format_id seller_address f =
     (let fid = or_else (getj f ''format_id'') (get_or f ''id'' (JStr []))
      in if truthy fid
         then Some (JObj [(''agent_url'', get_or f ''agent_url'' (JStr seller_address)), (''id'', fid)])
         else None)"

text \<open>
  The format ids of a product, else those of the legacy list.  The list that is filled is the
  product's own when it is there and empty, so the product changes, too; anything else that is
  there and false cannot be appended to.
\<close>

definition product_format_ids :: "string \<Rightarrow> dict \<Rightarrow> py_exn + json \<times> dict" where
  "product_format_ids seller_address p =
     (let ids = get_or p ''format_ids'' (JArr [])
      in if truthy ids then Inr (ids, p)
         else
           res_bind (py_iter (get_or p ''formats'' (JArr []))) (\<lambda>fs.
             let found = listed_agents (map (\<lambda>f. legacy_format_id seller_address (obj_of f)) (filter is_obj fs))
             in if found = [] then Inr (ids, p)
                else if ids \<noteq> JArr [] then Inl AttributeError
                else Inr (JArr found, if has_key p ''format_ids'' then dset ''format_ids'' (JArr found) p else p)))"

definition product_key :: "(json \<Rightarrow> string) \<Rightarrow> seller_agent \<Rightarrow> json \<Rightarrow> string \<times> string" where
  "product_key shown seller pid = (rstrip_char (CHR ''/'') (agent_url seller), text_of shown pid)"

text \<open>One product of a response: what the buyer makes of it, and what is remembered under its id.\<close>

definition read_product :: "(json \<Rightarrow> string) \<Rightarrow> seller_agent \<Rightarrow> json \<Rightarrow> seller_product orch_action" where
  "read_product shown seller v =
     (case v of
        JObj p \<Rightarrow>
          sbind (py_step (price_and_option p)) (\<lambda>(price, option_id).
          sbind (py_step (product_format_ids (agent_url seller) p)) (\<lambda>(ids, p').
          sbind (modify (\<lambda>o'. if truthy (getj p' ''product_id'')
                     then o'\<lparr>orch_products := dset (product_key shown seller (getj p' ''product_id'')) p' (orch_products o')\<rparr>
                     else o')) (\<lambda>_.
          sbind (py_step (py_iter (get_or p' ''formats'' (JArr [])))) (\<lambda>fs.
            ret \<lparr>sp_seller = seller, sp_product_id = get_or p' ''product_id'' (JStr []),
                 sp_name = get_or p' ''name'' (JStr ''Unknown''), sp_description = get_or p' ''description'' (JStr []),
                 sp_price_cpm = price, sp_channels = get_or p' ''channels'' (JArr []),
                 sp_formats = map (\<lambda>f. get_or (obj_of f) ''format_id'' (JStr [])) (filter is_obj fs),
                 sp_format_ids = ids, sp_pricing_option_id = option_id, sp_raw = p'\<rparr>))))
      | _ \<Rightarrow> raise (PyFailed AttributeError))"

text \<open>Errors of sellers and accounts leave a seller without products; a text answer has none.\<close>

definition seller_or_account_error :: "buy_error \<Rightarrow> bool" where
  "seller_or_account_error e =
     (case e of
        SellerFailed (SellerFailure x) \<Rightarrow> True
      | NoAccount (AccountError x) \<Rightarrow> True
      | NoAccount (CallFailed (SellerFailure x)) \<Rightarrow> True
      | _ \<Rightarrow> False)"

definition request_products :: "orch_env \<Rightarrow> seller_agent \<Rightarrow> string \<Rightarrow> dict \<Rightarrow> dict orch_action" where
  "request_products env seller brief brand =
     sbind (on_accounts (discovery_account_ref (oe_account env) (orchestrator_call (oe_net env)) seller brand)) (\<lambda>account.
       session_call_of env seller ''get_products''
         (build_get_products_request (oe_version env) brief brand
            (case account of Some a \<Rightarrow> a | None \<Rightarrow> [])))"

text \<open>The slice \<open>response['raw'][:100]\<close> of the log needs a string or a list.\<close>

definition products_of_response :: "dict \<Rightarrow> py_exn + json list" where
  "products_of_response response =
     (if has_key response ''raw'' \<and> \<not> has_key response ''products'' then
        (if is_str (getj response ''raw'') \<or> is_arr (getj response ''raw'') then Inr [] else Inl TypeError)
      else py_iter (get_or response ''products'' (JArr [])))"

definition get_products_from_seller ::
  "orch_env \<Rightarrow> string \<Rightarrow> dict \<Rightarrow> seller_agent \<Rightarrow> seller_product list orch_action" where
  "get_products_from_seller env brief brand seller =
     sbind (handling
         (sbind (request_products env seller brief brand) (\<lambda>response. ret (Some response)))
         (\<lambda>e. if seller_or_account_error e then ret None else raise e)) (\<lambda>answer.
       case answer of
         None \<Rightarrow> ret []
       | Some response \<Rightarrow>
           sbind (py_step (products_of_response response)) (\<lambda>items.
             smap (read_product (oe_shown env) seller) items))"

text \<open>\<open>gather(..., return_exceptions=True)\<close>: whatever goes wrong with one seller is logged.\<close>

fun products_from :: "orch_env \<Rightarrow> string \<Rightarrow> dict \<Rightarrow> seller_agent list \<Rightarrow> seller_product list orch_action" where
  "products_from env brief brand [] = ret []"
| "products_from env brief brand (seller # sellers) =
     sbind (handling (get_products_from_seller env brief brand seller) (\<lambda>e. ret [])) (\<lambda>found.
     sbind (products_from env brief brand sellers) (\<lambda>more. ret (found @ more)))"

definition eligible_sellers :: "seller_agent list \<Rightarrow> py_exn + seller_agent list" where
  "eligible_sellers sellers =
     res_bind (res_filter (\<lambda>s. py_in ''get_products'' (agent_tools s)) sellers) (\<lambda>eligible.
       Inr (if eligible = [] then sellers else eligible))"

definition get_products_from_all ::
  "orch_env \<Rightarrow> discovery_env \<Rightarrow> string \<Rightarrow> string \<Rightarrow> string \<Rightarrow> string \<Rightarrow> string list \<Rightarrow> seller_product list orch_action" where
  "get_products_from_all env denv brief brand_url brand_domain brand_id countries =
     sbind (asking orch_sellers) (\<lambda>sellers.
     sbind (if sellers = [] then discover_sellers env denv True else ret sellers) (\<lambda>sellers.
     sbind (py_step (eligible_sellers sellers)) (\<lambda>eligible.
       products_from env brief (brand_ref env brand_domain brand_id countries brand_url) eligible)))"

section \<open>Ranking\<close>

text \<open>
  Products with a price come first, cheapest first, and equal ones in the order given.  Prices are
  compared with \<open><\<close>: numbers and truth values with each other, texts with each other, and the sort
  of both kinds raises.  What \<open>sorted\<close> makes of other prices (lists are compared item by item,
  dictionaries and NaN with nothing) is the argument \<open>unusual\<close>.
\<close>

definition has_price :: "seller_product \<Rightarrow> bool" where
  "has_price p \<longleftrightarrow> sp_price_cpm p \<noteq> JNull"

definition number_key :: "seller_product \<Rightarrow> nat \<times> rat" where
  "number_key p =
     (if has_price p then (0, case numeric (sp_price_cpm p) of Some q \<Rightarrow> q | None \<Rightarrow> 0) else (1, 999))"

definition text_key :: "seller_product \<Rightarrow> nat \<times> string" where
  "text_key p = (if has_price p then (0, str_of (sp_price_cpm p)) else (1, []))"

definition plain_price :: "seller_product \<Rightarrow> bool" where
  "plain_price p \<longleftrightarrow> numeric (sp_price_cpm p) \<noteq> None \<or> is_str (sp_price_cpm p)"

definition rank_products ::
  "(seller_product list \<Rightarrow> py_exn + seller_product list) \<Rightarrow> seller_product list \<Rightarrow> py_exn + seller_product list" where
  "rank_products unusual products =
     (let priced = filter has_price products
      in if length priced \<le> 1 \<or> list_all (\<lambda>p. numeric (sp_price_cpm p) \<noteq> None) priced
         then Inr (sort_key number_key products)
         else if list_all (\<lambda>p. is_str (sp_price_cpm p)) priced then Inr (sort_key text_key products)
         else if list_all plain_price priced then Inl TypeError
         else unusual products)"

end
