(* ===== verification/Orchestrator_Buy.thy ===== *)
theory Orchestrator_Buy
  imports Orchestrator
begin

text \<open>
  \<open>src/buying/orchestrator.py\<close>, buying and what follows it: \<open>buy\<close> with its checks, updates of media
  buys and creatives, the wrappers of the other tools, polling, reconciliation, and human input.
\<close>

section \<open>The code of a buy\<close>

record buy_args =
  ba_product :: seller_product
  ba_budget :: json
  ba_ref :: string
  ba_end :: string
  ba_packages :: "dict list"
  ba_targeting :: dict
  ba_pacing :: string
  ba_proposal :: string
  ba_currency :: string
  ba_brand_domain :: string
  ba_brand_id :: string
  ba_countries :: "string list"
  ba_allocation :: dict

record buy_result =
  res_operation_id :: string
  res_seller_name :: json
  res_status :: string
  res_media_buy_id :: json
  res_task_id :: json
  res_error :: "string option"
  res_raw :: dict

text \<open>\<open>countries\<close> are empty when the targeting has none.\<close>

definition target_countries :: "(json \<Rightarrow> string) \<Rightarrow> dict \<Rightarrow> string list" where
  "target_countries shown targeting =
     (case getj targeting ''geo_countries'' of
        JArr cs \<Rightarrow> map (\<lambda>c. upper (text_of shown c)) cs
      | _ \<Rightarrow> [])"

text \<open>The operation as the tracker has it now; \<open>op\<close> is the object in its table.\<close>

definition persist_operation :: "string \<Rightarrow> unit orch_action" where
  "persist_operation oid =
     modify (\<lambda>o'. case get_operation oid (orch_tracker o') of
       Some p \<Rightarrow> o'\<lparr>orch_tracker := persist p (orch_tracker o')\<rparr> | None \<Rightarrow> o')"

definition change_operation :: "string \<Rightarrow> (tracked_operation \<Rightarrow> tracked_operation) \<Rightarrow> unit orch_action" where
  "change_operation oid f =
     modify (\<lambda>o'. case get_operation oid (orch_tracker o') of
       Some p \<Rightarrow> o'\<lparr>orch_tracker := store_operation (f p) (orch_tracker o')\<rparr> | None \<Rightarrow> o')"

definition create_op :: "orch_env \<Rightarrow> string \<Rightarrow> seller_agent \<Rightarrow> string \<Rightarrow> dict \<Rightarrow> tracked_operation orch_action" where
  "create_op env typ' seller ref req =
     on_tracker (\<lambda>t. case create_operation (oe_uuid env) (oe_now env) typ' (agent_name seller) (agent_url seller) ref req t of
       (p, t') \<Rightarrow> (Inr p, t'))"

definition fail_op :: "orch_env \<Rightarrow> string \<Rightarrow> string \<Rightarrow> unit orch_action" where
  "fail_op env oid text =
     sbind (on_tracker (mark_failed (oe_later env) oid text)) (\<lambda>_. persist_operation oid)"

definition update_op :: "orch_env \<Rightarrow> string \<Rightarrow> dict \<Rightarrow> tracked_operation orch_action" where
  "update_op env oid response =
     sbind (on_tracker (update_from_response (oe_shown env) (oe_later env) oid response)) (\<lambda>p.
     sbind (persist_operation oid) (\<lambda>_. ret p))"

text \<open>The lookup hashes the id; the ids that are remembered are texts.\<close>

definition known_product :: "seller_agent \<Rightarrow> json \<Rightarrow> orchestrator \<Rightarrow> py_exn + dict option" where
  "known_product seller pid o' =
     (if is_obj pid \<or> is_arr pid then Inl TypeError
      else case pid of
        JStr s \<Rightarrow> Inr (map_of (orch_products o') (rstrip_char (CHR ''/'') (agent_url seller), s))
      | _ \<Rightarrow> Inr None)"

text \<open>Each product is verified in its own environment, numbered by its position.\<close>

fun authorize_products ::
  "orch_env \<Rightarrow> seller_agent \<Rightarrow> string list \<Rightarrow> nat \<Rightarrow> json list \<Rightarrow> unit orch_action" where
  "authorize_products env seller countries i [] = ret ()"
| "authorize_products env seller countries i (pid # pids) =
     sbind (asking (known_product seller pid)) (\<lambda>found.
     sbind (py_step found) (\<lambda>raw.
       case raw of
         None \<Rightarrow> raise (ProductNotDiscovered pid)
       | Some p \<Rightarrow>
           sbind (on_authorizer (verify_product (oe_shown env) (oe_fromiso env) (oe_idna env) (oe_auth_now env)
                    (oe_adagents env i) (agent_url seller) p countries)) (\<lambda>_.
             authorize_products env seller countries (Suc i) pids)))"

definition authorize_seller :: "orch_env \<Rightarrow> seller_agent \<Rightarrow> json list \<Rightarrow> string list \<Rightarrow> unit orch_action" where
  "authorize_seller env seller pids countries =
     (if oe_skip_check env then ret () else authorize_products env seller countries 0 pids)"

definition package_selector :: "seller_product \<Rightarrow> py_exn + dict" where
  "package_selector p =
     res_bind (format_selector (sp_raw p)) (\<lambda>sel.
       Inr (if sel = [] \<and> truthy (sp_format_ids p) \<and> \<not> truthy (getj (sp_raw p) ''format_options'')
            then [(''format_ids'', sp_format_ids p)] else sel))"

definition wants_seller_optimized :: "dict \<Rightarrow> bool" where
  "wants_seller_optimized allocation \<longleftrightarrow> getj allocation ''mode'' = JStr ''seller_optimized''"

definition offers_seller_optimized :: "seller_agent \<Rightarrow> bool" where
  "offers_seller_optimized seller \<longleftrightarrow>
     getj (obj_of (getj (obj_of (getj (capabilities seller) ''media_buy'')) ''features''))
       ''seller_optimized_budget'' = JBool True"

definition check_seller_optimized :: "seller_agent \<Rightarrow> dict \<Rightarrow> unit orch_action" where
  "check_seller_optimized seller allocation =
     (if wants_seller_optimized allocation \<and> \<not> offers_seller_optimized seller
      then raise NotSellerOptimized else ret ())"

text \<open>
  A custom package loses its \<open>buyer_ref\<close> and carries it in its context, which must be a dictionary
  when it is there.
\<close>

definition correlate_package :: "string \<Rightarrow> dict \<Rightarrow> py_exn + dict" where
  "correlate_package ref pkg =
     (let pkg1 = AList.delete ''buyer_ref'' pkg
      in case get_or pkg1 ''context'' (JObj []) of
           JObj ctx \<Rightarrow> Inr (dset ''context'' (JObj (set_default ''buyer_ref'' (JStr ref) ctx)) pkg1)
         | _ \<Rightarrow> Inl AttributeError)"

text \<open>The ids that are checked: the packages' own, or the selected product's.\<close>

definition bought_product_ids :: "orch_env \<Rightarrow> seller_product \<Rightarrow> dict list \<Rightarrow> json list" where
  "bought_product_ids env product packages =
     (if packages \<noteq> [] then map (\<lambda>pkg. JStr (text_of (oe_shown env) (getj pkg ''product_id''))) packages
      else [sp_product_id product])"

definition built_packages :: "buy_args \<Rightarrow> string \<Rightarrow> dict list \<Rightarrow> py_exn + dict list" where
  "built_packages args ref packages =
     (let product = ba_product args
      in if ba_proposal args \<noteq> [] then Inr []
         else if packages \<noteq> [] then Inr packages
         else
           res_bind (package_selector product) (\<lambda>sel.
             Inr [build_package (sp_product_id product) (or_else (sp_pricing_option_id product) (JStr ''cpm-standard''))
                    (if wants_seller_optimized (ba_allocation args) then JNull else ba_budget args)
                    ref sel (ba_targeting args) (ba_pacing args)]))"

definition webhook_configs :: "orch_env \<Rightarrow> string \<Rightarrow> (dict \<times> dict) orch_action" where
  "webhook_configs env oid =
     sbind (asking (\<lambda>o'. webhook_base_url (orch_webhooks o'))) (\<lambda>base.
       if base = [] then ret ([], [])
       else
         sbind (on_webhooks (build_push_notification_config (oe_fresh_secret env) ''create_media_buy'' oid [] [] [])) (\<lambda>push.
         sbind (change_operation oid (\<lambda>p. p\<lparr>webhook_config := JObj push\<rparr>)) (\<lambda>_.
         sbind (on_webhooks (build_reporting_webhook (oe_fresh_secret env) oid ''daily'' [] [] [] [])) (\<lambda>reporting.
           ret (push, reporting)))))"

definition create_args_of ::
  "buy_args \<Rightarrow> string \<Rightarrow> string \<Rightarrow> dict \<Rightarrow> string \<Rightarrow> dict \<Rightarrow> dict list \<Rightarrow> dict \<Rightarrow> dict \<Rightarrow> create_args" where
  "create_args_of args ref key brand end_time account packages push reporting =
     \<lparr>arg_key = key, arg_account = account, arg_brand = brand, arg_start = ''asap'', arg_end = end_time,
      arg_packages = packages, arg_proposal = ba_proposal args,
      arg_total_budget = (if ba_proposal args \<noteq> [] \<or> wants_seller_optimized (ba_allocation args)
        then [(''amount'', ba_budget args), (''currency'', JStr (ba_currency args))] else []),
      arg_allocation = ba_allocation args, arg_context = [(''buyer_ref'', JStr ref)],
      arg_push = push, arg_reporting = reporting\<rparr>"

definition prepare_create_media_buy ::
  "orch_env \<Rightarrow> string \<Rightarrow> buy_args \<Rightarrow> string \<Rightarrow> string \<Rightarrow> dict \<Rightarrow> string \<Rightarrow> dict orch_action" where
  "prepare_create_media_buy env oid args ref key brand end_time =
     (let seller = sp_seller (ba_product args); allocation = ba_allocation args
      in sbind (on_brands (verify_operator (oe_shown env) (oe_fromiso env) (oe_brand env) False ''media_buying'' None brand
                  (oe_operator_domain env))) (\<lambda>_.
         sbind (py_step (res_map (correlate_package ref) (ba_packages args))) (\<lambda>packages.
         sbind (authorize_seller env seller (bought_product_ids env (ba_product args) packages)
                  (target_countries (oe_shown env) (ba_targeting args))) (\<lambda>_.
         sbind (on_accounts (resolve_account_ref (oe_account env) (orchestrator_call (oe_net env)) seller brand
                  ''create_media_buy'' None)) (\<lambda>account.
         sbind (check_seller_optimized seller allocation) (\<lambda>_.
         sbind (py_step (built_packages args ref packages)) (\<lambda>built.
         sbind (webhook_configs env oid) (\<lambda>(push, reporting).
         sbind (lift_res (map_left BadRequest (build_create_media_buy_request (oe_version env)
                  (create_args_of args ref key brand end_time account built push reporting)))) (\<lambda>params.
         sbind (change_operation oid (\<lambda>p. p\<lparr>request_data :=
                  dict_update (request_data p)
                    [(''account'', JObj account), (''budget_allocation'', getj params ''budget_allocation'')]\<rparr>)) (\<lambda>_.
         sbind (persist_operation oid) (\<lambda>_. ret params)))))))))))"

text \<open>The failures that end a buy with a recorded reason; other exceptions escape.\<close>

definition buy_failure :: "buy_error \<Rightarrow> bool" where
  "buy_failure e =
     (case e of
        BrandFailed (BrandError c d) \<Rightarrow> True
      | SellerUnauthorized (NotAuthorized d w) \<Rightarrow> True
      | ProductNotDiscovered pid \<Rightarrow> True
      | NoAccount (AccountError x) \<Rightarrow> True
      | NoAccount (CallFailed (SellerFailure x)) \<Rightarrow> True
      | BadRequest x \<Rightarrow> True
      | NotSellerOptimized \<Rightarrow> True
      | SellerFailed (SellerFailure x) \<Rightarrow> True
      | _ \<Rightarrow> False)"

definition buy_ref :: "orch_env \<Rightarrow> buy_args \<Rightarrow> string" where
  "buy_ref env args = (if ba_ref args \<noteq> [] then ba_ref args else ''nxflo-'' @ oe_ref_hex env)"

definition buy_key :: "orch_env \<Rightarrow> string" where
  "buy_key env = new_idempotency_key ''nxflo'' (oe_key_hex env)"

definition buy_brand :: "orch_env \<Rightarrow> buy_args \<Rightarrow> dict" where
  "buy_brand env args = brand_ref env (ba_brand_domain args) (ba_brand_id args) (ba_countries args) []"

definition buy_request_data :: "orch_env \<Rightarrow> buy_args \<Rightarrow> dict" where
  "buy_request_data env args =
     [(''product_id'', sp_product_id (ba_product args)), (''budget'', ba_budget args),
      (''brand'', JObj (buy_brand env args)),
      (''proposal_id'', if ba_proposal args \<noteq> [] then JStr (ba_proposal args) else JNull),
      (''idempotency_key'', JStr (buy_key env))]"

definition place_buy :: "orch_env \<Rightarrow> string \<Rightarrow> buy_args \<Rightarrow> dict orch_action" where
  "place_buy env oid args =
     sbind (prepare_create_media_buy env oid args (buy_ref env args) (buy_key env) (buy_brand env args)
              (if ba_end args \<noteq> [] then ba_end args else oe_default_end env)) (\<lambda>params.
       session_call_of env (sp_seller (ba_product args)) ''create_media_buy'' params)"

definition buy :: "orch_env \<Rightarrow> buy_args \<Rightarrow> buy_result orch_action" where
  "buy env args =
     (let seller = sp_seller (ba_product args)
      in sbind (create_op env ''create_media_buy'' seller (buy_ref env args) (buy_request_data env args)) (\<lambda>p.
         sbind (handling
             (sbind (place_buy env (op_id p) args) (\<lambda>response. ret (Inr response)))
             (\<lambda>e. if buy_failure e
                  then sbind (fail_op env (op_id p) (oe_error_text env e)) (\<lambda>_. ret (Inl (oe_error_text env e)))
                  else raise e)) (\<lambda>outcome.
           case outcome of
             Inl text \<Rightarrow>
               ret \<lparr>res_operation_id = op_id p, res_seller_name = agent_name seller, res_status = ''failed'',
                    res_media_buy_id = JNull, res_task_id = JNull, res_error = Some text, res_raw = []\<rparr>
           | Inr response \<Rightarrow>
               sbind (update_op env (op_id p) response) (\<lambda>p'.
                 ret \<lparr>res_operation_id = op_id p', res_seller_name = agent_name seller,
                      res_status = status_value (op_status p'), res_media_buy_id = op_media_buy_id p',
                      res_task_id = op_task_id p', res_error = None, res_raw = response\<rparr>))))"

end
