(* ===== verification/Buy_Safety.thy ===== *)
theory Buy_Safety
  imports Orchestrator_Buy
begin

text \<open>
  What a buy sends: nothing but account calls before its checks have passed, then one request, built
  from what was checked.
\<close>

section \<open>What each step leaves alone\<close>

text \<open>The parts of the state a buy's checks start from.\<close>

definition base :: "orchestrator \<Rightarrow> net \<times> account_manager \<times> ((string \<times> string) \<times> dict) list" where
  "base o' = (orch_net o', orch_accounts o', orch_products o')"

lemma base_keeps [keeps_intros]:
  "keeps (\<lambda>o'. base o' = x) (on_brands b)" "keeps (\<lambda>o'. base o' = x) (on_authorizer a)"
  "keeps (\<lambda>o'. base o' = x) (on_tracker t)" "keeps (\<lambda>o'. base o' = x) (on_webhooks w)"
  "keeps (\<lambda>o'. base o' = x) (py_step r)" "keeps (\<lambda>o'. base o' = x) (change_operation oid f)"
  "keeps (\<lambda>o'. base o' = x) (persist_operation oid)"
  by (auto simp: keeps_def on_brands_def on_authorizer_def on_tracker_def on_webhooks_def py_step_def
      map_error_def zoom_def base_def change_operation_def persist_operation_def
      split: prod.splits sum.splits option.splits)

lemma base_keeps_authorize_products: "keeps (\<lambda>o'. base o' = x) (authorize_products env seller countries i pids)"
proof (induction env seller countries i pids rule: authorize_products.induct)
  case (2 env seller countries i pid pids)
  show ?case unfolding authorize_products.simps
    by (intro keeps_sbind keeps_simple base_keeps keeps_case_option 2)
qed (simp only: authorize_products.simps keeps_simple)

lemma base_keeps_more [keeps_intros]:
  "keeps (\<lambda>o'. base o' = x) (authorize_seller env seller pids countries)"
  "keeps (\<lambda>o'. base o' = x) (check_seller_optimized seller allocation)"
  "keeps (\<lambda>o'. base o' = x) (webhook_configs env oid)"
  "keeps (\<lambda>o'. base o' = x) (create_op env tool seller ref req)"
  "keeps (\<lambda>o'. base o' = x) (fail_op env oid text)"
  "keeps (\<lambda>o'. base o' = x) (update_op env oid response)"
  unfolding authorize_seller_def check_seller_optimized_def webhook_configs_def create_op_def fail_op_def update_op_def
  by (intro keeps_sbind keeps_simple base_keeps keeps_if base_keeps_authorize_products)+

section \<open>The log of a buy\<close>

lemma account_log_keeps:
  "keeps (\<lambda>(m, n). only_account_calls old n) act \<Longrightarrow> keeps (\<lambda>o'. only_account_calls old (orch_net o')) (on_accounts act)"
  unfolding on_accounts_def
  by (intro keeps_map_error keeps_zoom) (auto simp: keeps_def split: prod.splits)

lemma log_keeps_base:
  "(\<And>x. keeps (\<lambda>o'. base o' = x) act) \<Longrightarrow> keeps (\<lambda>o'. only_account_calls old (orch_net o')) act"
  unfolding keeps_def base_def by (metis prod.inject)

lemma prepare_log:
  "keeps (\<lambda>o'. only_account_calls old (orch_net o')) (prepare_create_media_buy env oid args ref key brand end_time)"
  unfolding prepare_create_media_buy_def Let_def
  by (intro keeps_sbind keeps_case_prod account_log_keeps account_log.connected_resolve_account_ref
      log_keeps_base base_keeps base_keeps_more keeps_simple)

section \<open>A buy is checked before it is sent\<close>

lemma authorize_products_verified:
  "authorize_products env seller countries i pids o' = (Inr u, o1) \<Longrightarrow> pid \<in> set pids \<Longrightarrow>
     \<exists>s p j a a'. pid = JStr s \<and> map_of (orch_products o') (rstrip_char (CHR ''/'') (agent_url seller), s) = Some p \<and>
       verify_product (oe_shown env) (oe_fromiso env) (oe_idna env) (oe_auth_now env) (oe_adagents env j)
         (agent_url seller) p countries a = (Inr (), a')"
proof (induction env seller countries i pids arbitrary: o' rule: authorize_products.induct)
  case (2 env seller countries i q qs)
  from 2(2) obtain p a' o2 where known: "known_product seller q o' = Inr (Some p)"
    and verified: "verify_product (oe_shown env) (oe_fromiso env) (oe_idna env) (oe_auth_now env)
      (oe_adagents env i) (agent_url seller) p countries (orch_authorizer o') = (Inr (), a')"
    and o2: "o2 = o'\<lparr>orch_authorizer := a'\<rparr>"
    and rest: "authorize_products env seller countries (Suc i) qs o2 = (Inr u, o1)"
    by (auto simp: sbind_Inr_iff py_step_def on_authorizer_def map_error_Inr zoom_iff split: option.splits)
  from known obtain s where s: "q = JStr s"
    "map_of (orch_products o') (rstrip_char (CHR ''/'') (agent_url seller), s) = Some p"
    by (auto simp: known_product_def split: json.splits if_splits)
  show ?case
  proof (cases "pid = q")
    case True
    with s verified show ?thesis by blast
  next
    case False
    with 2(3) have "pid \<in> set qs" by simp
    from "2.IH" [OF rest this] show ?thesis by (simp add: o2)
  qed
qed simp

definition product_checked :: "orch_env \<Rightarrow> seller_agent \<Rightarrow> string list \<Rightarrow> ((string \<times> string) \<times> dict) list \<Rightarrow> json \<Rightarrow> bool" where
  "product_checked env seller countries products pid \<longleftrightarrow>
     (\<exists>s p j a a'. pid = JStr s \<and> map_of products (rstrip_char (CHR ''/'') (agent_url seller), s) = Some p \<and>
       verify_product (oe_shown env) (oe_fromiso env) (oe_idna env) (oe_auth_now env) (oe_adagents env j)
         (agent_url seller) p countries a = (Inr (), a'))"

definition buy_checked :: "orch_env \<Rightarrow> buy_args \<Rightarrow> orchestrator \<Rightarrow> dict \<Rightarrow> bool" where
  "buy_checked env args o' params \<longleftrightarrow>
     (let seller = sp_seller (ba_product args)
      in (\<exists>res b. verify_operator (oe_shown env) (oe_fromiso env) (oe_brand env) False ''media_buying'' None
            (buy_brand env args) (oe_operator_domain env) (orch_brands o') = (Inr res, b)) \<and>
         (oe_skip_check env \<or>
            list_all (product_checked env seller (target_countries (oe_shown env) (ba_targeting args)) (orch_products o'))
              (bought_product_ids env (ba_product args) (ba_packages args))) \<and>
         (\<exists>account s. resolve_account_ref (oe_account env) (orchestrator_call (oe_net env)) seller (buy_brand env args)
            ''create_media_buy'' None (orch_accounts o', orch_net o') = (Inr account, s) \<and>
            getj params ''account'' = JObj account) \<and>
         (wants_seller_optimized (ba_allocation args) \<longrightarrow> offers_seller_optimized seller) \<and>
         getj params ''idempotency_key'' = JStr (buy_key env))"

lemma correlated_product_id: "correlate_package ref pkg = Inr pkg' \<Longrightarrow> getj pkg' ''product_id'' = getj pkg ''product_id''"
  by (auto simp: correlate_package_def Let_def getj_def get_or_def AList.delete_conv' split: json.splits)

lemma correlated_product_ids:
  "res_map (correlate_package ref) pkgs = Inr pkgs' \<Longrightarrow>
     map (\<lambda>pkg. getj pkg ''product_id'') pkgs' = map (\<lambda>pkg. getj pkg ''product_id'') pkgs"
  by (induction pkgs arbitrary: pkgs') (auto simp: res_simps dest!: correlated_product_id)

lemma correlated_ids:
  assumes "res_map (correlate_package ref) pkgs = Inr pkgs'"
  shows "bought_product_ids env product pkgs' = bought_product_ids env product pkgs"
proof -
  have ids: "map (\<lambda>pkg. JStr (text_of (oe_shown env) (getj pkg ''product_id''))) ps =
      map (\<lambda>v. JStr (text_of (oe_shown env) v)) (map (\<lambda>pkg. getj pkg ''product_id'') ps)" for ps
    by simp
  have "pkgs' = [] \<longleftrightarrow> pkgs = []" using res_map_length [OF assms] by auto
  then show ?thesis unfolding bought_product_ids_def ids correlated_product_ids [OF assms] by simp
qed

lemma on_accounts_Inr:
  "on_accounts act o' = (Inr x, o1) \<Longrightarrow> \<exists>m n. act (orch_accounts o', orch_net o') = (Inr x, (m, n))"
  by (auto simp: on_accounts_def map_error_Inr zoom_iff split: prod.splits)

lemma on_brands_Inr: "on_brands act o' = (Inr x, o1) \<Longrightarrow> \<exists>b. act (orch_brands o') = (Inr x, b)"
  by (auto simp: on_brands_def map_error_Inr zoom_iff)

lemma built_request:
  assumes "build_create_media_buy_request version a = Inr params"
  shows "getj params ''account'' = JObj (arg_account a)" "getj params ''idempotency_key'' = JStr (arg_key a)"
  using assms by (auto simp: build_create_media_buy_request_def request_body_def res_simps Let_def split: if_splits)

lemma prepare_checked:
  assumes prepared: "prepare_create_media_buy env oid args (buy_ref env args) (buy_key env) (buy_brand env args) end_time o1 = (Inr params, o2)"
    and start: "base o1 = base o'" "orch_brands o1 = orch_brands o'"
  shows "buy_checked env args o' params"
proof -
  let ?seller = "sp_seller (ba_product args)"
  let ?countries = "target_countries (oe_shown env) (ba_targeting args)"
  obtain res oa packages ob u oc account od v oe' built push reporting of' where
    brand: "on_brands (verify_operator (oe_shown env) (oe_fromiso env) (oe_brand env) False ''media_buying'' None
       (buy_brand env args) (oe_operator_domain env)) o1 = (Inr res, oa)"
    and packages: "res_map (correlate_package (buy_ref env args)) (ba_packages args) = Inr packages" "ob = oa"
    and seller: "authorize_seller env ?seller (bought_product_ids env (ba_product args) packages) ?countries ob = (Inr u, oc)"
    and account: "on_accounts (resolve_account_ref (oe_account env) (orchestrator_call (oe_net env)) ?seller
       (buy_brand env args) ''create_media_buy'' None) oc = (Inr account, od)"
    and optimized: "check_seller_optimized ?seller (ba_allocation args) od = (Inr v, oe')"
    and request: "build_create_media_buy_request (oe_version env) (create_args_of args (buy_ref env args) (buy_key env)
        (buy_brand env args) end_time account built push reporting) = Inr params"
    using prepared unfolding prepare_create_media_buy_def Let_def
    by (fastforce simp: sbind_Inr_iff py_step_def split: prod.splits)
  have oa: "base oa = base o'"
    using keepsD [OF base_keeps(1) brand] start(1) by blast
  have oc: "base oc = base o'"
    using keepsD [OF base_keeps_more(1) seller] oa packages(2) by blast
  from on_brands_Inr [OF brand] obtain b where verified: "verify_operator (oe_shown env) (oe_fromiso env) (oe_brand env)
     False ''media_buying'' None (buy_brand env args) (oe_operator_domain env) (orch_brands o') = (Inr res, b)"
    using start(2) by auto
  have products: "oe_skip_check env \<or> list_all (product_checked env ?seller ?countries (orch_products o'))
     (bought_product_ids env (ba_product args) (ba_packages args))"
  proof (cases "oe_skip_check env")
    case False
    with seller have "authorize_products env ?seller ?countries 0 (bought_product_ids env (ba_product args) packages) oa = (Inr u, oc)"
      by (simp add: authorize_seller_def packages(2))
    note ids = authorize_products_verified [OF this]
    show ?thesis unfolding list_all_iff product_checked_def
      using ids oa by (auto simp: base_def correlated_ids [OF packages(1)])
  qed simp
  from on_accounts_Inr [OF account] obtain s where resolved: "resolve_account_ref (oe_account env) (orchestrator_call (oe_net env)) ?seller
       (buy_brand env args) ''create_media_buy'' None (orch_accounts o', orch_net o') = (Inr account, s)"
    using oc by (auto simp: base_def)
  have offered: "wants_seller_optimized (ba_allocation args) \<longrightarrow> offers_seller_optimized ?seller"
    using optimized by (auto simp: check_seller_optimized_def split: if_splits)
  from verified products resolved offered built_request [OF request] show ?thesis
    unfolding buy_checked_def Let_def create_args_of_def by auto
qed

lemma session_call_of_log:
  "session_call_of env seller tool params o' = (r, o1) \<Longrightarrow>
     tool_log (orch_net o1) = tool_log (orch_net o') @ [(agent_url seller, tool, params)]"
proof -
  assume call: "session_call_of env seller tool params o' = (r, o1)"
  obtain r' n where "orchestrator_call (oe_net env) seller tool params (orch_net o') = (r', n)" by fastforce
  then show ?thesis
    using call orchestrator_call_log [of "oe_net env" seller tool params "orch_net o'"]
    by (cases r') (auto simp: session_call_of_def on_net_def map_error_def zoom_def)
qed

lemma place_buy_log:
  assumes placed: "place_buy env oid args o1 = (r, o2)"
    and start: "base o1 = base o'" "orch_brands o1 = orch_brands o'"
  shows "(\<exists>e. r = Inl e \<and> only_account_calls (tool_log (orch_net o')) (orch_net o2)) \<or>
    (\<exists>params n. buy_checked env args o' params \<and> only_account_calls (tool_log (orch_net o')) n \<and>
       tool_log (orch_net o2) = tool_log n @ [(agent_url (sp_seller (ba_product args)), ''create_media_buy'', params)])"
proof -
  have old: "only_account_calls (tool_log (orch_net o')) (orch_net o1)" using start by (simp add: base_def)
  obtain p om where prepared: "prepare_create_media_buy env oid args (buy_ref env args) (buy_key env) (buy_brand env args)
      (if ba_end args \<noteq> [] then ba_end args else oe_default_end env) o1 = (p, om)" by fastforce
  from keepsD [OF prepare_log this old] have log: "only_account_calls (tool_log (orch_net o')) (orch_net om)" .
  show ?thesis
  proof (cases p)
    case (Inl e)
    then show ?thesis using placed prepared log by (auto simp: place_buy_def sbind_def)
  next
    case (Inr params)
    with placed prepared have "session_call_of env (sp_seller (ba_product args)) ''create_media_buy'' params om = (r, o2)"
      by (simp add: place_buy_def sbind_def)
    from session_call_of_log [OF this] prepare_checked [OF prepared [unfolded Inr] start] log show ?thesis by blast
  qed
qed

lemma create_op_start:
  assumes "create_op env tool seller ref req o' = (r, o1)"
  shows "base o1 = base o' \<and> orch_brands o1 = orch_brands o'"
  using assms by (auto simp: create_op_def on_tracker_def map_error_def zoom_def base_def split: prod.splits)

lemma net_of_base: "base o1 = base o2 \<Longrightarrow> orch_net o1 = orch_net o2"
  by (simp add: base_def)

text \<open>Where a buy ends, once its request is placed or has failed.\<close>

definition failed_buy :: "orch_env \<Rightarrow> buy_args \<Rightarrow> string \<Rightarrow> buy_error \<Rightarrow> buy_result" where
  "failed_buy env args oid e =
     \<lparr>res_operation_id = oid, res_seller_name = agent_name (sp_seller (ba_product args)), res_status = ''failed'',
      res_media_buy_id = JNull, res_task_id = JNull, res_error = Some (oe_error_text env e), res_raw = []\<rparr>"

definition accepted_buy :: "buy_args \<Rightarrow> dict \<Rightarrow> tracked_operation \<Rightarrow> buy_result" where
  "accepted_buy args response p =
     \<lparr>res_operation_id = op_id p, res_seller_name = agent_name (sp_seller (ba_product args)),
      res_status = status_value (op_status p), res_media_buy_id = op_media_buy_id p,
      res_task_id = op_task_id p, res_error = None, res_raw = response\<rparr>"

definition end_buy :: "orch_env \<Rightarrow> buy_args \<Rightarrow> string \<Rightarrow> buy_error + dict \<Rightarrow> buy_result orch_action" where
  "end_buy env args oid placed =
     (case placed of
        Inl e \<Rightarrow> (if buy_failure e then sbind (fail_op env oid (oe_error_text env e)) (\<lambda>_. ret (failed_buy env args oid e))
                    else raise e)
      | Inr response \<Rightarrow> sbind (update_op env oid response) (\<lambda>p. ret (accepted_buy args response p)))"

lemma step_simps:
  "m s = (Inr x, s1) \<Longrightarrow> sbind m f s = f x s1" "m s = (Inl e, s1) \<Longrightarrow> sbind m f s = (Inl e, s1)"
  "m s = (Inr x, s1) \<Longrightarrow> handling m h s = (Inr x, s1)" "m s = (Inl e, s1) \<Longrightarrow> handling m h s = h e s1"
  by (simp_all add: sbind_def handling_def)

lemma sbind_assoc: "sbind (sbind m f) g = sbind m (\<lambda>x. sbind (f x) g)"
  by (auto simp: fun_eq_iff sbind_def split: prod.split sum.split)

lemma created_op: "\<exists>p o1. create_op env tool seller ref req o' = (Inr p, o1)"
  by (simp add: create_op_def on_tracker_def map_error_def zoom_def split: prod.splits)

lemma buy_unfold:
  assumes created: "create_op env ''create_media_buy'' (sp_seller (ba_product args)) (buy_ref env args)
      (buy_request_data env args) o' = (Inr p, o1)"
    and placed: "place_buy env (op_id p) args o1 = (q, o2)"
  shows "buy env args o' = end_buy env args (op_id p) q o2"
proof (cases q)
  case (Inl e)
  then show ?thesis
    by (simp add: buy_def Let_def sbind_def [of "create_op a b c d e" for a b c d e] created
        sbind_def [of "handling m h" for m h] handling_def sbind_def [of "place_buy a b c" for a b c] placed
        end_buy_def failed_buy_def sbind_def [of "fail_op a b c" for a b c] split: prod.split sum.split)
next
  case (Inr response)
  then show ?thesis
    by (simp add: buy_def Let_def sbind_def [of "create_op a b c d e" for a b c d e] created
        sbind_def [of "handling m h" for m h] handling_def sbind_def [of "place_buy a b c" for a b c] placed
        end_buy_def accepted_buy_def)
qed

lemma end_buy_base: "keeps (\<lambda>o'. base o' = x) (end_buy env args oid q)"
  unfolding end_buy_def by (intro keeps_case_sum keeps_sbind keeps_if keeps_simple base_keeps_more)


end
