(* ===== verification/Buy_Record.thy ===== *)
theory Buy_Record
  imports Buy_Safety
begin

text \<open>
  What the orchestrator does to its tracker.  The laws an invariant of the tracker has to meet are
  locales: of an operation that is edited and saved (\<open>saved_operation\<close>), of one that is answered and failed,
  too (\<open>answered_operation\<close>), and of all operations and new ones (\<open>tracker_laws\<close>).  They are interpreted on the
  gauge, on the rows of the table, on the connection to the database, and on the record of a buy.
\<close>

section \<open>What the operations keep of the tracker\<close>

text \<open>The columns of a row that are never written again, and what an edit in place leaves alone.\<close>

definition same_identity :: "tracked_operation \<Rightarrow> tracked_operation \<Rightarrow> bool" where
  "same_identity p q \<longleftrightarrow>
     op_id q = op_id p \<and> operation_type q = operation_type p \<and> op_seller_name q = op_seller_name p \<and>
     op_seller_url q = op_seller_url p \<and> buyer_ref q = buyer_ref p \<and> created_at q = created_at p"

definition edited :: "(tracked_operation \<Rightarrow> tracked_operation) \<Rightarrow> bool" where
  "edited f \<longleftrightarrow> (\<forall>p. same_identity p (f p) \<and> op_status (f p) = op_status p)"

lemma on_tracker_eval:
  "on_tracker act o' = (map_left PyFailed (fst (act (orch_tracker o'))), o'\<lparr>orch_tracker := snd (act (orch_tracker o'))\<rparr>)"
  by (simp add: on_tracker_def map_error_def zoom_def map_left_def split: prod.split sum.split)

locale saved_operation =
  fixes oid :: string and inv :: "op_tracker \<Rightarrow> bool"
  assumes save: "\<And>t p. inv t \<Longrightarrow> get_operation oid t = Some p \<Longrightarrow> inv (persist p t)"
    and edit: "\<And>t p f. inv t \<Longrightarrow> get_operation oid t = Some p \<Longrightarrow> edited f \<Longrightarrow> inv (store_operation (f p) t)"
begin

abbreviation holds :: "'a orch_action \<Rightarrow> bool" where
  "holds \<equiv> keeps (\<lambda>o'. inv (orch_tracker o'))"

lemma holds_untracked:
  "holds (on_net n)" "holds (on_accounts ac)" "holds (on_brands b)"
  "holds (on_authorizer a)" "holds (on_webhooks w)" "holds (py_step r)"
  by (auto simp: keeps_def on_net_def on_accounts_def on_brands_def on_authorizer_def on_webhooks_def py_step_def
      map_error_def zoom_def split: prod.splits sum.splits)

lemma holds_persist: "holds (persist_operation oid)"
  unfolding keeps_def persist_operation_def by (auto simp: save split: option.splits)

lemma holds_change: "edited f \<Longrightarrow> holds (change_operation oid f)"
  unfolding keeps_def change_operation_def by (auto simp: edit split: option.splits)

lemma holds_authorize_products: "holds (authorize_products env seller countries i pids)"
proof (induction env seller countries i pids rule: authorize_products.induct)
  case (2 env seller countries i pid pids)
  show ?case unfolding authorize_products.simps
    by (intro keeps_sbind keeps_simple holds_untracked keeps_case_option 2)
qed (simp only: authorize_products.simps keeps_simple)

lemma holds_place: "holds (place_buy env oid args)"
  unfolding place_buy_def prepare_create_media_buy_def Let_def authorize_seller_def check_seller_optimized_def
    webhook_configs_def session_call_of_def
  by (intro keeps_sbind keeps_simple keeps_case_prod keeps_if holds_untracked holds_authorize_products
      holds_change holds_persist; simp add: edited_def same_identity_def)

end

text \<open>An operation that is also answered and failed.\<close>

locale answered_operation = saved_operation +
  assumes update: "\<And>t shown now response. inv t \<Longrightarrow> inv (snd (update_from_response shown now oid response t))"
    and mark: "\<And>t now text. inv t \<Longrightarrow> inv (snd (mark_failed now oid text t))"
begin

lemma holds_tracked: "(\<And>t. inv t \<Longrightarrow> inv (snd (act t))) \<Longrightarrow> holds (on_tracker act)"
  by (simp add: keeps_def on_tracker_eval)

lemma holds_fail: "holds (fail_op env oid text)"
  unfolding fail_op_def by (intro keeps_sbind holds_persist holds_tracked mark)

lemma holds_update: "holds (update_op env oid response)"
  unfolding update_op_def by (intro keeps_sbind holds_persist keeps_simple holds_tracked update)

lemma holds_end_buy: "holds (end_buy env args oid placed)"
  unfolding end_buy_def by (intro keeps_case_sum keeps_sbind keeps_if keeps_simple holds_fail holds_update)

end

text \<open>What every operation of the orchestrator keeps, given that fresh identifiers are fresh.\<close>

locale tracker_laws =
  fixes inv :: "op_tracker \<Rightarrow> bool"
  assumes answered: "\<And>oid. answered_operation oid inv"
    and create: "\<And>t uuid now typ nm addr ref req. inv t \<Longrightarrow> get_operation uuid t = None \<Longrightarrow>
      inv (snd (create_operation uuid now typ nm addr ref req t))"

sublocale tracker_laws \<subseteq> answered_operation oid inv for oid
  by (rule answered)

context tracker_laws
begin

lemma creates:
  assumes "create_op env tool seller ref req o' = (r, o1)"
    and "inv (orch_tracker o')" and "get_operation (oe_uuid env) (orch_tracker o') = None"
  shows "inv (orch_tracker o1)"
proof -
  have "orch_tracker o1 = snd (create_operation (oe_uuid env) (oe_now env) tool (agent_name seller) (agent_url seller) ref req
      (orch_tracker o'))"
    using assms(1) by (auto simp: create_op_def on_tracker_eval split: prod.splits)
  then show ?thesis using create [OF assms(2,3)] by simp
qed

lemma kept_by_buy:
  assumes "inv (orch_tracker o')" and "get_operation (oe_uuid env) (orch_tracker o') = None"
  shows "inv (orch_tracker (snd (buy env args o')))"
proof -
  obtain p o1 where created: "create_op env ''create_media_buy'' (sp_seller (ba_product args)) (buy_ref env args)
      (buy_request_data env args) o' = (Inr p, o1)" using created_op by blast
  obtain q o2 where placed: "place_buy env (op_id p) args o1 = (q, o2)" by fastforce
  obtain r o3 where ended: "end_buy env args (op_id p) q o2 = (r, o3)" by fastforce
  from creates [OF created assms] have "inv (orch_tracker o1)" .
  with keepsD [OF holds_place placed] have "inv (orch_tracker o2)" by blast
  with keepsD [OF holds_end_buy ended] show ?thesis by (simp add: buy_unfold [OF created placed] ended)
qed

end

interpretation gauge: tracker_laws "gauge_lags lag" for lag
proof unfold_locales
  fix t p and f :: "tracked_operation \<Rightarrow> tracked_operation" and oid :: string
  assume g: "gauge_lags lag t" and p: "get_operation oid t = Some p"
  show "gauge_lags lag (persist p t)" by (rule gauge_lags_step [OF tracker_step.save [OF p] g])
  assume f: "edited f"
  have p': "op_id p = oid" "map_of (operations t) oid = Some p"
    using g p by (auto simp: gauge_lags_def get_operation_def keyed_by_id_lookup)
  have f': "op_id (f p) = oid" "op_status (f p) = op_status p" using f p' by (auto simp: edited_def same_identity_def)
  from g p' f' show "gauge_lags lag (store_operation (f p) t)"
    by (auto simp: gauge_lags_def keyed_by_id_dset count_status_present)
next
  fix t shown now oid response err
  assume g: "gauge_lags lag t"
  show "gauge_lags lag (snd (update_from_response shown now oid response t))"
    by (rule gauge_lags_step [OF tracker_step.update g])
  show "gauge_lags lag (snd (mark_failed now oid err t))" by (rule gauge_lags_step [OF tracker_step.mark g])
next
  fix t uuid now ty nm addr ref req
  assume g: "gauge_lags lag t" and "get_operation uuid t = None"
  then show "gauge_lags lag (snd (create_operation uuid now ty nm addr ref req t))"
    by (intro gauge_lags_step [OF tracker_step.create g]) (simp add: get_operation_def)
qed

section \<open>Rows\<close>

definition rows_loaded :: "op_tracker \<Rightarrow> bool" where
  "rows_loaded t \<longleftrightarrow> keyed_by_id (operations t) \<and> rows_belong t \<and>
     (\<forall>k. map_of (operations t) k = None \<longrightarrow> map_of (operations_table t) k = None)"

lemma same_identity_simps [simp]:
  "same_identity p p" "same_identity p (response_status shown st response p)" "same_identity p (response_fields response p)"
  by (auto simp: same_identity_def response_status_def response_fields_def Let_def split: option.splits)

lemma same_identity_trans: "same_identity p q \<Longrightarrow> same_identity q r \<Longrightarrow> same_identity p r"
  by (simp add: same_identity_def)

lemma rows_loaded_gauge [simp]: "rows_loaded (move_gauge a b t) = rows_loaded t"
  by (simp add: rows_loaded_def rows_belong_def)

lemma rows_loaded_edit:
  assumes "rows_loaded t" and "get_operation oid t = Some p" and "same_identity p q"
  shows "rows_loaded (store_operation q t)"
proof -
  have "op_id p = oid" using assms(1,2) by (auto simp: rows_loaded_def get_operation_def keyed_by_id_lookup)
  with assms(3) have id: "op_id q = oid" by (simp add: same_identity_def)
  show ?thesis
    using assms id unfolding rows_loaded_def rows_belong_def get_operation_def same_identity_def
    by (auto simp: keyed_by_id_dset)
qed

lemma rows_loaded_persist:
  assumes "rows_loaded t" and "get_operation oid t = Some p"
  shows "rows_loaded (persist p t)"
proof (cases "db_enabled t")
  case True
  have keyed: "keyed_by_id (operations t)" and rows: "rows_belong t" using assms(1) by (simp_all add: rows_loaded_def)
  from persist_row [OF True rows keyed assms(2)] obtain r where
    r: "map_of (operations_table (persist p t)) oid = Some r" "reloads t p (operation_of_row r)"
    and sound: "distinct (map fst (operations_table (persist p t)))"
      "\<forall>(k, r) \<in> set (operations_table (persist p t)). row_id r = k" by blast
  have id: "op_id p = oid" using assms(2) keyed by (auto simp: get_operation_def keyed_by_id_lookup)
  have other: "k \<noteq> oid \<Longrightarrow> map_of (operations_table (persist p t)) k = map_of (operations_table t) k" for k
    by (simp add: persist_def id split: option.split)
  have agree: "row_type r = operation_type p \<and> row_seller_name r = op_seller_name p \<and>
        row_seller_url r = op_seller_url p \<and> row_buyer_ref r = buyer_ref p \<and> row_created_at r = created_at p"
    using reloads_fields [OF r(2)] by (simp add: operation_of_row_def)
  have "row_type x = operation_type q \<and> row_seller_name x = op_seller_name q \<and>
        row_seller_url x = op_seller_url q \<and> row_buyer_ref x = buyer_ref q \<and> row_created_at x = created_at q"
    if "map_of (operations t) k = Some q" "map_of (operations_table (persist p t)) k = Some x" for k q x
  proof (cases "k = oid")
    case True
    with that r(1) assms(2) agree show ?thesis by (simp add: get_operation_def)
  next
    case False
    with that rows show ?thesis unfolding rows_belong_def other [OF False] by blast
  qed
  moreover have "map_of (operations t) k = None \<Longrightarrow> map_of (operations_table (persist p t)) k = None" for k
    using assms other [of k] unfolding rows_loaded_def get_operation_def by (cases "k = oid") auto
  ultimately show ?thesis
    using sound keyed unfolding rows_loaded_def rows_belong_def persist_simps by blast
qed (use assms in \<open>simp add: persist_def\<close>)

interpretation rows: tracker_laws rows_loaded
proof unfold_locales
  fix t p and f :: "tracked_operation \<Rightarrow> tracked_operation" and oid :: string
  assume t: "rows_loaded t" and p: "get_operation oid t = Some p"
  from rows_loaded_persist [OF t p] show "rows_loaded (persist p t)" .
  assume "edited f"
  then show "rows_loaded (store_operation (f p) t)" by (intro rows_loaded_edit [OF t p]) (simp add: edited_def)
next
  fix t shown now oid response err
  assume t: "rows_loaded t"
  show "rows_loaded (snd (update_from_response shown now oid response t))"
  proof (cases "get_operation oid t")
    case (Some p)
    note edit = rows_loaded_edit [OF t Some]
    have id: "same_identity p (p\<lparr>updated_at := now, response_data := response\<rparr>)" by (simp add: same_identity_def)
    have "same_identity p (response_fields response (response_status shown st response
        (p\<lparr>updated_at := now, response_data := response\<rparr>)))" for st
      by (rule same_identity_trans [OF id]) (rule same_identity_trans [OF same_identity_simps(2) same_identity_simps(3)])
    then show ?thesis
      using Some edit [OF id] edit
      by (simp add: update_from_response_def get_operation_def Let_def split: json.split)
  qed (use t in \<open>simp add: update_from_response_def get_operation_def\<close>)
  show "rows_loaded (snd (mark_failed now oid err t))"
  proof (cases "get_operation oid t")
    case (Some p)
    with rows_loaded_edit [OF t Some] show ?thesis
      by (simp add: mark_failed_def get_operation_def Let_def same_identity_def)
  qed (use t in \<open>simp add: mark_failed_def get_operation_def\<close>)
next
  fix t uuid now ty nm addr ref req
  assume t: "rows_loaded t" and fresh: "get_operation uuid t = None"
  let ?p = "new_operation uuid ty nm addr ref req now"
  obtain t1 where t1: "snd (create_operation uuid now ty nm addr ref req t) = persist ?p t1"
    "operations t1 = dset uuid ?p (operations t)" "operations_table t1 = operations_table t"
    by (simp add: create_operation_def Let_def)
  have "rows_loaded t1"
    using t fresh unfolding rows_loaded_def rows_belong_def get_operation_def t1
    by (auto simp: keyed_by_id_dset new_operation_def simp del: map_of_eq_Some_iff)
  with rows_loaded_persist [of t1 uuid ?p] show "rows_loaded (snd (create_operation uuid now ty nm addr ref req t))"
    by (simp add: t1 get_operation_def)
qed

section \<open>Every buy is on record\<close>

text \<open>The operation has the status in memory and, when there is a database, in its row.\<close>

definition recorded :: "string \<Rightarrow> task_status \<Rightarrow> op_tracker \<Rightarrow> bool" where
  "recorded oid st t \<longleftrightarrow>
     (\<exists>p. get_operation oid t = Some p \<and> op_id p = oid \<and> op_status p = st) \<and>
     (db_enabled t \<longrightarrow> (\<exists>r. map_of (operations_table t) oid = Some r \<and> row_status r = status_value st))"

lemma row_status_simps [simp]:
  "row_status (new_row p) = status_value (op_status p)"
  by (simp add: new_row_def)

lemma recorded_persist:
  "get_operation oid t = Some p \<Longrightarrow> op_id p = oid \<Longrightarrow> recorded oid (op_status p) (persist p t)"
  by (auto simp: recorded_def persist_def get_operation_def split: option.split)

interpretation standing: saved_operation oid "recorded oid st" for oid st
proof unfold_locales
  fix t p and f :: "tracked_operation \<Rightarrow> tracked_operation"
  assume t: "recorded oid st t" and p: "get_operation oid t = Some p"
  then have id: "op_id p = oid" "op_status p = st" by (auto simp: recorded_def)
  from recorded_persist [OF p id(1)] show "recorded oid st (persist p t)" by (simp add: id)
  assume "edited f"
  with id have "op_id (f p) = oid" "op_status (f p) = st" by (simp_all add: edited_def same_identity_def)
  with t show "recorded oid st (store_operation (f p) t)"
    by (auto simp: recorded_def get_operation_def store_operation_def)
qed

section \<open>How a buy ends\<close>

lemma created_recorded:
  assumes "create_op env tool seller ref req o' = (Inr p, o1)"
  shows "op_id p = oe_uuid env \<and> recorded (oe_uuid env) PENDING (orch_tracker o1)"
proof -
  let ?p = "new_operation (oe_uuid env) tool (agent_name seller) (agent_url seller) ref req (oe_now env)"
  have new: "op_id ?p = oe_uuid env" "op_status ?p = PENDING" by (simp_all add: new_operation_def)
  obtain t where t: "create_operation (oe_uuid env) (oe_now env) tool (agent_name seller) (agent_url seller) ref req
      (orch_tracker o') = (?p, persist ?p t)" "get_operation (oe_uuid env) t = Some ?p"
    by (simp add: create_operation_def get_operation_def Let_def)
  have "p = ?p" "orch_tracker o1 = persist ?p t"
    using assms t(1) by (auto simp: create_op_def on_tracker_def map_error_def zoom_def)
  with recorded_persist [OF t(2)] new show ?thesis by simp
qed

lemma persisted_stored:
  assumes "get_operation oid (orch_tracker o1) = Some p" and "op_id p = oid"
  shows "\<exists>o2. persist_operation oid o1 = (Inr (), o2) \<and> recorded oid (op_status p) (orch_tracker o2) \<and>
    get_operation oid (orch_tracker o2) = Some p \<and> orch_tracker o2 = persist p (orch_tracker o1)"
  using assms recorded_persist [OF assms] by (simp add: persist_operation_def) (simp add: get_operation_def)

lemma fail_op_records:
  assumes "recorded oid st (orch_tracker o1)"
  shows "\<exists>o2 p. fail_op env oid text o1 = (Inr (), o2) \<and> recorded oid FAILED (orch_tracker o2) \<and>
    get_operation oid (orch_tracker o2) = Some p \<and> op_error p = JStr text \<and>
    orch_tracker o2 = persist p (snd (mark_failed (oe_later env) oid text (orch_tracker o1)))"
proof -
  from assms obtain p where p: "get_operation oid (orch_tracker o1) = Some p" "op_id p = oid" by (auto simp: recorded_def)
  define p' where "p' = p\<lparr>op_status := FAILED, op_error := JStr text, updated_at := oe_later env\<rparr>"
  define om where "om = o1\<lparr>orch_tracker := snd (mark_failed (oe_later env) oid text (orch_tracker o1))\<rparr>"
  have marked: "on_tracker (mark_failed (oe_later env) oid text) o1 = (Inr p', om)"
    using p by (simp add: on_tracker_eval mark_failed_def get_operation_def p'_def om_def Let_def)
  have "get_operation oid (orch_tracker om) = Some p'" "op_id p' = oid"
    using p by (simp_all add: om_def mark_failed_def get_operation_def p'_def Let_def)
  from persisted_stored [OF this] obtain o2 where "persist_operation oid om = (Inr (), o2)"
    "recorded oid FAILED (orch_tracker o2)" "get_operation oid (orch_tracker o2) = Some p'"
    "orch_tracker o2 = persist p' (orch_tracker om)" by (auto simp: p'_def)
  then show ?thesis using marked by (auto simp: fail_op_def sbind_def p'_def om_def)
qed

lemma update_op_records:
  assumes "recorded oid st (orch_tracker o1)"
  shows "(\<exists>o2 p. update_op env oid response o1 = (Inr p, o2) \<and> op_id p = oid \<and> is_str (get_or response ''status'' (JStr [])) \<and>
      recorded oid (op_status p) (orch_tracker o2) \<and> get_operation oid (orch_tracker o2) = Some p \<and>
      orch_tracker o2 = persist p (snd (update_from_response (oe_shown env) (oe_later env) oid response (orch_tracker o1)))) \<or>
    (\<exists>o2. update_op env oid response o1 = (Inl (PyFailed AttributeError), o2) \<and>
      \<not> is_str (get_or response ''status'' (JStr [])) \<and> recorded oid st (orch_tracker o2))"
proof -
  from assms obtain p where p: "get_operation oid (orch_tracker o1) = Some p" "op_id p = oid" "op_status p = st"
    by (auto simp: recorded_def)
  define r where "r = update_from_response (oe_shown env) (oe_later env) oid response (orch_tracker o1)"
  have run: "on_tracker (update_from_response (oe_shown env) (oe_later env) oid response) o1 =
      (map_left PyFailed (fst r), o1\<lparr>orch_tracker := snd r\<rparr>)" by (simp add: on_tracker_eval r_def)
  show ?thesis
  proof (cases "is_str (get_or response ''status'' (JStr []))")
    case True
    then obtain s where s: "get_or response ''status'' (JStr []) = JStr s" by (cases "get_or response ''status'' (JStr [])") auto
    define p' where "p' = response_fields response (response_status (oe_shown env) (dashed (lower s)) response
        (p\<lparr>updated_at := oe_later env, response_data := response\<rparr>))"
    have r: "fst r = Inr p'" "get_operation oid (snd r) = Some p'" and "op_id p' = oid"
      using p by (simp_all add: r_def update_from_response_def s get_operation_def p'_def Let_def)
    from persisted_stored [of oid "o1\<lparr>orch_tracker := snd r\<rparr>" p'] r(2) this obtain o2 where
      "persist_operation oid (o1\<lparr>orch_tracker := snd r\<rparr>) = (Inr (), o2)"
      "recorded oid (op_status p') (orch_tracker o2)" "get_operation oid (orch_tracker o2) = Some p'"
      "orch_tracker o2 = persist p' (snd r)" by auto
    with run r(1) \<open>op_id p' = oid\<close> True show ?thesis by (auto simp: update_op_def sbind_def r_def)
  next
    case False
    then have "fst r = Inl AttributeError" "recorded oid st (snd r)"
      using p assms
      by (auto simp: r_def update_from_response_def get_operation_def recorded_def store_operation_def Let_def split: json.split)
    with run False show ?thesis by (auto simp: update_op_def sbind_def)
  qed
qed

lemma buy_recorded:
  "case buy env args o' of
     (Inl e, o1) \<Rightarrow> \<not> buy_failure e \<and> recorded (oe_uuid env) PENDING (orch_tracker o1)
   | (Inr res, o1) \<Rightarrow> res_operation_id res = oe_uuid env \<and>
       (\<exists>p. get_operation (oe_uuid env) (orch_tracker o1) = Some p \<and>
          recorded (oe_uuid env) (op_status p) (orch_tracker o1) \<and> res_status res = status_value (op_status p) \<and>
          (case res_error res of Some text \<Rightarrow> op_status p = FAILED \<and> op_error p = JStr text
           | None \<Rightarrow> res_media_buy_id res = op_media_buy_id p \<and> res_task_id res = op_task_id p))"
proof -
  obtain p o1 where created: "create_op env ''create_media_buy'' (sp_seller (ba_product args)) (buy_ref env args)
      (buy_request_data env args) o' = (Inr p, o1)" using created_op by blast
  obtain q o2 where placed: "place_buy env (op_id p) args o1 = (q, o2)" by fastforce
  have p: "op_id p = oe_uuid env" and "recorded (oe_uuid env) PENDING (orch_tracker o1)"
    using created_recorded [OF created] by simp_all
  with keepsD [OF standing.holds_place placed] have pending: "recorded (oe_uuid env) PENDING (orch_tracker o2)" by simp
  have bought: "buy env args o' = end_buy env args (oe_uuid env) q o2" using buy_unfold [OF created placed] p by simp
  show ?thesis
  proof (cases q)
    case (Inl e)
    from fail_op_records [OF pending, of env "oe_error_text env e"] obtain o3 p3 where
      "fail_op env (oe_uuid env) (oe_error_text env e) o2 = (Inr (), o3)" "recorded (oe_uuid env) FAILED (orch_tracker o3)"
      "get_operation (oe_uuid env) (orch_tracker o3) = Some p3" "op_error p3 = JStr (oe_error_text env e)" by blast
    moreover from calculation have "op_status p3 = FAILED" by (auto simp: recorded_def)
    ultimately show ?thesis
      using pending unfolding bought by (auto simp: end_buy_def Inl sbind_def failed_buy_def)
  next
    case (Inr response)
    from update_op_records [OF pending, of env response] show ?thesis
      unfolding bought by (auto simp: end_buy_def Inr sbind_def accepted_buy_def buy_failure_def)
  qed
qed


section \<open>A buy survives a crash\<close>

interpretation database: tracker_laws db_enabled
  by unfold_locales
     (auto simp: persist_def store_operation_def update_from_response_def mark_failed_def create_operation_def Let_def
       split: option.split json.split)

text \<open>The tracker as it starts again from what is in the table.\<close>

definition restarted :: "op_tracker \<Rightarrow> op_tracker" where
  "restarted t = tracker_init_db ((new_tracker (flush_clock t))\<lparr>operations_table := operations_table t\<rparr>)"

lemma end_buy_saved:
  assumes ended: "end_buy env args oid q o2 = (Inr res, o3)"
    and start: "recorded oid st (orch_tracker o2)" "rows_loaded (orch_tracker o2)" "db_enabled (orch_tracker o2)"
  shows "\<exists>p t. get_operation oid t = Some p \<and> rows_loaded t \<and> db_enabled t \<and> orch_tracker o3 = persist p t"
proof (cases q)
  case (Inl e)
  let ?t = "snd (mark_failed (oe_later env) oid (oe_error_text env e) (orch_tracker o2))"
  from fail_op_records [OF start(1)] obtain o4 p where
    "fail_op env oid (oe_error_text env e) o2 = (Inr (), o4)" "get_operation oid (orch_tracker o4) = Some p"
    "orch_tracker o4 = persist p ?t" by blast
  moreover from this ended Inl have "o4 = o3" by (auto simp: end_buy_def sbind_def split: if_splits)
  moreover have "rows_loaded ?t" "db_enabled ?t" using start by (auto intro: rows.mark database.mark)
  ultimately show ?thesis by (auto simp: get_operation_def)
next
  case (Inr response)
  let ?t = "snd (update_from_response (oe_shown env) (oe_later env) oid response (orch_tracker o2))"
  have t: "rows_loaded ?t" "db_enabled ?t" using start by (auto intro: rows.update database.update)
  from ended Inr obtain p where updated: "update_op env oid response o2 = (Inr p, o3)"
    by (auto simp: end_buy_def sbind_Inr_iff)
  with update_op_records [OF start(1), of env response] have
    "get_operation oid (orch_tracker o3) = Some p" "orch_tracker o3 = persist p ?t" by auto
  with t show ?thesis by (auto simp: get_operation_def)
qed

lemma persisted_restarts:
  assumes "get_operation oid t = Some p" and "rows_loaded t" and "db_enabled t"
  shows "\<exists>q. get_operation oid (restarted (persist p t)) = Some q \<and> reloads t p q"
proof -
  from persist_row [OF assms(3) _ _ assms(1)] assms(2) obtain r where
    "map_of (operations_table (persist p t)) oid = Some r" "reloads t p (operation_of_row r)"
    "distinct (map fst (operations_table (persist p t)))"
    "\<forall>(k, r) \<in> set (operations_table (persist p t)). row_id r = k" by (auto simp: rows_loaded_def)
  then show ?thesis
    by (simp add: restarted_def get_operation_def tracker_init_db_def new_tracker_def load_lookup)
qed

text \<open>
  C23. After a buy that returned, a tracker started again from the table holds the operation the running one
  holds, with the status that was reported to the caller and every other field; only the time of its last
  change may be the later one at which the ORM wrote the row.
\<close>

theorem buy_survives_crash:
  assumes bought: "buy env args o' = (Inr res, o1)"
    and sound: "rows_loaded (orch_tracker o')" "db_enabled (orch_tracker o')"
    and fresh: "get_operation (oe_uuid env) (orch_tracker o') = None"
  shows "\<exists>p u. get_operation (res_operation_id res) (restarted (orch_tracker o1)) = Some (p\<lparr>updated_at := u\<rparr>) \<and>
    get_operation (res_operation_id res) (orch_tracker o1) = Some p \<and> res_status res = status_value (op_status p) \<and>
    (u = updated_at p \<or> (\<exists>r. u = flush_clock (orch_tracker o1) p r))"
proof -
  obtain p o2 where created: "create_op env ''create_media_buy'' (sp_seller (ba_product args)) (buy_ref env args)
      (buy_request_data env args) o' = (Inr p, o2)" using created_op by blast
  obtain q o3 where placed: "place_buy env (op_id p) args o2 = (q, o3)" by fastforce
  have p: "op_id p = oe_uuid env" and "recorded (oe_uuid env) PENDING (orch_tracker o2)"
    using created_recorded [OF created] by simp_all
  with keepsD [OF standing.holds_place placed] have pending: "recorded (oe_uuid env) PENDING (orch_tracker o3)" by simp
  have kept: "rows_loaded (orch_tracker o3)" "db_enabled (orch_tracker o3)"
    using keepsD [OF rows.holds_place placed rows.creates [OF created sound(1) fresh]]
      keepsD [OF database.holds_place placed database.creates [OF created sound(2) fresh]] by simp_all
  have ended: "end_buy env args (oe_uuid env) q o3 = (Inr res, o1)" using buy_unfold [OF created placed] p bought by simp
  from end_buy_saved [OF ended pending kept] obtain p' t where
    t: "get_operation (oe_uuid env) t = Some p'" "rows_loaded t" "db_enabled t" "orch_tracker o1 = persist p' t" by blast
  have "get_operation (oe_uuid env) (orch_tracker o1) = Some p'" using t by (simp add: get_operation_def)
  moreover have "res_operation_id res = oe_uuid env \<and> (\<exists>p. get_operation (oe_uuid env) (orch_tracker o1) = Some p \<and>
      res_status res = status_value (op_status p))"
    using buy_recorded [of env args o'] bought by auto
  ultimately show ?thesis using persisted_restarts [OF t(1,2,3)] t(4) by (auto simp: reloads_def)
qed

end
