(* ===== verification/Orchestrator_Ops.thy ===== *)
theory Orchestrator_Ops
  imports Orchestrator_Buy
begin

text \<open>
  The other operations of \<open>src/buying/orchestrator.py\<close>: updates of an existing buy, creatives,
  feedback, accounts, signals, delivery, polling, reconciliation with the sellers' task lists, and
  human input.  \<open>ValueError\<close> (an unknown seller, a missing id) is \<^term>\<open>PyFailed ValueError\<close>.
\<close>

section \<open>Existing buys\<close>

definition seller_at :: "string \<Rightarrow> seller_agent orch_action" where
  "seller_at url =
     sbind (asking (find_seller_by_url url)) (\<lambda>found.
       case found of Some s \<Rightarrow> ret s | None \<Rightarrow> raise (PyFailed ValueError))"

text \<open>\<open>media_buy_id\<close> and \<open>buyer_ref\<close> are empty when they are not given.\<close>

definition tracked_buy :: "seller_agent \<Rightarrow> string \<Rightarrow> string \<Rightarrow> op_tracker \<Rightarrow> tracked_operation option" where
  "tracked_buy seller media_buy_id ref t =
     List.find (\<lambda>p. operation_type p = ''create_media_buy'' \<and> same_seller (op_seller_url p) (agent_url seller) \<and>
         (media_buy_id \<noteq> [] \<and> op_media_buy_id p = JStr media_buy_id \<or> ref \<noteq> [] \<and> buyer_ref p = JStr ref))
       (list_all_operations t)"

definition default_brand :: "orch_env \<Rightarrow> dict" where
  "default_brand env = brand_ref env [] [] [] []"

definition id_or :: "string \<Rightarrow> json \<Rightarrow> json" where
  "id_or given other = (if given \<noteq> [] then JStr given else other)"

definition account_for_existing_buy ::
  "orch_env \<Rightarrow> seller_agent \<Rightarrow> string \<Rightarrow> string \<Rightarrow> string \<Rightarrow> (dict \<times> json) orch_action" where
  "account_for_existing_buy env seller media_buy_id ref task =
     sbind (asking (\<lambda>o'. tracked_buy seller media_buy_id ref (orch_tracker o'))) (\<lambda>tracked.
     let found_id = (case tracked of Some p \<Rightarrow> op_media_buy_id p | None \<Rightarrow> JNull);
         resolve = sbind (on_accounts (resolve_account_ref (oe_account env) (orchestrator_call (oe_net env)) seller
             (default_brand env) task (Some False))) (\<lambda>account. ret (account, id_or media_buy_id found_id))
     in case tracked of
          Some p \<Rightarrow>
            (case getj (request_data p) ''account'' of
               JObj account \<Rightarrow> ret (account, id_or media_buy_id found_id) | _ \<Rightarrow> resolve)
        | None \<Rightarrow> resolve)"

text \<open>A mutation whose outcome is tracked: the error of the seller fails the operation and goes on.\<close>

definition seller_failure :: "buy_error \<Rightarrow> bool" where
  "seller_failure e = (case e of SellerFailed (SellerFailure x) \<Rightarrow> True | _ \<Rightarrow> False)"

definition tracked_call ::
  "orch_env \<Rightarrow> seller_agent \<Rightarrow> string \<Rightarrow> string \<Rightarrow> dict \<Rightarrow> dict \<Rightarrow> dict orch_action" where
  "tracked_call env seller tool ref params req =
     sbind (create_op env tool seller ref req) (\<lambda>p.
     sbind (handling (session_call_of env seller tool (with_version (oe_version env) params))
         (\<lambda>e. if seller_failure e then sbind (fail_op env (op_id p) (oe_error_text env e)) (\<lambda>_. raise e) else raise e))
       (\<lambda>response. sbind (update_op env (op_id p) response) (\<lambda>_. ret response)))"

definition update_media_buy_op ::
  "orch_env \<Rightarrow> string \<Rightarrow> string \<Rightarrow> string \<Rightarrow> dict \<Rightarrow> dict orch_action" where
  "update_media_buy_op env url media_buy_id ref kwargs =
     sbind (seller_at url) (\<lambda>seller.
     sbind (account_for_existing_buy env seller media_buy_id ref ''update_media_buy'') (\<lambda>(account, resolved_id).
       if \<not> truthy resolved_id then raise (PyFailed ValueError)
       else
         let p0 = [(''idempotency_key'', JStr (buy_key env)), (''account'', JObj account), (''media_buy_id'', resolved_id)];
             given = (\<lambda>k d. dset_if (getj kwargs k \<noteq> JNull) k (getj kwargs k) d)
         in tracked_call env seller ''update_media_buy'' ref
              (given ''packages'' (given ''end_time'' (given ''paused'' p0)))
              (dict_update [(''media_buy_id'', resolved_id), (''account'', JObj account),
                 (''idempotency_key'', JStr (buy_key env))] kwargs)))"

definition sync_creatives_op :: "orch_env \<Rightarrow> string \<Rightarrow> dict list \<Rightarrow> string \<Rightarrow> dict orch_action" where
  "sync_creatives_op env url creatives media_buy_id =
     sbind (seller_at url) (\<lambda>seller.
     sbind (account_for_existing_buy env seller media_buy_id [] ''sync_creatives'') (\<lambda>(account, _).
       tracked_call env seller ''sync_creatives'' []
         (dset_if (media_buy_id \<noteq> []) ''media_buy_id'' (JStr media_buy_id)
            [(''idempotency_key'', JStr (buy_key env)), (''account'', JObj account), (''creatives'', JArr (map JObj creatives))])
         [(''media_buy_id'', if media_buy_id \<noteq> [] then JStr media_buy_id else JNull),
          (''creative_count'', JInt (int (length creatives))), (''account'', JObj account),
          (''idempotency_key'', JStr (buy_key env))]))"

section \<open>Plain calls\<close>

definition list_creatives_op :: "orch_env \<Rightarrow> string \<Rightarrow> dict \<Rightarrow> dict orch_action" where
  "list_creatives_op env url filters =
     sbind (seller_at url) (\<lambda>seller.
       session_call_of env seller ''list_creatives'' (dset_if (filters \<noteq> []) ''filters'' (JObj filters) []))"

definition provide_feedback_op :: "orch_env \<Rightarrow> string \<Rightarrow> string \<Rightarrow> json \<Rightarrow> dict \<Rightarrow> dict orch_action" where
  "provide_feedback_op env url media_buy_id index period =
     sbind (seller_at url) (\<lambda>seller.
       session_call_of env seller ''provide_performance_feedback''
         [(''idempotency_key'', JStr (buy_key env)), (''media_buy_id'', JStr media_buy_id),
          (''performance_index'', index), (''measurement_period'', JObj period)])"

definition list_accounts_op :: "orch_env \<Rightarrow> string \<Rightarrow> string \<Rightarrow> bool option \<Rightarrow> seller_account list orch_action" where
  "list_accounts_op env url status sandbox =
     sbind (seller_at url) (\<lambda>seller.
       on_accounts (list_accounts (oe_account env) (orchestrator_call (oe_net env)) seller [] status sandbox))"

definition sync_accounts_op ::
  "orch_env \<Rightarrow> string \<Rightarrow> string \<Rightarrow> string \<Rightarrow> string list \<Rightarrow> string \<Rightarrow> bool \<Rightarrow> seller_account list orch_action" where
  "sync_accounts_op env url brand_domain brand_id countries billing dry_run =
     sbind (seller_at url) (\<lambda>seller.
     let brand = brand_ref env brand_domain brand_id countries []
     in sbind (on_brands (verify_operator (oe_shown env) (oe_fromiso env) (oe_brand env) False ''media_buying'' None brand
                 (oe_operator_domain env))) (\<lambda>_.
          on_accounts (sync_accounts (oe_account env) (orchestrator_call (oe_net env)) seller brand billing dry_run)))"

definition get_signals_op :: "orch_env \<Rightarrow> string \<Rightarrow> string \<Rightarrow> dict list \<Rightarrow> dict orch_action" where
  "get_signals_op env url brief platforms =
     sbind (seller_at url) (\<lambda>seller. session_call_of env seller ''get_signals'' (get_signals_params brief platforms))"

definition activate_signal_op :: "orch_env \<Rightarrow> string \<Rightarrow> string \<Rightarrow> dict \<Rightarrow> dict orch_action" where
  "activate_signal_op env url signal_id platform =
     sbind (seller_at url) (\<lambda>seller. session_call_of env seller ''activate_signal'' (activate_signal_params signal_id platform))"

definition check_delivery :: "orch_env \<Rightarrow> seller_agent \<Rightarrow> string \<Rightarrow> dict orch_action" where
  "check_delivery env seller media_buy_id =
     session_call_of env seller ''get_media_buy_delivery'' (get_delivery_params media_buy_id)"

section \<open>Polling and reconciliation\<close>

definition count_poll :: "tracked_operation \<Rightarrow> tracked_operation" where
  "count_poll p = p\<lparr>poll_count := poll_count p + 1\<rparr>"

definition poll_operation :: "orch_env \<Rightarrow> tracked_operation \<Rightarrow> seller_agent \<Rightarrow> (string \<times> string) orch_action" where
  "poll_operation env p seller =
     sbind (session_call_of env seller ''tasks/get''
              [(''task_id'', op_task_id p), (''include_result'', JBool True)]) (\<lambda>response.
     sbind (on_tracker (update_from_response (oe_shown env) (oe_later env) (op_id p) response)) (\<lambda>p'.
     sbind (change_operation (op_id p) count_poll) (\<lambda>_.
     sbind (persist_operation (op_id p)) (\<lambda>_.
       ret (op_id p', status_value (op_status p'))))))"

text \<open>Whatever goes wrong with one operation is logged.\<close>

fun poll_operations :: "orch_env \<Rightarrow> tracked_operation list \<Rightarrow> (string \<times> string) list orch_action" where
  "poll_operations env [] = ret []"
| "poll_operations env (p # ps) =
     (if \<not> truthy (op_task_id p) then poll_operations env ps
      else
        sbind (asking (find_seller_by_url (op_seller_url p))) (\<lambda>found.
          case found of
            None \<Rightarrow> poll_operations env ps
          | Some seller \<Rightarrow>
              sbind (handling (sbind (poll_operation env p seller) (\<lambda>r. ret [r])) (\<lambda>e. ret [])) (\<lambda>r.
              sbind (poll_operations env ps) (\<lambda>rs. ret (r @ rs)))))"

definition poll_pending_operations :: "orch_env \<Rightarrow> (string \<times> string) list orch_action" where
  "poll_pending_operations env =
     sbind (asking (\<lambda>o'. get_pending (orch_tracker o'))) (\<lambda>pending. poll_operations env pending)"

definition list_seller_tasks :: "orch_env \<Rightarrow> seller_agent \<Rightarrow> string list \<Rightarrow> dict orch_action" where
  "list_seller_tasks env seller statuses =
     session_call_of env seller ''tasks/list''
       (dset_if (statuses \<noteq> []) ''filters'' (JObj [(''statuses'', JArr (map JStr statuses))]) [])"

record reconciliation =
  missing_from_client :: "json list"
  missing_from_server :: "json list"
  total_pending :: nat

text \<open>The ids in the tasks of an answer; ids are put in a set, so they must be hashable.\<close>

definition hashable :: "json \<Rightarrow> bool" where
  "hashable v \<longleftrightarrow> \<not> is_obj v \<and> \<not> is_arr v"

fun task_ids :: "json list \<Rightarrow> py_exn + json list" where
  "task_ids [] = Inr []"
| "task_ids (JObj t # ts) =
     (let tid = getj t ''task_id''
      in if truthy tid \<and> \<not> hashable tid then Inl TypeError
         else res_bind (task_ids ts) (\<lambda>ids. Inr (if truthy tid then tid # ids else ids)))"
| "task_ids (t # ts) = Inl AttributeError"

definition client_task_ids :: "seller_agent \<Rightarrow> op_tracker \<Rightarrow> json list" where
  "client_task_ids seller t =
     map op_task_id (filter (\<lambda>p. same_seller (op_seller_url p) (agent_url seller) \<and> truthy (op_task_id p)) (get_pending t))"

text \<open>
  Two sets are compared; the lists made of them are in the order of the originals, without
  repetitions.  \<open>len\<close> counts the tasks as they came.
\<close>

definition compare_tasks :: "seller_agent \<Rightarrow> op_tracker \<Rightarrow> json \<Rightarrow> py_exn + reconciliation" where
  "compare_tasks seller t tasks =
     res_bind (py_iter tasks) (\<lambda>items.
     res_bind (task_ids items) (\<lambda>server.
       let client = client_task_ids seller t
       in if \<not> list_all hashable client then Inl TypeError
          else Inr \<lparr>missing_from_client = remdups (filter (\<lambda>i. i \<notin> set client) server),
                    missing_from_server = remdups (filter (\<lambda>i. i \<notin> set server) client),
                    total_pending = length items\<rparr>))"

text \<open>\<^const>\<open>None\<close> when the list of tasks cannot be had.\<close>

definition reconcile_state :: "orch_env \<Rightarrow> seller_agent \<Rightarrow> reconciliation option orch_action" where
  "reconcile_state env seller =
     sbind (handling
         (sbind (list_seller_tasks env seller [''submitted'', ''working'', ''input-required'']) (\<lambda>r. ret (Some r)))
         (\<lambda>e. ret None)) (\<lambda>answer.
       case answer of
         None \<Rightarrow> ret None
       | Some remote \<Rightarrow>
           sbind (asking (\<lambda>o'. compare_tasks seller (orch_tracker o') (get_or remote ''tasks'' (JArr [])))) (\<lambda>r.
           sbind (py_step r) (\<lambda>rec. ret (Some rec))))"

definition reconcile_all_sellers :: "orch_env \<Rightarrow> (json \<times> reconciliation option) list orch_action" where
  "reconcile_all_sellers env =
     sbind (asking (\<lambda>o'. filter (\<lambda>s. list_ex (\<lambda>p. same_seller (op_seller_url p) (agent_url s))
         (get_pending (orch_tracker o'))) (orch_sellers o'))) (\<lambda>sellers.
       smap (\<lambda>s. sbind (reconcile_state env s) (\<lambda>r. ret (agent_name s, r))) sellers)"

section \<open>Human input\<close>

datatype human_input = TextInput string | DataInput dict

definition input_params :: "tracked_operation \<Rightarrow> human_input \<Rightarrow> dict" where
  "input_params p input =
     (let p0 = dset_if (truthy (op_context_id p)) ''context_id'' (op_context_id p) []
      in case input of TextInput s \<Rightarrow> dset ''additional_info'' (JStr s) p0 | DataInput d \<Rightarrow> dict_update p0 d)"

text \<open>Any exception of the call or of the update fails the operation and goes on.\<close>

definition provide_input :: "orch_env \<Rightarrow> string \<Rightarrow> human_input \<Rightarrow> dict orch_action" where
  "provide_input env oid input =
     sbind (asking (\<lambda>o'. get_operation oid (orch_tracker o'))) (\<lambda>found.
       case found of
         None \<Rightarrow> raise (PyFailed ValueError)
       | Some p \<Rightarrow>
           if op_status p \<noteq> INPUT_REQUIRED then raise (PyFailed ValueError)
           else
             sbind (seller_at (op_seller_url p)) (\<lambda>seller.
               handling
                 (sbind (session_call_of env seller (operation_type p) (input_params p input)) (\<lambda>response.
                  sbind (update_op env oid response) (\<lambda>_. ret response)))
                 (\<lambda>e. sbind (fail_op env oid (''Input submission failed: '' @ oe_error_text env e)) (\<lambda>_. raise e))))"

end
