(* ===== verification/Orchestrator_Safety.thy ===== *)
theory Orchestrator_Safety
  imports Buy_Record Orchestrator_Ops
begin

text \<open>
  What holds across the operations of the orchestrator: the tracker stays sound under all of them, and
  an update of a buy uses the account the buy was made under.  A concrete buy closes the theory.
\<close>

section \<open>The tracker under every operation\<close>

abbreviation tracker_untouched :: "'a orch_action \<Rightarrow> bool" where
  "tracker_untouched act \<equiv> (\<forall>t. keeps (\<lambda>o'. orch_tracker o' = t) act)"

lemma untouched_parts:
  "keeps (\<lambda>o'. orch_tracker o' = t) (on_net n)" "keeps (\<lambda>o'. orch_tracker o' = t) (on_accounts ac)"
  "keeps (\<lambda>o'. orch_tracker o' = t) (on_brands b)" "keeps (\<lambda>o'. orch_tracker o' = t) (py_step r)"
  by (auto simp: keeps_def on_net_def on_accounts_def on_brands_def py_step_def map_error_def zoom_def
      split: prod.splits sum.splits)

lemma untouched_seller_at: "keeps (\<lambda>o'. orch_tracker o' = t) (seller_at url)"
  unfolding seller_at_def by (intro keeps_sbind keeps_case_option keeps_simple)

lemma untouched_existing: "keeps (\<lambda>o'. orch_tracker o' = t) (account_for_existing_buy env seller mid ref task)"
  unfolding account_for_existing_buy_def Let_def
  by (intro keeps_sbind keeps_case_option keeps_simple untouched_parts)
     (simp split: json.split, intro conjI allI impI keeps_sbind keeps_case_option keeps_simple untouched_parts)

lemma untouched_op:
  "keeps (\<lambda>o'. orch_tracker o' = t) (list_creatives_op env url filters)"
  "keeps (\<lambda>o'. orch_tracker o' = t) (provide_feedback_op env url mid index period)"
  "keeps (\<lambda>o'. orch_tracker o' = t) (list_accounts_op env url status sandbox)"
  "keeps (\<lambda>o'. orch_tracker o' = t) (sync_accounts_op env url brand_domain brand_id countries billing dry_run)"
  "keeps (\<lambda>o'. orch_tracker o' = t) (get_signals_op env url brief platforms)"
  "keeps (\<lambda>o'. orch_tracker o' = t) (activate_signal_op env url signal_id platform)"
  "keeps (\<lambda>o'. orch_tracker o' = t) (check_delivery env seller mid)"
  "keeps (\<lambda>o'. orch_tracker o' = t) (list_seller_tasks env seller statuses)"
  "keeps (\<lambda>o'. orch_tracker o' = t) (reconcile_state env seller)"
  "keeps (\<lambda>o'. orch_tracker o' = t) (reconcile_all_sellers env)"
  unfolding list_creatives_op_def provide_feedback_op_def list_accounts_op_def sync_accounts_op_def get_signals_op_def
    activate_signal_op_def check_delivery_def list_seller_tasks_def reconcile_state_def reconcile_all_sellers_def
    session_call_of_def Let_def
  by (intro keeps_sbind keeps_handling keeps_smap keeps_case_option keeps_simple untouched_parts untouched_seller_at)+

context tracker_laws
begin

lemma kept_by_tracked_call:
  assumes "inv (orch_tracker o')" and "get_operation (oe_uuid env) (orch_tracker o') = None"
  shows "inv (orch_tracker (snd (tracked_call env seller tool ref params req o')))"
proof -
  obtain p o1 where created: "create_op env tool seller ref req o' = (Inr p, o1)" using created_op by blast
  have "keeps (\<lambda>o'. inv (orch_tracker o')) (sbind (handling (session_call_of env seller tool (with_version (oe_version env) params))
         (\<lambda>e. if seller_failure e then sbind (fail_op env (op_id p) (oe_error_text env e)) (\<lambda>_. raise e) else raise e))
       (\<lambda>response. sbind (update_op env (op_id p) response) (\<lambda>_. ret response)))" (is "keeps _ ?rest")
    unfolding session_call_of_def
    by (intro keeps_sbind keeps_handling keeps_if keeps_simple holds_untracked holds_fail holds_update)
  then have "inv (orch_tracker (snd (?rest o1)))" using creates [OF created assms] by (simp add: keeps_def)
  then show ?thesis
    by (simp add: tracked_call_def sbind_def [of "create_op a b c d e" for a b c d e] created)
qed

lemma after_untouched:
  assumes "\<And>t. keeps (\<lambda>o'. orch_tracker o' = t) act"
    and "\<And>x o1. orch_tracker o1 = orch_tracker o' \<Longrightarrow> inv (orch_tracker (snd (f x o1)))"
    and "inv (orch_tracker o')"
  shows "inv (orch_tracker (snd (sbind act f o')))"
proof -
  obtain r o1 where run: "act o' = (r, o1)" by fastforce
  from keepsD [OF assms(1) run refl] have "orch_tracker o1 = orch_tracker o'" .
  with assms(2,3) run show ?thesis by (cases r) (simp_all add: sbind_def)
qed

lemma kept_by_update:
  assumes "inv (orch_tracker o')" and "get_operation (oe_uuid env) (orch_tracker o') = None"
  shows "inv (orch_tracker (snd (update_media_buy_op env url mid ref kwargs o')))"
  unfolding update_media_buy_op_def Let_def
  by (intro after_untouched untouched_seller_at untouched_existing, simp_all only: split: prod.split if_split)
     (auto intro: kept_by_tracked_call simp: assms)

lemma kept_by_sync:
  assumes "inv (orch_tracker o')" and "get_operation (oe_uuid env) (orch_tracker o') = None"
  shows "inv (orch_tracker (snd (sync_creatives_op env url creatives mid o')))"
  unfolding sync_creatives_op_def
  by (intro after_untouched untouched_seller_at untouched_existing, simp_all only: split: prod.split)
     (auto intro: kept_by_tracked_call simp: assms)

lemma edited_count_poll: "edited count_poll"
  by (simp add: edited_def same_identity_def count_poll_def)

lemma kept_by_polls: "holds (poll_operations env ps)"
proof (induction env ps rule: poll_operations.induct)
  case (2 env p ps)
  show ?case
    unfolding poll_operations.simps poll_operation_def session_call_of_def
    by (intro keeps_sbind keeps_case_option keeps_if keeps_handling keeps_simple holds_untracked holds_persist
        holds_change holds_tracked update edited_count_poll 2)
qed (simp only: poll_operations.simps keeps_simple)

lemma kept_by_input: "holds (provide_input env oid input)"
  unfolding provide_input_def session_call_of_def seller_at_def
  by (intro keeps_sbind keeps_case_option keeps_if keeps_handling keeps_simple holds_untracked holds_fail holds_update)

end

definition tracker_sound :: "(task_status \<Rightarrow> int) \<Rightarrow> op_tracker \<Rightarrow> bool" where
  "tracker_sound lag t \<longleftrightarrow> gauge_lags lag t \<and> rows_loaded t"

interpretation sound: tracker_laws "tracker_sound lag" for lag
  by unfold_locales
     (simp_all add: tracker_sound_def gauge.save gauge.edit gauge.update gauge.mark gauge.create
        rows.save rows.edit rows.update rows.mark rows.create)

text \<open>
  C8. The tracker stays sound under every operation of the orchestrator that writes to it: the gauge of
  each status counts the operations in it (less those loaded at the start), operations are filed
  under their identifiers, and every row of the table belongs to the operation of its key, so that
  a restart recovers it.
\<close>

theorem tracker_stays_sound:
  assumes "tracker_sound lag (orch_tracker o')" and "get_operation (oe_uuid env) (orch_tracker o') = None"
  shows "tracker_sound lag (orch_tracker (snd (buy env args o'))) \<and>
    tracker_sound lag (orch_tracker (snd (update_media_buy_op env url mid ref kwargs o'))) \<and>
    tracker_sound lag (orch_tracker (snd (sync_creatives_op env url creatives mid o'))) \<and>
    tracker_sound lag (orch_tracker (snd (poll_pending_operations env o'))) \<and>
    tracker_sound lag (orch_tracker (snd (provide_input env oid input o')))"
proof -
  have "tracker_sound lag (orch_tracker (snd (act o')))" if "keeps (\<lambda>o'. tracker_sound lag (orch_tracker o')) act"
    for act :: "'a orch_action" using that assms(1) by (simp add: keeps_def)
  moreover have "keeps (\<lambda>o'. tracker_sound lag (orch_tracker o')) (poll_pending_operations env)"
    unfolding poll_pending_operations_def by (intro keeps_sbind keeps_simple sound.kept_by_polls)
  ultimately show ?thesis
    using sound.kept_by_buy [OF assms] sound.kept_by_update [OF assms] sound.kept_by_sync [OF assms]
      sound.kept_by_input [of lag env oid input] assms(1) by (simp add: keeps_def)
qed

section \<open>The account of an existing buy\<close>

lemma untouched_run: "act o' = (r, o1) \<Longrightarrow> (\<And>t. keeps (\<lambda>o'. orch_tracker o' = t) act) \<Longrightarrow> orch_tracker o1 = orch_tracker o'"
  by (erule keepsD [rotated]) simp_all

lemma session_call_of_tracker: "session_call_of env seller tool params o' = (r, o1) \<Longrightarrow> orch_tracker o1 = orch_tracker o'"
  by (erule untouched_run) (simp add: session_call_of_def untouched_parts)

lemma changed_request:
  assumes "change_operation oid f om = (x, on)" and "persist_operation oid on = (y, o2)"
    and "recorded oid st (orch_tracker o2)" and "\<And>p. op_id (f p) = op_id p"
  shows "\<exists>p. get_operation oid (orch_tracker o2) = Some (f p)"
proof -
  have ops: "operations (orch_tracker o2) = operations (orch_tracker on)"
    using assms(2) by (auto simp: persist_operation_def split: option.splits)
  with assms(3) obtain q where q: "map_of (operations (orch_tracker on)) oid = Some q" "op_id q = oid"
    by (auto simp: recorded_def get_operation_def)
  with assms(1,4) show ?thesis
    by (auto simp: ops get_operation_def change_operation_def store_operation_def split: option.splits if_splits)
qed

lemma prepared_account:
  assumes "prepare_create_media_buy env oid args ref key brand end_time o1 = (Inr params, o2)"
    and "recorded oid st (orch_tracker o2)"
  shows "\<exists>p. get_operation oid (orch_tracker o2) = Some p \<and> getj (request_data p) ''account'' = getj params ''account''"
proof -
  obtain account om on built push reporting where
    request: "build_create_media_buy_request (oe_version env) (create_args_of args ref key brand end_time account
      built push reporting) = Inr params"
    and changed: "change_operation oid (\<lambda>p. p\<lparr>request_data :=
                  dict_update (request_data p)
                    [(''account'', JObj account), (''budget_allocation'', getj params ''budget_allocation'')]\<rparr>) om = (Inr (), on)"
    and saved: "persist_operation oid on = (Inr (), o2)"
    using assms(1) unfolding prepare_create_media_buy_def Let_def
    by (fastforce simp: sbind_Inr_iff split: prod.splits)
  from changed_request [OF changed saved assms(2)] built_request(1) [OF request] show ?thesis
    by (auto simp: create_args_of_def dict_update_def)
qed

lemma response_request [simp]:
  "request_data (response_status shown st response p) = request_data p"
  "request_data (response_fields response p) = request_data p"
  by (auto simp: response_status_def response_fields_def Let_def split: option.splits)

lemma updated_request:
  assumes "update_op env oid response o2 = (Inr q, o3)" and "get_operation oid (orch_tracker o2) = Some p"
  shows "request_data q = request_data p"
  using assms by (auto simp: update_op_def sbind_Inr_iff on_tracker_eval update_from_response_def get_operation_def Let_def
      split: json.splits)

lemma bought_account:
  assumes bought: "buy env args o' = (Inr res, o1)" and accepted: "res_error res = None"
  shows "\<exists>p params pre account. get_operation (oe_uuid env) (orch_tracker o1) = Some p \<and>
    getj (request_data p) ''account'' = JObj account \<and> getj params ''account'' = JObj account \<and>
    tool_log (orch_net o1) = pre @ [(agent_url (sp_seller (ba_product args)), ''create_media_buy'', params)]"
proof -
  let ?seller = "sp_seller (ba_product args)"
  obtain p o2 where created: "create_op env ''create_media_buy'' ?seller (buy_ref env args)
      (buy_request_data env args) o' = (Inr p, o2)" using created_op by blast
  obtain q o3 where placed: "place_buy env (op_id p) args o2 = (q, o3)" by fastforce
  have p: "op_id p = oe_uuid env" and start: "recorded (oe_uuid env) PENDING (orch_tracker o2)"
    using created_recorded [OF created] by simp_all
  have ended: "end_buy env args (oe_uuid env) q o3 = (Inr res, o1)" using buy_unfold [OF created placed] p bought by simp
  then obtain response where response: "q = Inr response"
    using accepted by (cases q) (auto simp: end_buy_def sbind_Inr_iff failed_buy_def split: if_splits)
  with placed obtain params om where
    prepared: "prepare_create_media_buy env (oe_uuid env) args (buy_ref env args) (buy_key env) (buy_brand env args)
      (if ba_end args \<noteq> [] then ba_end args else oe_default_end env) o2 = (Inr params, om)"
    and called: "session_call_of env ?seller ''create_media_buy'' params om = (Inr response, o3)"
    unfolding place_buy_def p by (auto simp: sbind_Inr_iff)
  have "recorded (oe_uuid env) PENDING (orch_tracker o3)"
    using keepsD [OF standing.holds_place placed] start p by simp
  then have "recorded (oe_uuid env) PENDING (orch_tracker om)" using session_call_of_tracker [OF called] by simp
  from prepared_account [OF prepared this] obtain p1 where
    p1: "get_operation (oe_uuid env) (orch_tracker o3) = Some p1" "getj (request_data p1) ''account'' = getj params ''account''"
    using session_call_of_tracker [OF called] by auto
  from ended response obtain p2 where updated: "update_op env (oe_uuid env) response o3 = (Inr p2, o1)"
    by (auto simp: end_buy_def sbind_Inr_iff)
  have "get_operation (oe_uuid env) (orch_tracker o1) = Some p2"
    using update_op_records [OF \<open>recorded (oe_uuid env) PENDING (orch_tracker o3)\<close>, of env response] updated by auto
  moreover have "request_data p2 = request_data p1" by (rule updated_request [OF updated p1(1)])
  moreover have "\<exists>a. getj params ''account'' = JObj a"
    using prepare_checked [OF prepared] create_op_start [OF created] unfolding buy_checked_def Let_def by blast
  moreover have "orch_net o1 = orch_net o3"
    using keepsD [OF base_keeps_more(6) updated refl] by (rule net_of_base)
  moreover note session_call_of_log [OF called] p1(2)
  ultimately show ?thesis by auto
qed

lemma existing_account_reused:
  assumes "tracked_buy seller mid ref (orch_tracker o1) = Some p" and "getj (request_data p) ''account'' = JObj account"
  shows "account_for_existing_buy env seller mid ref task o1 = (Inr (account, id_or mid (op_media_buy_id p)), o1)"
  using assms by (simp add: account_for_existing_buy_def Let_def)

lemma session_call_of_accounts: "session_call_of env seller tool params o' = (r, o1) \<Longrightarrow> orch_accounts o1 = orch_accounts o'"
  by (auto simp: session_call_of_def on_net_def map_error_def zoom_def split: prod.splits sum.splits)

lemma tracked_call_log:
  "tool_log (orch_net (snd (tracked_call env seller tool ref params req o1))) =
     tool_log (orch_net o1) @ [(agent_url seller, tool, with_version (oe_version env) params)] \<and>
   orch_accounts (snd (tracked_call env seller tool ref params req o1)) = orch_accounts o1"
proof -
  obtain p o2 where created: "create_op env tool seller ref req o1 = (Inr p, o2)" using created_op by blast
  obtain r o3 where called: "session_call_of env seller tool (with_version (oe_version env) params) o2 = (r, o3)" by fastforce
  let ?finish = "case r of Inl e \<Rightarrow> (if seller_failure e then sbind (fail_op env (op_id p) (oe_error_text env e)) (\<lambda>_. raise e) else raise e)
     | Inr response \<Rightarrow> sbind (update_op env (op_id p) response) (\<lambda>_. ret response)"
  have run: "tracked_call env seller tool ref params req o1 = ?finish o3"
    by (cases r) (simp_all add: tracked_call_def sbind_def [of "create_op a b c d e" for a b c d e] created
        sbind_def [of "handling m h" for m h] handling_def called sbind_def [of "fail_op a b c" for a b c] split: prod.split sum.split)
  obtain x o4 where ended: "?finish o3 = (x, o4)" by fastforce
  have "keeps (\<lambda>o'. base o' = base o3) ?finish"
    by (intro keeps_case_sum keeps_if keeps_sbind keeps_simple base_keeps_more)
  from keepsD [OF this ended refl] have "orch_net o4 = orch_net o3" "orch_accounts o4 = orch_accounts o3"
    by (simp_all add: base_def)
  moreover have "orch_net o2 = orch_net o1" "orch_accounts o2 = orch_accounts o1"
    using create_op_start [OF created] by (simp_all add: base_def)
  ultimately show ?thesis
    using session_call_of_log [OF called] session_call_of_accounts [OF called] by (simp add: run ended)
qed

lemma update_of_tracked_buy:
  assumes "find_seller_by_url url o1 = Some seller" and "tracked_buy seller mid ref (orch_tracker o1) = Some p"
    and "getj (request_data p) ''account'' = JObj account" and "truthy (id_or mid (op_media_buy_id p))"
  shows "\<exists>params. tool_log (orch_net (snd (update_media_buy_op env url mid ref kwargs o1))) =
      tool_log (orch_net o1) @ [(agent_url seller, ''update_media_buy'', params)] \<and>
    getj params ''account'' = JObj account \<and> getj params ''media_buy_id'' = id_or mid (op_media_buy_id p) \<and>
    orch_accounts (snd (update_media_buy_op env url mid ref kwargs o1)) = orch_accounts o1"
proof -
  have at: "seller_at url o1 = (Inr seller, o1)" by (simp add: seller_at_def assms(1))
  define kept where "kept k d = dset_if (getj kwargs k \<noteq> JNull) k (getj kwargs k) d" for k d
  define params where "params = kept ''packages'' (kept ''end_time'' (kept ''paused''
     [(''idempotency_key'', JStr (buy_key env)), (''account'', JObj account), (''media_buy_id'', id_or mid (op_media_buy_id p))]))"
  have "\<exists>req. update_media_buy_op env url mid ref kwargs o1 = tracked_call env seller ''update_media_buy'' ref params req o1"
    using assms(4)
    by (auto simp: update_media_buy_op_def sbind_def [of "seller_at url"] at
        sbind_def [of "account_for_existing_buy a b c d e" for a b c d e] existing_account_reused [OF assms(2,3)]
        params_def kept_def)
  moreover have "getj (kept k d) k' = (if k' = k \<and> getj kwargs k \<noteq> JNull then getj kwargs k else getj d k')" for k k' d
    by (simp add: kept_def dset_if_def)
  then have "getj (with_version (oe_version env) params) ''account'' = JObj account"
    "getj (with_version (oe_version env) params) ''media_buy_id'' = id_or mid (op_media_buy_id p)"
    by (simp_all add: params_def)
  ultimately show ?thesis
    using tracked_call_log [of env seller "''update_media_buy''" ref params _ o1] by auto
qed

lemma tracked_buy_operation:
  assumes "tracked_buy seller mid ref t = Some p" and "keyed_by_id (operations t)"
  shows "get_operation (op_id p) t = Some p"
proof -
  from assms(1) have "p \<in> set (list_all_operations t)"
    unfolding tracked_buy_def find_Some_iff by (elim exE conjE) (simp add: nth_mem)
  then have "p \<in> snd ` set (operations t)" by (simp add: list_all_operations_def)
  with assms(2) show ?thesis by (auto simp: get_operation_def keyed_by_id_def)
qed

text \<open>
  C3. An update of a media buy is sent under the account the buy was made under: the account of the
  \<open>create_media_buy\<close> request is the account of the \<open>update_media_buy\<close> request, no account tool is called and no
  account changes, whichever settings and keys the update runs with.
\<close>

theorem update_uses_account_of_buy:
  assumes bought: "buy env args o' = (Inr res, o1)" and accepted: "res_error res = None"
    and keyed: "keyed_by_id (operations (orch_tracker o1))"
    and seller: "find_seller_by_url url o1 = Some seller"
    and found: "tracked_buy seller mid ref (orch_tracker o1) = Some p" "op_id p = res_operation_id res"
    and id: "truthy (id_or mid (op_media_buy_id p))"
  shows "\<exists>pre create update. tool_log (orch_net o1) = pre @ [(agent_url (sp_seller (ba_product args)), ''create_media_buy'', create)] \<and>
    tool_log (orch_net (snd (update_media_buy_op env' url mid ref kwargs o1))) =
      tool_log (orch_net o1) @ [(agent_url seller, ''update_media_buy'', update)] \<and>
    getj update ''account'' = getj create ''account'' \<and> getj update ''media_buy_id'' = id_or mid (op_media_buy_id p) \<and>
    orch_accounts (snd (update_media_buy_op env' url mid ref kwargs o1)) = orch_accounts o1"
proof -
  from bought_account [OF bought accepted] obtain q params pre account where
    q: "get_operation (oe_uuid env) (orch_tracker o1) = Some q" "getj (request_data q) ''account'' = JObj account"
    and create: "getj params ''account'' = JObj account"
      "tool_log (orch_net o1) = pre @ [(agent_url (sp_seller (ba_product args)), ''create_media_buy'', params)]" by blast
  have "op_id p = oe_uuid env" using buy_recorded [of env args o'] bought found(2) by simp
  with tracked_buy_operation [OF found(1) keyed] q(1) have "p = q" by simp
  from update_of_tracked_buy [OF seller found(1) _ id, of account env' kwargs] q(2) create show ?thesis
    unfolding \<open>p = q\<close> by fastforce
qed

section \<open>A concrete buy\<close>

definition accepting_answer :: dict where
  "accepting_answer =
     [(''accounts'', JArr [JObj [(''account_id'', JStr ''a1''), (''status'', JStr ''active'')]]),
      (''media_buy_id'', JStr ''m1''), (''status'', JStr ''Submitted''), (''task_id'', JStr ''t1'')]"

definition accepting_net_env :: net_env where
  "accepting_net_env =
     \<lparr>nth_attempt = (\<lambda>i. \<lparr>ask_time = 0, result_time = 0,
        answer = Answered \<lparr>is_error = False, structured_content = JObj accepting_answer, content = []\<rparr>,
        during = (\<lambda>r. r), budget_time = 0, jitter = 0, meanwhile = (\<lambda>r. r)\<rparr>),
      budget_clock = (\<lambda>i. 0), cfg_retries = 3, cfg_seconds = 300, net_shown = (\<lambda>v. []), net_loads = (\<lambda>s. None)\<rparr>"

definition example_orch_env :: orch_env where
  "example_orch_env =
     \<lparr>oe_shown = (\<lambda>v. []), oe_fromiso = (\<lambda>s. None), oe_idna = (\<lambda>s. Some s), oe_hostname = (\<lambda>u. u),
      oe_error_text = (\<lambda>e. ''failed''), oe_now = 0, oe_later = 1, oe_uuid = ''op1'', oe_ref_hex = ''1'', oe_key_hex = ''2'',
      oe_default_end = ''2030-01-01T00:00:00Z'', oe_fresh_secret = ''s'', oe_version = ''3.2'', oe_net = accepting_net_env,
      oe_account = example_account_env, oe_brand = example_brand_env, oe_adagents = (\<lambda>i j. example_fetching), oe_auth_now = 0,
      oe_operator_domain = ''b.example'', oe_skip_check = True, oe_brand_url = []\<rparr>"

definition example_orchestrator :: orchestrator where
  "example_orchestrator =
     \<lparr>orch_tracker = (new_tracker (\<lambda>p r. 0))\<lparr>db_enabled := True\<rparr>, orch_sellers = [example_account_seller BUYER_DECLARED],
      orch_net = \<lparr>net_world = example_world 5, seller_sessions = [], attempts_made = 0, tool_log = []\<rparr>,
      orch_accounts = example_manager, orch_brands = example_resolver, orch_authorizer = cold_authorizer,
      orch_products = [], orch_webhooks = \<lparr>webhook_base_url = [], webhook_secret = [], webhook_auth_scheme = [],
        runtime_secret = None\<rparr>\<rparr>"

definition example_buy_args :: buy_args where
  "example_buy_args =
     \<lparr>ba_product = \<lparr>sp_seller = example_account_seller BUYER_DECLARED, sp_product_id = JStr ''p1'', sp_name = JStr ''P'',
        sp_description = JStr [], sp_price_cpm = JInt 5, sp_channels = JArr [], sp_formats = [], sp_format_ids = JArr [],
        sp_pricing_option_id = JStr ''o1'', sp_raw = [(''product_id'', JStr ''p1'')]\<rparr>,
      ba_budget = JInt 100, ba_ref = ''r1'', ba_end = [], ba_packages = [], ba_targeting = [], ba_pacing = [],
      ba_proposal = [], ba_currency = ''EUR'', ba_brand_domain = ''b.example'', ba_brand_id = [], ba_countries = [],
      ba_allocation = []\<rparr>"

definition bought_id :: "(buy_error + buy_result) \<times> orchestrator \<Rightarrow> json" where
  "bought_id r = (case fst r of Inr res \<Rightarrow> if res_error res = None \<and> res_status res = ''submitted'' then res_media_buy_id res else JNull | Inl e \<Rightarrow> JNull)"

lemma example_bought: "bought_id (buy example_orch_env example_buy_args example_orchestrator) = JStr ''m1''"
  by code_simp

lemma example_log: "map (\<lambda>(u, t, p). t) (tool_log (orch_net (snd (buy example_orch_env example_buy_args example_orchestrator)))) =
   [''sync_accounts'', ''create_media_buy'']"
  by code_simp

definition example_after :: orchestrator where
  "example_after = snd (buy example_orch_env example_buy_args example_orchestrator)"

lemma example_start:
  "rows_loaded (orch_tracker example_orchestrator)" "db_enabled (orch_tracker example_orchestrator)"
  "get_operation ''op1'' (orch_tracker example_orchestrator) = None" "oe_uuid example_orch_env = ''op1''"
  "gauge_lags (\<lambda>s. 0) (orch_tracker example_orchestrator)"
  by (simp_all add: example_orchestrator_def new_tracker_def rows_loaded_def rows_belong_def keyed_by_id_def
      get_operation_def example_orch_env_def gauge_lags_def count_status_def)

lemma example_result:
  obtains res where "buy example_orch_env example_buy_args example_orchestrator = (Inr res, example_after)"
    "res_error res = None" "res_status res = ''submitted''"
  using example_bought by (cases "buy example_orch_env example_buy_args example_orchestrator")
    (auto simp: bought_id_def example_after_def split: sum.splits if_splits)

lemma buy_survives_crash_witness:
  "\<exists>p. get_operation ''op1'' (restarted (orch_tracker example_after)) = Some p \<and> op_status p = SUBMITTED"
proof -
  from example_result obtain res where res: "buy example_orch_env example_buy_args example_orchestrator = (Inr res, example_after)"
    "res_status res = ''submitted''" by blast
  have "status_value st = ''submitted'' \<Longrightarrow> st = SUBMITTED" for st by (cases st) simp_all
  moreover have "res_operation_id res = ''op1''"
    using buy_recorded [of example_orch_env example_buy_args example_orchestrator] res(1) example_start(4) by simp
  moreover note buy_survives_crash [OF res(1) example_start(1,2), unfolded example_start(4), OF example_start(3)] res(2)
  ultimately show ?thesis by auto
qed

definition updatable :: "orchestrator \<Rightarrow> bool" where
  "updatable o' \<longleftrightarrow>
     (case tracked_buy (example_account_seller BUYER_DECLARED) [] ''r1'' (orch_tracker o') of
        Some p \<Rightarrow> op_id p = ''op1'' \<and> truthy (id_or [] (op_media_buy_id p)) | None \<Rightarrow> False)"

lemma example_updatable:
  "updatable example_after"
  "find_seller_by_url ''https://s.example/mcp/'' example_after = Some (example_account_seller BUYER_DECLARED)"
  by (code_simp, code_simp)

lemma update_uses_account_of_buy_witness:
  "\<exists>pre create update. tool_log (orch_net example_after) = pre @ [(''https://s.example/mcp'', ''create_media_buy'', create)] \<and>
    tool_log (orch_net (snd (update_media_buy_op example_orch_env ''https://s.example/mcp/'' [] ''r1''
        [(''paused'', JBool True)] example_after))) =
      tool_log (orch_net example_after) @ [(''https://s.example/mcp'', ''update_media_buy'', update)] \<and>
    getj update ''account'' = getj create ''account''"
proof -
  from example_result obtain res where res: "buy example_orch_env example_buy_args example_orchestrator = (Inr res, example_after)"
    "res_error res = None" by blast
  have op: "res_operation_id res = ''op1''"
    using buy_recorded [of example_orch_env example_buy_args example_orchestrator] res(1) example_start(4) by simp
  have keyed: "keyed_by_id (operations (orch_tracker example_after))"
    using rows.kept_by_buy [OF example_start(1), of example_orch_env example_buy_args] example_start(3,4)
    by (simp add: rows_loaded_def example_after_def)
  from example_updatable(1) obtain p where p: "tracked_buy (example_account_seller BUYER_DECLARED) [] ''r1'' (orch_tracker example_after) = Some p"
    "op_id p = res_operation_id res" "truthy (id_or [] (op_media_buy_id p))"
    by (auto simp: updatable_def op split: option.splits)
  have seller: "agent_url (sp_seller (ba_product example_buy_args)) = ''https://s.example/mcp''"
    "agent_url (example_account_seller BUYER_DECLARED) = ''https://s.example/mcp''" by (code_simp, code_simp)
  from update_uses_account_of_buy [OF res keyed example_updatable(2) p, of example_orch_env "[(''paused'', JBool True)]"]
  show ?thesis unfolding seller by blast
qed

lemma tracker_stays_sound_witness:
  "operations_current (orch_tracker example_after) SUBMITTED = count_status SUBMITTED (operations (orch_tracker example_after))"
proof -
  have "tracker_sound (\<lambda>s. 0) (orch_tracker example_orchestrator)"
    using example_start by (simp add: tracker_sound_def)
  note sound = tracker_stays_sound [where env = example_orch_env, unfolded example_start(4), OF this example_start(3),
      where args = example_buy_args, THEN conjunct1]
  then show ?thesis by (simp add: tracker_sound_def gauge_lags_def example_after_def)
qed

section \<open>Reconciliation\<close>

lemma task_ids_members: "task_ids items = Inr ids \<Longrightarrow>
    set ids = {getj task ''task_id'' | task. JObj task \<in> set items \<and> truthy (getj task ''task_id'')}"
proof (induction items arbitrary: ids rule: task_ids.induct)
  case (2 t ts)
  then obtain rest where "task_ids ts = Inr rest"
    "ids = (if truthy (getj t ''task_id'') then getj t ''task_id'' # rest else rest)"
    by (auto simp: Let_def res_simps split: if_splits)
  with 2 show ?case by (auto simp: Let_def split: if_splits)
qed simp_all

lemma compare_tasks_sets:
  assumes "compare_tasks seller t tasks = Inr rec" and "py_iter tasks = Inr items"
  shows "set (missing_from_client rec) =
      {getj task ''task_id'' | task. JObj task \<in> set items \<and> truthy (getj task ''task_id'')} - set (client_task_ids seller t)"
    and "set (missing_from_server rec) =
      set (client_task_ids seller t) - {getj task ''task_id'' | task. JObj task \<in> set items \<and> truthy (getj task ''task_id'')}"
  using assms by (auto simp: compare_tasks_def res_simps Let_def dest!: task_ids_members split: if_splits)

text \<open>
  Reconciliation misreports an operation that waits for input: the seller is asked for its tasks in
  status \<open>input-required\<close>, too, but compared with local operations that are submitted or working only, so
  a task that is tracked, with the seller's id, is reported as missing from the client.
\<close>

theorem reconcile_misses_input_required:
  assumes listed: "list_seller_tasks env seller [''submitted'', ''working'', ''input-required''] o' = (Inr remote, o1)"
    and reconciled: "reconcile_state env seller o' = (Inr (Some rec), o2)"
    and tasks: "getj remote ''tasks'' = JArr items" "JObj task \<in> set items" "getj task ''task_id'' = JStr tid" "tid \<noteq> []"
    and tracked: "p \<in> set (map snd (operations (orch_tracker o')))" "op_task_id p = JStr tid"
      "same_seller (op_seller_url p) (agent_url seller)" "op_status p = INPUT_REQUIRED"
    and only: "JStr tid \<notin> op_task_id ` (set (map snd (operations (orch_tracker o'))) - {p})"
  shows "op_task_id p \<in> set (missing_from_client rec)"
proof -
  have t: "orch_tracker o1 = orch_tracker o'"
    using keepsD [OF untouched_op(8) listed refl] .
  have "get_or remote ''tasks'' (JArr []) = JArr items"
    using tasks(1) by (auto simp: getj_def get_or_def split: option.splits)
  moreover have "compare_tasks seller (orch_tracker o1) (get_or remote ''tasks'' (JArr [])) = Inr rec"
    using reconciled listed by (auto simp: reconcile_state_def sbind_def handling_def py_step_def map_left_def
        split: prod.splits sum.splits)
  ultimately have compared: "compare_tasks seller (orch_tracker o') (JArr items) = Inr rec" by (simp add: t)
  have "JStr tid \<notin> set (client_task_ids seller (orch_tracker o'))"
    using only tracked(4) by (auto simp: client_task_ids_def get_pending_def)
  then show ?thesis
    unfolding compare_tasks_sets(1) [OF compared, of items, simplified] using tasks tracked(2) by (simp, intro exI [of _ task]) simp
qed

definition listing_env :: orch_env where
  "listing_env = example_orch_env\<lparr>oe_net := accepting_net_env\<lparr>nth_attempt := (\<lambda>i. \<lparr>ask_time = 0, result_time = 0,
     answer = Answered \<lparr>is_error = False,
       structured_content = JObj [(''tasks'', JArr [JObj [(''task_id'', JStr ''t1'')]])], content = []\<rparr>,
     during = (\<lambda>r. r), budget_time = 0, jitter = 0, meanwhile = (\<lambda>r. r)\<rparr>)\<rparr>\<rparr>"

definition waiting_operation :: tracked_operation where
  "waiting_operation = (new_operation ''op2'' ''create_media_buy'' (JStr ''s'') ''https://s.example/mcp/'' ''r'' [] 0)
     \<lparr>op_status := INPUT_REQUIRED, op_task_id := JStr ''t1''\<rparr>"

definition waiting_orchestrator :: orchestrator where
  "waiting_orchestrator = example_orchestrator\<lparr>orch_tracker := (new_tracker (\<lambda>p r. 0))\<lparr>operations := [(''op2'', waiting_operation)]\<rparr>\<rparr>"

definition answered_with :: "json \<Rightarrow> (buy_error + dict) \<times> orchestrator \<Rightarrow> bool" where
  "answered_with v r = (case fst r of Inr d \<Rightarrow> getj d ''tasks'' = v | Inl e \<Rightarrow> False)"

definition reconciled_with :: "(buy_error + reconciliation option) \<times> orchestrator \<Rightarrow> bool" where
  "reconciled_with r = (case fst r of Inr (Some rec) \<Rightarrow> True | _ \<Rightarrow> False)"

lemma example_listing:
  "answered_with (JArr [JObj [(''task_id'', JStr ''t1'')]]) (list_seller_tasks listing_env (example_account_seller BUYER_DECLARED)
     [''submitted'', ''working'', ''input-required''] waiting_orchestrator)"
  "reconciled_with (reconcile_state listing_env (example_account_seller BUYER_DECLARED) waiting_orchestrator)"
  "same_seller (op_seller_url waiting_operation) (agent_url (example_account_seller BUYER_DECLARED))"
  by (code_simp, code_simp, code_simp)

lemma reconcile_misses_input_required_witness:
  "\<exists>rec o2. reconcile_state listing_env (example_account_seller BUYER_DECLARED) waiting_orchestrator = (Inr (Some rec), o2) \<and>
     JStr ''t1'' \<in> set (missing_from_client rec)"
proof -
  let ?s = "example_account_seller BUYER_DECLARED"
  obtain remote o1 where listed: "list_seller_tasks listing_env ?s [''submitted'', ''working'', ''input-required'']
      waiting_orchestrator = (Inr remote, o1)" and tasks: "getj remote ''tasks'' = JArr [JObj [(''task_id'', JStr ''t1'')]]"
    using example_listing(1) by (cases "list_seller_tasks listing_env ?s [''submitted'', ''working'', ''input-required'']
      waiting_orchestrator") (auto simp: answered_with_def split: sum.splits)
  obtain rec o2 where reconciled: "reconcile_state listing_env ?s waiting_orchestrator = (Inr (Some rec), o2)"
    using example_listing(2) by (cases "reconcile_state listing_env ?s waiting_orchestrator")
      (auto simp: reconciled_with_def split: sum.splits option.splits)
  have op: "op_task_id waiting_operation = JStr ''t1''" "op_status waiting_operation = INPUT_REQUIRED"
    by (simp_all add: waiting_operation_def)
  from reconcile_misses_input_required [OF listed reconciled tasks, of "[(''task_id'', JStr ''t1'')]" "''t1''" waiting_operation]
  show ?thesis using op example_listing(3) reconciled by (simp add: waiting_orchestrator_def getj_def get_or_def)
qed

end
