(* ===== verification/Http_Api.thy ===== *)
theory Http_Api
  imports Orchestrator_Safety
begin

text \<open>
  \<open>src/api/routes.py\<close>: the HTTP endpoints in front of the orchestrator.  An endpoint acts on the module's
  orchestrator (\<^const>\<open>None\<close> before start-up) and ends with a JSON body, an \<open>HTTPException\<close>, or an
  exception that escapes (the framework answers 500).  Requests are the validated request models;
  empty fields stand for \<open>None\<close>.
\<close>

section \<open>Endpoints\<close>

datatype api_failure = HttpException int string | Unhandled buy_error | IndexOutOfRange | ResponseInvalid

type_synonym 'a served = "(orchestrator, api_failure, 'a) action"

type_synonym 'a endpoint = "(orchestrator option, api_failure, 'a) action"

record api_env =
  ae_iso :: "int \<Rightarrow> string"
  ae_unusual :: "seller_product list \<Rightarrow> py_exn + seller_product list"
  ae_buy_response :: "dict \<Rightarrow> dict option"

text \<open>\<open>get_orchestrator\<close>, and what an endpoint does with it.\<close>

definition with_orchestrator :: "'a served \<Rightarrow> 'a endpoint" where
  "with_orchestrator act st =
     (case st of
        None \<Rightarrow> (Inl (HttpException 503 ''Orchestrator not initialized''), None)
      | Some o' \<Rightarrow> (case act o' of (r, o1) \<Rightarrow> (r, Some o1)))"

definition unhandled :: "'a orch_action \<Rightarrow> 'a served" where
  "unhandled act = map_error Unhandled act"

text \<open>The \<open>except\<close> clauses of an endpoint, in their order.\<close>

definition value_error :: "buy_error \<Rightarrow> bool" where
  "value_error e =
     (case e of
        PyFailed ValueError \<Rightarrow> True
      | BadRequest x \<Rightarrow> True
      | NotSellerOptimized \<Rightarrow> True
      | SellerFailed (PyFailure ValueError) \<Rightarrow> True
      | NoAccount (CallFailed (PyFailure ValueError)) \<Rightarrow> True
      | BrandFailed (BrandCrash ValueError) \<Rightarrow> True
      | SellerUnauthorized (AuthCrash ValueError) \<Rightarrow> True
      | _ \<Rightarrow> False)"

definition account_error_raised :: "buy_error \<Rightarrow> bool" where
  "account_error_raised e = (case e of NoAccount (AccountError x) \<Rightarrow> True | _ \<Rightarrow> False)"

definition brand_error_raised :: "buy_error \<Rightarrow> bool" where
  "brand_error_raised e = (case e of BrandFailed (BrandError c d) \<Rightarrow> True | _ \<Rightarrow> False)"

definition seller_error_raised :: "buy_error \<Rightarrow> bool" where
  "seller_error_raised e =
     (case e of
        SellerFailed (SellerFailure x) \<Rightarrow> True
      | NoAccount (CallFailed (SellerFailure x)) \<Rightarrow> True
      | _ \<Rightarrow> False)"

definition mapped_error :: "orch_env \<Rightarrow> ((buy_error \<Rightarrow> bool) \<times> int) list \<Rightarrow> buy_error \<Rightarrow> api_failure" where
  "mapped_error env clauses e =
     (case List.find (\<lambda>(caught, status). caught e) clauses of
        Some (caught, status) \<Rightarrow> HttpException status (oe_error_text env e)
      | None \<Rightarrow> Unhandled e)"

definition excepting :: "orch_env \<Rightarrow> ((buy_error \<Rightarrow> bool) \<times> int) list \<Rightarrow> 'a orch_action \<Rightarrow> 'a served" where
  "excepting env clauses act = map_error (mapped_error env clauses) act"

section \<open>Views\<close>

definition redact_webhook_config :: "json \<Rightarrow> json" where
  "redact_webhook_config config =
     (case config of
        JObj c \<Rightarrow>
          (case getj c ''authentication'' of
             JObj auth \<Rightarrow>
               if has_key auth ''credentials''
               then JObj (dset ''authentication'' (JObj (dset ''credentials'' (JStr ''***REDACTED***'') auth)) c)
               else JObj c
           | _ \<Rightarrow> JObj c)
      | v \<Rightarrow> v)"

definition discovered_view :: "seller_agent \<Rightarrow> py_exn + json" where
  "discovered_view s =
     res_bind (can_sell s) (\<lambda>sells. Inr (JObj
       [(''name'', agent_name s), (''url'', JStr (agent_url s)), (''type'', JStr (agent_type s)),
        (''status'', agent_status s), (''source'', JStr (source s)), (''has_auth'', JBool (token s \<noteq> None)),
        (''tools'', agent_tools s), (''can_sell'', JBool sells), (''supported_protocols'', supported_protocols s),
        (''extensions_supported'', extensions_supported s), (''adcp_versions'', adcp_versions s)]))"

definition product_view :: "nat \<times> seller_product \<Rightarrow> json" where
  "product_view ip =
     (case ip of (i, p) \<Rightarrow> JObj
       [(''rank'', JInt (int i)), (''seller'', agent_name (sp_seller p)), (''seller_url'', JStr (agent_url (sp_seller p))),
        (''product_id'', sp_product_id p), (''name'', sp_name p), (''description'', sp_description p),
        (''price_cpm'', sp_price_cpm p), (''pricing_option_id'', sp_pricing_option_id p),
        (''channels'', sp_channels p), (''formats'', JArr (sp_formats p)), (''format_ids'', sp_format_ids p)])"

definition operation_view :: "api_env \<Rightarrow> tracked_operation \<Rightarrow> json" where
  "operation_view ae p = JObj
     [(''id'', JStr (op_id p)), (''type'', JStr (operation_type p)), (''seller'', op_seller_name p),
      (''status'', JStr (status_value (op_status p))), (''buyer_ref'', buyer_ref p), (''media_buy_id'', op_media_buy_id p),
      (''task_id'', op_task_id p), (''error'', op_error p), (''creative_deadline'', creative_deadline p),
      (''created_at'', JStr (ae_iso ae (created_at p))), (''updated_at'', JStr (ae_iso ae (updated_at p)))]"

definition input_view :: "api_env \<Rightarrow> tracked_operation \<Rightarrow> json" where
  "input_view ae p = JObj
     [(''id'', JStr (op_id p)), (''type'', JStr (operation_type p)), (''seller'', op_seller_name p),
      (''message'', input_required_message p), (''data'', input_required_data p),
      (''created_at'', JStr (ae_iso ae (created_at p)))]"

definition operation_detail :: "api_env \<Rightarrow> tracked_operation \<Rightarrow> json" where
  "operation_detail ae p = JObj
     [(''id'', JStr (op_id p)), (''type'', JStr (operation_type p)), (''seller'', op_seller_name p),
      (''seller_url'', JStr (op_seller_url p)), (''status'', JStr (status_value (op_status p))),
      (''buyer_ref'', buyer_ref p), (''media_buy_id'', op_media_buy_id p), (''task_id'', op_task_id p),
      (''context_id'', op_context_id p), (''error'', op_error p), (''poll_count'', JInt (poll_count p)),
      (''request_data'', JObj (request_data p)), (''response_data'', JObj (response_data p)),
      (''application_context'', JObj (application_context p)),
      (''webhook_config'', redact_webhook_config (webhook_config p)),
      (''input_required_message'', input_required_message p), (''input_required_data'', input_required_data p),
      (''creative_deadline'', creative_deadline p), (''created_at'', JStr (ae_iso ae (created_at p))),
      (''updated_at'', JStr (ae_iso ae (updated_at p)))]"

definition account_view :: "api_env \<Rightarrow> seller_account \<Rightarrow> json" where
  "account_view ae acc = JObj
     [(''seller_url'', JStr (sa_seller_url acc)), (''account_mode'', JStr (mode_value (sa_mode acc))),
      (''account_id'', sa_account_id acc), (''name'', sa_name acc), (''brand'', sa_brand acc),
      (''operator'', sa_operator acc), (''sandbox'', JBool (sa_sandbox acc)), (''status'', sa_status acc),
      (''billing'', sa_billing acc), (''account_scope'', sa_account_scope acc), (''setup'', sa_setup acc),
      (''authorization'', sa_authorization acc), (''errors'', JArr (map JObj (sa_errors acc))),
      (''updated_at'', JStr (ae_iso ae (sa_updated_at acc)))]"

definition listing :: "string \<Rightarrow> json list \<Rightarrow> dict" where
  "listing key items = [(key, JArr items), (''count'', JInt (int (length items)))]"

section \<open>Searching and buying\<close>

definition discover_endpoint :: "orch_env \<Rightarrow> discovery_env \<Rightarrow> dict endpoint" where
  "discover_endpoint env denv = with_orchestrator
     (sbind (unhandled (discover_sellers env denv True)) (\<lambda>sellers.
      sbind (unhandled (py_step (res_map discovered_view sellers))) (\<lambda>views.
        ret (listing ''sellers'' views))))"

record search_request =
  sr_brief :: string
  sr_brand_url :: string
  sr_brand_domain :: string
  sr_brand_id :: string
  sr_countries :: "string list"

definition search_and_rank :: "orch_env \<Rightarrow> discovery_env \<Rightarrow> search_request \<Rightarrow> seller_product list orch_action" where
  "search_and_rank env denv req =
     get_products_from_all env denv (sr_brief req) (sr_brand_url req) (sr_brand_domain req) (sr_brand_id req) (sr_countries req)"

definition products_endpoint :: "api_env \<Rightarrow> orch_env \<Rightarrow> discovery_env \<Rightarrow> search_request \<Rightarrow> dict endpoint" where
  "products_endpoint ae env denv req = with_orchestrator
     (sbind (unhandled (search_and_rank env denv req)) (\<lambda>products.
      sbind (unhandled (py_step (rank_products (ae_unusual ae) products))) (\<lambda>ranked.
      sbind (asking orch_sellers) (\<lambda>sellers.
        ret (listing ''products'' (map product_view (enumerate 0 ranked)) @
             [(''sellers_queried'', JInt (int (length sellers)))])))))"

text \<open>\<open>ranked[i]\<close> counts from the end for a negative index.\<close>

definition list_item :: "'a list \<Rightarrow> int \<Rightarrow> 'a option" where
  "list_item xs i =
     (if 0 \<le> i \<and> i < int (length xs) then Some (xs ! nat i)
      else if i < 0 \<and> 0 \<le> i + int (length xs) then Some (xs ! nat (i + int (length xs)))
      else None)"

record buy_request =
  bq_search :: search_request
  bq_index :: int
  bq_args :: buy_args

text \<open>The product of \<open>bq_args\<close> is not part of the request; the selected one takes its place.\<close>

definition selected_args :: "buy_request \<Rightarrow> seller_product \<Rightarrow> buy_args" where
  "selected_args req p = (bq_args req)
     \<lparr>ba_product := p, ba_brand_domain := sr_brand_domain (bq_search req),
      ba_brand_id := sr_brand_id (bq_search req), ba_countries := sr_countries (bq_search req)\<rparr>"

definition buy_response :: "buy_result \<Rightarrow> dict" where
  "buy_response res =
     [(''operation_id'', JStr (res_operation_id res)), (''seller_name'', res_seller_name res),
      (''status'', JStr (res_status res)), (''media_buy_id'', res_media_buy_id res), (''task_id'', res_task_id res),
      (''error'', case res_error res of Some e \<Rightarrow> JStr e | None \<Rightarrow> JNull)]"

text \<open>\<open>env\<close> is the environment of the search, \<open>env'\<close> that of the buy.  The response model validates its fields.\<close>

definition index_error :: "int \<Rightarrow> nat \<Rightarrow> string" where
  "index_error i n = ''product_index '' @ int_text i @ '' out of range (found '' @ int_text (int n) @ '' products)''"

definition buy_selected :: "api_env \<Rightarrow> orch_env \<Rightarrow> buy_request \<Rightarrow> seller_product list \<Rightarrow> dict served" where
  "buy_selected ae env' req ranked =
     (if bq_index req \<ge> int (length ranked) then raise (HttpException 400 (index_error (bq_index req) (length ranked)))
      else case list_item ranked (bq_index req) of
        None \<Rightarrow> raise IndexOutOfRange
      | Some selected \<Rightarrow>
          sbind (unhandled (buy env' (selected_args req selected))) (\<lambda>res.
            case ae_buy_response ae (buy_response res) of Some validated \<Rightarrow> ret validated | None \<Rightarrow> raise ResponseInvalid))"

definition buy_endpoint :: "api_env \<Rightarrow> orch_env \<Rightarrow> orch_env \<Rightarrow> discovery_env \<Rightarrow> buy_request \<Rightarrow> dict endpoint" where
  "buy_endpoint ae env env' denv req = with_orchestrator
     (sbind (unhandled (search_and_rank env denv (bq_search req))) (\<lambda>products.
      if products = [] then raise (HttpException 404 ''No products found matching brief'')
      else sbind (unhandled (py_step (rank_products (ae_unusual ae) products))) (buy_selected ae env' req)))"

section \<open>Operations\<close>

definition list_operations_endpoint :: "api_env \<Rightarrow> dict endpoint" where
  "list_operations_endpoint ae = with_orchestrator
     (asking (\<lambda>o'. listing ''operations'' (map (operation_view ae) (list_all_operations (orch_tracker o')))))"

definition poll_endpoint :: "orch_env \<Rightarrow> (int \<times> (string \<times> string) list) endpoint" where
  "poll_endpoint env = with_orchestrator
     (sbind (unhandled (poll_pending_operations env)) (\<lambda>results. ret (int (length results), results)))"

definition reconcile_endpoint :: "orch_env \<Rightarrow> ((json \<times> reconciliation option) list \<times> int) endpoint" where
  "reconcile_endpoint env = with_orchestrator
     (sbind (unhandled (reconcile_all_sellers env)) (\<lambda>results. ret (results, int (length results))))"

definition list_input_required_endpoint :: "api_env \<Rightarrow> dict endpoint" where
  "list_input_required_endpoint ae = with_orchestrator
     (asking (\<lambda>o'. listing ''operations'' (map (input_view ae) (get_input_required (orch_tracker o')))))"

definition input_response :: "string \<Rightarrow> dict \<Rightarrow> op_tracker \<Rightarrow> dict" where
  "input_response oid response t =
     [(''operation_id'', JStr oid),
      (''status'', JStr (case get_operation oid t of Some p \<Rightarrow> status_value (op_status p) | None \<Rightarrow> ''unknown'')),
      (''response'', JObj response)]"

definition provide_input_endpoint :: "orch_env \<Rightarrow> string \<Rightarrow> human_input \<Rightarrow> dict endpoint" where
  "provide_input_endpoint env oid input = with_orchestrator
     (sbind (excepting env [(value_error, 400)] (provide_input env oid input)) (\<lambda>response.
        asking (\<lambda>o'. input_response oid response (orch_tracker o'))))"

definition get_operation_endpoint :: "api_env \<Rightarrow> string \<Rightarrow> json endpoint" where
  "get_operation_endpoint ae oid = with_orchestrator
     (sbind (asking (\<lambda>o'. get_operation oid (orch_tracker o'))) (\<lambda>found.
        case found of
          None \<Rightarrow> raise (HttpException 404 (''Operation '' @ oid @ '' not found''))
        | Some p \<Rightarrow> ret (operation_detail ae p)))"

section \<open>Existing buys, signals and accounts\<close>

definition update_media_buy_endpoint :: "orch_env \<Rightarrow> string \<Rightarrow> string \<Rightarrow> string \<Rightarrow> dict \<Rightarrow> dict endpoint" where
  "update_media_buy_endpoint env url media_buy_id ref kwargs = with_orchestrator
     (excepting env [(value_error, 404), (account_error_raised, 409)] (update_media_buy_op env url media_buy_id ref kwargs))"

definition sync_creatives_endpoint :: "orch_env \<Rightarrow> string \<Rightarrow> dict list \<Rightarrow> string \<Rightarrow> dict endpoint" where
  "sync_creatives_endpoint env url creatives media_buy_id = with_orchestrator
     (excepting env [(value_error, 404), (account_error_raised, 409)] (sync_creatives_op env url creatives media_buy_id))"

definition list_creatives_endpoint :: "orch_env \<Rightarrow> string \<Rightarrow> dict \<Rightarrow> dict endpoint" where
  "list_creatives_endpoint env url filters = with_orchestrator
     (excepting env [(value_error, 404)] (list_creatives_op env url filters))"

definition provide_feedback_endpoint :: "orch_env \<Rightarrow> string \<Rightarrow> string \<Rightarrow> json \<Rightarrow> dict \<Rightarrow> dict endpoint" where
  "provide_feedback_endpoint env url media_buy_id index period = with_orchestrator
     (excepting env [(value_error, 404)] (provide_feedback_op env url media_buy_id index period))"

definition discover_signals_endpoint :: "orch_env \<Rightarrow> string \<Rightarrow> string \<Rightarrow> dict list \<Rightarrow> dict endpoint" where
  "discover_signals_endpoint env url brief platforms = with_orchestrator
     (excepting env [(value_error, 404)] (get_signals_op env url brief platforms))"

definition activate_signal_endpoint :: "orch_env \<Rightarrow> string \<Rightarrow> string \<Rightarrow> dict \<Rightarrow> dict endpoint" where
  "activate_signal_endpoint env url signal_id platform = with_orchestrator
     (excepting env [(value_error, 404)] (activate_signal_op env url signal_id platform))"

definition known_accounts_endpoint :: "api_env \<Rightarrow> string \<Rightarrow> dict endpoint" where
  "known_accounts_endpoint ae url = with_orchestrator
     (asking (\<lambda>o'. listing ''accounts'' (map (account_view ae)
        (if url \<noteq> [] then accounts_for url (orch_accounts o') else all_accounts (orch_accounts o')))))"

definition list_accounts_endpoint :: "api_env \<Rightarrow> orch_env \<Rightarrow> string \<Rightarrow> string \<Rightarrow> bool option \<Rightarrow> dict endpoint" where
  "list_accounts_endpoint ae env url status sandbox = with_orchestrator
     (sbind (excepting env [(value_error, 404), (account_error_raised, 409), (seller_error_raised, 502)]
              (list_accounts_op env url status sandbox)) (\<lambda>accounts.
        ret (listing ''accounts'' (map (account_view ae) accounts))))"

definition sync_accounts_endpoint ::
  "api_env \<Rightarrow> orch_env \<Rightarrow> string \<Rightarrow> string \<Rightarrow> string \<Rightarrow> string list \<Rightarrow> string \<Rightarrow> bool \<Rightarrow> dict endpoint" where
  "sync_accounts_endpoint ae env url brand_domain brand_id countries billing dry_run = with_orchestrator
     (sbind (excepting env [(value_error, 404), (brand_error_raised, 403), (account_error_raised, 409), (seller_error_raised, 502)]
              (sync_accounts_op env url brand_domain brand_id countries billing dry_run)) (\<lambda>accounts.
        ret (listing ''accounts'' (map (account_view ae) accounts))))"

definition health_endpoint :: "rat \<Rightarrow> breaker_registry \<Rightarrow> dict \<times> breaker_registry" where
  "health_endpoint now reg =
     (case status_summary now reg of (states, reg') \<Rightarrow>
        ([(''status'', JStr ''ok''), (''service'', JStr ''nxflo-buyer''), (''version'', JStr ''0.5.0''),
          (''circuit_breakers'', JObj (map (\<lambda>(url, state). (url, JStr state)) states))], reg'))"

section \<open>What a search leaves alone\<close>

definition nothing_bought :: "(string \<times> string \<times> dict) list \<Rightarrow> net \<Rightarrow> bool" where
  "nothing_bought old n \<longleftrightarrow> (\<exists>new. tool_log n = old @ new \<and> list_all (\<lambda>(u, t, p). t \<noteq> ''create_media_buy'') new)"

lemma nothing_bought_refl [simp]: "nothing_bought (tool_log n) n"
  by (simp add: nothing_bought_def)

lemma nothing_bought_call:
  "nothing_bought old n \<Longrightarrow> tool \<noteq> ''create_media_buy'' \<Longrightarrow> nothing_bought old (snd (orchestrator_call env a tool params n))"
  by (auto simp: nothing_bought_def)

interpretation no_buy: connection_invariant "orchestrator_call env" "nothing_bought old" for env old
  by unfold_locales (auto intro: nothing_bought_call)

lemma nothing_bought_capabilities: "nothing_bought old n \<Longrightarrow> nothing_bought old (snd (capability_caller env a n))"
  by (auto simp: nothing_bought_def capability_caller_def Let_def split: option.split prod.split)

lemma probe_all_keeps:
  assumes "\<And>a w. winv w \<Longrightarrow> winv (snd (call a w))"
  shows "winv w \<Longrightarrow> winv (snd (probe_all env mode penv call as w))"
proof (induction as arbitrary: w)
  case (Cons a as)
  have "winv (snd (probe_seller env mode penv call a w))"
    using Cons.prems assms [of w]
    by (auto simp: probe_seller_def learn_capabilities_def Let_def split: option.split prod.splits sum.splits) (metis snd_conv)+
  with Cons.IH show ?case by (auto split: prod.splits) (metis snd_conv)
qed simp

text \<open>The tracker is as it was and no buy has been sent.\<close>

definition browsing :: "op_tracker \<Rightarrow> (string \<times> string \<times> dict) list \<Rightarrow> orchestrator \<Rightarrow> bool" where
  "browsing t old o' \<longleftrightarrow> orch_tracker o' = t \<and> nothing_bought old (orch_net o')"

lemma browsing_discover: "keeps (browsing t old) (discover_sellers env denv probe)"
proof -
  have "nothing_bought old (snd (discover_all_sellers denv (capability_caller env) probe n))" if "nothing_bought old n" for n
    using probe_all_keeps [of "nothing_bought old" "capability_caller env", OF nothing_bought_capabilities] that
    by (auto simp: discover_all_sellers_def split: sum.splits prod.splits) (metis snd_conv)
  then show ?thesis
    by (auto simp: keeps_def browsing_def discover_sellers_def split: prod.splits sum.splits) (metis snd_conv)+
qed

lemma browsing_accounts:
  "keeps (\<lambda>(m, n). nothing_bought old n) act \<Longrightarrow> keeps (browsing t old) (on_accounts act)"
  unfolding on_accounts_def
  by (intro keeps_map_error keeps_zoom) (auto simp: keeps_def browsing_def split: prod.splits)

lemma browsing_call: "tool \<noteq> ''create_media_buy'' \<Longrightarrow> keeps (browsing t old) (session_call_of env seller tool params)"
  unfolding session_call_of_def on_net_def
  by (intro keeps_map_error keeps_zoom) (auto simp: keeps_def browsing_def intro: nothing_bought_call)

lemma browsing_py [intro!]: "keeps (browsing t old) (py_step r)"
  unfolding py_step_def by (rule keeps_simple)

lemma browsing_read: "keeps (browsing t old) (read_product shown seller v)"
  unfolding read_product_def
  by (cases v) (auto intro!: keeps_intros simp: browsing_def)

lemma browsing_seller: "keeps (browsing t old) (get_products_from_seller env brief brand seller)"
  unfolding get_products_from_seller_def request_products_def
  by (intro keeps_sbind keeps_handling keeps_if keeps_simple keeps_case_option keeps_smap browsing_py browsing_read
      browsing_accounts no_buy.connected_discovery_account_ref browsing_call) simp_all

lemma browsing_sellers: "keeps (browsing t old) (products_from env brief brand sellers)"
proof (induction sellers)
  case (Cons seller sellers)
  show ?case unfolding products_from.simps by (intro keeps_sbind keeps_handling keeps_simple browsing_seller Cons)
qed (simp only: products_from.simps keeps_simple)

lemma browsing_search: "keeps (browsing t old) (search_and_rank env denv req)"
  unfolding search_and_rank_def get_products_from_all_def
  by (intro keeps_sbind keeps_if keeps_simple browsing_py browsing_sellers browsing_discover)

lemma rank_length: "rank_products unusual products = Inr ranked \<Longrightarrow> (\<And>ps qs. unusual ps = Inr qs \<Longrightarrow> length qs = length ps) \<Longrightarrow>
    length ranked = length products"
  by (auto simp: rank_products_def Let_def split: if_splits)

lemma list_item_member: "list_item xs i = Some x \<Longrightarrow> x \<in> set xs"
  by (auto simp: list_item_def split: if_splits)

text \<open>A negative index counts from the end of the ranking: \<open>-1\<close> is the dearest product.\<close>

lemma negative_index_buys_last: "ranked \<noteq> [] \<Longrightarrow> list_item ranked (- 1) = Some (last ranked)"
  by (cases ranked rule: rev_cases) (auto simp: list_item_def nth_append)

section \<open>Answers of the buy endpoint\<close>

definition answered_truly :: "api_env \<Rightarrow> string \<Rightarrow> op_tracker \<Rightarrow> dict \<Rightarrow> bool" where
  "answered_truly ae oid t replied \<longleftrightarrow>
     (\<exists>res p. ae_buy_response ae (buy_response res) = Some replied \<and> res_operation_id res = oid \<and>
        get_operation oid t = Some p \<and> res_status res = status_value (op_status p) \<and> recorded oid (op_status p) t)"

lemma buy_selected_truth:
  "case buy_selected ae env' req ranked o' of (r, o1) \<Rightarrow>
     (case r of
        Inr replied \<Rightarrow> answered_truly ae (oe_uuid env') (orch_tracker o1) replied
      | Inl (HttpException c d) \<Rightarrow> c = 400 \<and> o1 = o'
      | Inl IndexOutOfRange \<Rightarrow> o1 = o'
      | Inl ResponseInvalid \<Rightarrow> \<exists>st. recorded (oe_uuid env') st (orch_tracker o1)
      | Inl (Unhandled e) \<Rightarrow> recorded (oe_uuid env') PENDING (orch_tracker o1))"
proof (cases "bq_index req \<ge> int (length ranked)")
  case False
  then show ?thesis
  proof (cases "list_item ranked (bq_index req)")
    case (Some selected)
    obtain r o1 where bought: "buy env' (selected_args req selected) o' = (r, o1)" by fastforce
    with buy_recorded [of env' "selected_args req selected" o'] Some False show ?thesis
      by (cases r) (auto simp: buy_selected_def unhandled_def map_error_def sbind_def answered_truly_def split: option.split)
  qed (simp add: buy_selected_def)
qed (simp add: buy_selected_def)


section \<open>Refused accounts\<close>

lemma on_accounts_error: "on_accounts act o' = (Inl e, o1) \<Longrightarrow> \<exists>x. e = NoAccount x"
  by (auto simp: on_accounts_def map_error_Inl)

lemma on_brands_base: "on_brands act o' = (r, o1) \<Longrightarrow> base o1 = base o' \<and> orch_tracker o1 = orch_tracker o'"
  by (auto simp: on_brands_def map_error_def zoom_def base_def split: prod.splits sum.splits)

lemma mapped_error_eq: "mapped_error env clauses e =
    (case List.find (\<lambda>c. fst c e) clauses of Some c \<Rightarrow> HttpException (snd c) (oe_error_text env e) | None \<Rightarrow> Unhandled e)"
  unfolding mapped_error_def by (simp add: case_prod_beta' split: option.split)

definition foreseen :: "buy_error \<Rightarrow> bool" where
  "foreseen e \<longleftrightarrow> value_error e \<or> brand_error_raised e \<or> account_error_raised e \<or> seller_error_raised e"

text \<open>
  Provisioning an account for a brand that does not authorize the operator is answered 403 before
  anything happens: no seller is called and no account changes.  Every failure the endpoint
  foresees is answered with its status, and the operations are not touched in any case.
\<close>

theorem unauthorized_sync_calls_nobody:
  "case sync_accounts_endpoint ae env url brand_domain brand_id countries billing dry_run (Some o') of (r, st') \<Rightarrow>
     \<exists>o1. st' = Some o1 \<and> orch_tracker o1 = orch_tracker o' \<and>
       (case r of
          Inr body' \<Rightarrow> \<exists>accounts. body' = listing ''accounts'' (map (account_view ae) accounts)
        | Inl (HttpException c d) \<Rightarrow> c \<in> {404, 403, 409, 502} \<and> (if c = 403 then base o1 = base o' else True)
        | Inl (Unhandled e) \<Rightarrow> \<not> foreseen e
        | Inl _ \<Rightarrow> False)"
proof -
  let ?act = "sync_accounts_op env url brand_domain brand_id countries billing dry_run"
  let ?clauses = "[(value_error, 404), (brand_error_raised, 403), (account_error_raised, 409), (seller_error_raised, 502)]
    :: ((buy_error \<Rightarrow> bool) \<times> int) list"
  obtain r o1 where run: "?act o' = (r, o1)" by fastforce
  have tracker: "orch_tracker o1 = orch_tracker o'" by (rule keepsD [OF untouched_op(4) run refl])
  have refused: "base o1 = base o'" if e: "r = Inl e" "brand_error_raised e" for e
    using run e(2) unfolding sync_accounts_op_def Let_def e(1) sbind_Inl_iff
    by (auto simp: seller_at_def brand_error_raised_def dest!: on_brands_base on_accounts_error split: option.splits)
  have mapped: "mapped_error env ?clauses e =
      (if value_error e then HttpException 404 (oe_error_text env e) else if brand_error_raised e then HttpException 403 (oe_error_text env e)
       else if account_error_raised e then HttpException 409 (oe_error_text env e)
       else if seller_error_raised e then HttpException 502 (oe_error_text env e) else Unhandled e)" for e
    by (simp add: mapped_error_eq)
  show ?thesis
  proof (cases r)
    case (Inl e)
    with run tracker refused [OF Inl] mapped [of e] show ?thesis
      by (simp add: sync_accounts_endpoint_def with_orchestrator_def excepting_def map_error_def sbind_def foreseen_def)
  next
    case (Inr accounts)
    with run tracker show ?thesis
      by (auto simp: sync_accounts_endpoint_def with_orchestrator_def excepting_def map_error_def sbind_def)
  qed
qed

section \<open>Secrets\<close>

lemma dset_twice [simp]: "dset k v (dset k w d) = dset k v d"
  by (induction d) auto

text \<open>A webhook configuration with other credentials, where it has some.\<close>

definition put_credentials :: "string \<Rightarrow> json \<Rightarrow> json" where
  "put_credentials v config =
     (case config of
        JObj c \<Rightarrow>
          (case getj c ''authentication'' of
             JObj auth \<Rightarrow>
               if has_key auth ''credentials''
               then JObj (dset ''authentication'' (JObj (dset ''credentials'' (JStr v) auth)) c)
               else JObj c
           | _ \<Rightarrow> JObj c)
      | v \<Rightarrow> v)"

lemma redact_put: "redact_webhook_config (put_credentials v config) = redact_webhook_config config"
  by (auto simp: redact_webhook_config_def put_credentials_def split: json.split)

lemma put_built:
  assumes "build_push_notification_config fresh tool oid url sch secret s = (Inr config, s')"
  shows "\<exists>url sch. put_credentials v (JObj config) = JObj [(''url'', JStr url), (''authentication'', webhook_authentication sch v)]"
  using assms
  by (auto simp: build_push_notification_config_def Let_def webhook_authentication_def put_credentials_def getj_def get_or_def
      has_key_def split: if_splits prod.splits)

definition secrets_changed :: "string \<Rightarrow> string \<Rightarrow> string option \<Rightarrow> orchestrator \<Rightarrow> orchestrator" where
  "secrets_changed v t ot o' = o'
     \<lparr>orch_tracker := (orch_tracker o')\<lparr>operations := map (\<lambda>(k, p). (k, p\<lparr>webhook_config := put_credentials v (webhook_config p)\<rparr>))
        (operations (orch_tracker o'))\<rparr>,
      orch_sellers := map (\<lambda>s. s\<lparr>token := map_option (\<lambda>_. t) (token s), operator_token := ot\<rparr>) (orch_sellers o'),
      orch_webhooks := (orch_webhooks o')\<lparr>webhook_secret := v, runtime_secret := None\<rparr>\<rparr>"

lemma view_changed: "discovered_view (s\<lparr>token := map_option (\<lambda>_. t) (token s), operator_token := ot\<rparr>) = discovered_view s"
  by (simp add: discovered_view_def can_sell_def)

lemma sort_key_map:
  assumes "\<And>x. f (g x) = f x"
  shows "sort_key f (map g xs) = map g (sort_key f xs)"
proof -
  have insort: "insort_key f (g x) (map g ys) = map g (insort_key f x ys)" for x ys
    by (induction ys) (simp_all add: assms)
  show ?thesis by (induction xs) (simp_all add: insort)
qed

definition hidden_config :: "string \<Rightarrow> tracked_operation \<Rightarrow> tracked_operation" where
  "hidden_config v p = p\<lparr>webhook_config := put_credentials v (webhook_config p)\<rparr>"

lemma hidden_config_simps [simp]:
  "created_at (hidden_config v p) = created_at p" "op_status (hidden_config v p) = op_status p"
  "operation_view ae (hidden_config v p) = operation_view ae p" "input_view ae (hidden_config v p) = input_view ae p"
  "operation_detail ae (hidden_config v p) = operation_detail ae p"
  by (simp_all add: hidden_config_def operation_view_def input_view_def operation_detail_def redact_put)

lemma changed_operations:
  "operations (orch_tracker (secrets_changed v t ot o')) = map (\<lambda>(k, p). (k, hidden_config v p)) (operations (orch_tracker o'))"
  by (simp add: secrets_changed_def hidden_config_def)

lemma changed_values:
  "map snd (operations (orch_tracker (secrets_changed v t ot o'))) = map (hidden_config v) (map snd (operations (orch_tracker o')))"
  by (simp add: changed_operations comp_def case_prod_beta)

text \<open>
  C39. The read endpoints give away no secret: whatever the credentials of webhooks and sellers are, the
  lists and details of operations, the accounts and the sellers found are the same.
\<close>

theorem reads_hide_secrets:
  "fst (get_operation_endpoint ae oid (Some (secrets_changed v t ot o'))) = fst (get_operation_endpoint ae oid (Some o')) \<and>
   fst (list_operations_endpoint ae (Some (secrets_changed v t ot o'))) = fst (list_operations_endpoint ae (Some o')) \<and>
   fst (list_input_required_endpoint ae (Some (secrets_changed v t ot o'))) = fst (list_input_required_endpoint ae (Some o')) \<and>
   fst (known_accounts_endpoint ae url (Some (secrets_changed v t ot o'))) = fst (known_accounts_endpoint ae url (Some o')) \<and>
   res_map discovered_view (orch_sellers (secrets_changed v t ot o')) = res_map discovered_view (orch_sellers o')"
proof -
  have detail: "get_operation oid (orch_tracker (secrets_changed v t ot o')) =
      map_option (hidden_config v) (get_operation oid (orch_tracker o'))"
    unfolding get_operation_def changed_operations by (simp add: map_of_map)
  have all: "list_all_operations (orch_tracker (secrets_changed v t ot o')) =
      map (hidden_config v) (list_all_operations (orch_tracker o'))"
    unfolding list_all_operations_def changed_values by (rule sort_key_map) simp
  have waiting: "get_input_required (orch_tracker (secrets_changed v t ot o')) =
      map (hidden_config v) (get_input_required (orch_tracker o'))"
    unfolding get_input_required_def changed_values by (simp add: filter_map comp_def)
  have sellers: "res_map discovered_view (map (\<lambda>s. s\<lparr>token := map_option (\<lambda>_. t) (token s), operator_token := ot\<rparr>) ss) =
      res_map discovered_view ss" for ss
    by (induction ss) (simp_all add: view_changed)
  have "orch_accounts (secrets_changed v t ot o') = orch_accounts o'"
    "orch_sellers (secrets_changed v t ot o') =
       map (\<lambda>s. s\<lparr>token := map_option (\<lambda>_. t) (token s), operator_token := ot\<rparr>) (orch_sellers o')"
    by (simp_all add: secrets_changed_def)
  with detail all waiting sellers show ?thesis
    by (simp add: get_operation_endpoint_def list_operations_endpoint_def list_input_required_endpoint_def
        known_accounts_endpoint_def with_orchestrator_def comp_def split: option.split)
qed

end
