(* ===== verification/Base64.thy ===== *)
theory Base64
  imports Py_Prelude "HOL-Library.Word"
begin

text \<open>
  What the signing code uses of \<open>base64\<close>: the encoder, the lenient decoder of \<open>binascii\<close>, and the unpadded
  URL-safe forms \<open>b64url\<close> and \<open>b64url_decode\<close> of \<open>src/signing/keys.py\<close>.  Bytes are 8-bit words.
\<close>

unbundle bit_operations_syntax

section \<open>The code\<close>

type_synonym byte = "8 word"

definition b64_alphabet :: string where
  "b64_alphabet = ''ABCDEFGHIJKLMNOPQRSTUVWXYZabcdefghijklmnopqrstuvwxyz0123456789+/''"

definition b64_char :: "byte \<Rightarrow> char" where
  "b64_char s = b64_alphabet ! unat s"

definition b64_value :: "char \<Rightarrow> byte option" where
  "b64_value c = map_option of_nat (map_of (zip b64_alphabet [0..<64]) c)"

fun b64encode :: "byte list \<Rightarrow> string" where
  "b64encode [] = []"
| "b64encode [a] = [b64_char (drop_bit 2 a), b64_char (push_bit 4 (take_bit 2 a)), CHR ''='', CHR ''='']"
| "b64encode [a, b] =
     [b64_char (drop_bit 2 a), b64_char (push_bit 4 (take_bit 2 a) OR drop_bit 4 b), b64_char (push_bit 2 (take_bit 4 b)), CHR ''='']"
| "b64encode (a # b # c # bs) =
     b64_char (drop_bit 2 a) # b64_char (push_bit 4 (take_bit 2 a) OR drop_bit 4 b) #
     b64_char (push_bit 2 (take_bit 4 b) OR drop_bit 6 c) # b64_char (take_bit 6 c) # b64encode bs"

text \<open>
  The decoder of \<open>binascii\<close>: \<open>q\<close> characters of a group have been read, \<open>left\<close> holds the bits not yet
  used, \<open>pads\<close> counts the padding.  Characters outside the alphabet are skipped; a complete padding
  ends the text.
\<close>

fun a2b :: "nat \<Rightarrow> byte \<Rightarrow> nat \<Rightarrow> string \<Rightarrow> byte list option" where
  "a2b q left pads [] = (if q = 0 then Some [] else None)"
| "a2b q left pads (c # cs) =
     (if c = CHR ''='' then
        (if q \<ge> 2 \<and> q + (pads + 1) \<ge> 4 then Some [] else a2b q left (if q \<ge> 2 then pads + 1 else pads) cs)
      else case b64_value c of
        None \<Rightarrow> a2b q left pads cs
      | Some v \<Rightarrow>
          (if q = 0 then a2b 1 v 0 cs
           else if q = 1 then map_option (Cons (push_bit 2 left OR drop_bit 4 v)) (a2b 2 (take_bit 4 v) 0 cs)
           else if q = 2 then map_option (Cons (push_bit 4 left OR drop_bit 2 v)) (a2b 3 (take_bit 2 v) 0 cs)
           else map_option (Cons (push_bit 6 left OR v)) (a2b 0 0 0 cs)))"

definition url_char :: "char \<Rightarrow> char" where
  "url_char c = (if c = CHR ''+'' then CHR ''-'' else if c = CHR ''/'' then CHR ''_'' else c)"

definition std_char :: "char \<Rightarrow> char" where
  "std_char c = (if c = CHR ''-'' then CHR ''+'' else if c = CHR ''_'' then CHR ''/'' else c)"

definition b64url :: "byte list \<Rightarrow> string" where
  "b64url bs = rstrip_char (CHR ''='') (map url_char (b64encode bs))"

definition b64url_decode :: "string \<Rightarrow> byte list option" where
  "b64url_decode v =
     (if list_ex (\<lambda>c. code_of c \<ge> 128) v then None
      else a2b 0 0 0 (map std_char (v @ replicate (nat (- int (length v) mod 4)) (CHR ''=''))))"

section \<open>What is encoded is decoded\<close>

lemma alphabet_facts: "length b64_alphabet = 64" "distinct b64_alphabet" "CHR ''='' \<notin> set b64_alphabet"
  "CHR ''-'' \<notin> set b64_alphabet" "CHR ''_'' \<notin> set b64_alphabet" "list_all (\<lambda>c. code_of c < 128) b64_alphabet"
  by (simp add: b64_alphabet_def, code_simp, code_simp, code_simp, code_simp, code_simp)

lemma b64_char_member: "s < 64 \<Longrightarrow> b64_char s \<in> set b64_alphabet"
  by (simp add: b64_char_def alphabet_facts word_less_nat_alt)

lemma b64_value_char [simp]:
  assumes "s < 64"
  shows "b64_value (b64_char s) = Some s"
proof -
  have s: "unat s < 64" using assms by (simp add: word_less_nat_alt)
  have "map_of (zip b64_alphabet [0..<64]) (b64_alphabet ! unat s) = Some ([0..<64] ! unat s)"
    by (rule map_of_zip_nth) (use s in \<open>simp_all add: alphabet_facts\<close>)
  with s show ?thesis by (simp add: b64_value_def b64_char_def)
qed

lemma sextets:
  fixes a b c :: byte
  shows "drop_bit 2 a < 64" "push_bit 4 (take_bit 2 a) < 64" "push_bit 4 (take_bit 2 a) OR drop_bit 4 b < 64"
    "push_bit 2 (take_bit 4 b) < 64" "push_bit 2 (take_bit 4 b) OR drop_bit 6 c < 64" "take_bit 6 c < 64"
proof -
  have small: "x < 64" if "\<And>n. bit x n \<Longrightarrow> n < 6" for x :: byte
  proof -
    have "take_bit 6 x = x" by (rule bit_word_eqI) (use that in \<open>auto simp: bit_simps\<close>)
    moreover have "unat (take_bit 6 x) < 64" by (simp add: unsigned_take_bit_eq take_bit_nat_eq_self_iff take_bit_nat_less_exp [of 6, simplified])
    ultimately show ?thesis by (simp add: word_less_nat_alt)
  qed
  show "drop_bit 2 a < 64" "push_bit 4 (take_bit 2 a) < 64" "push_bit 4 (take_bit 2 a) OR drop_bit 4 b < 64"
    "push_bit 2 (take_bit 4 b) < 64" "push_bit 2 (take_bit 4 b) OR drop_bit 6 c < 64" "take_bit 6 c < 64"
    by (rule small; auto simp: bit_simps dest: bit_imp_le_length)+
qed

lemma byte_eqI:
  fixes x y :: byte
  assumes "bit x 0 = bit y 0" "bit x 1 = bit y 1" "bit x 2 = bit y 2" "bit x 3 = bit y 3"
    "bit x 4 = bit y 4" "bit x 5 = bit y 5" "bit x 6 = bit y 6" "bit x 7 = bit y 7"
  shows "x = y"
proof (rule bit_word_eqI)
  fix n assume "n < LENGTH(8)"
  then have "n = 0 \<or> n = 1 \<or> n = 2 \<or> n = 3 \<or> n = 4 \<or> n = 5 \<or> n = 6 \<or> n = 7" by auto
  with assms show "bit x n = bit y n" by blast
qed

lemma octets:
  fixes a b c :: byte
  shows "push_bit 2 (drop_bit 2 a) OR drop_bit 4 (push_bit 4 (take_bit 2 a) OR drop_bit 4 b) = a"
    "push_bit 2 (drop_bit 2 a) OR drop_bit 4 (push_bit 4 (take_bit 2 a)) = a"
    "push_bit 4 (take_bit 4 (push_bit 4 (take_bit 2 a) OR drop_bit 4 b)) OR drop_bit 2 (push_bit 2 (take_bit 4 b)) = b"
    "push_bit 4 (take_bit 4 (push_bit 4 (take_bit 2 a) OR drop_bit 4 b)) OR drop_bit 2 (push_bit 2 (take_bit 4 b) OR drop_bit 6 c) = b"
    "push_bit 6 (take_bit 2 (push_bit 2 (take_bit 4 b) OR drop_bit 6 c)) OR take_bit 6 c = c"
  by (rule byte_eqI; simp add: bit_simps)+

lemmas octet_simps = octets octets [simplified]

lemma b64_value_pad [simp]: "b64_value (CHR ''='') = None"
  using alphabet_facts(3) by (auto simp: b64_value_def map_of_eq_None_iff dest: set_zip_leftD)

lemma b64_char_not_pad [simp]: "s < 64 \<Longrightarrow> b64_char s \<noteq> CHR ''=''"
  using b64_char_member alphabet_facts(3) by metis

lemma b64encode_decoded: "a2b 0 0 0 (b64encode bs) = Some bs"
proof (induction bs rule: b64encode.induct)
  case (4 a b c bs)
  then show ?case by (simp add: sextets octet_simps)
qed (simp_all add: sextets octet_simps)

text \<open>The encoding is text of the alphabet and padding to a multiple of four characters.\<close>

lemma b64encode_shape:
  "\<exists>body pad. b64encode bs = body @ replicate pad (CHR ''='') \<and> set body \<subseteq> set b64_alphabet \<and> pad < 3 \<and>
     4 dvd length body + pad"
proof (induction bs rule: b64encode.induct)
  case 1
  show ?case by (rule exI [of _ "[]"], rule exI [of _ 0]) simp
next
  case (2 a)
  have two: "replicate 2 x = [x, x]" for x :: char by (simp add: numeral_2_eq_2)
  show ?case
    by (rule exI [of _ "[b64_char (drop_bit 2 a), b64_char (push_bit 4 (take_bit 2 a))]"], rule exI [of _ 2])
       (simp add: b64_char_member sextets two, presburger)
next
  case (3 a b)
  show ?case
    by (rule exI [of _ "[b64_char (drop_bit 2 a), b64_char (push_bit 4 (take_bit 2 a) OR drop_bit 4 b), b64_char (push_bit 2 (take_bit 4 b))]"],
        rule exI [of _ 1]) (simp add: b64_char_member sextets, presburger)
next
  case (4 a b c bs)
  then obtain body pad where "b64encode bs = body @ replicate pad (CHR ''='')" "set body \<subseteq> set b64_alphabet" "pad < 3"
    "4 dvd length body + pad" by blast
  then show ?case
    by (intro exI [of _ "b64_char (drop_bit 2 a) # b64_char (push_bit 4 (take_bit 2 a) OR drop_bit 4 b) #
       b64_char (push_bit 2 (take_bit 4 b) OR drop_bit 6 c) # b64_char (take_bit 6 c) # body"] exI [of _ pad])
       (simp add: b64_char_member sextets, presburger)
qed

lemma rstrip_char_replicate:
  "c \<notin> set body \<Longrightarrow> rstrip_char c (body @ replicate n c) = body"
proof -
  assume "c \<notin> set body"
  then have "\<forall>x \<in> set (rev body). x \<noteq> c" by auto
  then have "dropWhile (\<lambda>x. x = c) (rev body) = rev body" by (cases "rev body") simp_all
  moreover have "dropWhile (\<lambda>x. x = c) (replicate n c @ rev body) = dropWhile (\<lambda>x. x = c) (rev body)"
    by (induction n) simp_all
  ultimately show ?thesis by (simp add: rstrip_char_def)
qed

lemma url_char_back: "set body \<subseteq> set b64_alphabet \<Longrightarrow> map (std_char \<circ> url_char) body = body"
proof (induction body)
  case (Cons c body)
  then have "c \<noteq> CHR ''-''" "c \<noteq> CHR ''_''" using alphabet_facts(4,5) by auto
  with Cons show ?case by (auto simp: url_char_def std_char_def)
qed simp

lemma b64url_decoded: "b64url_decode (b64url bs) = Some bs"
proof -
  obtain body pad where shape: "b64encode bs = body @ replicate pad (CHR ''='')" "set body \<subseteq> set b64_alphabet" "pad < 3"
    "4 dvd length body + pad" using b64encode_shape by blast
  have "CHR ''='' \<notin> url_char ` set body" using shape(2) alphabet_facts(3) by (auto simp: url_char_def)
  then have url: "b64url bs = map url_char body"
    by (simp add: b64url_def shape(1) url_char_def [of "CHR ''=''"] rstrip_char_replicate map_replicate)
  have "code_of (url_char c) < 128" if "c \<in> set body" for c
    using that shape(2) alphabet_facts(6) by (auto simp: url_char_def list_all_iff) (code_simp)+
  then have ascii: "\<not> list_ex (\<lambda>c. code_of c \<ge> 128) (map url_char body)" by (auto simp: list_ex_iff not_le)
  have "(- int (length body)) mod 4 = int pad" using shape(3,4) by presburger
  then have "map std_char (map url_char body @ replicate (nat (- int (length (map url_char body)) mod 4)) (CHR ''='')) = b64encode bs"
    using url_char_back [OF shape(2)] by (simp add: shape(1) std_char_def [of "CHR ''=''"] map_replicate)
  with ascii show ?thesis by (simp add: b64url_decode_def url b64encode_decoded)
qed

text \<open>
  Every byte string comes back from its unpadded URL-safe text: \<open>b64url_decode\<close> restores the padding
  that \<open>b64url\<close> strips, whatever the length.
\<close>

theorem b64url_roundtrip: "b64url_decode (b64url bs) = Some bs"
  by (rule b64url_decoded)

end
