(* ===== verification/Signing_Keys.thy ===== *)
theory Signing_Keys
  imports Base64 Py_State Url_Canon Seller_Agent
begin

text \<open>
  \<open>src/signing/keys.py\<close>: signing keys, how they are loaded, and the key set that is published.  The
  operations of \<open>cryptography\<close> are the fields of \<open>crypto\<close>, over an arbitrary type of key material; a
  constructor that refuses its bytes (\<open>ValueError\<close>) gives \<^const>\<open>None\<close>.  \<open>sc_file\<close> reads a file
  (\<^const>\<open>None\<close> for an \<open>OSError\<close>), \<open>sc_loads\<close> is \<open>json.loads\<close>.
\<close>

section \<open>Keys\<close>

datatype 'k private_key = Ed25519 'k | P256 'k

text \<open>What \<open>load_pem_private_key\<close> returns: a key of one of the two types, or another one.\<close>

datatype 'k loaded_key = LoadedEd25519 'k | LoadedEllipticCurve bool 'k | LoadedOther

record 'k crypto =
  ed_sign :: "'k \<Rightarrow> byte list \<Rightarrow> byte list"
  ec_sign :: "'k \<Rightarrow> byte list \<Rightarrow> nat \<times> nat"
  ed_public :: "'k \<Rightarrow> byte list"
  ec_public :: "'k \<Rightarrow> nat \<times> nat"
  ed_from_bytes :: "byte list \<Rightarrow> 'k option"
  ec_derive :: "nat \<Rightarrow> 'k option"
  load_pem :: "string \<Rightarrow> 'k loaded_key option"
  sha256 :: "byte list \<Rightarrow> byte list"

datatype key_problem =
    UnsupportedKey | NoKid | NoPrivateComponent | UnsupportedJwk | InvalidJwkJson | PemNeedsKid | InvalidPem
  | UnsupportedAlgorithm

datatype signing_error = SigningKeyError key_problem | SigningCrash py_exn | SigningOverflow | SigningFile
  | SigningUrl url_error

record 'k signing_key =
  key_kid :: string
  key_alg :: string
  key_private :: "'k private_key"

definition alg_ed25519 :: string where
  "alg_ed25519 = ''ed25519''"

definition alg_es256 :: string where
  "alg_es256 = ''ecdsa-p256-sha256''"

definition jwk_alg :: "string \<Rightarrow> string option" where
  "jwk_alg = map_of [(alg_ed25519, ''EdDSA''), (alg_es256, ''ES256'')]"

section \<open>Integers as bytes\<close>

fun big_endian :: "nat \<Rightarrow> nat \<Rightarrow> byte list" where
  "big_endian 0 n = []"
| "big_endian (Suc k) n = big_endian k (n div 256) @ [of_nat n]"

definition from_big_endian :: "byte list \<Rightarrow> nat" where
  "from_big_endian bs = fold (\<lambda>b n. 256 * n + unat b) bs 0"

definition to_bytes32 :: "nat \<Rightarrow> signing_error + byte list" where
  "to_bytes32 n = (if n < 2 ^ 256 then Inr (big_endian 32 n) else Inl SigningOverflow)"

section \<open>Signing and publishing\<close>

definition sign_bytes :: "'k crypto \<Rightarrow> 'k signing_key \<Rightarrow> byte list \<Rightarrow> signing_error + byte list" where
  "sign_bytes c key data =
     (case key_private key of
        Ed25519 k \<Rightarrow> Inr (ed_sign c k data)
      | P256 k \<Rightarrow>
          (case ec_sign c k data of (r, s) \<Rightarrow>
             res_bind (to_bytes32 r) (\<lambda>rb. res_bind (to_bytes32 s) (\<lambda>sb. Inr (rb @ sb)))))"

definition public_material :: "'k crypto \<Rightarrow> 'k private_key \<Rightarrow> signing_error + dict" where
  "public_material c pk =
     (case pk of
        Ed25519 k \<Rightarrow> Inr [(''kty'', JStr ''OKP''), (''crv'', JStr ''Ed25519''), (''x'', JStr (b64url (ed_public c k)))]
      | P256 k \<Rightarrow>
          (case ec_public c k of (x, y) \<Rightarrow>
             res_bind (to_bytes32 x) (\<lambda>xb. res_bind (to_bytes32 y) (\<lambda>yb.
               Inr [(''kty'', JStr ''EC''), (''crv'', JStr ''P-256''), (''x'', JStr (b64url xb)), (''y'', JStr (b64url yb))]))))"

definition public_jwk :: "'k crypto \<Rightarrow> 'k signing_key \<Rightarrow> signing_error + dict" where
  "public_jwk c key =
     res_bind (public_material c (key_private key)) (\<lambda>material.
       case jwk_alg (key_alg key) of
         None \<Rightarrow> Inl (SigningCrash KeyError)
       | Some name \<Rightarrow>
           Inr (dict_update (dict_update [(''kid'', JStr (key_kid key))] material)
             [(''alg'', JStr name), (''use'', JStr ''sig''), (''key_ops'', JArr [JStr ''verify'']),
              (''adcp_use'', JStr ''request-signing'')]))"

section \<open>Loading\<close>

definition from_private_key :: "'k loaded_key \<Rightarrow> string \<Rightarrow> signing_error + 'k signing_key" where
  "from_private_key pk kid =
     (case pk of
        LoadedEd25519 k \<Rightarrow> Inr \<lparr>key_kid = kid, key_alg = alg_ed25519, key_private = Ed25519 k\<rparr>
      | LoadedEllipticCurve True k \<Rightarrow> Inr \<lparr>key_kid = kid, key_alg = alg_es256, key_private = P256 k\<rparr>
      | _ \<Rightarrow> Inl (SigningKeyError UnsupportedKey))"

definition value_or_crash :: "'a option \<Rightarrow> signing_error + 'a" where
  "value_or_crash v = (case v of Some x \<Rightarrow> Inr x | None \<Rightarrow> Inl (SigningCrash ValueError))"

definition from_jwk ::
  "(json \<Rightarrow> string) \<Rightarrow> 'k crypto \<Rightarrow> dict \<Rightarrow> string \<Rightarrow> signing_error + 'k signing_key" where
  "from_jwk shown c jwk kid =
     (let key_id = or_else (JStr kid) (getj jwk ''kid'')
      in if \<not> truthy key_id then Inl (SigningKeyError NoKid)
         else if \<not> has_key jwk ''d'' then Inl (SigningKeyError NoPrivateComponent)
         else
           res_bind (value_or_crash (b64url_decode (text_of shown (getj jwk ''d'')))) (\<lambda>d.
             if getj jwk ''kty'' = JStr ''OKP'' \<and> getj jwk ''crv'' = JStr ''Ed25519'' then
               res_bind (value_or_crash (ed_from_bytes c d)) (\<lambda>k. from_private_key (LoadedEd25519 k) (text_of shown key_id))
             else if getj jwk ''kty'' = JStr ''EC'' \<and> getj jwk ''crv'' = JStr ''P-256'' then
               res_bind (value_or_crash (ec_derive c (from_big_endian d)))
                 (\<lambda>k. from_private_key (LoadedEllipticCurve True k) (text_of shown key_id))
             else Inl (SigningKeyError UnsupportedJwk)))"

text \<open>An empty \<open>kid\<close> stands for \<open>None\<close>.  The text of a JWK starts with a brace, so it is an object.\<close>

definition load_signing_key ::
  "(json \<Rightarrow> string) \<Rightarrow> (string \<Rightarrow> json option) \<Rightarrow> 'k crypto \<Rightarrow> string \<Rightarrow> string \<Rightarrow> signing_error + 'k signing_key" where
  "load_signing_key shown loads c material kid =
     (let stripped = strip material
      in if starts_with stripped ''{'' then
           (case loads stripped of
              None \<Rightarrow> Inl (SigningKeyError InvalidJwkJson)
            | Some v \<Rightarrow> (case v of JObj jwk \<Rightarrow> from_jwk shown c jwk kid | _ \<Rightarrow> Inl (SigningCrash AttributeError)))
         else if kid = [] then Inl (SigningKeyError PemNeedsKid)
         else case load_pem c stripped of
           None \<Rightarrow> Inl (SigningKeyError InvalidPem) | Some pk \<Rightarrow> from_private_key pk kid)"

text \<open>\<open>fresh\<close> is the key material that is generated.\<close>

definition generate_signing_key :: "'k \<Rightarrow> string \<Rightarrow> string \<Rightarrow> signing_error + 'k signing_key" where
  "generate_signing_key fresh alg kid =
     (if alg = alg_ed25519 then Inr \<lparr>key_kid = kid, key_alg = alg, key_private = Ed25519 fresh\<rparr>
      else if alg = alg_es256 then Inr \<lparr>key_kid = kid, key_alg = alg, key_private = P256 fresh\<rparr>
      else Inl (SigningKeyError UnsupportedAlgorithm))"

record 'k signing_config =
  sc_key_id :: string
  sc_private_key :: string
  sc_private_key_path :: string
  sc_additional_path :: string
  sc_file :: "string \<Rightarrow> string option"
  sc_loads :: "string \<Rightarrow> json option"
  sc_shown :: "json \<Rightarrow> string"
  sc_crypto :: "'k crypto"

definition read_text :: "'k signing_config \<Rightarrow> string \<Rightarrow> signing_error + string" where
  "read_text cfg path = (case sc_file cfg path of Some s \<Rightarrow> Inr s | None \<Rightarrow> Inl SigningFile)"

definition load_signing_key_from_settings :: "'k signing_config \<Rightarrow> signing_error + 'k signing_key option" where
  "load_signing_key_from_settings cfg =
     (if sc_private_key cfg \<noteq> [] then
        res_bind (load_signing_key (sc_shown cfg) (sc_loads cfg) (sc_crypto cfg) (sc_private_key cfg) (sc_key_id cfg)) (\<lambda>k. Inr (Some k))
      else if sc_private_key_path cfg \<noteq> [] then
        res_bind (read_text cfg (sc_private_key_path cfg)) (\<lambda>text.
        res_bind (load_signing_key (sc_shown cfg) (sc_loads cfg) (sc_crypto cfg) text (sc_key_id cfg)) (\<lambda>k. Inr (Some k)))
      else Inr None)"

section \<open>The published key set\<close>

definition publishable :: "json \<Rightarrow> bool" where
  "publishable v \<longleftrightarrow> is_obj v \<and> \<not> has_key (obj_of v) ''d'' \<and> truthy (getj (obj_of v) ''kid'')"

definition additional_public_keys :: "'k signing_config \<Rightarrow> signing_error + dict list" where
  "additional_public_keys cfg =
     (if sc_additional_path cfg = [] then Inr []
      else
        res_bind (read_text cfg (sc_additional_path cfg)) (\<lambda>text.
        res_bind (value_or_crash (sc_loads cfg text)) (\<lambda>data.
        res_bind (map_left SigningCrash (py_iter (case data of JObj d \<Rightarrow> get_or d ''keys'' (JArr []) | _ \<Rightarrow> JArr []))) (\<lambda>keys.
          Inr (map obj_of (filter publishable keys))))))"

text \<open>
  Members of a set are compared with \<open>==\<close>, under which the numbers of JSON are equal to each other
  and to truth values; lists and dictionaries cannot be members.
\<close>

definition py_same :: "json \<Rightarrow> json \<Rightarrow> bool" where
  "py_same v w \<longleftrightarrow> v = w \<or> numeric v \<noteq> None \<and> numeric v = numeric w"

fun add_public_keys :: "json list \<Rightarrow> dict list \<Rightarrow> dict list \<Rightarrow> signing_error + dict list" where
  "add_public_keys seen keys [] = Inr keys"
| "add_public_keys seen keys (extra # extras) =
     (let kid = getj extra ''kid''
      in if is_obj kid \<or> is_arr kid then Inl (SigningCrash TypeError)
         else if list_ex (py_same kid) seen then add_public_keys seen keys extras
         else add_public_keys (seen @ [kid]) (keys @ [extra]) extras)"

definition build_jwks :: "'k signing_config \<Rightarrow> 'k signing_key option \<Rightarrow> signing_error + dict" where
  "build_jwks cfg key =
     res_bind (case key of None \<Rightarrow> Inr [] | Some k \<Rightarrow> res_bind (public_jwk (sc_crypto cfg) k) (\<lambda>j. Inr [j])) (\<lambda>keys.
     res_bind (additional_public_keys cfg) (\<lambda>extra.
     res_bind (add_public_keys (map (\<lambda>k. getj k ''kid'') keys) keys extra) (\<lambda>all.
       Inr [(''keys'', JArr (map JObj all))])))"


section \<open>Fixed-size integers\<close>

lemma big_endian_length [simp]: "length (big_endian k n) = k"
  by (induction k arbitrary: n) simp_all

lemma from_big_endian_snoc [simp]: "from_big_endian (bs @ [b]) = 256 * from_big_endian bs + unat b"
  by (simp add: from_big_endian_def)

lemma from_big_endian: "from_big_endian (big_endian k n) = n mod 256 ^ k"
proof (induction k arbitrary: n)
  case (Suc k)
  have "unat (of_nat n :: byte) = n mod 256" by (simp add: unat_of_nat)
  with Suc [of "n div 256"] show ?case by (simp add: mod_mult2_eq [of n 256 "256 ^ k"])
qed (simp add: from_big_endian_def)

lemma big_endian_from: "big_endian (length bs) (from_big_endian bs) = bs"
proof (induction bs rule: rev_induct)
  case (snoc b bs)
  have "unat b < 2 ^ LENGTH(8)" by (rule unsigned_less)
  then have "(256 * from_big_endian bs + unat b) div 256 = from_big_endian bs" by simp
  moreover have "(of_nat (256 * from_big_endian bs + unat b) :: byte) = b"
  proof -
    have "(of_nat (256 * from_big_endian bs) :: byte) = 0" by (simp only: word_of_nat_eq_0_iff) simp
    then show ?thesis by (simp only: of_nat_add) simp
  qed
  ultimately show ?case using snoc by simp
qed (simp add: from_big_endian_def)

lemma to_bytes32_Inr: "to_bytes32 n = Inr bs \<longleftrightarrow> n < 2 ^ 256 \<and> bs = big_endian 32 n"
  by (auto simp: to_bytes32_def)

text \<open>
  A 32-byte field of a signature or a public key is its number, and nothing else: what \<open>to_bytes\<close>
  gives has 32 bytes and reads back as the number, every 32 bytes are the text of a number, and a
  number that does not fit raises.
\<close>

theorem coordinate_roundtrip:
  "(case to_bytes32 n of
      Inr bs \<Rightarrow> length bs = 32 \<and> from_big_endian bs = n
    | Inl e \<Rightarrow> e = SigningOverflow \<and> 2 ^ 256 \<le> n) \<and>
   (if length bs = 32 then to_bytes32 (from_big_endian bs) = Inr bs else True)"
proof -
  have bound: "from_big_endian bs < 256 ^ length bs" for bs
  proof -
    have "from_big_endian bs mod 256 ^ length bs < 256 ^ length bs" by (rule mod_less_divisor) simp
    then show ?thesis
      using from_big_endian [of "length bs" "from_big_endian bs"] unfolding big_endian_from by metis
  qed
  have "(2::nat) ^ 256 = 256 ^ 32" by simp
  with bound [of bs] from_big_endian [of 32 n] big_endian_from [of bs] show ?thesis
    by (auto simp: to_bytes32_def)
qed

section \<open>Keys are well-typed\<close>

text \<open>The algorithm of a key is the one of its material, and it has a key id.\<close>

definition well_typed_key :: "'k signing_key \<Rightarrow> bool" where
  "well_typed_key key \<longleftrightarrow> key_kid key \<noteq> [] \<and>
     (case key_private key of Ed25519 k \<Rightarrow> key_alg key = alg_ed25519 | P256 k \<Rightarrow> key_alg key = alg_es256)"

lemma from_private_key_typed: "from_private_key pk kid = Inr key \<Longrightarrow> kid \<noteq> [] \<Longrightarrow> well_typed_key key"
  by (auto simp: from_private_key_def well_typed_key_def split: loaded_key.splits bool.splits)

text \<open>The text of a value that counts as true is not empty.\<close>

definition shows_values :: "(json \<Rightarrow> string) \<Rightarrow> bool" where
  "shows_values shown \<longleftrightarrow> (\<forall>v. is_str v \<or> shown v \<noteq> [])"

lemma text_of_truthy: "shows_values shown \<Longrightarrow> truthy v \<Longrightarrow> text_of shown v \<noteq> []"
  by (cases "is_str v") (auto simp: shows_values_def text_of_def split: json.splits)

lemma from_jwk_typed:
  "from_jwk shown c jwk kid = Inr key \<Longrightarrow> shows_values shown \<Longrightarrow> well_typed_key key"
  by (auto simp: from_jwk_def Let_def res_bind_Inr_iff text_of_truthy elim!: from_private_key_typed split: if_splits)

lemma load_signing_key_typed:
  "load_signing_key shown loads c material kid = Inr key \<Longrightarrow> shows_values shown \<Longrightarrow> well_typed_key key"
  by (auto simp: load_signing_key_def Let_def elim: from_jwk_typed from_private_key_typed
      split: if_splits option.splits json.splits)

lemma well_typed_alg: "well_typed_key key \<Longrightarrow> \<exists>name. jwk_alg (key_alg key) = Some name"
  by (auto simp: well_typed_key_def jwk_alg_def alg_ed25519_def alg_es256_def split: private_key.splits)

text \<open>What is documented of the cryptography: signatures of 64 bytes, numbers below the order of the curve.\<close>

definition sound_crypto :: "'k crypto \<Rightarrow> bool" where
  "sound_crypto c \<longleftrightarrow>
     (\<forall>k data. length (ed_sign c k data) = 64) \<and>
     (\<forall>k data. fst (ec_sign c k data) < 2 ^ 256 \<and> snd (ec_sign c k data) < 2 ^ 256) \<and>
     (\<forall>k. fst (ec_public c k) < 2 ^ 256 \<and> snd (ec_public c k) < 2 ^ 256)"

lemma sign_bytes_sound:
  assumes "sound_crypto c"
  shows "\<exists>sig. sign_bytes c key data = Inr sig \<and> length sig = 64"
  using assms
  by (auto simp: sound_crypto_def sign_bytes_def to_bytes32_def split: private_key.split prod.split)
    (metis fst_conv snd_conv)+

lemma dict_update_keys [simp]:
  "has_key (dict_update d e) k \<longleftrightarrow> has_key d k \<or> has_key e k"
  by (induction e arbitrary: d) (auto simp: dict_update_def has_key_def)

lemma getj_dict_update_other: "\<not> has_key e k \<Longrightarrow> getj (dict_update d e) k = getj d k"
  by (induction e arbitrary: d) (auto simp: dict_update_def has_key_def split: if_splits)

lemma has_key_list: "\<not> has_key [] k" "has_key ((k', v) # d) k \<longleftrightarrow> k' = k \<or> has_key d k"
  by (auto simp: has_key_def)

lemma public_jwk_typed:
  assumes "sound_crypto c" and "well_typed_key key"
  shows "\<exists>jwk. public_jwk c key = Inr jwk \<and> getj jwk ''kid'' = JStr (key_kid key) \<and> \<not> has_key jwk ''d''"
proof -
  obtain name where "jwk_alg (key_alg key) = Some name" using well_typed_alg [OF assms(2)] by blast
  moreover have "\<exists>m. public_material c (key_private key) = Inr m \<and> \<not> has_key m ''d'' \<and> \<not> has_key m ''kid''"
    using assms(1) by (auto simp: sound_crypto_def public_material_def to_bytes32_def has_key_def split: private_key.split prod.split)
     (metis fst_conv snd_conv)+
  ultimately show ?thesis
    by (auto simp: public_jwk_def getj_dict_update_other has_key_list) (simp add: getj_def get_or_def)
qed

text \<open>A key that signs and can be published.\<close>

definition key_works :: "'k crypto \<Rightarrow> 'k signing_key \<Rightarrow> bool" where
  "key_works c key \<longleftrightarrow>
     (\<forall>data. \<exists>sig. sign_bytes c key data = Inr sig \<and> length sig = 64) \<and> (\<exists>jwk. public_jwk c key = Inr jwk)"

lemma well_typed_works: "sound_crypto c \<Longrightarrow> well_typed_key key \<Longrightarrow> key_works c key"
  unfolding key_works_def using sign_bytes_sound public_jwk_typed by blast

lemma load_signing_key_no_overflow: "load_signing_key shown loads c material given \<noteq> Inl SigningOverflow"
  by (auto simp: load_signing_key_def from_jwk_def from_private_key_def value_or_crash_def Let_def res_bind_def
      split: if_splits option.splits json.splits sum.splits loaded_key.splits bool.splits)

text \<open>
  C26. Every key the code makes is well-typed and works, whether it comes from a JWK, from PEM text or
  from the generator: it has a key id, its algorithm is that of its material, signing with it never
  fails and gives 64 bytes, and its public JWK can be written.
\<close>

theorem signing_keys_well_typed:
  assumes "shows_values shown" and "sound_crypto c" and "kid \<noteq> []"
  shows "(case load_signing_key shown loads c material given of
      Inr key \<Rightarrow> well_typed_key key \<and> key_works c key | Inl e \<Rightarrow> e \<noteq> SigningOverflow) \<and>
    (case generate_signing_key fresh alg kid of
      Inr key \<Rightarrow> well_typed_key key \<and> key_works c key \<and> key_alg key = alg
    | Inl e \<Rightarrow> alg \<noteq> alg_ed25519 \<and> alg \<noteq> alg_es256)"
proof (rule conjI)
  show "case load_signing_key shown loads c material given of
      Inr key \<Rightarrow> well_typed_key key \<and> key_works c key | Inl e \<Rightarrow> e \<noteq> SigningOverflow"
  proof (cases "load_signing_key shown loads c material given")
    case (Inl e)
    then show ?thesis using load_signing_key_no_overflow [of shown loads c material given] by simp
  next
    case (Inr key)
    from load_signing_key_typed [OF this assms(1)] show ?thesis using Inr well_typed_works [OF assms(2)] by simp
  qed
  show "case generate_signing_key fresh alg kid of
      Inr key \<Rightarrow> well_typed_key key \<and> key_works c key \<and> key_alg key = alg
    | Inl e \<Rightarrow> alg \<noteq> alg_ed25519 \<and> alg \<noteq> alg_es256"
    using well_typed_works [OF assms(2)] assms(3) by (auto simp: generate_signing_key_def well_typed_key_def alg_ed25519_def alg_es256_def)
qed

section \<open>Nothing private is published\<close>

definition public_entry :: "dict \<Rightarrow> bool" where
  "public_entry k \<longleftrightarrow> \<not> has_key k ''d'' \<and> truthy (getj k ''kid'')"

definition kids_differ :: "dict list \<Rightarrow> bool" where
  "kids_differ keys \<longleftrightarrow> sorted_wrt (\<lambda>k l. \<not> py_same (getj k ''kid'') (getj l ''kid'')) keys"

lemma py_same_sym: "py_same v w \<longleftrightarrow> py_same w v"
  by (metis py_same_def)

lemma add_public_keys_sound:
  assumes "add_public_keys seen keys extras = Inr all" and "list_all public_entry keys" and "list_all public_entry extras"
    and "kids_differ keys" and "\<And>k. k \<in> set keys \<Longrightarrow> getj k ''kid'' \<in> set seen"
  shows "list_all public_entry all \<and> kids_differ all \<and> (\<exists>more. all = keys @ more \<and> set more \<subseteq> set extras)"
  using assms
proof (induction seen keys extras rule: add_public_keys.induct)
  case (2 seen keys extra extras)
  show ?case
  proof (cases "list_ex (py_same (getj extra ''kid'')) seen")
    case True
    with 2 have "list_all public_entry all \<and> kids_differ all \<and> (\<exists>more. all = keys @ more \<and> set more \<subseteq> set extras)"
      by (auto simp: Let_def split: if_splits)
    then show ?thesis by auto
  next
    case False
    have "kids_differ (keys @ [extra])"
      using False 2(6,7) unfolding kids_differ_def by (auto simp: sorted_wrt_append list_ex_iff) (metis py_same_sym)
    moreover have "add_public_keys (seen @ [getj extra ''kid'']) (keys @ [extra]) extras = Inr all"
      using 2(3) False by (auto simp: Let_def split: if_splits)
    moreover have "\<not> (is_obj (getj extra ''kid'') \<or> is_arr (getj extra ''kid''))"
      using 2(3) by (auto simp: Let_def split: if_splits)
    ultimately have "list_all public_entry all \<and> kids_differ all \<and> (\<exists>more. all = (keys @ [extra]) @ more \<and> set more \<subseteq> set extras)"
      using 2(2) [OF refl _ False] 2(4,5,7) by auto
    then show ?thesis by auto
  qed
qed auto

lemma public_jwk_entry:
  assumes "public_jwk c key = Inr jwk" and "key_kid key \<noteq> []"
  shows "public_entry jwk \<and> getj jwk ''kid'' = JStr (key_kid key)"
proof -
  from assms(1) obtain m name where m: "public_material c (key_private key) = Inr m"
    and jwk: "jwk = dict_update (dict_update [(''kid'', JStr (key_kid key))] m)
             [(''alg'', JStr name), (''use'', JStr ''sig''), (''key_ops'', JArr [JStr ''verify'']),
              (''adcp_use'', JStr ''request-signing'')]"
    by (auto simp: public_jwk_def res_bind_Inr_iff split: option.splits)
  have keys: "\<not> has_key m ''d''" "\<not> has_key m ''kid''"
    using m by (auto simp: public_material_def res_bind_Inr_iff has_key_list split: private_key.splits prod.splits)
  then have kid: "getj jwk ''kid'' = JStr (key_kid key)"
    unfolding jwk by (simp add: getj_dict_update_other has_key_list) (simp add: getj_def get_or_def)
  have "\<not> has_key jwk ''d''" unfolding jwk using keys by (simp add: has_key_list)
  with kid assms(2) show ?thesis by (simp add: public_entry_def)
qed

lemma published_keys:
  assumes "build_jwks cfg key = Inr jwks" and "case key of None \<Rightarrow> True | Some k \<Rightarrow> key_kid k \<noteq> []"
  shows "\<exists>keys. jwks = [(''keys'', JArr (map JObj keys))] \<and> list_all public_entry keys \<and> kids_differ keys \<and>
    (case key of None \<Rightarrow> True | Some k \<Rightarrow> keys \<noteq> [] \<and> getj (hd keys) ''kid'' = JStr (key_kid k))"
proof -
  from assms(1) obtain active extra all where
    active: "(case key of None \<Rightarrow> Inr [] | Some k \<Rightarrow> res_bind (public_jwk (sc_crypto cfg) k) (\<lambda>j. Inr [j])) = Inr active"
    and extra: "additional_public_keys cfg = Inr extra"
    and all: "add_public_keys (map (\<lambda>k. getj k ''kid'') active) active extra = Inr all"
    and jwks: "jwks = [(''keys'', JArr (map JObj all))]"
    by (auto simp: build_jwks_def res_bind_Inr_iff)
  have first: "list_all public_entry active \<and> kids_differ active \<and>
      (case key of None \<Rightarrow> active = [] | Some k \<Rightarrow> (\<exists>j. active = [j] \<and> getj j ''kid'' = JStr (key_kid k)))"
    using active assms(2) public_jwk_entry
    by (auto simp: res_bind_Inr_iff kids_differ_def split: option.splits)
  have "list_all public_entry extra"
    using extra by (auto simp: additional_public_keys_def res_bind_Inr_iff publishable_def public_entry_def list_all_iff
        split: if_splits)
  from add_public_keys_sound [OF all _ this] first have
    "list_all public_entry all \<and> kids_differ all \<and> (\<exists>more. all = active @ more \<and> set more \<subseteq> set extra)" by simp
  with first jwks show ?thesis by (intro exI [of _ all]) (auto split: option.splits)
qed


text \<open>A symmetric key is a secret without \<open>d\<close>: it is published as it is in the file.\<close>

lemma symmetric_secret_published:
  assumes "sc_additional_path cfg \<noteq> []" and "sc_file cfg (sc_additional_path cfg) = Some text"
    and "sc_loads cfg text = Some (JObj [(''keys'', JArr [JObj [(''kty'', JStr ''oct''), (''kid'', JStr ''k1''), (''k'', JStr secret)]])])"
  shows "build_jwks cfg None = Inr [(''keys'', JArr [JObj [(''kty'', JStr ''oct''), (''kid'', JStr ''k1''), (''k'', JStr secret)]])]"
  using assms
  by (simp add: build_jwks_def additional_public_keys_def read_text_def value_or_crash_def publishable_def has_key_list)
     (simp add: getj_def get_or_def publishable_def has_key_list)

section \<open>A concrete key\<close>

definition example_crypto :: "byte crypto" where
  "example_crypto =
     \<lparr>ed_sign = (\<lambda>k data. replicate 64 k), ec_sign = (\<lambda>k data. (unat k, 1)), ed_public = (\<lambda>k. [k]),
      ec_public = (\<lambda>k. (unat k, 2)), ed_from_bytes = (\<lambda>bs. if bs = [] then None else Some (hd bs)),
      ec_derive = (\<lambda>n. Some (of_nat n)), load_pem = (\<lambda>s. None), sha256 = (\<lambda>bs. replicate 32 (of_nat (length bs)))\<rparr>"

definition example_jwk :: dict where
  "example_jwk = [(''kty'', JStr ''OKP''), (''crv'', JStr ''Ed25519''), (''d'', JStr ''AgI''), (''kid'', JStr ''k0'')]"

definition example_signing_config :: "byte signing_config" where
  "example_signing_config =
     \<lparr>sc_key_id = [], sc_private_key = ''{}'', sc_private_key_path = [], sc_additional_path = ''more'',
      sc_file = (\<lambda>p. Some ''keys''),
      sc_loads = (\<lambda>s. Some (if s = ''keys'' then JObj [(''keys'', JArr [JObj [(''kid'', JStr ''k1'')], JObj [(''kid'', JStr ''k0'')],
        JObj [(''kid'', JStr ''k2''), (''d'', JStr ''x'')]])] else JObj example_jwk)),
      sc_shown = (\<lambda>v. ''v''), sc_crypto = example_crypto\<rparr>"

definition example_signing_key :: "byte signing_key" where
  "example_signing_key = \<lparr>key_kid = ''k0'', key_alg = alg_ed25519, key_private = Ed25519 2\<rparr>"

definition same_key :: "byte signing_key \<Rightarrow> signing_error + byte signing_key \<Rightarrow> bool" where
  "same_key key r = (case r of Inr k \<Rightarrow> key_kid k = key_kid key \<and> key_alg k = key_alg key \<and> key_private k = key_private key | Inl e \<Rightarrow> False)"

lemma example_loaded_key:
  "same_key example_signing_key (load_signing_key (sc_shown example_signing_config) (sc_loads example_signing_config) example_crypto ''{}'' [])"
  by code_simp

definition kids_published :: "signing_error + dict \<Rightarrow> json list" where
  "kids_published r = (case r of Inr d \<Rightarrow> map (\<lambda>k. getj (obj_of k) ''kid'') (arr_of (getj d ''keys'')) | Inl e \<Rightarrow> [])"

lemma example_published: "kids_published (build_jwks example_signing_config (Some example_signing_key)) = [JStr ''k0'', JStr ''k1'']"
  by code_simp


lemma example_crypto_sound: "sound_crypto example_crypto"
proof -
  have "unat k < 2 ^ 256" for k :: byte
  proof -
    have "unat k < 2 ^ LENGTH(8)" by (rule unsigned_less)
    then show ?thesis by simp
  qed
  then show ?thesis by (simp add: sound_crypto_def example_crypto_def)
qed

lemma signing_keys_well_typed_witness:
  "(case load_signing_key (sc_shown example_signing_config) (sc_loads example_signing_config) example_crypto ''{}'' [] of
      Inr key \<Rightarrow> key_alg key = alg_ed25519 \<and> key_works example_crypto key | Inl e \<Rightarrow> False)"
proof -
  have "shows_values (sc_shown example_signing_config)" by (simp add: shows_values_def example_signing_config_def)
  from signing_keys_well_typed [OF this example_crypto_sound, where kid = "''k''" and loads = "sc_loads example_signing_config"
    and material = "''{}''" and given = "[]"]
  show ?thesis using example_loaded_key
    by (auto simp: same_key_def example_signing_key_def split: sum.splits)
qed

end
