(* ===== verification/Request_Signing.thy ===== *)
theory Request_Signing
  imports Signing_Keys Json_Text Seller_Call
begin

text \<open>
  \<open>src/signing/rfc9421.py\<close> and \<open>src/signing/auth.py\<close>: HTTP message signatures (RFC 9421) in the AdCP
  profile, and the hook of the HTTP client that signs the tool calls of MCP.  \<open>se_time\<close> is the clock,
  \<open>se_random\<close> the 16 bytes of \<open>os.urandom\<close>.  The header collection of \<open>httpx2\<close> is the type \<open>'h\<close> with the two
  operations of \<open>header_ops\<close> the code uses: \<open>dict(headers)\<close> and \<open>headers[name] = value\<close>.
\<close>

section \<open>The signature profile\<close>

definition sig_tag :: string where
  "sig_tag = ''adcp/request-signing/v1''"

definition max_validity :: int where
  "max_validity = 300"

definition components_no_body :: "string list" where
  "components_no_body = [''@method'', ''@target-uri'', ''@authority'']"

definition components_with_body :: "string list" where
  "components_with_body = [''@method'', ''@target-uri'', ''@authority'', ''content-type'', ''content-digest'']"

definition sf_binary :: "byte list \<Rightarrow> string" where
  "sf_binary bs = '':'' @ b64encode bs @ '':''"

definition content_digest :: "'k crypto \<Rightarrow> byte list \<Rightarrow> string" where
  "content_digest c body = ''sha-256='' @ sf_binary (sha256 c body)"

definition new_nonce :: "byte list \<Rightarrow> string" where
  "new_nonce random = b64url random"

definition dquoted :: "string \<Rightarrow> string" where
  "dquoted s = CHR 0x22 # s @ [CHR 0x22]"

definition signature_params :: "string list \<Rightarrow> int \<Rightarrow> int \<Rightarrow> string \<Rightarrow> string \<Rightarrow> string \<Rightarrow> string" where
  "signature_params components created expires nonce keyid alg =
     ''('' @ join_with '' '' (map dquoted components) @ '');created='' @ int_text created @ '';expires='' @ int_text expires @
     '';nonce='' @ dquoted nonce @ '';keyid='' @ dquoted keyid @ '';alg='' @ dquoted alg @ '';tag='' @ dquoted sig_tag"

definition lowered_headers :: "(string \<times> string) list \<Rightarrow> (string \<times> string) list" where
  "lowered_headers headers = fold (\<lambda>(k, v). dset (lower k) (strip v)) headers []"

definition component_value ::
  "string \<Rightarrow> canonical_url \<Rightarrow> (string \<times> string) list \<Rightarrow> string \<Rightarrow> signing_error + string" where
  "component_value http_method canonical lowered component =
     (if component = ''@method'' then Inr (upper http_method)
      else if component = ''@target-uri'' then Inr (target_uri canonical)
      else if component = ''@authority'' then Inr (authority canonical)
      else case map_of lowered component of Some v \<Rightarrow> Inr v | None \<Rightarrow> Inl (SigningCrash KeyError))"

definition base_line :: "string \<Rightarrow> string \<Rightarrow> string" where
  "base_line component v = dquoted component @ '': '' @ v"

definition signature_base ::
  "(string \<Rightarrow> string option) \<Rightarrow> string \<Rightarrow> string \<Rightarrow> (string \<times> string) list \<Rightarrow> string list \<Rightarrow> string \<Rightarrow> signing_error + string" where
  "signature_base idna http_method url headers components params =
     res_bind (map_left SigningUrl (canonicalize_url idna url)) (\<lambda>canonical.
     res_bind (res_map (\<lambda>c. res_bind (component_value http_method canonical (lowered_headers headers) c)
                 (\<lambda>v. Inr (base_line c v))) components) (\<lambda>lines.
       Inr (join_with [CHR 0x0A] (lines @ [base_line ''@signature-params'' params]))))"

definition text_bytes :: "string \<Rightarrow> byte list" where
  "text_bytes s = map (\<lambda>c. of_nat (code_of c)) s"

section \<open>Signing a request\<close>

record 'k sign_env =
  se_crypto :: "'k crypto"
  se_idna :: "string \<Rightarrow> string option"
  se_time :: int
  se_random :: "byte list"

text \<open>An empty \<open>nonce\<close> stands for \<open>None\<close>.\<close>

definition sign_request ::
  "'k sign_env \<Rightarrow> string \<Rightarrow> string \<Rightarrow> (string \<times> string) list \<Rightarrow> byte list \<Rightarrow> 'k signing_key \<Rightarrow>
     int option \<Rightarrow> string \<Rightarrow> int \<Rightarrow> signing_error + (string \<times> string) list" where
  "sign_request env http_method url headers body key created nonce validity =
     (let issued = (case created of Some t \<Rightarrow> t | None \<Rightarrow> se_time env);
          expires = issued + min validity max_validity;
          digest = content_digest (se_crypto env) body
      in if body \<noteq> [] \<and> \<not> list_ex (\<lambda>(k, v). lower k = ''content-type'') headers then Inl (SigningCrash ValueError)
         else
           let out = (if body \<noteq> [] then [(''Content-Digest'', digest)] else []);
               merged = (if body \<noteq> [] then dset ''content-digest'' digest headers else headers);
               components = (if body \<noteq> [] then components_with_body else components_no_body);
               params = signature_params components issued expires
                 (if nonce \<noteq> [] then nonce else new_nonce (se_random env)) (key_kid key) (key_alg key)
           in res_bind (signature_base (se_idna env) http_method url merged components params) (\<lambda>base.
              res_bind (sign_bytes (se_crypto env) key (text_bytes base)) (\<lambda>sig.
                Inr (dset ''Signature'' (''sig1='' @ sf_binary sig) (dset ''Signature-Input'' (''sig1='' @ params) out)))))"

section \<open>Signing MCP calls\<close>

definition mcp_tool_call :: "(byte list \<Rightarrow> json option) \<Rightarrow> byte list \<Rightarrow> (string \<times> dict) option" where
  "mcp_tool_call loads_bytes body =
     (if body = [] then None
      else case loads_bytes body of
        Some (JObj envelope) \<Rightarrow>
          (if getj envelope ''method'' \<noteq> JStr ''tools/call'' then None
           else case getj envelope ''params'' of
             JObj params \<Rightarrow>
               (case getj params ''name'' of
                  JStr name \<Rightarrow> Some (name, obj_of (getj params ''arguments''))
                | _ \<Rightarrow> None)
           | _ \<Rightarrow> None)
      | _ \<Rightarrow> None)"

text \<open>The request of the HTTP library; its headers are reached by the library's operations.\<close>

record 'h http_request =
  rq_method :: string
  rq_url :: string
  rq_headers :: 'h
  rq_content :: "byte list"

record 'h header_ops =
  h_dict :: "'h \<Rightarrow> (string \<times> string) list"
  h_set :: "string \<Rightarrow> string \<Rightarrow> 'h \<Rightarrow> 'h"

definition set_headers :: "'h header_ops \<Rightarrow> (string \<times> string) list \<Rightarrow> 'h \<Rightarrow> 'h" where
  "set_headers ops added h = fold (\<lambda>(n, v). h_set ops n v) added h"

definition selected_call ::
  "(byte list \<Rightarrow> json option) \<Rightarrow> (string \<Rightarrow> dict \<Rightarrow> py_exn + bool) \<Rightarrow> 'h http_request \<Rightarrow> py_exn + bool" where
  "selected_call loads_bytes wanted rq =
     (case (if upper (rq_method rq) = ''POST'' then mcp_tool_call loads_bytes (rq_content rq) else None) of
        None \<Rightarrow> Inr False | Some (tool, args) \<Rightarrow> wanted tool args)"

definition auth_flow ::
  "'h header_ops \<Rightarrow> 'k sign_env \<Rightarrow> (byte list \<Rightarrow> json option) \<Rightarrow> (string \<Rightarrow> dict \<Rightarrow> py_exn + bool) \<Rightarrow> 'k signing_key \<Rightarrow>
     'h http_request \<Rightarrow> signing_error + 'h http_request" where
  "auth_flow ops env loads_bytes wanted key rq =
     res_bind (map_left SigningCrash (selected_call loads_bytes wanted rq)) (\<lambda>sign.
       if \<not> sign then Inr rq
       else
         res_bind (sign_request env (rq_method rq) (rq_url rq) (h_dict ops (rq_headers rq)) (rq_content rq) key None [] max_validity)
           (\<lambda>added. Inr (rq\<lparr>rq_headers := set_headers ops added (rq_headers rq)\<rparr>)))"

section \<open>Verification\<close>

text \<open>What is documented of the headers: names are kept in lower case, once each, and setting replaces.\<close>

definition header_laws :: "'h header_ops \<Rightarrow> bool" where
  "header_laws ops \<longleftrightarrow>
     (\<forall>h. distinct (map fst (h_dict ops h)) \<and> (\<forall>(k, v) \<in> set (h_dict ops h). lower k = k)) \<and>
     (\<forall>n v h. map_of (h_dict ops (h_set ops n v h)) = (map_of (h_dict ops h))(lower n \<mapsto> v))"

text \<open>
  A verifier of the profile (RFC 9421, section 3.2): it reads the covered components and the
  parameters from \<open>Signature-Input\<close>, rebuilds the base from the request it received, checks the
  signature and, for a request with a body, that the digest is covered and is that of the body.
\<close>

definition covered_components :: "string \<Rightarrow> string list" where
  "covered_components params =
     map (\<lambda>q. butlast (tl q)) (split_on (CHR 0x20) (takeWhile (\<lambda>c. c \<noteq> CHR 0x29) (drop 1 params)))"

definition signature_accepted ::
  "'k crypto \<Rightarrow> (string \<Rightarrow> string option) \<Rightarrow> (byte list \<Rightarrow> byte list \<Rightarrow> bool) \<Rightarrow> string \<Rightarrow> string \<Rightarrow>
     (string \<times> string) list \<Rightarrow> byte list \<Rightarrow> bool" where
  "signature_accepted c idna verify http_method url headers body \<longleftrightarrow>
     (case (map_of headers ''signature-input'', map_of headers ''signature'') of
        (Some input, Some sig) \<Rightarrow>
          starts_with input ''sig1='' \<and> starts_with sig ''sig1=:'' \<and>
          (let params = drop 5 input; components = covered_components params
           in (case (signature_base idna http_method url headers components params, a2b 0 0 0 (butlast (drop 6 sig))) of
                 (Inr base, Some bytes) \<Rightarrow> verify (text_bytes base) bytes
               | _ \<Rightarrow> False) \<and>
              (if body = [] then True
               else ''content-digest'' \<in> set components \<and> map_of headers ''content-digest'' = Some (content_digest c body)))
      | _ \<Rightarrow> False)"

section \<open>Texts and headers\<close>

lemma split_on_join: "xs \<noteq> [] \<Longrightarrow> \<forall>x \<in> set xs. c \<notin> set x \<Longrightarrow> split_on c (join_with [c] xs) = xs"
proof -
  have "(@) [c] = (#) c" by (rule ext) simp
  moreover assume "xs \<noteq> []" "\<forall>x \<in> set xs. c \<notin> set x"
  ultimately show ?thesis using split_on_concat [of xs c] by (cases xs) (simp_all add: join_with_def)
qed

lemma map_of_lowered:
  assumes "distinct (map fst h)" and "\<forall>(k, v) \<in> set h. lower k = k"
  shows "map_of (lowered_headers h) c = map_option strip (map_of h c)"
proof -
  have "map_of (fold (\<lambda>(k, v). dset (lower k) (strip v)) h d) c =
      (case map_of h c of Some v \<Rightarrow> Some (strip v) | None \<Rightarrow> map_of d c)" for d
    using assms by (induction h arbitrary: d) (force split: option.splits dest: map_of_SomeD)+
  then show ?thesis by (simp add: lowered_headers_def split: option.split)
qed

lemma map_of_headers_set:
  assumes "header_laws ops"
  shows "map_of (h_dict ops (set_headers ops added h)) =
     map_of (h_dict ops h) ++ map_of (rev (map (\<lambda>(n, v). (lower n, v)) added))"
proof (induction added arbitrary: h)
  case (Cons p added)
  obtain n v where p: "p = (n, v)" by (cases p)
  have "map_of (h_dict ops (set_headers ops (p # added) h)) =
      map_of (h_dict ops (h_set ops n v h)) ++ map_of (rev (map (\<lambda>(n, v). (lower n, v)) added))"
    using Cons by (simp add: set_headers_def p)
  also have "map_of (h_dict ops (h_set ops n v h)) = (map_of (h_dict ops h))(lower n \<mapsto> v)"
    using assms by (simp only: header_laws_def)
  finally show ?case by (auto simp: p map_add_def fun_eq_iff split: option.splits)
qed (simp add: set_headers_def)

text \<open>The covered values, in the order of the components.\<close>

definition covered_values ::
  "(string \<Rightarrow> string option) \<Rightarrow> string \<Rightarrow> string \<Rightarrow> (string \<times> string) list \<Rightarrow> string list \<Rightarrow> signing_error + string list" where
  "covered_values idna http_method url headers components =
     res_bind (map_left SigningUrl (canonicalize_url idna url)) (\<lambda>canonical.
       res_map (component_value http_method canonical (lowered_headers headers)) components)"

lemma res_map_then:
  "res_map (\<lambda>c. res_bind (f c) (\<lambda>v. Inr (g c v))) cs = res_bind (res_map f cs) (\<lambda>vs. Inr (map2 g cs vs))"
proof (induction cs)
  case (Cons c cs)
  then show ?case by (cases "f c"; cases "res_map f cs") simp_all
qed simp

lemma signature_base_values:
  "signature_base idna http_method url headers components params =
     res_bind (covered_values idna http_method url headers components) (\<lambda>vs.
       Inr (join_with [CHR 0x0A] (map2 base_line components vs @ [base_line ''@signature-params'' params])))"
  unfolding signature_base_def covered_values_def res_map_then
  by (cases "canonicalize_url idna url") (simp_all add: map_left_def res_bind_def split: sum.splits)

lemma covered_values_cong:
  assumes "\<And>c. c \<in> set components \<Longrightarrow> map_of (lowered_headers h) c = map_of (lowered_headers h') c"
  shows "covered_values idna http_method url h components = covered_values idna http_method url h' components"
proof -
  have "res_map (component_value http_method u (lowered_headers h)) components =
      res_map (component_value http_method u (lowered_headers h')) components" for u
    using assms by (induction components) (simp_all add: component_value_def)
  then show ?thesis by (simp add: covered_values_def)
qed

section \<open>What a signed request carries\<close>

text \<open>The components of the profile for a body.\<close>

definition profile_components :: "byte list \<Rightarrow> string list" where
  "profile_components body = (if body \<noteq> [] then components_with_body else components_no_body)"

lemma sign_request_shape:
  assumes "sign_request env http_method url headers body key created nonce validity = Inr out"
  obtains issued params base sig where
    "issued = (case created of Some t \<Rightarrow> t | None \<Rightarrow> se_time env)"
    "params = signature_params (profile_components body) issued (issued + min validity max_validity)
       (if nonce \<noteq> [] then nonce else new_nonce (se_random env)) (key_kid key) (key_alg key)"
    "signature_base (se_idna env) http_method url
       (if body \<noteq> [] then dset ''content-digest'' (content_digest (se_crypto env) body) headers else headers)
       (profile_components body) params = Inr base"
    "sign_bytes (se_crypto env) key (text_bytes base) = Inr sig"
    "out = (if body \<noteq> [] then [(''Content-Digest'', content_digest (se_crypto env) body)] else []) @
       [(''Signature-Input'', ''sig1='' @ params), (''Signature'', ''sig1='' @ sf_binary sig)]"
    "body = [] \<or> list_ex (\<lambda>(k, v). lower k = ''content-type'') headers"
  using assms
  by (auto simp: sign_request_def Let_def res_bind_Inr_iff profile_components_def split: if_splits)

lemma covered_profile:
  "covered_components (signature_params (profile_components body) created expires nonce keyid alg) = profile_components body"
  by (cases body)
     (simp_all add: covered_components_def signature_params_def profile_components_def components_with_body_def
       components_no_body_def join_with_def dquoted_def)

lemma sf_binary_read: "a2b 0 0 0 (butlast (drop 6 (''sig1='' @ sf_binary sig))) = Some sig"
  by (simp add: sf_binary_def b64encode_decoded)

lemma signature_base_lookup:
  assumes "\<And>c. c \<in> set components \<Longrightarrow> map_of (lowered_headers h) c = map_of (lowered_headers h') c"
  shows "signature_base idna http_method url h components params = signature_base idna http_method url h' components params"
  unfolding signature_base_values by (simp only: covered_values_cong [OF assms])

text \<open>The headers that are signed are those of the request that is sent.\<close>

lemma signed_headers_sent:
  assumes laws: "header_laws ops"
    and out: "added = (if body \<noteq> [] then [(''Content-Digest'', digest)] else []) @ [(''Signature-Input'', i), (''Signature'', s)]"
    and c: "c \<in> set (profile_components body)"
  shows "map_of (lowered_headers (if body \<noteq> [] then dset ''content-digest'' digest (h_dict ops h) else h_dict ops h)) c =
    map_of (lowered_headers (h_dict ops (set_headers ops added h))) c"
proof -
  have lower: "lower ''content-digest'' = ''content-digest''" by code_simp
  have own: "distinct (map fst (h_dict ops g))" "\<forall>(k, v) \<in> set (h_dict ops g). lower k = k" for g
    using laws unfolding header_laws_def by blast+
  have keys: "(\<forall>(k, v) \<in> set d. lower k = k) \<longleftrightarrow> (\<forall>k \<in> fst ` set d. lower k = k)" for d :: "(string \<times> string) list"
    by force
  have merged: "distinct (map fst (dset ''content-digest'' digest (h_dict ops h)))"
    "\<forall>(k, v) \<in> set (dset ''content-digest'' digest (h_dict ops h)). lower k = k"
    using own [of h] lower unfolding keys dset_keys by (simp_all add: distinct_dset)
  have names: "map (\<lambda>(n, v). (lower n, v)) added =
      (if body \<noteq> [] then [(''content-digest'', digest)] else []) @ [(''signature-input'', i), (''signature'', s)]"
  proof -
    have "lower ''Content-Digest'' = ''content-digest''" "lower ''Signature-Input'' = ''signature-input''"
      "lower ''Signature'' = ''signature''" by code_simp+
    then show ?thesis by (simp add: out)
  qed
  have "map_of (h_dict ops (set_headers ops added h)) c =
      map_of (if body \<noteq> [] then dset ''content-digest'' digest (h_dict ops h) else h_dict ops h) c"
    using c unfolding map_of_headers_set [OF laws] names
    by (auto simp: map_add_def profile_components_def components_with_body_def components_no_body_def split: if_splits)
  then show ?thesis
    using map_of_lowered [OF own [of "set_headers ops added h"], of c] map_of_lowered [OF own [of h], of c]
      map_of_lowered [OF merged, of c] by (cases body) simp_all
qed

section \<open>Signed requests verify\<close>

lemma header_names_differ:
  "lower ''Content-Digest'' = ''content-digest''" "lower ''Signature-Input'' = ''signature-input''"
  "lower ''Signature'' = ''signature''"
  by code_simp+

lemma auth_flow_signed:
  assumes "auth_flow ops env loads_bytes wanted key rq = Inr sent" and "selected_call loads_bytes wanted rq = Inr True"
  obtains added where
    "sign_request env (rq_method rq) (rq_url rq) (h_dict ops (rq_headers rq)) (rq_content rq) key None [] max_validity = Inr added"
    "sent = rq\<lparr>rq_headers := set_headers ops added (rq_headers rq)\<rparr>"
  using assms by (auto simp: auth_flow_def map_left_def res_bind_Inr_iff)


text \<open>
  A signature is short-lived and covers the body: it expires at most 300 seconds after it was
  issued whatever validity is asked for, a request with a body is signed with its digest and its
  content type, and a body without content type is not signed at all.
\<close>

theorem signature_covers_body:
  assumes "sign_request env http_method url headers body key created nonce validity = Inr out"
  shows "\<exists>issued expires used sig.
    map_of out ''Signature-Input'' = Some (''sig1='' @
      signature_params (if body = [] then components_no_body else components_with_body) issued expires used (key_kid key) (key_alg key)) \<and>
    map_of out ''Signature'' = Some (''sig1='' @ sf_binary sig) \<and>
    issued = (case created of Some t \<Rightarrow> t | None \<Rightarrow> se_time env) \<and> expires \<le> issued + 300 \<and>
    map_of out ''Content-Digest'' = (if body = [] then None else Some (content_digest (se_crypto env) body)) \<and>
    (if body = [] then True else \<exists>(k, v) \<in> set headers. lower k = ''content-type'')"
  by (rule sign_request_shape [OF assms])
     (fastforce simp: max_validity_def profile_components_def list_ex_iff)

section \<open>The signature binds the request\<close>

definition one_line :: "string \<Rightarrow> bool" where
  "one_line s \<longleftrightarrow> CHR 0x0A \<notin> set s"

lemma base_line_one_line: "one_line (base_line c v) \<longleftrightarrow> one_line c \<and> one_line v"
  by (auto simp: one_line_def base_line_def dquoted_def)

lemma base_line_inject [simp]: "base_line c v = base_line c w \<longleftrightarrow> v = w"
  by (simp add: base_line_def)

lemma map2_base_line_inject:
  "length vs = length cs \<Longrightarrow> length ws = length cs \<Longrightarrow> map2 base_line cs vs = map2 base_line cs ws \<Longrightarrow> vs = ws"
proof (induction cs arbitrary: vs ws)
  case (Cons c cs)
  show ?case using Cons.prems Cons.IH [of "tl vs" "tl ws"] by (cases vs; cases ws) simp_all
qed simp

lemma profile_one_line: "c \<in> set (profile_components body) \<Longrightarrow> one_line c"
  by (auto simp: profile_components_def components_with_body_def components_no_body_def one_line_def split: if_splits)

lemma profile_length: "length (profile_components body) = length (profile_components body') \<Longrightarrow>
    profile_components body = profile_components body'"
  by (cases body; cases body') (simp_all add: profile_components_def components_with_body_def components_no_body_def)

text \<open>
  C36. The text that is signed determines what it covers: two requests with the same signature base have
  the same covered components, the same values of them (method, target, authority, content type and
  digest) and the same parameters, as long as no value contains a line break.
\<close>

theorem signature_base_binds:
  assumes "covered_values idna http_method url headers (profile_components body) = Inr vs"
    and "covered_values idna' http_method' url' headers' (profile_components body') = Inr vs'"
    and "list_all one_line (params # vs)" and "list_all one_line (params' # vs')"
    and "signature_base idna http_method url headers (profile_components body) params =
      signature_base idna' http_method' url' headers' (profile_components body') params'"
  shows "profile_components body = profile_components body' \<and> vs = vs' \<and> params = params'"
proof -
  let ?ls = "map2 base_line (profile_components body) vs @ [base_line ''@signature-params'' params]"
  let ?ms = "map2 base_line (profile_components body') vs' @ [base_line ''@signature-params'' params']"
  have len: "length vs = length (profile_components body)" "length vs' = length (profile_components body')"
    using assms(1,2) by (auto simp: covered_values_def map_left_def res_bind_Inr_iff dest: res_map_length)
  have plain: "one_line ''@signature-params''" by (simp add: one_line_def)
  have "\<forall>l \<in> set (map2 base_line (profile_components b) ws @ [base_line ''@signature-params'' p]). CHR 0x0A \<notin> set l"
    if "list_all one_line (p # ws)" for b ws p
    unfolding one_line_def [symmetric] using that plain
    by (auto simp: base_line_one_line list_all_iff elim!: in_set_zipE intro: profile_one_line)
  then have "split_on (CHR 0x0A) (join_with [CHR 0x0A] ?ls) = ?ls" "split_on (CHR 0x0A) (join_with [CHR 0x0A] ?ms) = ?ms"
    using assms(3,4) by (blast intro: split_on_join snoc_eq_iff_butlast [THEN iffD1])+
  moreover have "join_with [CHR 0x0A] ?ls = join_with [CHR 0x0A] ?ms"
    using assms(5) unfolding signature_base_values assms(1,2) by simp
  ultimately have lines: "?ls = ?ms" by metis
  then have "length ?ls = length ?ms" by (rule arg_cong)
  then have same: "profile_components body = profile_components body'" using len by (intro profile_length) simp
  then show ?thesis using lines len map2_base_line_inject [of vs "profile_components body" vs'] by simp
qed

section \<open>What is sent to a seller\<close>

text \<open>\<open>_signing_key\<close> of \<open>connections/seller.py\<close>: the key is loaded once, a failure to load it is not kept.\<close>

definition cached_signing_key ::
  "bool \<Rightarrow> 'k signing_config \<Rightarrow> 'k signing_key option option \<Rightarrow>
     'k signing_key option option \<times> (signing_error + 'k signing_key option)" where
  "cached_signing_key enabled cfg cache =
     (case cache of
        Some k \<Rightarrow> (cache, Inr k)
      | None \<Rightarrow>
          (case (if enabled then load_signing_key_from_settings cfg else Inr None) of
             Inl e \<Rightarrow> (None, Inl e) | Inr k \<Rightarrow> (Some k, Inr k)))"

definition build_auth ::
  "(json \<Rightarrow> string) \<Rightarrow> 'k signing_key option \<Rightarrow> seller_agent \<Rightarrow> ('k signing_key \<times> (string \<Rightarrow> dict \<Rightarrow> py_exn + bool)) option" where
  "build_auth shown key a = (case key of None \<Rightarrow> None | Some k \<Rightarrow> Some (k, \<lambda>tool args. should_sign shown a tool args))"

text \<open>A request of the transport passes through the hook when there is one.\<close>

definition seller_request ::
  "'h header_ops \<Rightarrow> 'k sign_env \<Rightarrow> (byte list \<Rightarrow> json option) \<Rightarrow> (json \<Rightarrow> string) \<Rightarrow> 'k signing_key option \<Rightarrow> seller_agent \<Rightarrow>
     'h http_request \<Rightarrow> signing_error + 'h http_request" where
  "seller_request ops env loads_bytes shown key a rq =
     (case build_auth shown key a of
        None \<Rightarrow> Inr rq
      | Some (k, wanted) \<Rightarrow> auth_flow ops env loads_bytes wanted k rq)"

definition signature_headers :: "string list" where
  "signature_headers = [''content-digest'', ''signature-input'', ''signature'']"

definition verifies_signatures :: "(json \<Rightarrow> string) \<Rightarrow> seller_agent \<Rightarrow> bool" where
  "verifies_signatures shown a \<longleftrightarrow>
     getj (request_signing_capabilities a) ''supported'' = JBool True \<and>
     getj (request_signing_capabilities a) ''covers_content_digest'' \<noteq> JStr ''forbidden'' \<and> speaks_32_or_later shown a"

lemma should_sign_supported: "should_sign shown a tool args = Inr True \<Longrightarrow> verifies_signatures shown a"
  by (auto simp: should_sign_def verifies_signatures_def Let_def split: if_splits)

text \<open>
  Signing adds its three headers and changes nothing else: method, URL, body and every other
  header (\<open>Authorization\<close> among them) reach the seller as they were, and a request that is changed at
  all is a \<open>tools/call\<close> POST to a seller that verifies signatures of the 3.2 profile.
\<close>

theorem signing_adds_headers_only:
  assumes "header_laws ops" and "seller_request ops env loads_bytes shown key a rq = Inr sent"
  shows "rq_method sent = rq_method rq \<and> rq_url sent = rq_url rq \<and> rq_content sent = rq_content rq \<and>
    (\<forall>n. n \<in> set signature_headers \<or> map_of (h_dict ops (rq_headers sent)) n = map_of (h_dict ops (rq_headers rq)) n) \<and>
    (sent = rq \<or> key \<noteq> None \<and> upper (rq_method rq) = ''POST'' \<and> verifies_signatures shown a \<and>
      (\<exists>tool args. mcp_tool_call loads_bytes (rq_content rq) = Some (tool, args) \<and> should_sign shown a tool args = Inr True))"
proof (cases "sent = rq")
  case False
  then obtain k where k: "key = Some k" and flow: "auth_flow ops env loads_bytes (should_sign shown a) k rq = Inr sent"
    using assms(2) by (auto simp: seller_request_def build_auth_def split: option.splits)
  then have sel: "selected_call loads_bytes (should_sign shown a) rq = Inr True"
    using False by (auto simp: auth_flow_def map_left_def res_bind_Inr_iff split: if_splits sum.splits)
  obtain added where
    run: "sign_request env (rq_method rq) (rq_url rq) (h_dict ops (rq_headers rq)) (rq_content rq) k None [] max_validity = Inr added"
    and sent: "sent = rq\<lparr>rq_headers := set_headers ops added (rq_headers rq)\<rparr>"
    using auth_flow_signed [OF flow sel] .
  have names: "lower n \<in> set signature_headers" if "(n, v) \<in> set added" for n v
    by (rule sign_request_shape [OF run]) (use that header_names_differ in \<open>auto simp: signature_headers_def split: if_splits\<close>)
  have "map_of (rev (map (\<lambda>(n, v). (lower n, v)) added)) n = None" if "n \<notin> set signature_headers" for n
    using names that by (force simp: map_of_eq_None_iff)
  then have "n \<in> set signature_headers \<or> map_of (h_dict ops (rq_headers sent)) n = map_of (h_dict ops (rq_headers rq)) n" for n
    using map_of_headers_set [OF assms(1), of added "rq_headers rq"] by (cases "n \<in> set signature_headers") (simp_all add: sent map_add_def)
  moreover obtain tool args where "mcp_tool_call loads_bytes (rq_content rq) = Some (tool, args)"
    "should_sign shown a tool args = Inr True" "upper (rq_method rq) = ''POST''"
    using sel by (auto simp: selected_call_def split: if_splits option.splits)
  ultimately show ?thesis using k should_sign_supported by (auto simp: sent)
qed simp

section \<open>A concrete request\<close>

text \<open>Headers as a list of assignments.\<close>

definition list_headers :: "((string \<times> string) list) header_ops" where
  "list_headers = \<lparr>h_dict = (\<lambda>h. fold (\<lambda>(k, v). dset (lower k) v) h []), h_set = (\<lambda>n v h. h @ [(n, v)])\<rparr>"

definition example_sign_env :: "byte sign_env" where
  "example_sign_env =
     \<lparr>se_crypto = example_crypto\<lparr>ed_sign := \<lambda>k data. [k], sha256 := \<lambda>bs. [of_nat (length bs)]\<rparr>,
      se_idna = Some, se_time = 1, se_random = [0]\<rparr>"

definition example_request :: "(string \<times> string) list http_request" where
  "example_request =
     \<lparr>rq_method = ''POST'', rq_url = ''https://s.example/mcp'',
      rq_headers = [(''Content-Type'', ''application/json''), (''Authorization'', ''Bearer t'')], rq_content = [1]\<rparr>"

definition example_loads_bytes :: "byte list \<Rightarrow> json option" where
  "example_loads_bytes body =
     Some (JObj [(''method'', JStr ''tools/call''), (''params'', JObj [(''name'', JStr ''create_media_buy'')])])"

definition signing_seller :: seller_agent where
  "signing_seller = new_agent ''s'' ''https://s.example/mcp''
     \<lparr>capabilities := [(''request_signing'', JObj [(''supported'', JBool True), (''required_for'', JArr [JStr ''create_media_buy''])]),
        (''adcp'', JObj [(''supported_versions'', JArr [JStr ''3.2''])])]\<rparr>"

lemma list_headers_laws: "header_laws list_headers"
proof -
  have keys: "fst ` set (fold (\<lambda>(k, v). dset (lower k) v) h d) = fst ` set d \<union> (lower \<circ> fst) ` set h"
    for h d :: "(string \<times> string) list"
  proof (induction h arbitrary: d)
    case (Cons p h)
    then show ?case by (cases p) (simp add: dset_keys)
  qed simp
  have "distinct (map fst d) \<Longrightarrow> distinct (map fst (fold (\<lambda>(k, v). dset (lower k) v) h d))" for h d :: "(string \<times> string) list"
    by (induction h arbitrary: d) auto
  moreover have "lower k = k" if "(k, v) \<in> set (fold (\<lambda>(k, v). dset (lower k) v) h [])" for k v and h :: "(string \<times> string) list"
  proof -
    have "k \<in> fst ` set (fold (\<lambda>(k, v). dset (lower k) v) h [])" using that by force
    then show ?thesis unfolding keys by auto
  qed
  ultimately show ?thesis by (auto simp: header_laws_def list_headers_def)
qed

lemma example_selected:
  "selected_call example_loads_bytes (should_sign (\<lambda>v. []) signing_seller) example_request = Inr True"
  by code_simp

lemma example_signature_sent:
  obtains sent where "seller_request list_headers example_sign_env example_loads_bytes (\<lambda>v. []) (Some example_signing_key)
      signing_seller example_request = Inr sent"
    "map_of (h_dict list_headers (rq_headers sent)) ''signature'' \<noteq> None"
proof -
  have "(case seller_request list_headers example_sign_env example_loads_bytes (\<lambda>v. []) (Some example_signing_key) signing_seller
      example_request of Inr sent \<Rightarrow> map_of (h_dict list_headers (rq_headers sent)) ''signature'' \<noteq> None | Inl e \<Rightarrow> False)"
    by code_simp
  with that show ?thesis by (cases "seller_request list_headers example_sign_env example_loads_bytes (\<lambda>v. [])
      (Some example_signing_key) signing_seller example_request") auto
qed

lemma signing_adds_headers_only_witness:
  "\<exists>sent. seller_request list_headers example_sign_env example_loads_bytes (\<lambda>v. []) (Some example_signing_key)
      signing_seller example_request = Inr sent \<and> sent \<noteq> example_request \<and>
    map_of (h_dict list_headers (rq_headers sent)) ''authorization'' = Some ''Bearer t''"
proof -
  obtain sent where sent: "seller_request list_headers example_sign_env example_loads_bytes (\<lambda>v. []) (Some example_signing_key)
      signing_seller example_request = Inr sent" "map_of (h_dict list_headers (rq_headers sent)) ''signature'' \<noteq> None"
    by (rule example_signature_sent)
  have before: "map_of (h_dict list_headers (rq_headers example_request)) ''authorization'' = Some ''Bearer t''"
    "map_of (h_dict list_headers (rq_headers example_request)) ''signature'' = None" by code_simp+
  with sent(2) have "sent \<noteq> example_request" by auto
  moreover have "map_of (h_dict list_headers (rq_headers sent)) ''authorization'' = Some ''Bearer t''"
    using signing_adds_headers_only [OF list_headers_laws sent(1), THEN conjunct2, THEN conjunct2, THEN conjunct2,
      THEN conjunct1, THEN spec, of "''authorization''"] before(1)
    by (simp add: signature_headers_def)
  ultimately show ?thesis using sent(1) by blast
qed


definition example_signed :: "signing_error + (string \<times> string) list" where
  "example_signed = sign_request example_sign_env ''POST'' ''https://s.example/mcp'' [(''Content-Type'', ''a'')] [1]
     example_signing_key None [] 900"

lemma signature_covers_body_witness:
  "\<exists>out. example_signed = Inr out \<and> map_of out ''Content-Digest'' = Some (content_digest (se_crypto example_sign_env) [1])"
proof -
  have "(case example_signed of Inr out \<Rightarrow> True | Inl e \<Rightarrow> False)" by code_simp
  then obtain out where out: "example_signed = Inr out" by (auto split: sum.splits)
  from signature_covers_body [OF this [unfolded example_signed_def]] show ?thesis using out by auto
qed

lemma signature_base_binds_witness:
  "\<exists>vs. covered_values Some ''post'' ''https://s.example/mcp'' [] (profile_components []) = Inr vs \<and>
     covered_values Some ''POST'' ''HTTPS://S.example:443/mcp'' [] (profile_components []) = Inr vs"
proof -
  let ?vals = "[''POST'', ''https://s.example/mcp'', ''s.example'']"
  have vs: "covered_values Some ''post'' ''https://s.example/mcp'' [] (profile_components []) = Inr ?vals"
    "covered_values Some ''POST'' ''HTTPS://S.example:443/mcp'' [] (profile_components []) = Inr ?vals"
    by code_simp+
  have "list_all one_line (''p'' # ?vals)" by code_simp
  moreover have "signature_base Some ''post'' ''https://s.example/mcp'' [] (profile_components []) ''p'' =
      signature_base Some ''POST'' ''HTTPS://S.example:443/mcp'' [] (profile_components []) ''p''"
    by code_simp
  ultimately show ?thesis using signature_base_binds [OF vs] vs by blast
qed

end
