(* ===== verification/Service.thy ===== *)
theory Service
  imports Http_Api Request_Signing
begin

text \<open>
  How the service starts and what surrounds its endpoints: \<open>src/main.py\<close> (start-up, the published keys),
  \<open>src/agent_server/mcp.py\<close> (what the buyer says of itself), the correlation of requests in
  \<open>src/middleware.py\<close>, and starting and stopping the loop of \<open>src/buying/poller.py\<close>.
\<close>

section \<open>Start-up\<close>

datatype startup_error = NoUsableKey | StartupSigning signing_error | StartupFailed buy_error

definition check_signing_config :: "bool \<Rightarrow> 'k signing_config \<Rightarrow> startup_error + unit" where
  "check_signing_config enabled cfg =
     (if \<not> enabled then Inr ()
      else case load_signing_key_from_settings cfg of
        Inl e \<Rightarrow> Inl (StartupSigning e)
      | Inr None \<Rightarrow> Inl NoUsableKey
      | Inr (Some key) \<Rightarrow> Inr ())"

text \<open>\<open>BuyingOrchestrator()\<close>, with the tables of the database it will be connected to.\<close>

definition new_orchestrator ::
  "(tracked_operation \<Rightarrow> operation_row \<Rightarrow> int) \<Rightarrow> string \<Rightarrow> net \<Rightarrow> brand_resolver \<Rightarrow> authorizer \<Rightarrow> webhook_settings \<Rightarrow>
     (string \<times> operation_row) list \<Rightarrow>
     ((string \<times> string) \<times> account_row) list \<Rightarrow> orchestrator" where
  "new_orchestrator clock domain n brands auth hooks op_rows account_rows =
     \<lparr>orch_tracker = (new_tracker clock)\<lparr>operations_table := op_rows\<rparr>, orch_sellers = [],
      orch_net = n\<lparr>seller_sessions := []\<rparr>, orch_accounts = (new_manager domain)\<lparr>accounts_table := account_rows\<rparr>,
      orch_brands = brands, orch_authorizer = auth, orch_products = [], orch_webhooks = hooks\<rparr>"

definition load_state :: "orch_env \<Rightarrow> unit orch_action" where
  "load_state env =
     sbind (modify (\<lambda>o'. o'\<lparr>orch_tracker := tracker_init_db (orch_tracker o')\<rparr>)) (\<lambda>_.
     sbind (asking (\<lambda>o'. accounts_init_db (oe_account env) (orch_accounts o'))) (\<lambda>loaded.
     sbind (py_step loaded) (\<lambda>m. modify (\<lambda>o'. o'\<lparr>orch_accounts := m\<rparr>))))"

definition first_work :: "orch_env \<Rightarrow> discovery_env \<Rightarrow> (string \<times> string) list orch_action" where
  "first_work env denv =
     sbind (discover_sellers env denv True) (\<lambda>sellers.
     sbind (py_step (res_map can_sell sellers)) (\<lambda>_.
     sbind (asking (\<lambda>o'. get_pending (orch_tracker o'))) (\<lambda>pending.
       if pending = [] then ret [] else poll_pending_operations env)))"

text \<open>
  \<open>lifespan\<close> up to the poller: the result of reconciling what was pending, and the orchestrator the
  endpoints see.  A start that raises stops the server.
\<close>

definition startup ::
  "bool \<Rightarrow> 'k signing_config \<Rightarrow> orch_env \<Rightarrow> discovery_env \<Rightarrow> orchestrator \<Rightarrow>
     (startup_error + (string \<times> string) list) \<times> orchestrator option" where
  "startup enabled cfg env denv fresh =
     (case check_signing_config enabled cfg of
        Inl e \<Rightarrow> (Inl e, None)
      | Inr _ \<Rightarrow>
          (case map_error StartupFailed (sbind (load_state env) (\<lambda>_. first_work env denv)) fresh of
             (r, o') \<Rightarrow> (r, Some o')))"

section \<open>Published keys\<close>

definition jwks_endpoint :: "'k signing_config \<Rightarrow> signing_error + dict" where
  "jwks_endpoint cfg = res_bind (load_signing_key_from_settings cfg) (build_jwks cfg)"

section \<open>What the buyer says of itself\<close>

record agent_settings =
  as_version :: string
  as_agent_url :: string
  as_protocols :: "string list"
  as_operator_domain :: string
  as_brand_json_url :: string

definition resolved_brand_json_url :: "agent_settings \<Rightarrow> string" where
  "resolved_brand_json_url s =
     (if as_brand_json_url s \<noteq> [] then as_brand_json_url s
      else ''https://'' @ as_operator_domain s @ ''/.well-known/brand.json'')"

definition build_capabilities :: "agent_settings \<Rightarrow> dict option \<Rightarrow> py_exn + dict" where
  "build_capabilities s context =
     (case py_int (hd (split_on (CHR ''.'') (as_version s))) of
        None \<Rightarrow> Inl ValueError
      | Some major \<Rightarrow>
          Inr ([(''status'', JStr ''completed''), (''adcp_version'', JStr (as_version s)),
            (''adcp'', JObj [(''major_versions'', JArr [JInt major]), (''supported_versions'', JArr [JStr (as_version s)]),
               (''idempotency'', JObj [(''supported'', JBool False)])]),
            (''supported_protocols'', JArr (map JStr (as_protocols s))),
            (''identity'', JObj [(''brand_json_url'', JStr (resolved_brand_json_url s))])] @
            (case context of Some ctx \<Rightarrow> [(''context'', JObj ctx)] | None \<Rightarrow> [])))"

text \<open>The tools the buyer serves at \<open>/mcp\<close>; what else an argument list has is ignored.\<close>

definition get_adcp_capabilities :: "agent_settings \<Rightarrow> dict \<Rightarrow> py_exn + dict" where
  "get_adcp_capabilities s args =
     build_capabilities s (case getj args ''context'' of JObj ctx \<Rightarrow> Some ctx | _ \<Rightarrow> None)"

definition agent_mcp_tools :: "agent_settings \<Rightarrow> (string \<times> (dict \<Rightarrow> py_exn + dict)) list" where
  "agent_mcp_tools s = [(''get_adcp_capabilities'', get_adcp_capabilities s)]"

text \<open>\<open>url_split\<close> gives the scheme and the authority of \<open>urlsplit\<close>, which may raise.\<close>

definition jwks_uri :: "(string \<Rightarrow> py_exn + string \<times> string) \<Rightarrow> agent_settings \<Rightarrow> py_exn + string" where
  "jwks_uri url_split s =
     res_bind (url_split (as_agent_url s)) (\<lambda>(sch, netloc). Inr (sch @ ''://'' @ netloc @ ''/.well-known/jwks.json''))"

definition brand_json_agent_entry :: "(string \<Rightarrow> py_exn + string \<times> string) \<Rightarrow> agent_settings \<Rightarrow> py_exn + dict" where
  "brand_json_agent_entry url_split s =
     res_bind (jwks_uri url_split s) (\<lambda>uri. Inr
       [(''type'', JStr ''buying''), (''id'', JStr ''nxflo_buyer''), (''url'', JStr (as_agent_url s)),
        (''jwks_uri'', JStr uri), (''description'', JStr ''nxflo AdCP buying agent'')])"

section \<open>Correlation of requests\<close>

text \<open>
  A message of ASGI; \<open>status\<close> and headers are those of \<open>http.response.start\<close>.  Header names and values are
  bytes of Latin-1, as text.  The application is what it sends, and whether it raises in the end.
\<close>

record asgi_message =
  msg_type :: string
  msg_status :: int
  msg_headers :: "(string \<times> string) list"
  msg_payload :: string

record asgi_scope =
  scope_type :: string
  scope_method :: string
  scope_path :: string
  scope_client :: "string option"
  scope_route :: "string option"
  scope_headers :: "(string \<times> string) list"

type_synonym asgi_app = "asgi_scope \<Rightarrow> asgi_message list \<times> bool"

type_synonym request_counts = "string \<times> string \<times> int \<Rightarrow> nat"

definition correlation_header :: string where
  "correlation_header = ''x-correlation-id''"

definition request_correlation :: "string \<Rightarrow> (string \<times> string) list \<Rightarrow> string" where
  "request_correlation fresh given =
     (case map_of given correlation_header of Some (c # cs) \<Rightarrow> c # cs | _ \<Rightarrow> fresh)"

definition is_start :: "asgi_message \<Rightarrow> bool" where
  "is_start m \<longleftrightarrow> msg_type m = ''http.response.start''"

definition mark_message :: "string \<Rightarrow> asgi_message \<Rightarrow> asgi_message" where
  "mark_message cid m = (if is_start m then m\<lparr>msg_headers := msg_headers m @ [(correlation_header, cid)]\<rparr> else m)"

definition seen_status :: "asgi_message list \<Rightarrow> int" where
  "seen_status sent = fold (\<lambda>m status. if is_start m then msg_status m else status) sent 500"

definition correlate ::
  "string \<Rightarrow> asgi_app \<Rightarrow> asgi_scope \<Rightarrow> request_counts \<Rightarrow> (asgi_message list \<times> bool) \<times> request_counts" where
  "correlate fresh app scope counts =
     (if scope_type scope \<noteq> ''http'' then (app scope, counts)
      else
        let cid = request_correlation fresh (scope_headers scope);
            (sent, raised) = app scope;
            key = (scope_method scope, (case scope_route scope of Some p \<Rightarrow> p | None \<Rightarrow> scope_path scope), seen_status sent)
        in ((map (mark_message cid) sent, raised), counts(key := counts key + 1)))"

section \<open>The loop of the poller\<close>

text \<open>\<open>started\<close> counts the tasks made, \<open>live\<close> are those not yet cancelled.\<close>

record poller_life =
  running :: bool
  poll_task :: "nat option"
  started :: nat
  live :: "nat list"

definition poller_start :: "poller_life \<Rightarrow> poller_life" where
  "poller_start p =
     (if running p then p
      else p\<lparr>running := True, poll_task := Some (started p), started := started p + 1, live := live p @ [started p]\<rparr>)"

definition poller_stop :: "poller_life \<Rightarrow> poller_life" where
  "poller_stop p =
     (case poll_task p of
        None \<Rightarrow> p\<lparr>running := False\<rparr>
      | Some task \<Rightarrow> p\<lparr>running := False, poll_task := None, live := removeAll task (live p)\<rparr>)"

definition fresh_poller :: poller_life where
  "fresh_poller = \<lparr>running = False, poll_task = None, started = 0, live = []\<rparr>"

section \<open>The state after start-up\<close>

definition rows_keyed :: "(string \<times> operation_row) list \<Rightarrow> bool" where
  "rows_keyed rows \<longleftrightarrow> distinct (map fst rows) \<and> (\<forall>(k, r) \<in> set rows. row_id r = k)"

definition loaded_count :: "(string \<times> operation_row) list \<Rightarrow> task_status \<Rightarrow> int" where
  "loaded_count rows s = count_status s (map (\<lambda>(k, r). (k, operation_of_row r)) rows)"

lemma load_fold:
  assumes "rows_keyed rows" and "set (map fst rows) \<inter> set (map fst ops) = {}"
  shows "fold (\<lambda>(k, r). AList.update (row_id r) (operation_of_row r)) rows ops = ops @ map (\<lambda>(k, r). (k, operation_of_row r)) rows"
  using assms
proof (induction rows arbitrary: ops)
  case (Cons kr rows)
  obtain k r where kr: "kr = (k, r)" by (cases kr)
  have new: "k \<notin> fst ` set ops \<Longrightarrow> dset k v ops = ops @ [(k, v)]" for v :: tracked_operation and ops
    by (induction ops) auto
  have "rows_keyed rows" "set (map fst rows) \<inter> set (map fst (ops @ [(k, operation_of_row r)])) = {}"
    using Cons.prems kr by (auto simp: rows_keyed_def)
  with Cons.IH [of "ops @ [(k, operation_of_row r)]"] Cons.prems kr new [of ops "operation_of_row r"] show ?case
    by (auto simp: rows_keyed_def)
qed simp

lemma loaded_sound:
  assumes "rows_keyed rows"
  shows "tracker_sound (loaded_count rows) (tracker_init_db ((new_tracker clock)\<lparr>operations_table := rows\<rparr>))"
proof -
  let ?t = "tracker_init_db ((new_tracker clock)\<lparr>operations_table := rows\<rparr>)"
  have ops: "operations ?t = map (\<lambda>(k, r). (k, operation_of_row r)) rows"
    using load_fold [OF assms, of "[]"] by (simp add: tracker_init_db_def new_tracker_def)
  have parts: "operations_table ?t = rows" "operations_current ?t s = 0" for s
    by (simp_all add: tracker_init_db_def new_tracker_def)
  have keyed: "keyed_by_id (operations ?t)"
    using assms unfolding ops keyed_by_id_def rows_keyed_def
    by (auto simp: comp_def case_prod_beta operation_of_row_def)
  have lookup: "map_of (operations ?t) k = map_option operation_of_row (map_of rows k)" for k
    unfolding ops by (simp add: map_of_map)
  have "gauge_lags (loaded_count rows) ?t" using keyed by (simp add: gauge_lags_def parts loaded_count_def ops)
  moreover have "rows_loaded ?t"
    using keyed assms unfolding rows_loaded_def rows_belong_def rows_keyed_def parts(1) lookup
    by (auto simp: operation_of_row_def simp del: map_of_eq_Some_iff)
  ultimately show ?thesis by (simp add: tracker_sound_def)
qed

lemma load_rows_filed:
  "load_rows shown ld now rs m = Inr m' \<Longrightarrow> accounts_filed shown m \<Longrightarrow> accounts_filed shown m'"
proof (induction rs arbitrary: m)
  case (Cons r rs)
  then obtain acc key where "storage_key shown acc = Inr key" "load_rows shown ld now rs (remember_account key acc m) = Inr m'"
    by (auto simp: res_bind_Inr_iff)
  with Cons show ?case using remember_account_filed by blast
qed simp

lemma accounts_init_filed:
  assumes "accounts_init_db env m = Inr m'" and "known_accounts m = []"
  shows "accounts_filed (acc_shown env) m' \<and> accounts_table m' = accounts_table m"
proof -
  have table: "load_rows shown ld now rs m1 = Inr m2 \<Longrightarrow> accounts_table m2 = accounts_table m1" for shown ld now rs m1 m2
    by (induction rs arbitrary: m1) (auto simp: res_bind_Inr_iff remember_account_def Let_def)
  have "accounts_filed (acc_shown env) (m\<lparr>accounts_db := True\<rparr>)" using assms(2) by (simp add: accounts_filed_def)
  with assms(1) load_rows_filed table show ?thesis unfolding accounts_init_db_def by fastforce
qed

text \<open>What is kept by discovery and by the first polls.\<close>

definition started_up :: "(task_status \<Rightarrow> int) \<Rightarrow> (json \<Rightarrow> string) \<Rightarrow> orchestrator \<Rightarrow> bool" where
  "started_up lag shown o' \<longleftrightarrow>
     tracker_sound lag (orch_tracker o') \<and> db_enabled (orch_tracker o') \<and> accounts_filed shown (orch_accounts o')"

lemma discover_keeps_rest:
  "discover_sellers env denv probe o' = (r, o1) \<Longrightarrow> orch_tracker o1 = orch_tracker o' \<and> orch_accounts o1 = orch_accounts o'"
  by (auto simp: discover_sellers_def split: prod.splits sum.splits)

lemma polls_keep_accounts: "keeps (\<lambda>o'. orch_accounts o' = m) (poll_operations env ps)"
proof (induction env ps rule: poll_operations.induct)
  case (2 env p ps)
  have "keeps (\<lambda>o'. orch_accounts o' = m) (on_net n)" "keeps (\<lambda>o'. orch_accounts o' = m) (on_tracker t)"
    "keeps (\<lambda>o'. orch_accounts o' = m) (change_operation oid f)" "keeps (\<lambda>o'. orch_accounts o' = m) (persist_operation oid)"
    for n :: "(net, call_failure, dict) action" and t :: "(op_tracker, py_exn, tracked_operation) action" and f oid
    by (auto simp: keeps_def on_net_def on_tracker_def change_operation_def persist_operation_def map_error_def zoom_def
        split: prod.splits sum.splits option.splits)
  then show ?case
    unfolding poll_operations.simps poll_operation_def session_call_of_def
    by (intro keeps_sbind keeps_case_option keeps_if keeps_handling keeps_simple 2)
qed (simp only: poll_operations.simps keeps_simple)

lemma started_polls: "keeps (started_up lag shown) (poll_pending_operations env)"
proof -
  have "keeps (started_up lag shown) (poll_operations env ps)" for ps
    using sound.kept_by_polls [of lag env ps] database.kept_by_polls [of env ps] polls_keep_accounts [of _ env ps]
    unfolding keeps_def started_up_def by metis
  then show ?thesis unfolding poll_pending_operations_def by (intro keeps_sbind keeps_simple)
qed

lemma started_first_work: "keeps (started_up lag shown) (first_work env denv)"
proof -
  have "keeps (started_up lag shown) (discover_sellers env denv True)"
    unfolding keeps_def started_up_def
    by (metis discover_keeps_rest prod.collapse)
  moreover have "keeps (started_up lag shown) (py_step r)" for r :: "py_exn + bool list"
    unfolding py_step_def by (rule keeps_simple)
  ultimately show ?thesis
    unfolding first_work_def by (intro keeps_sbind keeps_simple keeps_if started_polls)
qed

text \<open>
  C14. A start that succeeds establishes what the operations rely on: the operations of the database are
  loaded and filed under their ids, the gauge lags by exactly those loaded, rows belong to their
  operations, writes reach the database and accounts are filed; discovery and the first polls keep it
  so.  Signing that is switched on without a usable key stops the start before there is anything
  to serve.
\<close>

theorem startup_establishes:
  assumes "rows_keyed rows"
    and "startup enabled cfg env denv (new_orchestrator clock domain n brands auth hooks rows account_rows) = (r, st)"
  shows "case r of
      Inr results \<Rightarrow> (\<exists>o1. st = Some o1 \<and> started_up (loaded_count rows) (acc_shown (oe_account env)) o1) \<and>
        (if enabled then \<exists>key. load_signing_key_from_settings cfg = Inr (Some key) else True)
    | Inl NoUsableKey \<Rightarrow> enabled \<and> st = None \<and> load_signing_key_from_settings cfg = Inr None
    | Inl (StartupSigning e) \<Rightarrow> enabled \<and> st = None \<and> load_signing_key_from_settings cfg = Inl e
    | Inl (StartupFailed e) \<Rightarrow> st \<noteq> None"
proof (cases "check_signing_config enabled cfg")
  case (Inl e)
  with assms(2) show ?thesis
    by (auto simp: startup_def check_signing_config_def split: if_splits sum.splits option.splits)
next
  case (Inr u)
  let ?fresh = "new_orchestrator clock domain n brands auth hooks rows account_rows"
  have key: "if enabled then \<exists>key. load_signing_key_from_settings cfg = Inr (Some key) else True"
    using Inr by (auto simp: check_signing_config_def split: if_splits sum.splits option.splits)
  obtain q o1 where run: "sbind (load_state env) (\<lambda>_. first_work env denv) ?fresh = (q, o1)" by fastforce
  with assms(2) Inr have st: "st = Some o1" "r = map_left StartupFailed q"
    by (auto simp: startup_def map_error_def map_left_def split: sum.splits)
  show ?thesis
  proof (cases q)
    case (Inl e)
    with st show ?thesis by simp
  next
    case (Inr results)
    with run obtain m where m: "accounts_init_db (oe_account env) (orch_accounts ?fresh) = Inr m"
      and work: "first_work env denv (?fresh\<lparr>orch_tracker := tracker_init_db (orch_tracker ?fresh), orch_accounts := m\<rparr>) = (Inr results, o1)"
      by (cases "accounts_init_db (oe_account env) (orch_accounts ?fresh)")
         (auto simp: load_state_def py_step_def sbind_Inr_iff new_orchestrator_def sbind_def)
    have "started_up (loaded_count rows) (acc_shown (oe_account env))
        (?fresh\<lparr>orch_tracker := tracker_init_db (orch_tracker ?fresh), orch_accounts := m\<rparr>)"
      using loaded_sound [OF assms(1)] accounts_init_filed [OF m]
      by (simp add: started_up_def new_orchestrator_def new_manager_def tracker_init_db_def)
    from keepsD [OF started_first_work work this] st Inr key show ?thesis by simp
  qed
qed

section \<open>Signing and the published keys agree\<close>

text \<open>
  When the start-up check passes with signing switched on, requests are signed with the key whose id is
  published first: the hook of every seller has that key, and a key set that can be served
  lists its public half under the same id.
\<close>

theorem signing_key_published:
  assumes "check_signing_config True cfg = Inr ()" and "shows_values (sc_shown cfg)"
  shows "\<exists>key. snd (cached_signing_key True cfg None) = Inr (Some key) \<and> well_typed_key key \<and>
    build_auth shown (Some key) a = Some (key, should_sign shown a) \<and>
    (case jwks_endpoint cfg of
       Inl e \<Rightarrow> True
     | Inr jwks \<Rightarrow> \<exists>keys. jwks = [(''keys'', JArr (map JObj keys))] \<and> keys \<noteq> [] \<and>
         getj (hd keys) ''kid'' = JStr (key_kid key) \<and> list_all public_entry keys)"
proof -
  obtain key where key: "load_signing_key_from_settings cfg = Inr (Some key)"
    using assms(1) by (auto simp: check_signing_config_def split: sum.splits option.splits)
  have typed: "well_typed_key key"
    using key assms(2)
    by (auto simp: load_signing_key_from_settings_def res_bind_Inr_iff elim: load_signing_key_typed split: if_splits)
  have "\<exists>keys. jwks = [(''keys'', JArr (map JObj keys))] \<and> keys \<noteq> [] \<and>
      getj (hd keys) ''kid'' = JStr (key_kid key) \<and> list_all public_entry keys" if "jwks_endpoint cfg = Inr jwks" for jwks
    using published_keys [of cfg "Some key" jwks] that key typed by (auto simp: jwks_endpoint_def well_typed_key_def)
  with key typed show ?thesis
    by (simp add: cached_signing_key_def build_auth_def split: sum.split)
qed

lemma signing_key_published_witness:
  "\<exists>key. snd (cached_signing_key True example_signing_config None) = Inr (Some key) \<and> well_typed_key key"
proof -
  obtain key where "load_signing_key_from_settings example_signing_config = Inr (Some key)"
  proof -
    have "same_key example_signing_key (load_signing_key (sc_shown example_signing_config) (sc_loads example_signing_config)
        (sc_crypto example_signing_config) (sc_private_key example_signing_config) (sc_key_id example_signing_config))"
      using example_loaded_key by (simp add: example_signing_config_def)
    then obtain k where "load_signing_key (sc_shown example_signing_config) (sc_loads example_signing_config)
        (sc_crypto example_signing_config) (sc_private_key example_signing_config) (sc_key_id example_signing_config) = Inr k"
      by (auto simp: same_key_def split: sum.splits)
    moreover have "sc_private_key example_signing_config \<noteq> []" by (simp add: example_signing_config_def)
    ultimately show ?thesis using that by (simp add: load_signing_key_from_settings_def)
  qed
  then have "check_signing_config True example_signing_config = Inr ()" by (simp add: check_signing_config_def)
  moreover have "shows_values (sc_shown example_signing_config)" by (simp add: shows_values_def example_signing_config_def)
  ultimately show ?thesis using signing_key_published [of example_signing_config "\<lambda>v. []" signing_seller] by blast
qed

section \<open>Correlated responses\<close>

text \<open>
  Every HTTP request is counted once, under the status of the last response that was started (500
  when there was none), whether or not the application raises; every response start carries the
  correlation id the client sent, or a fresh one, and nothing else of the messages changes.
\<close>

theorem requests_correlated:
  "(case correlate fresh app scope counts of ((sent, raised), counts') \<Rightarrow>
     raised = snd (app scope) \<and> map (msg_headers_update (\<lambda>_. [])) sent = map (msg_headers_update (\<lambda>_. [])) (fst (app scope)) \<and>
     (if scope_type scope = ''http'' then
        (\<forall>m \<in> set (filter is_start sent). last (msg_headers m) =
           (correlation_header, case map_of (scope_headers scope) correlation_header of Some (c # cs) \<Rightarrow> c # cs | _ \<Rightarrow> fresh)) \<and>
        (\<exists>key. counts' = counts(key := counts key + 1) \<and> fst key = scope_method scope \<and>
           snd (snd key) = (if filter is_start sent = [] then 500 else msg_status (last (filter is_start sent))))
      else sent = fst (app scope) \<and> counts' = counts))"
proof (cases "scope_type scope = ''http''")
  case True
  obtain sent raised where app: "app scope = (sent, raised)" by fastforce
  define cid where "cid = request_correlation fresh (scope_headers scope)"
  have status: "fold (\<lambda>m st. if is_start m then msg_status m else st) ms st0 =
      (if filter is_start ms = [] then st0 else msg_status (last (filter is_start ms)))" for ms st0
    by (induction ms arbitrary: st0) auto
  have start: "is_start (mark_message cid m) = is_start m" for m by (simp add: mark_message_def is_start_def)
  then have starts: "filter is_start (map (mark_message cid) sent) = map (mark_message cid) (filter is_start sent)"
    by (simp add: filter_map comp_def)
  have marked: "is_start m \<Longrightarrow> last (msg_headers (mark_message cid m)) = (correlation_header, cid)"
    "msg_status (mark_message cid m) = msg_status m" "mark_message cid m\<lparr>msg_headers := []\<rparr> = m\<lparr>msg_headers := []\<rparr>" for m
    by (simp_all add: mark_message_def)
  have run: "correlate fresh app scope counts = ((map (mark_message cid) sent, raised),
      counts((scope_method scope, (case scope_route scope of Some p \<Rightarrow> p | None \<Rightarrow> scope_path scope), seen_status sent) :=
        counts (scope_method scope, (case scope_route scope of Some p \<Rightarrow> p | None \<Rightarrow> scope_path scope), seen_status sent) + 1))"
    using True app by (simp add: correlate_def cid_def Let_def)
  show ?thesis
    using True unfolding run app starts cid_def [unfolded request_correlation_def, symmetric]
    by (auto simp: starts start marked seen_status_def status last_map)
next
  case False
  then show ?thesis by (cases "app scope") (simp add: correlate_def)
qed

section \<open>One polling loop\<close>

inductive poller_reach :: "poller_life \<Rightarrow> bool" where
  made: "poller_reach fresh_poller"
| begun: "poller_reach p \<Longrightarrow> poller_reach (poller_start p)"
| ended: "poller_reach p \<Longrightarrow> poller_reach (poller_stop p)"

text \<open>However often it is started and stopped, the poller has one loop while it runs and none otherwise.\<close>

lemma one_polling_loop:
  "poller_reach p \<Longrightarrow> live p = (case poll_task p of Some task \<Rightarrow> [task] | None \<Rightarrow> []) \<and> (running p \<longleftrightarrow> poll_task p \<noteq> None)"
  by (induction rule: poller_reach.induct)
     (auto simp: fresh_poller_def poller_start_def poller_stop_def split: option.splits)

section \<open>A concrete start\<close>

definition example_fresh :: orchestrator where
  "example_fresh = new_orchestrator (\<lambda>p r. 0) ''b.example'' (orch_net example_orchestrator) example_resolver cold_authorizer
     (orch_webhooks example_orchestrator) [(''op1'', example_row)] []"

lemma example_startup: "(case startup False example_signing_config example_orch_env example_discovery example_fresh of
    (Inr results, st) \<Rightarrow> True | (Inl e, st) \<Rightarrow> False)"
  by code_simp

lemma startup_establishes_witness:
  "\<exists>results o1. startup False example_signing_config example_orch_env example_discovery example_fresh = (Inr results, Some o1) \<and>
     started_up (loaded_count [(''op1'', example_row)]) (acc_shown example_account_env) o1"
proof -
  obtain results st where run: "startup False example_signing_config example_orch_env example_discovery example_fresh = (Inr results, st)"
    using example_startup by (auto split: prod.splits sum.splits)
  have "rows_keyed [(''op1'', example_row)]" by (simp add: rows_keyed_def example_row_def new_row_def new_operation_def)
  from startup_establishes [OF this run [unfolded example_fresh_def]] run show ?thesis
    by (auto simp: example_orch_env_def)
qed

end
