(* ===== verification/Rate_Limiter.thy ===== *)
theory Rate_Limiter
  imports Py_Prelude
begin

text \<open>
  The rate limiter of \<open>src/middleware.py\<close>: a sliding window of admission times per client
  address.  Only \<open>http\<close> scopes are counted; the reading of \<open>time.monotonic()\<close> is an argument.
\<close>

section \<open>The code\<close>

record rate_limiter =
  rate :: int
  window :: rat
  hits :: "(string \<times> rat list) list"
  call_count :: nat

definition new_limiter :: "int \<Rightarrow> rat \<Rightarrow> rate_limiter" where
  "new_limiter r w = \<lparr>rate = r, window = w, hits = [], call_count = 0\<rparr>"

definition hits_of :: "(string \<times> rat list) list \<Rightarrow> string \<Rightarrow> rat list" where
  "hits_of hs k = (case map_of hs k of Some h \<Rightarrow> h | None \<Rightarrow> [])"

definition client_key :: "string option \<Rightarrow> string" where
  "client_key client = (case client of Some addr \<Rightarrow> addr | None \<Rightarrow> ''unknown'')"

definition cleanup :: "rat \<Rightarrow> rate_limiter \<Rightarrow> rate_limiter" where
  "cleanup now rl =
     rl\<lparr>hits := filter (\<lambda>(k, v). \<not> (v = [] \<or> last v < now - window rl)) (hits rl)\<rparr>"

datatype verdict = Passed | Limited int

text \<open>\<^term>\<open>Limited\<close> carries the \<open>retry-after\<close> header of the 429.\<close>

definition handle_request ::
  "string \<Rightarrow> string option \<Rightarrow> rat \<Rightarrow> rate_limiter \<Rightarrow> verdict \<times> rate_limiter" where
  "handle_request scope client now rl =
     (if scope \<noteq> ''http'' then (Passed, rl)
      else
        let key = client_key client;
            recent = filter (\<lambda>t. t > now - window rl) (hits_of (hits rl) key);
            rl1 = rl\<lparr>hits := dset key recent (hits rl)\<rparr>
        in if int (length recent) \<ge> rate rl then (Limited \<lfloor>window rl\<rfloor>, rl1)
           else
             let rl2 = rl1\<lparr>hits := dset key (recent @ [now]) (hits rl1), call_count := call_count rl1 + 1\<rparr>
             in (Passed, if call_count rl2 mod 1000 = 0 then cleanup now rl2 else rl2))"

section \<open>Runs\<close>

text \<open>The admissions of a sequence of \<open>http\<close> requests, each with its client and time.\<close>

fun limiter_run ::
  "(string option \<times> rat) list \<Rightarrow> rate_limiter \<Rightarrow> (string \<times> rat) list \<Rightarrow> rate_limiter \<times> (string \<times> rat) list"
where
  "limiter_run [] rl adm = (rl, adm)"
| "limiter_run ((client, now) # reqs) rl adm =
     (case handle_request ''http'' client now rl of
        (v, rl') \<Rightarrow> limiter_run reqs rl' (if v = Passed then adm @ [(client_key client, now)] else adm))"

definition times_of :: "string \<Rightarrow> (string \<times> rat) list \<Rightarrow> rat list" where
  "times_of k adm = map snd (filter (\<lambda>p. fst p = k) adm)"

lemma times_of_snoc [simp]:
  "times_of k (adm @ [(k', t)]) = times_of k adm @ (if k' = k then [t] else [])"
  "times_of k [] = []"
  by (simp_all add: times_of_def)

lemma hits_of_dset [simp]: "hits_of (dset k h hs) k' = (if k' = k then h else hits_of hs k')"
  by (simp add: hits_of_def)

text \<open>What a client's window knows at time \<open>T\<close>: all admissions that can still matter.\<close>

definition recent :: "rat \<Rightarrow> rat list \<Rightarrow> rat list" where
  "recent cutoff ts = filter (\<lambda>s. cutoff < s) ts"

definition knows :: "rat \<Rightarrow> rat \<Rightarrow> rat list \<Rightarrow> rat list \<Rightarrow> bool" where
  "knows T w h ts \<longleftrightarrow> sorted h \<and> (\<forall>s \<in> set h. s \<le> T) \<and>
     (\<forall>t \<ge> T. recent (t - w) ts = recent (t - w) h)"

lemma recent_simps [simp]:
  "recent c [] = []" "recent c (x # xs) = (if c < x then x # recent c xs else recent c xs)"
  "recent c (xs @ ys) = recent c xs @ recent c ys" "set (recent c xs) = {x \<in> set xs. c < x}"
  by (auto simp: recent_def)

lemma recent_recent: "c' \<le> c \<Longrightarrow> recent c (recent c' xs) = recent c xs"
  by (induction xs) auto

lemma recent_none: "\<forall>s \<in> set xs. s \<le> c \<Longrightarrow> recent c xs = []"
  by (induction xs) auto

lemma sorted_recent: "sorted xs \<Longrightarrow> sorted (recent c xs)"
  by (simp add: recent_def sorted_wrt_filter)

lemma knows_later: "knows T w h ts \<Longrightarrow> T \<le> now \<Longrightarrow> knows now w h ts"
  by (force simp: knows_def)

lemma knows_prune: "knows T w h ts \<Longrightarrow> T \<le> now \<Longrightarrow> knows now w (recent (now - w) h) ts"
  by (auto simp: knows_def sorted_recent recent_recent intro: order_trans)

lemma knows_admit: "knows now w h ts \<Longrightarrow> knows now w (h @ [now]) (ts @ [now])"
  by (auto simp: knows_def sorted_append)

text \<open>A window whose last admission is out of sight can be forgotten.\<close>

lemma knows_forget:
  assumes "knows now w h ts" and "h = [] \<or> last h < now - w"
  shows "knows now w [] ts"
proof -
  have "s \<le> now - w" if "s \<in> set h" for s
  proof -
    have "h \<noteq> []" using that by auto
    then have "s \<le> last h" using assms(1) that
      by (metis append_butlast_last_id knows_def order_refl set_ConsD set_append sorted_append
          Un_iff list.set_intros(1) empty_iff empty_set)
    with assms(2) \<open>h \<noteq> []\<close> show ?thesis by simp
  qed
  then have "recent (t - w) h = []" if "now \<le> t" for t
    using that by (intro recent_none) force
  with assms(1) show ?thesis by (simp add: knows_def)
qed

definition tracks :: "rat \<Rightarrow> rate_limiter \<Rightarrow> (string \<times> rat) list \<Rightarrow> bool" where
  "tracks T rl adm \<longleftrightarrow> distinct (map fst (hits rl)) \<and>
     (\<forall>k. knows T (window rl) (hits_of (hits rl) k) (times_of k adm))"

lemma map_of_filter_values:
  "distinct (map fst hs) \<Longrightarrow> map_of (filter (\<lambda>(k, v). Q v) hs) k =
     (case map_of hs k of Some v \<Rightarrow> (if Q v then Some v else None) | None \<Rightarrow> None)"
proof (induction hs)
  case (Cons kv hs)
  obtain a b where "kv = (a, b)" by (cases kv)
  moreover have "map_of hs a = None" using Cons.prems calculation by (simp add: map_of_eq_None_iff)
  ultimately show ?case using Cons by auto
qed simp

lemma tracks_cleanup:
  assumes "tracks now rl adm"
  shows "tracks now (cleanup now rl) adm"
proof -
  let ?Q = "\<lambda>v. \<not> (v = [] \<or> last v < now - window rl)"
  from assms have d: "distinct (map fst (hits rl))"
    and k: "\<And>k. knows now (window rl) (hits_of (hits rl) k) (times_of k adm)" by (auto simp: tracks_def)
  have h: "hits_of (filter (\<lambda>(k, v). ?Q v) (hits rl)) k = (if ?Q (hits_of (hits rl) k) then hits_of (hits rl) k else [])" for k
    using map_of_filter_values [OF d, of ?Q k] by (auto simp: hits_of_def split: option.splits)
  have "distinct (map fst (filter (\<lambda>(k, v). ?Q v) (hits rl)))"
    using d by (simp add: distinct_map_filter)
  moreover have "knows now (window rl) (hits_of (filter (\<lambda>(k, v). ?Q v) (hits rl)) k) (times_of k adm)" for k
    unfolding h using k [of k] knows_forget [OF k [of k]] by auto
  ultimately show ?thesis by (simp add: tracks_def cleanup_def)
qed

text \<open>The admissions of one client in the window before any time stay below the rate.\<close>

definition within_rate :: "nat \<Rightarrow> rat \<Rightarrow> (string \<times> rat) list \<Rightarrow> bool" where
  "within_rate n w adm \<longleftrightarrow>
     (\<forall>k t. length (filter (\<lambda>s. t - w < s \<and> s \<le> t) (times_of k adm)) \<le> n)"

lemma length_filter_mono: "(\<And>s. P s \<Longrightarrow> Q s) \<Longrightarrow> length (filter P xs) \<le> length (filter Q xs)"
  by (induction xs) auto

lemma handle_request_step:
  assumes handled: "handle_request ''http'' client now rl = (v, rl')" and "tracks T rl adm" and "T \<le> now"
    and "within_rate (nat (rate rl)) (window rl) adm" and "0 \<le> window rl"
    and adm': "adm' = (if v = Passed then adm @ [(client_key client, now)] else adm)"
  shows "tracks now rl' adm' \<and> within_rate (nat (rate rl)) (window rl) adm' \<and>
    rate rl' = rate rl \<and> window rl' = window rl"
proof -
  define key where "key = client_key client"
  define h where "h = recent (now - window rl) (hits_of (hits rl) key)"
  define rl1 where "rl1 = rl\<lparr>hits := dset key h (hits rl)\<rparr>"
  have hr: "handle_request ''http'' client now rl =
      (if int (length h) \<ge> rate rl then (Limited \<lfloor>window rl\<rfloor>, rl1)
       else let rl2 = rl1\<lparr>hits := dset key (h @ [now]) (hits rl1), call_count := call_count rl1 + 1\<rparr>
         in (Passed, if call_count rl2 mod 1000 = 0 then cleanup now rl2 else rl2))"
    by (simp add: handle_request_def key_def h_def rl1_def recent_def Let_def)
  from assms(2,3) have knows: "knows now (window rl) (hits_of (hits rl) k) (times_of k adm)" for k
    by (auto simp: tracks_def intro: knows_later)
  have kh: "knows now (window rl) h (times_of key adm)"
    using assms(2,3) by (auto simp: tracks_def h_def intro: knows_prune)
  have t1: "tracks now rl1 adm"
    using assms(2) knows kh by (auto simp: tracks_def rl1_def)
  show ?thesis
  proof (cases "int (length h) \<ge> rate rl")
    case True
    then show ?thesis using handled hr adm' t1 assms(4) by (auto simp: rl1_def)
  next
    case False
    define rl2 where "rl2 = rl1\<lparr>hits := dset key (h @ [now]) (hits rl1), call_count := call_count rl1 + 1\<rparr>"
    from False handled hr have v: "v = Passed" "rl' = (if call_count rl2 mod 1000 = 0 then cleanup now rl2 else rl2)"
      by (auto simp: rl2_def Let_def)
    have adm'': "adm' = adm @ [(key, now)]" by (simp add: adm' v key_def)
    have "distinct (map fst (hits rl))" using assms(2) by (simp add: tracks_def)
    then have "tracks now rl2 adm'"
      using t1 kh knows knows_admit [OF kh] by (auto simp: tracks_def rl2_def rl1_def adm'')
    then have "tracks now rl' adm'" using tracks_cleanup by (auto simp: v)
    moreover have "within_rate (nat (rate rl)) (window rl) adm'"
      unfolding within_rate_def
    proof (intro allI)
      fix k t
      show "length (filter (\<lambda>s. t - window rl < s \<and> s \<le> t) (times_of k adm')) \<le> nat (rate rl)"
      proof (cases "k = key \<and> t - window rl < now \<and> now \<le> t")
        case False
        then show ?thesis using assms(4) by (auto simp: within_rate_def adm'')
      next
        case True
        have "length (filter (\<lambda>s. t - window rl < s \<and> s \<le> t) (times_of key adm))
            \<le> length (recent (now - window rl) (times_of key adm))"
          using True unfolding recent_def by (intro length_filter_mono) auto
        also have "recent (now - window rl) (times_of key adm) = h"
          using kh by (simp add: knows_def h_def recent_recent)
        finally show ?thesis using True False by (auto simp: adm'')
      qed
    qed
    moreover have "rate rl' = rate rl \<and> window rl' = window rl"
      by (simp add: v rl2_def rl1_def cleanup_def)
    ultimately show ?thesis by blast
  qed
qed

fun in_time_order :: "rat \<Rightarrow> (string option \<times> rat) list \<Rightarrow> bool" where
  "in_time_order T [] = True"
| "in_time_order T ((client, now) # reqs) = (T \<le> now \<and> in_time_order now reqs)"

lemma limiter_run_within_rate:
  "limiter_run reqs rl adm = (rl', adm') \<Longrightarrow> in_time_order T reqs \<Longrightarrow> tracks T rl adm \<Longrightarrow>
     within_rate (nat (rate rl)) (window rl) adm \<Longrightarrow> 0 \<le> window rl \<Longrightarrow>
     within_rate (nat (rate rl)) (window rl) adm'"
proof (induction reqs rl adm arbitrary: T rule: limiter_run.induct)
  case (2 client now reqs rl adm)
  obtain v rl1 where h: "handle_request ''http'' client now rl = (v, rl1)" by fastforce
  let ?adm = "if v = Passed then adm @ [(client_key client, now)] else adm"
  have le: "T \<le> now" using 2(3) by simp
  have step: "tracks now rl1 ?adm" "within_rate (nat (rate rl)) (window rl) ?adm"
    "rate rl1 = rate rl" "window rl1 = window rl"
    using handle_request_step [OF h 2(4) le 2(5,6) refl] by blast+
  have run: "limiter_run reqs rl1 ?adm = (rl', adm')" using 2(2) h by simp
  show ?case
    using 2(1) [OF h [symmetric] run, of now] 2(3,6) step by simp
qed simp

text \<open>
  The limiter keeps its promise through any traffic in time order, cleanups included: no
  client is ever admitted more than \<open>rate\<close> times within any window of the configured length.
\<close>

theorem rate_limit_holds:
  assumes "limiter_run reqs (new_limiter r w) [] = (rl, adm)" and "in_time_order 0 reqs" and "0 \<le> w"
  shows "within_rate (nat r) w adm"
proof -
  have "tracks 0 (new_limiter r w) []" "within_rate (nat r) w []"
    by (simp_all add: tracks_def within_rate_def knows_def new_limiter_def hits_of_def)
  then show ?thesis
    using limiter_run_within_rate [OF assms(1,2)] assms(3) by (simp add: new_limiter_def)
qed

lemma rate_limit_holds_witness:
  "within_rate 2 60 [(''a'', 0), (''a'', 10), (''unknown'', 11), (''a'', 61)]"
proof -
  have "limiter_run [(Some ''a'', 0), (Some ''a'', 10), (Some ''a'', 11), (None, 11), (Some ''a'', 61)]
      (new_limiter 2 60) [] =
      (\<lparr>rate = 2, window = 60, hits = [(''a'', [10, 61]), (''unknown'', [11])], call_count = 4\<rparr>,
       [(''a'', 0), (''a'', 10), (''unknown'', 11), (''a'', 61)])"
    by (simp add: handle_request_def new_limiter_def client_key_def hits_of_def Let_def)
  from rate_limit_holds [OF this] show ?thesis by simp
qed

text \<open>
  The limiter does not lock a client out: with a positive rate, a client none of whose
  admissions lies within the window before now is admitted.
\<close>

theorem quiet_client_admitted:
  assumes "tracks T rl adm" and "T \<le> now" and "0 < rate rl"
    and "recent (now - window rl) (times_of (client_key client) adm) = []"
  shows "fst (handle_request ''http'' client now rl) = Passed"
proof -
  have "recent (now - window rl) (hits_of (hits rl) (client_key client)) = []"
    using assms(1,2,4) by (auto simp: tracks_def knows_def)
  then show ?thesis using assms(3) by (simp add: handle_request_def recent_def Let_def)
qed

lemma quiet_client_admitted_witness:
  "fst (handle_request ''http'' (Some ''a'') 100 \<lparr>rate = 1, window = 60, hits = [(''a'', [40])], call_count = 1\<rparr>) = Passed"
proof -
  have "tracks 40 \<lparr>rate = 1, window = 60, hits = [(''a'', [40])], call_count = 1\<rparr> [(''a'', 40)]"
    by (simp add: tracks_def knows_def hits_of_def times_of_def)
  from quiet_client_admitted [OF this, of 100 "Some ''a''"] show ?thesis
    by (simp add: client_key_def times_of_def)
qed

end
