(* ===== verification/Http_Stack.thy ===== *)
theory Http_Stack
  imports Service Rate_Limiter
begin

text \<open>
  The two middlewares of \<open>src/middleware.py\<close> in the order in which \<open>src/main.py\<close> installs them: the one
  added last is the outermost, so a request is correlated and counted first and then admitted or
  turned away.
\<close>

section \<open>The code\<close>

text \<open>\<open>_send_429\<close>.\<close>

definition send_429 :: "int \<Rightarrow> asgi_message list" where
  "send_429 retry_after =
     (let text_sent = ''Rate limit exceeded'' in
      [\<lparr>msg_type = ''http.response.start'', msg_status = 429,
        msg_headers = [(''content-type'', ''text/plain''), (''retry-after'', int_text retry_after),
          (''content-length'', int_text (int (length text_sent)))],
        msg_payload = []\<rparr>,
       \<lparr>msg_type = ''http.response.body'', msg_status = 0, msg_headers = [], msg_payload = text_sent\<rparr>])"

text \<open>A request that is turned away does not reach the router, which would set its route.\<close>

definition rate_limited ::
  "rat \<Rightarrow> asgi_app \<Rightarrow> asgi_scope \<Rightarrow> rate_limiter \<Rightarrow> verdict \<times> asgi_scope \<times> (asgi_message list \<times> bool) \<times> rate_limiter" where
  "rate_limited now app scope rl =
     (case handle_request (scope_type scope) (scope_client scope) now rl of
        (Passed, rl') \<Rightarrow> (Passed, scope, app scope, rl')
      | (Limited n, rl') \<Rightarrow> (Limited n, scope\<lparr>scope_route := None\<rparr>, (send_429 n, False), rl'))"

text \<open>One request to the server: its fresh correlation id, the time of its arrival and its scope.\<close>

record visit =
  visit_fresh :: string
  visit_time :: rat
  visit_scope :: asgi_scope

definition http_stack ::
  "asgi_app \<Rightarrow> visit \<Rightarrow> rate_limiter \<Rightarrow> request_counts \<Rightarrow>
     verdict \<times> (asgi_message list \<times> bool) \<times> rate_limiter \<times> request_counts" where
  "http_stack app v rl counts =
     (case rate_limited (visit_time v) app (visit_scope v) rl of
        (outcome, scope, reply, rl') \<Rightarrow>
          (case correlate (visit_fresh v) (\<lambda>_. reply) scope counts of
             (sent, counts') \<Rightarrow> (outcome, sent, rl', counts')))"

section \<open>Traffic\<close>

text \<open>
  The requests that reach the application, the replies in order, and the state afterwards.
\<close>

fun serve_all ::
  "asgi_app \<Rightarrow> visit list \<Rightarrow> rate_limiter \<Rightarrow> request_counts \<Rightarrow>
     visit list \<times> (asgi_message list \<times> bool) list \<times> rate_limiter \<times> request_counts" where
  "serve_all app [] rl counts = ([], [], rl, counts)"
| "serve_all app (v # vs) rl counts =
     (case http_stack app v rl counts of
        (outcome, reply, rl1, counts1) \<Rightarrow>
          (case serve_all app vs rl1 counts1 of
             (reached, replies, rl2, counts2) \<Rightarrow>
               (if outcome = Passed then v # reached else reached, reply # replies, rl2, counts2)))"

definition over_http :: "visit \<Rightarrow> bool" where
  "over_http v \<longleftrightarrow> scope_type (visit_scope v) = ''http''"

definition arrival :: "visit \<Rightarrow> string option \<times> rat" where
  "arrival v = (scope_client (visit_scope v), visit_time v)"

definition admission :: "visit \<Rightarrow> string \<times> rat" where
  "admission v = (client_key (scope_client (visit_scope v)), visit_time v)"

text \<open>What every HTTP response start ends with.\<close>

definition carries_id :: "visit \<Rightarrow> asgi_message list \<times> bool \<Rightarrow> bool" where
  "carries_id v reply \<longleftrightarrow> (over_http v \<longrightarrow>
     (\<forall>m \<in> set (fst reply). is_start m \<longrightarrow>
        last (msg_headers m) = (correlation_header, request_correlation (visit_fresh v) (scope_headers (visit_scope v)))))"

lemma marked_start: "is_start (mark_message cid m) \<Longrightarrow> last (msg_headers (mark_message cid m)) = (correlation_header, cid)"
  by (auto simp: mark_message_def is_start_def)

lemma other_scopes_pass:
  "\<not> over_http v \<Longrightarrow> http_stack app v rl counts = (Passed, app (visit_scope v), rl, counts)"
  by (simp add: http_stack_def rate_limited_def handle_request_def over_http_def correlate_def)

lemma stack_verdict:
  "http_stack app v rl counts = (outcome, reply, rl1, counts1) \<Longrightarrow> over_http v \<Longrightarrow>
     handle_request ''http'' (scope_client (visit_scope v)) (visit_time v) rl = (outcome, rl1)"
  by (auto simp: http_stack_def rate_limited_def over_http_def split: prod.splits verdict.splits)

lemma stack_answer:
  assumes "http_stack app v rl counts = (outcome, reply, rl1, counts1)" and "over_http v"
  shows "carries_id v reply \<and> (\<exists>key. counts1 = counts(key := counts key + 1)) \<and>
    (\<forall>n. outcome = Limited n \<longrightarrow> reply = (map (mark_message
        (request_correlation (visit_fresh v) (scope_headers (visit_scope v)))) (send_429 n), False))"
proof -
  obtain o1 scope given rl' where limited: "rate_limited (visit_time v) app (visit_scope v) rl = (o1, scope, given, rl')"
    by (metis prod_cases4)
  then have scope: "scope_type scope = ''http''" "scope_headers scope = scope_headers (visit_scope v)"
      "\<And>n. o1 = Limited n \<Longrightarrow> given = (send_429 n, False)"
    using assms(2) by (auto simp: rate_limited_def over_http_def split: prod.splits verdict.splits)
  show ?thesis
    using assms(1) limited scope
    by (cases given) (auto simp: http_stack_def correlate_def carries_id_def Let_def marked_start)
qed

lemma reached_admitted:
  "serve_all app vs rl counts = (reached, replies, rl', counts') \<Longrightarrow>
     limiter_run (map arrival (filter over_http vs)) rl adm = (rl', adm @ map admission (filter over_http reached))"
proof (induction app vs rl counts arbitrary: reached replies adm rule: serve_all.induct)
  case (2 app v vs rl counts)
  obtain outcome reply rl1 counts1 where step: "http_stack app v rl counts = (outcome, reply, rl1, counts1)"
    by (metis prod_cases4)
  obtain reached1 replies1 where rest: "serve_all app vs rl1 counts1 = (reached1, replies1, rl', counts')"
    and reached: "reached = (if outcome = Passed then v # reached1 else reached1)"
    using 2(2) step by (auto split: prod.splits)
  note IH = 2(1) [OF step [symmetric] refl refl rest]
  show ?case
  proof (cases "over_http v")
    case True
    show ?thesis
      using stack_verdict [OF step True] IH [of adm] IH [of "adm @ [admission v]"] True
      by (simp add: arrival_def reached admission_def)
  next
    case False
    with other_scopes_pass [OF False, of app rl counts] step IH [of adm] show ?thesis by (simp add: reached)
  qed
qed simp

text \<open>Requests are counted once each, under some method, path and status.\<close>

definition counted_under :: "(string \<times> string \<times> int) list \<Rightarrow> request_counts \<Rightarrow> request_counts" where
  "counted_under keys counts = fold (\<lambda>key c. c(key := c key + 1)) keys counts"

lemma served_answers:
  "serve_all app vs rl counts = (reached, replies, rl', counts') \<Longrightarrow>
     list_all2 carries_id vs replies \<and>
     (\<exists>keys. length keys = length (filter over_http vs) \<and> counts' = counted_under keys counts)"
proof (induction app vs rl counts arbitrary: reached replies rule: serve_all.induct)
  case (2 app v vs rl counts)
  obtain outcome reply rl1 counts1 where step: "http_stack app v rl counts = (outcome, reply, rl1, counts1)"
    by (metis prod_cases4)
  obtain reached1 replies1 where rest: "serve_all app vs rl1 counts1 = (reached1, replies1, rl', counts')"
    and replies: "replies = reply # replies1"
    using 2(2) step by (auto split: prod.splits)
  obtain keys where keys: "list_all2 carries_id vs replies1" "length keys = length (filter over_http vs)"
      "counts' = counted_under keys counts1"
    using 2(1) [OF step [symmetric] refl refl rest] by blast
  show ?case
  proof (cases "over_http v")
    case True
    then obtain key where "carries_id v reply" "counts1 = counts(key := counts key + 1)"
      using stack_answer [OF step] by blast
    then show ?thesis using keys True by (auto simp: replies counted_under_def intro!: exI [of _ "key # keys"])
  next
    case False
    then have "carries_id v reply" by (simp add: carries_id_def)
    with False other_scopes_pass [OF False, of app rl counts] step keys show ?thesis
      by (auto simp: replies)
  qed
qed (simp add: counted_under_def exI [of _ "[]"])

text \<open>
  C30. The server keeps the promise of its limiter through any traffic in time order: within any window of
  the configured length no client reaches the application more often than configured, whatever the
  application does.  Every HTTP request, admitted or not, is answered under the correlation id it
  brought or a fresh one, and is counted once.
\<close>

theorem traffic_limited_and_traced:
  assumes "serve_all app visits (new_limiter r w) counts = (reached, replies, rl, counts')"
    and "in_time_order 0 (map arrival (filter over_http visits))" and "0 \<le> w"
  shows "within_rate (nat r) w (map admission (filter over_http reached)) \<and>
    list_all2 carries_id visits replies \<and>
    (\<exists>keys. length keys = length (filter over_http visits) \<and> counts' = counted_under keys counts)"
proof -
  have "tracks 0 (new_limiter r w) []" "within_rate (nat r) w []"
    by (simp_all add: tracks_def within_rate_def knows_def new_limiter_def hits_of_def)
  moreover have "limiter_run (map arrival (filter over_http visits)) (new_limiter r w) [] =
      (rl, map admission (filter over_http reached))"
    using reached_admitted [OF assms(1), of "[]"] by simp
  ultimately have "within_rate (nat r) w (map admission (filter over_http reached))"
    using limiter_run_within_rate [OF _ assms(2)] assms(3) by (fastforce simp: new_limiter_def)
  with served_answers [OF assms(1)] show ?thesis by blast
qed

text \<open>A client that asks twice where one request a minute is allowed.\<close>

definition example_visit :: "rat \<Rightarrow> string \<Rightarrow> visit" where
  "example_visit now conn = \<lparr>visit_fresh = ''id'', visit_time = now,
     visit_scope = \<lparr>scope_type = conn, scope_method = ''GET'', scope_path = ''/buy'', scope_client = Some ''a'',
       scope_route = Some ''/buy'', scope_headers = []\<rparr>\<rparr>"

definition ok_app :: asgi_app where
  "ok_app scope = ([\<lparr>msg_type = ''http.response.start'', msg_status = 200, msg_headers = [], msg_payload = []\<rparr>], False)"

definition example_traffic :: "visit list" where
  "example_traffic = [example_visit 0 ''lifespan'', example_visit 1 ''http'', example_visit 2 ''http'', example_visit 62 ''http'']"

text \<open>The second request is turned away, under its correlation id, and the raw path is counted.\<close>

lemma example_served:
  "(case serve_all ok_app example_traffic (new_limiter 1 60) (\<lambda>_. 0) of (reached, replies, rl, counts) \<Rightarrow>
      map visit_time reached = [0, 1, 62] \<and>
      map (map msg_status \<circ> fst) replies = [[200], [200], [429, 0], [200]] \<and>
      msg_headers (hd (fst (replies ! 2))) =
        [(''content-type'', ''text/plain''), (''retry-after'', ''60''), (''content-length'', ''19''),
         (''x-correlation-id'', ''id'')] \<and>
      counts (''GET'', ''/buy'', 200) = 2 \<and> counts (''GET'', ''/buy'', 429) = 1)"
  by code_simp

lemma traffic_limited_and_traced_witness:
  "within_rate 1 60 (map admission (filter over_http (fst (serve_all ok_app example_traffic (new_limiter 1 60) (\<lambda>_. 0)))))"
proof -
  obtain reached replies rl counts where run: "serve_all ok_app example_traffic (new_limiter 1 60) (\<lambda>_. 0) = (reached, replies, rl, counts)"
    by (metis prod_cases4)
  have "in_time_order 0 (map arrival (filter over_http example_traffic))" by code_simp
  from traffic_limited_and_traced [OF run this] run show ?thesis by simp
qed

end
