(* ===== verification/Migration_Ops.thy ===== *)
theory Migration_Ops
  imports Py_Prelude
begin

text \<open>
  A relational database as far as \<open>alembic/\<close> and \<open>src/models/\<close> describe one: tables with columns, indexes
  and rows; the operations of a migration; and moving a database from one revision to another.  A
  row gives every column its value, \<^const>\<open>JNull\<close> for null; times are microseconds.
\<close>

section \<open>Tables\<close>

datatype column_type = SqlString | SqlText | SqlJson | SqlInteger | SqlDatetime

text \<open>What \<open>Column\<close> is told; a default of Python is applied by the ORM, one of the server by the database.\<close>

datatype orm_default = NoDefault | DefaultText string | DefaultInt int | DefaultDict | DefaultList | DefaultNow

record column_spec =
  spec_name :: string
  spec_type :: column_type
  spec_primary :: bool
  spec_nullable :: "bool option"
  spec_indexed :: bool
  spec_unique :: bool
  spec_default :: orm_default
  spec_onupdate :: bool
  spec_server_default :: "string option"

definition sa_column :: "string \<Rightarrow> column_type \<Rightarrow> column_spec" where
  "sa_column name typ =
     \<lparr>spec_name = name, spec_type = typ, spec_primary = False, spec_nullable = None, spec_indexed = False,
      spec_unique = False, spec_default = NoDefault, spec_onupdate = False, spec_server_default = None\<rparr>"

text \<open>A column of the database.  It is nullable unless it is told otherwise or is part of the primary key.\<close>

record db_column =
  col_name :: string
  col_type :: column_type
  col_primary :: bool
  col_nullable :: bool
  col_server_default :: "string option"

definition column_of :: "column_spec \<Rightarrow> db_column" where
  "column_of c =
     \<lparr>col_name = spec_name c, col_type = spec_type c, col_primary = spec_primary c,
      col_nullable = (case spec_nullable c of Some n \<Rightarrow> n | None \<Rightarrow> \<not> spec_primary c),
      col_server_default = spec_server_default c\<rparr>"

record db_index =
  ix_columns :: "string list"
  ix_unique :: bool

record db_table =
  tab_columns :: "db_column list"
  tab_indexes :: "(string \<times> db_index) list"
  tab_rows :: "dict list"

type_synonym tables = "(string \<times> db_table) list"

datatype db_error =
    TableExists string
  | NoSuchTable string
  | ColumnExists string
  | NoSuchColumn string
  | IndexExists string
  | NoSuchIndex string
  | NotNullViolated string
  | NotUnique string
  | NoSuchRevision string
  | MultipleHeads

section \<open>The operations of \<open>alembic.op\<close>\<close>

definition index_name :: "string \<Rightarrow> string \<Rightarrow> string" where
  "index_name table name = ''ix_'' @ table @ ''_'' @ name"

text \<open>The indexes a table gets from its columns.\<close>

definition column_indexes :: "string \<Rightarrow> column_spec list \<Rightarrow> (string \<times> db_index) list" where
  "column_indexes table specs =
     map (\<lambda>c. (index_name table (spec_name c), \<lparr>ix_columns = [spec_name c], ix_unique = spec_unique c\<rparr>))
       (filter spec_indexed specs)"

definition create_table :: "string \<Rightarrow> column_spec list \<Rightarrow> tables \<Rightarrow> db_error + tables" where
  "create_table table specs db =
     (if has_key db table then Inl (TableExists table)
      else Inr (db @ [(table, \<lparr>tab_columns = map column_of specs, tab_indexes = column_indexes table specs,
        tab_rows = []\<rparr>)]))"

definition drop_table :: "string \<Rightarrow> tables \<Rightarrow> db_error + tables" where
  "drop_table table db =
     (if has_key db table then Inr (filter (\<lambda>(n, t). n \<noteq> table) db) else Inl (NoSuchTable table))"

definition on_table :: "string \<Rightarrow> (db_table \<Rightarrow> db_error + db_table) \<Rightarrow> tables \<Rightarrow> db_error + tables" where
  "on_table table change db =
     (case map_of db table of
        None \<Rightarrow> Inl (NoSuchTable table)
      | Some t \<Rightarrow> res_bind (change t) (\<lambda>t'. Inr (dset table t' db)))"

definition server_value :: "db_column \<Rightarrow> json" where
  "server_value c = (case col_server_default c of Some v \<Rightarrow> JStr v | None \<Rightarrow> JNull)"

definition add_column :: "string \<Rightarrow> column_spec \<Rightarrow> tables \<Rightarrow> db_error + tables" where
  "add_column table spec =
     on_table table (\<lambda>t.
       let c = column_of spec in
       if col_name c \<in> set (map col_name (tab_columns t)) then Inl (ColumnExists (col_name c))
       else if tab_rows t \<noteq> [] \<and> \<not> col_nullable c \<and> col_server_default c = None then Inl (NotNullViolated (col_name c))
       else Inr (t\<lparr>tab_columns := tab_columns t @ [c],
                   tab_rows := map (\<lambda>row. row @ [(col_name c, server_value c)]) (tab_rows t)\<rparr>))"

definition drop_column :: "string \<Rightarrow> string \<Rightarrow> tables \<Rightarrow> db_error + tables" where
  "drop_column table name =
     on_table table (\<lambda>t.
       if name \<notin> set (map col_name (tab_columns t)) then Inl (NoSuchColumn name)
       else Inr (t\<lparr>tab_columns := filter (\<lambda>c. col_name c \<noteq> name) (tab_columns t),
                   tab_rows := map (filter (\<lambda>(k, v). k \<noteq> name)) (tab_rows t)\<rparr>))"

text \<open>Null is different from null; the names of indexes are shared by all tables.\<close>

definition unique_rows :: "string list \<Rightarrow> dict list \<Rightarrow> bool" where
  "unique_rows names rows \<longleftrightarrow>
     distinct (filter (\<lambda>vs. JNull \<notin> set vs) (map (\<lambda>row. map (getj row) names) rows))"

definition create_index :: "string \<Rightarrow> string \<Rightarrow> string list \<Rightarrow> bool \<Rightarrow> tables \<Rightarrow> db_error + tables" where
  "create_index index table names unique db =
     (if list_ex (\<lambda>(n, t). has_key (tab_indexes t) index) db then Inl (IndexExists index)
      else on_table table (\<lambda>t.
        if \<not> set names \<subseteq> set (map col_name (tab_columns t)) then Inl (NoSuchColumn index)
        else if unique \<and> \<not> unique_rows names (tab_rows t) then Inl (NotUnique index)
        else Inr (t\<lparr>tab_indexes := tab_indexes t @ [(index, \<lparr>ix_columns = names, ix_unique = unique\<rparr>)]\<rparr>)) db)"

definition drop_index :: "string \<Rightarrow> string \<Rightarrow> tables \<Rightarrow> db_error + tables" where
  "drop_index index table =
     on_table table (\<lambda>t.
       if has_key (tab_indexes t) index
       then Inr (t\<lparr>tab_indexes := filter (\<lambda>(n, i). n \<noteq> index) (tab_indexes t)\<rparr>)
       else Inl (NoSuchIndex index))"

section \<open>Revisions\<close>

text \<open>A file of \<open>alembic/versions\<close>.\<close>

record migration =
  revision :: string
  down_revision :: "string option"
  upgrade :: "tables \<Rightarrow> db_error + tables"
  downgrade :: "tables \<Rightarrow> db_error + tables"

text \<open>\<open>version\<close> is the row of the table \<open>alembic_version\<close>.\<close>

record database =
  db_tables :: tables
  version :: "string option"

definition heads :: "migration list \<Rightarrow> string list" where
  "heads ms = filter (\<lambda>r. Some r \<notin> set (map down_revision ms)) (map revision ms)"

text \<open>
  The revisions on the way down from one to another, newest first, by their \<open>down_revision\<close>.  As many
  steps as there are files are enough, unless the revisions form a cycle.
\<close>

fun way_down :: "nat \<Rightarrow> migration list \<Rightarrow> string option \<Rightarrow> string option \<Rightarrow> db_error + migration list" where
  "way_down n ms from goal =
     (if from = goal then Inr []
      else case (n, from) of
        (Suc k, Some r) \<Rightarrow>
          (case List.find (\<lambda>m. revision m = r) ms of
             None \<Rightarrow> Inl (NoSuchRevision r)
           | Some m \<Rightarrow> res_bind (way_down k ms (down_revision m) goal) (\<lambda>path. Inr (m # path)))
      | _ \<Rightarrow> Inl (NoSuchRevision (case goal of Some g \<Rightarrow> g | None \<Rightarrow> [])))"

declare way_down.simps [simp del]

fun run_upgrades :: "migration list \<Rightarrow> database \<Rightarrow> db_error + database" where
  "run_upgrades [] db = Inr db"
| "run_upgrades (m # ms) db =
     res_bind (upgrade m (db_tables db)) (\<lambda>ts. run_upgrades ms (db\<lparr>db_tables := ts, version := Some (revision m)\<rparr>))"

fun run_downgrades :: "migration list \<Rightarrow> database \<Rightarrow> db_error + database" where
  "run_downgrades [] db = Inr db"
| "run_downgrades (m # ms) db =
     res_bind (downgrade m (db_tables db)) (\<lambda>ts. run_downgrades ms (db\<lparr>db_tables := ts, version := down_revision m\<rparr>))"

text \<open>\<open>command.upgrade(cfg, "head")\<close> and \<open>command.downgrade\<close>.\<close>

definition upgrade_head :: "migration list \<Rightarrow> database \<Rightarrow> db_error + database" where
  "upgrade_head ms db =
     (case heads ms of
        [h] \<Rightarrow> res_bind (way_down (length ms) ms (Some h) (version db)) (\<lambda>path. run_upgrades (rev path) db)
      | _ \<Rightarrow> Inl MultipleHeads)"

definition downgrade_to :: "migration list \<Rightarrow> string option \<Rightarrow> database \<Rightarrow> db_error + database" where
  "downgrade_to ms goal db =
     res_bind (way_down (length ms) ms (version db) goal) (\<lambda>path. run_downgrades path db)"

section \<open>Comparing with the models\<close>

text \<open>
  The indexes that a model has, and how tables differ from models in what the service relies on: tables, the
  names, types, keys and nullability of their columns, and indexes.
\<close>

datatype difference =
    MissingTable string
  | ExtraTable string
  | ColumnsDiffer string
  | TypesDiffer string
  | KeysDiffer string
  | NullabilityDiffers string string
  | IndexesDiffer string

definition table_differences :: "string \<Rightarrow> column_spec list \<Rightarrow> db_table \<Rightarrow> difference list" where
  "table_differences table specs t =
     (let cs = map column_of specs; ts = tab_columns t in
      if map col_name cs \<noteq> map col_name ts then [ColumnsDiffer table]
      else (if map col_type cs \<noteq> map col_type ts then [TypesDiffer table] else []) @
           (if map col_primary cs \<noteq> map col_primary ts then [KeysDiffer table] else []) @
           map (\<lambda>(c, d). NullabilityDiffers table (col_name c))
             (filter (\<lambda>(c, d). col_nullable c \<noteq> col_nullable d) (zip cs ts)) @
           (if set (column_indexes table specs) \<noteq> set (tab_indexes t) then [IndexesDiffer table] else []))"

definition differences :: "(string \<times> column_spec list) list \<Rightarrow> tables \<Rightarrow> difference list" where
  "differences models db =
     concat (map (\<lambda>(n, specs). case map_of db n of
        None \<Rightarrow> [MissingTable n] | Some t \<Rightarrow> table_differences n specs t) models) @
     map (ExtraTable \<circ> fst) (filter (\<lambda>(n, t). \<not> has_key models n) db)"

section \<open>Migrations that can be undone\<close>

text \<open>Every row gives a value to each column of its table, in their order, and to nothing else.\<close>

definition conforms :: "tables \<Rightarrow> bool" where
  "conforms db \<longleftrightarrow> distinct (map fst db) \<and>
     (\<forall>(n, t) \<in> set db. \<forall>row \<in> set (tab_rows t). map fst row = map col_name (tab_columns t))"

text \<open>
  No table, row or value is lost: columns are added at the end, and the rows there are take what the
  database gives a new column.
\<close>

definition new_values :: "db_column list \<Rightarrow> dict" where
  "new_values cs = map (\<lambda>c. (col_name c, server_value c)) cs"

definition columns_added :: "db_table \<Rightarrow> db_table \<Rightarrow> bool" where
  "columns_added t t' \<longleftrightarrow>
     (\<exists>cs. tab_columns t' = tab_columns t @ cs \<and> tab_rows t' = map (\<lambda>row. row @ new_values cs) (tab_rows t))"

definition rows_kept :: "tables \<Rightarrow> tables \<Rightarrow> bool" where
  "rows_kept db db' \<longleftrightarrow>
     (\<forall>n t. map_of db n = Some t \<longrightarrow>
        (\<exists>t'. map_of db' n = Some t' \<and> columns_added t t'))"

definition undoes :: "(tables \<Rightarrow> db_error + tables) \<Rightarrow> (tables \<Rightarrow> db_error + tables) \<Rightarrow> bool" where
  "undoes up down \<longleftrightarrow>
     (\<forall>db db'. conforms db \<longrightarrow> up db = Inr db' \<longrightarrow> conforms db' \<and> down db' = Inr db \<and> rows_kept db db')"

lemma undoesI:
  "(\<And>db db'. conforms db \<Longrightarrow> up db = Inr db' \<Longrightarrow> conforms db' \<and> down db' = Inr db \<and> rows_kept db db') \<Longrightarrow> undoes up down"
  by (simp add: undoes_def)

lemma undoesD:
  "undoes up down \<Longrightarrow> conforms db \<Longrightarrow> up db = Inr db' \<Longrightarrow> conforms db' \<and> down db' = Inr db \<and> rows_kept db db'"
  by (simp add: undoes_def)

lemma columns_added_refl [simp]: "columns_added t t" "columns_added t (t\<lparr>tab_indexes := is\<rparr>)"
  by (auto simp: columns_added_def new_values_def intro!: exI [of _ "[]"])

lemma columns_added_trans: "columns_added t t1 \<Longrightarrow> columns_added t1 t2 \<Longrightarrow> columns_added t t2"
  unfolding columns_added_def
proof (elim exE conjE)
  fix cs ds
  assume "tab_columns t1 = tab_columns t @ cs" "tab_rows t1 = map (\<lambda>row. row @ new_values cs) (tab_rows t)"
    and "tab_columns t2 = tab_columns t1 @ ds" "tab_rows t2 = map (\<lambda>row. row @ new_values ds) (tab_rows t1)"
  then show "\<exists>es. tab_columns t2 = tab_columns t @ es \<and> tab_rows t2 = map (\<lambda>row. row @ new_values es) (tab_rows t)"
    by (intro exI [of _ "cs @ ds"]) (simp add: new_values_def)
qed

lemma rows_kept_refl [simp]: "rows_kept db db"
  by (simp add: rows_kept_def)

lemma rows_kept_trans: "rows_kept db db1 \<Longrightarrow> rows_kept db1 db2 \<Longrightarrow> rows_kept db db2"
  unfolding rows_kept_def using columns_added_trans by fast

text \<open>Operations one after the other are undone in the opposite order.\<close>

lemma undoes_then:
  assumes "undoes up1 down1" and "undoes up2 down2"
  shows "undoes (\<lambda>db. res_bind (up1 db) up2) (\<lambda>db. res_bind (down2 db) down1)"
proof (rule undoesI)
  fix db db2 assume conf: "conforms db" and run: "res_bind (up1 db) up2 = Inr db2"
  then obtain db1 where "up1 db = Inr db1" "up2 db1 = Inr db2" by (auto simp: res_bind_Inr_iff)
  with undoesD [OF assms(1) conf] undoesD [OF assms(2)] rows_kept_trans
  show "conforms db2 \<and> res_bind (down2 db2) down1 = Inr db \<and> rows_kept db db2" by fastforce
qed

lemma has_key_iff: "has_key d k \<longleftrightarrow> k \<in> fst ` set d"
  by (simp add: has_key_def map_of_eq_None_iff)

lemma undoes_create_table: "undoes (create_table table specs) (drop_table table)"
proof (rule undoesI)
  fix db db' assume conf: "conforms db" and "create_table table specs db = Inr db'"
  then have new: "table \<notin> fst ` set db" and db': "\<exists>t. db' = db @ [(table, t)] \<and> tab_rows t = []"
    by (auto simp: create_table_def has_key_def map_of_eq_None_iff split: if_splits)
  from db' obtain t where t: "db' = db @ [(table, t)]" "tab_rows t = []" by blast
  have "filter (\<lambda>(n, u). n \<noteq> table) db = db" using new by (intro filter_True) force
  moreover have "rows_kept db db'"
    using new t(1)
    by (auto simp: rows_kept_def map_add_def split: option.splits simp del: map_of_eq_Some_iff)
  ultimately show "conforms db' \<and> drop_table table db' = Inr db \<and> rows_kept db db'"
    using conf new t by (auto simp: conforms_def drop_table_def has_key_def)
qed

text \<open>Changing a table and changing it back.\<close>

lemma dset_back: "map_of db table = Some t \<Longrightarrow> dset table t (dset table u db) = db"
  by (induction db) auto

lemma undoes_on_table:
  assumes "\<And>t t'. \<forall>row \<in> set (tab_rows t). map fst row = map col_name (tab_columns t) \<Longrightarrow> up t = Inr t' \<Longrightarrow>
      (\<forall>row \<in> set (tab_rows t'). map fst row = map col_name (tab_columns t')) \<and> down t' = Inr t \<and>
      columns_added t t'"
  shows "undoes (on_table table up) (on_table table down)"
proof (rule undoesI)
  fix db db' assume conf: "conforms db" and "on_table table up db = Inr db'"
  then obtain t t' where t: "map_of db table = Some t" "up t = Inr t'" "db' = dset table t' db"
    by (auto simp: on_table_def res_bind_Inr_iff split: option.splits simp del: map_of_eq_Some_iff)
  have "\<forall>row \<in> set (tab_rows t). map fst row = map col_name (tab_columns t)"
    using conf t(1) by (fastforce simp: conforms_def dest: map_of_SomeD)
  note kept = assms [OF this t(2)]
  have "set db' \<subseteq> insert (table, t') (set db)" unfolding t(3) by (induction db) auto
  with conf kept have "\<forall>(n, u) \<in> set db'. \<forall>row \<in> set (tab_rows u). map fst row = map col_name (tab_columns u)"
    unfolding conforms_def by fastforce
  then have "conforms db'" using conf by (simp add: conforms_def t(3) distinct_update)
  moreover have "on_table table down db' = Inr db"
    using kept dset_back [OF t(1)] by (simp add: on_table_def t(3))
  moreover have "rows_kept db db'"
    using kept t by (auto simp: rows_kept_def simp del: map_of_eq_Some_iff)
  ultimately show "conforms db' \<and> on_table table down db' = Inr db \<and> rows_kept db db'" by blast
qed

lemma undoes_add_column: "undoes (add_column table spec) (drop_column table (spec_name spec))"
  unfolding add_column_def drop_column_def
proof (rule undoes_on_table, goal_cases)
  case (1 t t')
  let ?c = "column_of spec"
  have name: "col_name ?c = spec_name spec" by (simp add: column_of_def)
  from 1(2) have new: "spec_name spec \<notin> set (map col_name (tab_columns t))"
    and t': "t' = t\<lparr>tab_columns := tab_columns t @ [?c], tab_rows := map (\<lambda>row. row @ [(col_name ?c, server_value ?c)]) (tab_rows t)\<rparr>"
    by (auto simp: Let_def name split: if_splits)
  have cols: "filter (\<lambda>c. col_name c \<noteq> spec_name spec) (tab_columns t) = tab_columns t"
    using new by (intro filter_True ballI) (metis imageI set_map)
  have "filter (\<lambda>(k, v). k \<noteq> spec_name spec) row = row" if "row \<in> set (tab_rows t)" for row
  proof -
    have "fst ` set row = set (map col_name (tab_columns t))" using 1(1) that by (metis set_map)
    with new show ?thesis by (intro filter_True) (force simp: image_iff)
  qed
  then have "map (\<lambda>row. filter (\<lambda>(k, v). k \<noteq> spec_name spec) (row @ [(spec_name spec, server_value ?c)])) (tab_rows t) = tab_rows t"
    by (intro map_idI) simp
  then show ?case
    using 1(1) by (auto simp: t' name cols comp_def columns_added_def new_values_def intro!: exI [of _ "[?c]"])
qed

lemma undoes_create_index: "undoes (create_index index table names unique) (drop_index index table)"
proof (rule undoesI)
  fix db db' assume conf: "conforms db" and run: "create_index index table names unique db = Inr db'"
  let ?up = "\<lambda>t. if has_key (tab_indexes t) index \<or> \<not> set names \<subseteq> set (map col_name (tab_columns t)) then Inl (NoSuchColumn index)
        else if unique \<and> \<not> unique_rows names (tab_rows t) then Inl (NotUnique index)
        else Inr (t\<lparr>tab_indexes := tab_indexes t @ [(index, \<lparr>ix_columns = names, ix_unique = unique\<rparr>)]\<rparr>)"
  have undone: "undoes (on_table table ?up) (drop_index index table)"
    unfolding drop_index_def
  proof (rule undoes_on_table, goal_cases)
    case (1 t t')
    then have "index \<notin> fst ` set (tab_indexes t)" by (simp add: has_key_iff split: if_splits)
    moreover from this have "filter (\<lambda>(n, i). n \<noteq> index) (tab_indexes t) = tab_indexes t"
      by (intro filter_True) force
    ultimately show ?case using 1 by (auto simp: has_key_iff split: if_splits)
  qed
  have "\<not> has_key (tab_indexes t) index" if "map_of db table = Some t" for t
    using run map_of_SomeD [OF that] by (force simp: create_index_def list_ex_iff split: if_splits)
  then have "on_table table ?up db = Inr db'"
    using run by (auto simp: create_index_def on_table_def split: if_splits option.splits)
  with undoesD [OF undone conf] show "conforms db' \<and> drop_index index table db' = Inr db \<and> rows_kept db db'" by blast
qed

section \<open>Chains of revisions\<close>

text \<open>What the migrations of a program promise: each can be undone and loses nothing.\<close>

locale revisions =
  fixes ms :: "migration list"
  assumes reversible: "m \<in> set ms \<Longrightarrow> undoes (upgrade m) (downgrade m)"
begin

text \<open>A list of revisions, each on top of the one before it.\<close>

fun follows :: "string option \<Rightarrow> migration list \<Rightarrow> bool" where
  "follows v [] = True"
| "follows v (m # path) = (down_revision m = v \<and> follows (Some (revision m)) path)"

lemma follows_snoc:
  "follows v (path @ [m]) \<longleftrightarrow> follows v path \<and> down_revision m = (if path = [] then v else Some (revision (last path)))"
  by (induction path arbitrary: v) auto

lemma way_down_follows:
  "way_down n ms from goal = Inr path \<Longrightarrow>
     set path \<subseteq> set ms \<and> follows goal (rev path) \<and> (path = [] \<longrightarrow> from = goal) \<and> (path \<noteq> [] \<longrightarrow> from = Some (revision (hd path)))"
proof (induction n ms "from" goal arbitrary: path rule: way_down.induct)
  case (1 n ms "from" goal)
  show ?case
  proof (cases "from = goal")
    case True
    with 1(2) show ?thesis by (simp add: way_down.simps)
  next
    case False
    with 1(2) obtain k r m rest where parts: "n = Suc k" "from = Some r" "List.find (\<lambda>m. revision m = r) ms = Some m"
        "way_down k ms (down_revision m) goal = Inr rest" "path = m # rest"
      by (auto simp: way_down.simps [of n] res_bind_Inr_iff split: nat.splits option.splits)
    from 1(1) [OF False _ parts(1) parts(2)] parts(3,4)
    have "set rest \<subseteq> set ms \<and> follows goal (rev rest) \<and> (rest = [] \<longrightarrow> down_revision m = goal) \<and>
        (rest \<noteq> [] \<longrightarrow> down_revision m = Some (revision (hd rest)))" by blast
    moreover have "m \<in> set ms \<and> revision m = r" using parts(3) by (auto simp: find_Some_iff)
    ultimately show ?thesis
      by (auto simp: parts follows_snoc last_rev)
  qed
qed

lemma upgrades_undone:
  assumes "run_upgrades path db = Inr db'" and "set path \<subseteq> set ms" and "follows (version db) path" and "conforms (db_tables db)"
  shows "run_downgrades (rev path) db' = Inr db \<and> conforms (db_tables db') \<and> rows_kept (db_tables db) (db_tables db') \<and>
    version db' = (if path = [] then version db else Some (revision (last path)))"
  using assms
proof (induction path arbitrary: db)
  case (Cons m path)
  then obtain ts where ts: "upgrade m (db_tables db) = Inr ts"
      "run_upgrades path (db\<lparr>db_tables := ts, version := Some (revision m)\<rparr>) = Inr db'"
    by (auto simp: res_bind_Inr_iff)
  have up: "conforms ts" "downgrade m ts = Inr (db_tables db)" "rows_kept (db_tables db) ts"
    using undoesD [OF reversible Cons.prems(4) ts(1)] Cons.prems(2) by auto
  note IH = Cons.IH [OF ts(2)]
  have IH: "run_downgrades (rev path) db' = Inr (db\<lparr>db_tables := ts, version := Some (revision m)\<rparr>)"
      "conforms (db_tables db')" "rows_kept ts (db_tables db')"
      "version db' = (if path = [] then Some (revision m) else Some (revision (last path)))"
    using IH Cons.prems(2,3) up by auto
  have snoc: "run_downgrades (ps @ [m]) d = res_bind (run_downgrades ps d) (run_downgrades [m])" for ps d
    by (induction ps arbitrary: d) (auto simp: res_bind_def split: sum.splits)
  have "db\<lparr>db_tables := db_tables db, version := version db\<rparr> = db" by simp
  then show ?case
    using Cons.prems(3) IH up rows_kept_trans [OF up(3) IH(3)] by (auto simp: snoc res_bind_def)
qed simp

text \<open>Whatever was upgraded can be taken back to where it was.\<close>

lemma upgrade_undone:
  assumes up: "upgrade_head ms db = Inr db'" and conf: "conforms (db_tables db)"
  shows "rows_kept (db_tables db) (db_tables db') \<and> conforms (db_tables db') \<and>
    downgrade_to ms (version db) db' = Inr db"
proof -
  obtain h path where path: "heads ms = [h]" "way_down (length ms) ms (Some h) (version db) = Inr path"
      "run_upgrades (rev path) db = Inr db'"
    using up by (auto simp: upgrade_head_def res_bind_Inr_iff split: list.splits)
  note way = way_down_follows [OF path(2)]
  have undone: "run_downgrades path db' = Inr db \<and> conforms (db_tables db') \<and> rows_kept (db_tables db) (db_tables db') \<and>
      version db' = (if path = [] then version db else Some (revision (hd path)))"
    using upgrades_undone [OF path(3)] way conf by (simp add: last_rev)
  then have "version db' = Some h" using way by (cases path) auto
  with undone path(2) show ?thesis by (simp add: downgrade_to_def)
qed

end

end
