(* ===== verification/Db_Schema.thy ===== *)
theory Db_Schema
  imports Migration_Ops Op_Tracker
begin

text \<open>
  The database of the service: the tables its models declare (\<open>src/models/schema.py\<close>,
  \<open>src/models/publisher.py\<close>), the revisions of \<open>alembic/versions/\<close> that build them, and what the rows of
  the tracker are in them.
\<close>

section \<open>The models\<close>

definition operation_record :: "column_spec list" where
  "operation_record =
     [(sa_column ''id'' SqlString)\<lparr>spec_primary := True\<rparr>,
      (sa_column ''operation_type'' SqlString)\<lparr>spec_nullable := Some False\<rparr>,
      (sa_column ''seller_name'' SqlString)\<lparr>spec_nullable := Some False\<rparr>,
      (sa_column ''seller_url'' SqlString)\<lparr>spec_nullable := Some False\<rparr>,
      (sa_column ''status'' SqlString)\<lparr>spec_nullable := Some False, spec_default := DefaultText ''pending''\<rparr>,
      (sa_column ''task_id'' SqlString)\<lparr>spec_nullable := Some True\<rparr>,
      (sa_column ''context_id'' SqlString)\<lparr>spec_nullable := Some True\<rparr>,
      (sa_column ''media_buy_id'' SqlString)\<lparr>spec_nullable := Some True\<rparr>,
      (sa_column ''buyer_ref'' SqlString)\<lparr>spec_nullable := Some True, spec_indexed := True\<rparr>,
      (sa_column ''request_data'' SqlJson)\<lparr>spec_default := DefaultDict\<rparr>,
      (sa_column ''response_data'' SqlJson)\<lparr>spec_default := DefaultDict\<rparr>,
      (sa_column ''error'' SqlText)\<lparr>spec_nullable := Some True\<rparr>,
      (sa_column ''poll_count'' SqlInteger)\<lparr>spec_default := DefaultInt 0\<rparr>,
      (sa_column ''created_at'' SqlDatetime)\<lparr>spec_default := DefaultNow\<rparr>,
      (sa_column ''updated_at'' SqlDatetime)\<lparr>spec_default := DefaultNow, spec_onupdate := True\<rparr>,
      (sa_column ''application_context'' SqlJson)\<lparr>spec_default := DefaultDict\<rparr>,
      (sa_column ''webhook_config'' SqlJson)\<lparr>spec_nullable := Some True\<rparr>,
      (sa_column ''input_required_message'' SqlText)\<lparr>spec_nullable := Some True\<rparr>,
      (sa_column ''input_required_data'' SqlJson)\<lparr>spec_nullable := Some True\<rparr>,
      (sa_column ''creative_deadline'' SqlString)\<lparr>spec_nullable := Some True\<rparr>]"

definition seller_record :: "column_spec list" where
  "seller_record =
     [(sa_column ''url'' SqlString)\<lparr>spec_primary := True\<rparr>,
      (sa_column ''name'' SqlString)\<lparr>spec_nullable := Some False\<rparr>,
      (sa_column ''agent_type'' SqlString)\<lparr>spec_default := DefaultText ''sales''\<rparr>,
      (sa_column ''tools'' SqlJson)\<lparr>spec_default := DefaultList\<rparr>,
      (sa_column ''status'' SqlString)\<lparr>spec_default := DefaultText ''unknown''\<rparr>,
      (sa_column ''source'' SqlString)\<lparr>spec_default := DefaultText ''config''\<rparr>,
      (sa_column ''last_probed'' SqlDatetime)\<lparr>spec_nullable := Some True\<rparr>,
      (sa_column ''adcp_versions'' SqlJson)\<lparr>spec_default := DefaultList\<rparr>,
      (sa_column ''supported_protocols'' SqlJson)\<lparr>spec_default := DefaultList\<rparr>,
      (sa_column ''capabilities'' SqlJson)\<lparr>spec_nullable := Some True\<rparr>,
      (sa_column ''portfolio'' SqlJson)\<lparr>spec_nullable := Some True\<rparr>,
      (sa_column ''extensions_supported'' SqlJson)\<lparr>spec_default := DefaultList\<rparr>]"

definition seller_capability_record :: "column_spec list" where
  "seller_capability_record =
     [(sa_column ''url'' SqlString)\<lparr>spec_primary := True\<rparr>,
      (sa_column ''adcp_versions'' SqlJson)\<lparr>spec_default := DefaultList\<rparr>,
      (sa_column ''supported_protocols'' SqlJson)\<lparr>spec_default := DefaultList\<rparr>,
      (sa_column ''media_buy_features'' SqlJson)\<lparr>spec_nullable := Some True\<rparr>,
      (sa_column ''media_buy_execution'' SqlJson)\<lparr>spec_nullable := Some True\<rparr>,
      (sa_column ''media_buy_portfolio'' SqlJson)\<lparr>spec_nullable := Some True\<rparr>,
      (sa_column ''extensions_supported'' SqlJson)\<lparr>spec_default := DefaultList\<rparr>,
      (sa_column ''raw_response'' SqlJson)\<lparr>spec_default := DefaultDict\<rparr>,
      (sa_column ''last_fetched'' SqlDatetime)\<lparr>spec_nullable := Some True\<rparr>]"

definition webhook_event_record :: "column_spec list" where
  "webhook_event_record =
     [(sa_column ''event_id'' SqlString)\<lparr>spec_primary := True\<rparr>,
      (sa_column ''task_id'' SqlString)\<lparr>spec_nullable := Some False, spec_indexed := True\<rparr>,
      (sa_column ''operation_id'' SqlString)\<lparr>spec_nullable := Some True, spec_indexed := True\<rparr>,
      (sa_column ''status'' SqlString)\<lparr>spec_nullable := Some False\<rparr>,
      (sa_column ''timestamp'' SqlDatetime)\<lparr>spec_nullable := Some False\<rparr>,
      (sa_column ''processed_at'' SqlDatetime)\<lparr>spec_default := DefaultNow\<rparr>,
      (sa_column ''raw_payload'' SqlJson)\<lparr>spec_default := DefaultDict\<rparr>]"

definition seller_account_record :: "column_spec list" where
  "seller_account_record =
     [(sa_column ''seller_url'' SqlString)\<lparr>spec_primary := True\<rparr>,
      (sa_column ''account_key'' SqlString)\<lparr>spec_primary := True\<rparr>,
      (sa_column ''account_id'' SqlString)\<lparr>spec_nullable := Some True\<rparr>,
      (sa_column ''name'' SqlString)\<lparr>spec_nullable := Some True\<rparr>,
      (sa_column ''brand'' SqlJson)\<lparr>spec_nullable := Some True\<rparr>,
      (sa_column ''operator'' SqlString)\<lparr>spec_nullable := Some True\<rparr>,
      (sa_column ''sandbox'' SqlInteger)\<lparr>spec_default := DefaultInt 0\<rparr>,
      (sa_column ''status'' SqlString)\<lparr>spec_nullable := Some True\<rparr>,
      (sa_column ''billing'' SqlString)\<lparr>spec_nullable := Some True\<rparr>,
      (sa_column ''account_mode'' SqlString)\<lparr>spec_nullable := Some True\<rparr>,
      (sa_column ''raw'' SqlJson)\<lparr>spec_default := DefaultDict\<rparr>,
      (sa_column ''updated_at'' SqlDatetime)\<lparr>spec_default := DefaultNow, spec_onupdate := True\<rparr>]"

definition publisher_record :: "column_spec list" where
  "publisher_record =
     [(sa_column ''id'' SqlString)\<lparr>spec_primary := True\<rparr>,
      (sa_column ''site_id'' SqlString)\<lparr>spec_nullable := Some False, spec_indexed := True, spec_unique := True\<rparr>,
      (sa_column ''name'' SqlString)\<lparr>spec_nullable := Some False\<rparr>,
      (sa_column ''domain'' SqlString)\<lparr>spec_nullable := Some False, spec_indexed := True, spec_unique := True\<rparr>,
      (sa_column ''email'' SqlString)\<lparr>spec_nullable := Some True\<rparr>,
      (sa_column ''status'' SqlString)\<lparr>spec_nullable := Some False, spec_default := DefaultText ''active''\<rparr>,
      (sa_column ''created_at'' SqlDatetime)\<lparr>spec_default := DefaultNow\<rparr>]"

text \<open>\<open>Base.metadata\<close>: what \<open>schema.py\<close> declares, and with the publishers once their module is imported.\<close>

definition schema_metadata :: "(string \<times> column_spec list) list" where
  "schema_metadata =
     [(''operations'', operation_record), (''sellers'', seller_record),
      (''seller_capabilities'', seller_capability_record), (''webhook_events'', webhook_event_record),
      (''seller_accounts'', seller_account_record)]"

definition service_metadata :: "(string \<times> column_spec list) list" where
  "service_metadata = schema_metadata @ [(''publishers'', publisher_record)]"

section \<open>The revisions\<close>

definition revised_operations :: "column_spec list" where
  "revised_operations =
     [(sa_column ''id'' SqlString)\<lparr>spec_primary := True\<rparr>,
      (sa_column ''operation_type'' SqlString)\<lparr>spec_nullable := Some False\<rparr>,
      (sa_column ''seller_name'' SqlString)\<lparr>spec_nullable := Some False\<rparr>,
      (sa_column ''seller_url'' SqlString)\<lparr>spec_nullable := Some False\<rparr>,
      (sa_column ''status'' SqlString)\<lparr>spec_nullable := Some False, spec_server_default := Some ''pending''\<rparr>,
      (sa_column ''task_id'' SqlString)\<lparr>spec_nullable := Some True\<rparr>,
      (sa_column ''context_id'' SqlString)\<lparr>spec_nullable := Some True\<rparr>,
      (sa_column ''media_buy_id'' SqlString)\<lparr>spec_nullable := Some True\<rparr>,
      (sa_column ''buyer_ref'' SqlString)\<lparr>spec_nullable := Some True, spec_indexed := True\<rparr>,
      (sa_column ''request_data'' SqlJson)\<lparr>spec_server_default := Some ''{}''\<rparr>,
      (sa_column ''response_data'' SqlJson)\<lparr>spec_server_default := Some ''{}''\<rparr>,
      (sa_column ''error'' SqlText)\<lparr>spec_nullable := Some True\<rparr>,
      (sa_column ''poll_count'' SqlInteger)\<lparr>spec_server_default := Some ''0''\<rparr>,
      sa_column ''created_at'' SqlDatetime,
      sa_column ''updated_at'' SqlDatetime,
      (sa_column ''application_context'' SqlJson)\<lparr>spec_server_default := Some ''{}''\<rparr>,
      (sa_column ''webhook_config'' SqlJson)\<lparr>spec_nullable := Some True\<rparr>,
      (sa_column ''input_required_message'' SqlText)\<lparr>spec_nullable := Some True\<rparr>,
      (sa_column ''input_required_data'' SqlJson)\<lparr>spec_nullable := Some True\<rparr>]"

definition revised_sellers :: "column_spec list" where
  "revised_sellers =
     [(sa_column ''url'' SqlString)\<lparr>spec_primary := True\<rparr>,
      (sa_column ''name'' SqlString)\<lparr>spec_nullable := Some False\<rparr>,
      (sa_column ''agent_type'' SqlString)\<lparr>spec_server_default := Some ''sales''\<rparr>,
      (sa_column ''tools'' SqlJson)\<lparr>spec_server_default := Some ''[]''\<rparr>,
      (sa_column ''status'' SqlString)\<lparr>spec_server_default := Some ''unknown''\<rparr>,
      (sa_column ''source'' SqlString)\<lparr>spec_server_default := Some ''config''\<rparr>,
      (sa_column ''last_probed'' SqlDatetime)\<lparr>spec_nullable := Some True\<rparr>,
      (sa_column ''adcp_versions'' SqlJson)\<lparr>spec_server_default := Some ''[]''\<rparr>,
      (sa_column ''supported_protocols'' SqlJson)\<lparr>spec_server_default := Some ''[]''\<rparr>,
      (sa_column ''capabilities'' SqlJson)\<lparr>spec_nullable := Some True\<rparr>,
      (sa_column ''portfolio'' SqlJson)\<lparr>spec_nullable := Some True\<rparr>,
      (sa_column ''extensions_supported'' SqlJson)\<lparr>spec_server_default := Some ''[]''\<rparr>]"

definition revised_seller_capabilities :: "column_spec list" where
  "revised_seller_capabilities =
     [(sa_column ''url'' SqlString)\<lparr>spec_primary := True\<rparr>,
      (sa_column ''adcp_versions'' SqlJson)\<lparr>spec_server_default := Some ''[]''\<rparr>,
      (sa_column ''supported_protocols'' SqlJson)\<lparr>spec_server_default := Some ''[]''\<rparr>,
      (sa_column ''media_buy_features'' SqlJson)\<lparr>spec_nullable := Some True\<rparr>,
      (sa_column ''media_buy_execution'' SqlJson)\<lparr>spec_nullable := Some True\<rparr>,
      (sa_column ''media_buy_portfolio'' SqlJson)\<lparr>spec_nullable := Some True\<rparr>,
      (sa_column ''extensions_supported'' SqlJson)\<lparr>spec_server_default := Some ''[]''\<rparr>,
      (sa_column ''raw_response'' SqlJson)\<lparr>spec_server_default := Some ''{}''\<rparr>,
      (sa_column ''last_fetched'' SqlDatetime)\<lparr>spec_nullable := Some True\<rparr>]"

definition revised_webhook_events :: "column_spec list" where
  "revised_webhook_events =
     [(sa_column ''event_id'' SqlString)\<lparr>spec_primary := True\<rparr>,
      (sa_column ''task_id'' SqlString)\<lparr>spec_nullable := Some False, spec_indexed := True\<rparr>,
      (sa_column ''operation_id'' SqlString)\<lparr>spec_nullable := Some True, spec_indexed := True\<rparr>,
      (sa_column ''status'' SqlString)\<lparr>spec_nullable := Some False\<rparr>,
      (sa_column ''timestamp'' SqlDatetime)\<lparr>spec_nullable := Some False\<rparr>,
      sa_column ''processed_at'' SqlDatetime,
      (sa_column ''raw_payload'' SqlJson)\<lparr>spec_server_default := Some ''{}''\<rparr>]"

definition revision_001 :: migration where
  "revision_001 =
     \<lparr>revision = ''001'', down_revision = None,
      upgrade = (\<lambda>db. res_bind (res_bind (res_bind (create_table ''operations'' revised_operations db)
        (create_table ''sellers'' revised_sellers))
        (create_table ''seller_capabilities'' revised_seller_capabilities))
        (create_table ''webhook_events'' revised_webhook_events)),
      downgrade = (\<lambda>db. res_bind (drop_table ''webhook_events'' db) (\<lambda>db.
        res_bind (drop_table ''seller_capabilities'' db) (\<lambda>db.
        res_bind (drop_table ''sellers'' db) (drop_table ''operations''))))\<rparr>"

definition revision_002 :: migration where
  "revision_002 =
     \<lparr>revision = ''002'', down_revision = Some ''001'',
      upgrade = add_column ''operations'' ((sa_column ''creative_deadline'' SqlString)\<lparr>spec_nullable := Some True\<rparr>),
      downgrade = drop_column ''operations'' ''creative_deadline''\<rparr>"

definition revised_publishers :: "column_spec list" where
  "revised_publishers =
     [(sa_column ''id'' SqlString)\<lparr>spec_primary := True\<rparr>,
      (sa_column ''site_id'' SqlString)\<lparr>spec_nullable := Some False\<rparr>,
      (sa_column ''name'' SqlString)\<lparr>spec_nullable := Some False\<rparr>,
      (sa_column ''domain'' SqlString)\<lparr>spec_nullable := Some False\<rparr>,
      (sa_column ''email'' SqlString)\<lparr>spec_nullable := Some True\<rparr>,
      (sa_column ''status'' SqlString)\<lparr>spec_nullable := Some False, spec_default := DefaultText ''active''\<rparr>,
      (sa_column ''created_at'' SqlDatetime)\<lparr>spec_nullable := Some False\<rparr>]"

definition revision_003 :: migration where
  "revision_003 =
     \<lparr>revision = ''003'', down_revision = Some ''002'',
      upgrade = (\<lambda>db. res_bind (res_bind (create_table ''publishers'' revised_publishers db)
        (create_index ''ix_publishers_site_id'' ''publishers'' [''site_id''] True))
        (create_index ''ix_publishers_domain'' ''publishers'' [''domain''] True)),
      downgrade = (\<lambda>db. res_bind (drop_index ''ix_publishers_domain'' ''publishers'' db) (\<lambda>db.
        res_bind (drop_index ''ix_publishers_site_id'' ''publishers'' db) (drop_table ''publishers'')))\<rparr>"

definition revised_seller_accounts :: "column_spec list" where
  "revised_seller_accounts =
     [(sa_column ''seller_url'' SqlString)\<lparr>spec_primary := True\<rparr>,
      (sa_column ''account_key'' SqlString)\<lparr>spec_primary := True\<rparr>,
      (sa_column ''account_id'' SqlString)\<lparr>spec_nullable := Some True\<rparr>,
      (sa_column ''name'' SqlString)\<lparr>spec_nullable := Some True\<rparr>,
      (sa_column ''brand'' SqlJson)\<lparr>spec_nullable := Some True\<rparr>,
      (sa_column ''operator'' SqlString)\<lparr>spec_nullable := Some True\<rparr>,
      (sa_column ''sandbox'' SqlInteger)\<lparr>spec_server_default := Some ''0''\<rparr>,
      (sa_column ''status'' SqlString)\<lparr>spec_nullable := Some True\<rparr>,
      (sa_column ''billing'' SqlString)\<lparr>spec_nullable := Some True\<rparr>,
      (sa_column ''account_mode'' SqlString)\<lparr>spec_nullable := Some True\<rparr>,
      (sa_column ''raw'' SqlJson)\<lparr>spec_server_default := Some ''{}''\<rparr>,
      sa_column ''updated_at'' SqlDatetime]"

definition revision_004 :: migration where
  "revision_004 =
     \<lparr>revision = ''004'', down_revision = Some ''003'',
      upgrade = create_table ''seller_accounts'' revised_seller_accounts, downgrade = drop_table ''seller_accounts''\<rparr>"

definition all_revisions :: "migration list" where
  "all_revisions = [revision_001, revision_002, revision_003, revision_004]"

lemmas revision_defs = revision_001_def revision_002_def revision_003_def revision_004_def

interpretation service_revisions: revisions all_revisions
proof
  have "undoes (upgrade revision_001) (downgrade revision_001)"
    unfolding revision_001_def by (simp, intro undoes_then undoes_create_table)
  moreover have "undoes (upgrade revision_002) (downgrade revision_002)"
    using undoes_add_column [of "''operations''" "(sa_column ''creative_deadline'' SqlString)\<lparr>spec_nullable := Some True\<rparr>"]
    by (simp add: revision_002_def sa_column_def)
  moreover have "undoes (upgrade revision_003) (downgrade revision_003)"
    unfolding revision_003_def by (simp, intro undoes_then undoes_create_table undoes_create_index)
  moreover have "undoes (upgrade revision_004) (downgrade revision_004)"
    by (simp add: revision_004_def undoes_create_table)
  ultimately show "undoes (upgrade m) (downgrade m)" if "m \<in> set all_revisions" for m
    using that by (auto simp: all_revisions_def)
qed

section \<open>Databases at a revision\<close>

text \<open>The tables without their rows, and what a revision makes of an empty database.\<close>

definition shape :: "tables \<Rightarrow> tables" where
  "shape db = map (\<lambda>(n, t). (n, t\<lparr>tab_rows := []\<rparr>)) db"

definition empty_database :: database where
  "empty_database = \<lparr>db_tables = [], version = None\<rparr>"

definition built_at :: "nat \<Rightarrow> database" where
  "built_at n = (case run_upgrades (take n all_revisions) empty_database of Inr db \<Rightarrow> db | Inl e \<Rightarrow> empty_database)"

definition at_revision :: "nat \<Rightarrow> database \<Rightarrow> bool" where
  "at_revision n db \<longleftrightarrow> version db = version (built_at n) \<and> shape (db_tables db) = db_tables (built_at n) \<and>
     conforms (db_tables db)"

text \<open>Whether an operation succeeds does not depend on the rows.\<close>

definition lifts :: "(tables \<Rightarrow> db_error + tables) \<Rightarrow> bool" where
  "lifts up \<longleftrightarrow> (\<forall>db db0. up (shape db) = Inr db0 \<longrightarrow> (\<exists>db'. up db = Inr db' \<and> shape db' = db0))"

lemma map_of_shape: "map_of (shape db) n = map_option (\<lambda>t. t\<lparr>tab_rows := []\<rparr>) (map_of db n)"
  by (induction db) (auto simp: shape_def)

lemma has_key_shape [simp]: "has_key (shape db) n = has_key db n"
  by (simp add: has_key_def map_of_shape)

lemma shape_simps [simp]:
  "shape (shape db) = shape db" "shape (db @ db') = shape db @ shape db'" "shape [(n, t)] = [(n, t\<lparr>tab_rows := []\<rparr>)]"
  by (simp_all add: shape_def case_prod_beta)

lemma shape_dset: "shape (dset n t db) = dset n (t\<lparr>tab_rows := []\<rparr>) (shape db)"
  by (induction db) (auto simp: shape_def)

lemma lifts_create_table: "lifts (create_table table specs)"
  by (auto simp: lifts_def create_table_def)

lemma lifts_add_column: "spec_nullable spec = Some True \<Longrightarrow> lifts (add_column table spec)"
  by (auto simp: lifts_def add_column_def on_table_def map_of_shape column_of_def Let_def shape_dset
      split: option.splits if_splits)

lemma liftsD: "lifts up \<Longrightarrow> up (shape db) = Inr db0 \<Longrightarrow> \<exists>db'. up db = Inr db' \<and> shape db' = db0"
  by (simp add: lifts_def)

lemma lifts_then: "lifts up1 \<Longrightarrow> lifts up2 \<Longrightarrow> lifts (\<lambda>db. res_bind (up1 db) up2)"
  unfolding lifts_def res_bind_Inr_iff by fastforce

text \<open>Indexes of a table that has just been made.\<close>

definition fresh_table :: "string \<Rightarrow> tables \<Rightarrow> bool" where
  "fresh_table table db \<longleftrightarrow> (\<forall>t. map_of db table = Some t \<longrightarrow> tab_rows t = [])"

lemma create_table_fresh: "create_table table specs db = Inr db' \<Longrightarrow> fresh_table table db'"
  by (auto simp: create_table_def fresh_table_def has_key_def map_add_def split: if_splits option.splits)

lemma lifts_fresh_index:
  assumes fresh: "fresh_table table db" and run: "create_index index table names unique (shape db) = Inr db0"
  shows "\<exists>db'. create_index index table names unique db = Inr db' \<and> shape db' = db0 \<and> fresh_table table db'"
proof -
  have used: "list_ex (\<lambda>(n, t). has_key (tab_indexes t) index) (shape db) = list_ex (\<lambda>(n, t). has_key (tab_indexes t) index) db"
    by (induction db) (auto simp: shape_def)
  obtain t where t: "map_of db table = Some t"
    using run by (auto simp: create_index_def on_table_def map_of_shape split: if_splits option.splits)
  with fresh have rows: "tab_rows t = []" by (simp add: fresh_table_def)
  let ?t = "t\<lparr>tab_indexes := tab_indexes t @ [(index, \<lparr>ix_columns = names, ix_unique = unique\<rparr>)]\<rparr>"
  have "create_index index table names unique db = Inr (dset table ?t db)"
    using run t rows by (auto simp: create_index_def on_table_def map_of_shape used split: if_splits)
  moreover have none: "t\<lparr>tab_rows := []\<rparr> = t" "?t\<lparr>tab_rows := []\<rparr> = ?t" using rows by (cases t; simp)+
  moreover have "db0 = dset table ?t (shape db)"
    using run t rows by (auto simp: none create_index_def on_table_def map_of_shape used split: if_splits)
  ultimately show ?thesis using rows by (simp add: shape_dset fresh_table_def none)
qed

lemma lifts_revision:
  assumes "m \<in> set all_revisions"
  shows "lifts (upgrade m)"
proof -
  have "lifts (upgrade revision_001)" unfolding revision_001_def by (simp, intro lifts_then lifts_create_table)
  moreover have "lifts (upgrade revision_002)" by (simp add: revision_002_def lifts_add_column)
  moreover have "lifts (upgrade revision_004)" by (simp add: revision_004_def lifts_create_table)
  moreover have "lifts (upgrade revision_003)"
    unfolding lifts_def
  proof (intro allI impI)
    fix db db0 assume "upgrade revision_003 (shape db) = Inr db0"
    then obtain d1 d2 where run: "create_table ''publishers'' revised_publishers (shape db) = Inr d1"
        "create_index ''ix_publishers_site_id'' ''publishers'' [''site_id''] True d1 = Inr d2"
        "create_index ''ix_publishers_domain'' ''publishers'' [''domain''] True d2 = Inr db0"
      by (auto simp: revision_003_def res_bind_Inr_iff)
    obtain e1 where e1: "create_table ''publishers'' revised_publishers db = Inr e1" "shape e1 = d1"
      using liftsD [OF lifts_create_table run(1)] by blast
    obtain e2 where e2: "create_index ''ix_publishers_site_id'' ''publishers'' [''site_id''] True e1 = Inr e2" "shape e2 = d2"
        "fresh_table ''publishers'' e2"
      using lifts_fresh_index [OF create_table_fresh [OF e1(1)]] run(2) e1(2) by blast
    obtain e3 where "create_index ''ix_publishers_domain'' ''publishers'' [''domain''] True e2 = Inr e3" "shape e3 = db0"
      using lifts_fresh_index [OF e2(3)] run(3) e2(2) by blast
    with e1 e2 show "\<exists>db'. upgrade revision_003 db = Inr db' \<and> shape db' = db0" by (simp add: revision_003_def)
  qed
  ultimately show ?thesis using assms by (auto simp: all_revisions_def)
qed

section \<open>The revisions build what the models declare\<close>

lemma length_revisions: "length all_revisions = 4" by (simp add: all_revisions_def)

text \<open>Nothing fails on an empty database.\<close>

lemma built_ok: "\<exists>db. run_upgrades all_revisions empty_database = Inr db"
proof -
  have "(case run_upgrades all_revisions empty_database of Inr db \<Rightarrow> True | Inl e \<Rightarrow> False)" by code_simp
  then show ?thesis by (auto split: sum.splits)
qed

lemma run_upgrades_append: "run_upgrades (ps @ qs) db = res_bind (run_upgrades ps db) (run_upgrades qs)"
  by (induction ps arbitrary: db) (auto simp: res_bind_def split: sum.splits)

lemma built_step:
  assumes "n < 4"
  shows "upgrade (all_revisions ! n) (db_tables (built_at n)) = Inr (db_tables (built_at (Suc n))) \<and>
    version (built_at (Suc n)) = Some (revision (all_revisions ! n))"
proof -
  have split: "all_revisions = take n all_revisions @ all_revisions ! n # drop (Suc n) all_revisions"
    using assms by (simp add: id_take_nth_drop length_revisions)
  obtain db where "run_upgrades all_revisions empty_database = Inr db" using built_ok by blast
  then have "\<exists>d. run_upgrades (take n all_revisions) empty_database = Inr d \<and>
      (\<exists>e. run_upgrades (all_revisions ! n # drop (Suc n) all_revisions) d = Inr e)"
    by (subst (asm) split) (auto simp: run_upgrades_append res_bind_Inr_iff)
  then obtain d ts where d: "run_upgrades (take n all_revisions) empty_database = Inr d"
      "upgrade (all_revisions ! n) (db_tables d) = Inr ts"
    by (auto simp: res_bind_Inr_iff)
  have "take (Suc n) all_revisions = take n all_revisions @ [all_revisions ! n]"
    using assms by (simp add: take_Suc_conv_app_nth length_revisions)
  with d show ?thesis by (simp add: built_at_def run_upgrades_append res_bind_def)
qed

lemma at_revision_step:
  assumes "at_revision n db" and "n < 4"
  shows "\<exists>ts. upgrade (all_revisions ! n) (db_tables db) = Inr ts \<and>
    at_revision (Suc n) (db\<lparr>db_tables := ts, version := Some (revision (all_revisions ! n))\<rparr>)"
proof -
  let ?m = "all_revisions ! n"
  have m: "?m \<in> set all_revisions" using assms(2) by (simp add: length_revisions)
  have "upgrade ?m (shape (db_tables db)) = Inr (db_tables (built_at (Suc n)))"
    using assms built_step by (simp add: at_revision_def)
  from liftsD [OF lifts_revision [OF m] this] obtain ts where
    ts: "upgrade ?m (db_tables db) = Inr ts" "shape ts = db_tables (built_at (Suc n))" by blast
  have "conforms ts"
    using undoesD [OF service_revisions.reversible [OF m] _ ts(1)] assms(1) by (simp add: at_revision_def)
  with ts built_step [OF assms(2)] show ?thesis by (simp add: at_revision_def)
qed

lemma upgrades_from:
  "at_revision n db \<Longrightarrow> n \<le> 4 \<Longrightarrow> \<exists>db'. run_upgrades (drop n all_revisions) db = Inr db' \<and> at_revision 4 db'"
proof (induction "4 - n" arbitrary: n db)
  case 0
  then show ?case by (simp add: length_revisions)
next
  case (Suc k)
  then have n: "n < 4" by simp
  from at_revision_step [OF Suc.prems(1) n] obtain ts where
    ts: "upgrade (all_revisions ! n) (db_tables db) = Inr ts"
      "at_revision (Suc n) (db\<lparr>db_tables := ts, version := Some (revision (all_revisions ! n))\<rparr>)" by blast
  have "drop n all_revisions = all_revisions ! n # drop (Suc n) all_revisions"
    using n by (simp add: Cons_nth_drop_Suc length_revisions)
  with ts(1) Suc.hyps(1) [OF _ ts(2)] Suc.hyps(2) n show ?case by simp
qed

lemma way_to_head:
  assumes "n \<le> 4"
  shows "way_down 4 all_revisions (Some ''004'') (version (built_at n)) = Inr (rev (drop n all_revisions))"
proof -
  have v: "version (built_at n) = (if n = 0 then None else Some (revision (all_revisions ! (n - 1))))"
    using built_step [of "n - 1"] assms by (cases n) (simp_all add: built_at_def empty_database_def)
  consider "n = 0" | "n = 1" | "n = 2" | "n = 3" | "n = 4" using assms by linarith
  then show ?thesis
    unfolding v by cases (simp_all add: way_down.simps all_revisions_def revision_defs eval_nat_numeral)
qed

lemma one_head: "heads all_revisions = [''004'']"
  by (simp add: heads_def all_revisions_def revision_defs)

lemma differences_shape: "differences models (shape db) = differences models db"
proof -
  have extra: "map (ExtraTable \<circ> fst) (filter (\<lambda>(n, t). \<not> has_key models n) (shape db)) =
      map (ExtraTable \<circ> fst) (filter (\<lambda>(n, t). \<not> has_key models n) db)"
    by (induction db) (auto simp: shape_def)
  have "table_differences n specs (t\<lparr>tab_rows := []\<rparr>) = table_differences n specs t" for n specs t
    by (simp add: table_differences_def)
  then have "(case map_of (shape db) n of None \<Rightarrow> [MissingTable n] | Some t \<Rightarrow> table_differences n specs t) =
      (case map_of db n of None \<Rightarrow> [MissingTable n] | Some t \<Rightarrow> table_differences n specs t)" for n specs
    by (simp add: map_of_shape split: option.split)
  with extra show ?thesis by (simp add: differences_def)
qed

lemma head_differences:
  "differences service_metadata (db_tables (built_at 4)) = [NullabilityDiffers ''publishers'' ''created_at'']"
  by code_simp

text \<open>
  From a database that any revision left, whatever its rows, upgrading reaches the newest revision: no
  operation fails, no table, row or value is lost, and the tables are those the models declare, with
  their columns, types, keys and indexes, but for the registration time of a publisher, which the database
  requires and the model does not.  Downgrading again gives back the database exactly as it was.
\<close>

theorem migrations_reach_models:
  assumes "at_revision n db" and "n \<le> 4"
  shows "\<exists>db'. upgrade_head all_revisions db = Inr db' \<and> at_revision 4 db' \<and> rows_kept (db_tables db) (db_tables db') \<and>
    differences service_metadata (db_tables db') = [NullabilityDiffers ''publishers'' ''created_at''] \<and>
    downgrade_to all_revisions (version db) db' = Inr db"
proof -
  obtain db' where db': "run_upgrades (drop n all_revisions) db = Inr db'" "at_revision 4 db'"
    using upgrades_from [OF assms] by blast
  have "upgrade_head all_revisions db = Inr db'"
    using db' way_to_head [OF assms(2)] assms(1)
    by (simp add: upgrade_head_def one_head length_revisions at_revision_def res_bind_def)
  moreover have "differences service_metadata (db_tables db') = [NullabilityDiffers ''publishers'' ''created_at'']"
    using db'(2) head_differences differences_shape [of service_metadata "db_tables db'"] by (simp add: at_revision_def)
  ultimately show ?thesis
    using service_revisions.upgrade_undone [of db db'] db'(2) assms(1) by (auto simp: at_revision_def)
qed

lemma example_at_revision: "at_revision 0 empty_database"
  by (simp add: at_revision_def built_at_def empty_database_def conforms_def shape_def)

lemma migrations_reach_models_witness:
  "\<exists>db'. upgrade_head all_revisions empty_database = Inr db' \<and> at_revision 4 db' \<and>
     downgrade_to all_revisions None db' = Inr empty_database"
  using migrations_reach_models [OF example_at_revision] by (auto simp: empty_database_def)

text \<open>
  The environment of the migrations imports \<open>schema.py\<close> only: a comparison made from the command line
  finds the table of the publishers that no model declares, and would drop it.
\<close>

lemma publishers_unknown_to_migrations:
  "differences schema_metadata (db_tables (built_at 4)) = [ExtraTable ''publishers'']"
  by code_simp

section \<open>The rows of the tracker\<close>

text \<open>The columns of an \<open>OperationRecord\<close>, and an \<open>OperationRecord\<close> from its columns.\<close>

definition row_values :: "operation_row \<Rightarrow> dict" where
  "row_values r =
     [(''id'', JStr (row_id r)), (''operation_type'', JStr (row_type r)), (''seller_name'', row_seller_name r),
      (''seller_url'', JStr (row_seller_url r)), (''status'', JStr (row_status r)), (''task_id'', row_task_id r),
      (''context_id'', row_context_id r), (''media_buy_id'', row_media_buy_id r), (''buyer_ref'', row_buyer_ref r),
      (''request_data'', row_request_data r), (''response_data'', row_response_data r), (''error'', row_error r),
      (''poll_count'', JInt (row_poll_count r)), (''created_at'', JInt (row_created_at r)),
      (''updated_at'', JInt (row_updated_at r)), (''application_context'', row_application_context r),
      (''webhook_config'', row_webhook_config r), (''input_required_message'', row_input_required_message r),
      (''input_required_data'', row_input_required_data r), (''creative_deadline'', row_creative_deadline r)]"

fun int_of :: "json \<Rightarrow> int" where
  "int_of (JInt i) = i"
| "int_of v = 0"

definition row_of_values :: "dict \<Rightarrow> operation_row" where
  "row_of_values d =
     \<lparr>row_id = str_of (getj d ''id''), row_type = str_of (getj d ''operation_type''), row_seller_name = getj d ''seller_name'',
      row_seller_url = str_of (getj d ''seller_url''), row_status = str_of (getj d ''status''), row_task_id = getj d ''task_id'',
      row_context_id = getj d ''context_id'', row_media_buy_id = getj d ''media_buy_id'', row_buyer_ref = getj d ''buyer_ref'',
      row_request_data = getj d ''request_data'', row_response_data = getj d ''response_data'', row_error = getj d ''error'',
      row_poll_count = int_of (getj d ''poll_count''), row_created_at = int_of (getj d ''created_at''),
      row_updated_at = int_of (getj d ''updated_at''), row_application_context = getj d ''application_context'',
      row_webhook_config = getj d ''webhook_config'', row_input_required_message = getj d ''input_required_message'',
      row_input_required_data = getj d ''input_required_data'', row_creative_deadline = getj d ''creative_deadline''\<rparr>"

lemma row_values_roundtrip [simp]: "row_of_values (row_values r) = r"
  by (simp add: row_of_values_def row_values_def getj_def get_or_def)

text \<open>The table of the operations as \<open>init_db\<close> of the tracker reads it.\<close>

definition operation_rows :: "tables \<Rightarrow> (string \<times> operation_row) list" where
  "operation_rows db =
     (case map_of db ''operations'' of
        None \<Rightarrow> []
      | Some t \<Rightarrow> map (\<lambda>d. (row_id (row_of_values d), row_of_values d)) (tab_rows t))"

text \<open>
  What a column takes: text where it is text, numbers where it is a number or a time, anything where it is
  JSON, and null where it is nullable.
\<close>

fun column_takes :: "db_column \<Rightarrow> json \<Rightarrow> bool" where
  "column_takes c JNull \<longleftrightarrow> col_nullable c"
| "column_takes c (JStr s) \<longleftrightarrow> col_type c \<in> {SqlString, SqlText, SqlJson}"
| "column_takes c (JInt i) \<longleftrightarrow> col_type c \<in> {SqlInteger, SqlDatetime, SqlJson}"
| "column_takes c v \<longleftrightarrow> col_type c = SqlJson"

definition row_fits :: "db_column list \<Rightarrow> dict \<Rightarrow> bool" where
  "row_fits cs row \<longleftrightarrow> list_all2 (\<lambda>c (k, v). col_name c = k \<and> column_takes c v) cs row"

definition operation_columns :: "db_column list" where
  "operation_columns = map column_of operation_record"

lemma operation_columns_at_head:
  "at_revision 4 db \<Longrightarrow> \<exists>t. map_of (db_tables db) ''operations'' = Some t \<and> map (\<lambda>c. c\<lparr>col_server_default := None\<rparr>) (tab_columns t) = operation_columns"
proof -
  assume "at_revision 4 db"
  then have "shape (db_tables db) = db_tables (built_at 4)" by (simp add: at_revision_def)
  moreover have "(case map_of (db_tables (built_at 4)) ''operations'' of
      Some t \<Rightarrow> map (\<lambda>c. c\<lparr>col_server_default := None\<rparr>) (tab_columns t) = operation_columns | None \<Rightarrow> False)"
    by code_simp
  ultimately show ?thesis
    using map_of_shape [of "db_tables db" "''operations''"] by (auto split: option.splits)
qed

definition text_or_null :: "json \<Rightarrow> bool" where
  "text_or_null v \<longleftrightarrow> v = JNull \<or> is_str v"

lemma takes_text:
  "col_type c \<in> {SqlString, SqlText} \<Longrightarrow> col_nullable c \<Longrightarrow> column_takes c v = text_or_null v"
  "col_type c \<in> {SqlString, SqlText} \<Longrightarrow> \<not> col_nullable c \<Longrightarrow> column_takes c v = is_str v"
  by (cases v; auto simp: text_or_null_def)+

lemma takes_json: "col_type c = SqlJson \<Longrightarrow> col_nullable c \<Longrightarrow> column_takes c v"
  by (cases v) auto


section \<open>Operations across an upgrade\<close>

lemma getj_append_null [simp]: "getj (d @ [(k, JNull)]) x = getj d x"
  by (simp add: getj_def get_or_def map_add_def split: option.split)

lemma row_of_values_append_null [simp]: "row_of_values (d @ [(k, JNull)]) = row_of_values d"
  by (simp add: row_of_values_def)

definition deadline_column :: db_column where
  "deadline_column = column_of ((sa_column ''creative_deadline'' SqlString)\<lparr>spec_nullable := Some True\<rparr>)"

definition columns_at :: "nat \<Rightarrow> db_column list" where
  "columns_at n = (case map_of (db_tables (built_at n)) ''operations'' of Some t \<Rightarrow> tab_columns t | None \<Rightarrow> [])"

lemma columns_at_values:
  "columns_at 4 = columns_at 1 @ [deadline_column]" "columns_at 2 = columns_at 4" "columns_at 3 = columns_at 4"
  "map_of (db_tables (built_at 1)) ''operations'' \<noteq> None" "map_of (db_tables (built_at 2)) ''operations'' \<noteq> None"
  "map_of (db_tables (built_at 3)) ''operations'' \<noteq> None" "map_of (db_tables (built_at 4)) ''operations'' \<noteq> None"
  "length (columns_at 1) = 19"
  by code_simp+

lemma operations_at:
  assumes "at_revision n db" and "1 \<le> n" and "n \<le> 4"
  obtains t where "map_of (db_tables db) ''operations'' = Some t" "tab_columns t = columns_at n"
    "\<forall>row \<in> set (tab_rows t). map fst row = map col_name (columns_at n)"
proof -
  have "n \<in> {1, 2, 3, 4}" using assms(2,3) by auto
  then have "map_of (db_tables (built_at n)) ''operations'' \<noteq> None" using columns_at_values by auto
  then obtain t where t: "map_of (db_tables db) ''operations'' = Some t"
      "map_of (db_tables (built_at n)) ''operations'' = Some (t\<lparr>tab_rows := []\<rparr>)"
    using assms(1) map_of_shape [of "db_tables db" "''operations''"] by (auto simp: at_revision_def)
  then have "tab_columns t = columns_at n" by (simp add: columns_at_def)
  moreover from this have "\<forall>row \<in> set (tab_rows t). map fst row = map col_name (columns_at n)"
    using assms(1) map_of_SomeD [OF t(1)] by (fastforce simp: at_revision_def conforms_def)
  ultimately show ?thesis using that t(1) by blast
qed

lemma upgrade_keeps_rows:
  assumes "at_revision n db" and "1 \<le> n" and "n \<le> 4" and "upgrade_head all_revisions db = Inr db'"
  shows "operation_rows (db_tables db') = operation_rows (db_tables db)"
proof -
  obtain t where t: "map_of (db_tables db) ''operations'' = Some t" "tab_columns t = columns_at n"
    using operations_at [OF assms(1-3)] by blast
  from migrations_reach_models [OF assms(1,3)] assms(4)
  have kept: "at_revision 4 db'" "rows_kept (db_tables db) (db_tables db')" by auto
  obtain t' where t': "map_of (db_tables db') ''operations'' = Some t'" "tab_columns t' = columns_at 4"
    using operations_at [OF kept(1)] by (metis le_refl numeral_le_iff one_le_numeral semiring_norm(68))
  obtain cs where cs: "columns_at 4 = columns_at n @ cs" "tab_rows t' = map (\<lambda>row. row @ new_values cs) (tab_rows t)"
    using kept(2) [unfolded rows_kept_def, rule_format, OF t(1)] t(2) t' by (auto simp: columns_added_def)
  have "new_values cs = [] \<or> new_values cs = [(''creative_deadline'', JNull)]"
  proof (cases "n = 1")
    case True
    with cs(1) have "cs = [deadline_column]" by (simp add: columns_at_values)
    then show ?thesis by (simp add: new_values_def deadline_column_def column_of_def sa_column_def server_value_def)
  next
    case False
    with assms(2,3) have "n \<in> {2, 3, 4}" by auto
    then have "columns_at n = columns_at 4" using columns_at_values by auto
    with cs(1) show ?thesis by (simp add: new_values_def)
  qed
  then have "row_of_values (row @ new_values cs) = row_of_values row" for row by auto
  then show ?thesis by (simp add: operation_rows_def t t' cs(2) comp_def)
qed

text \<open>A database in which a service of some revision has saved operations, each under its own id.\<close>

definition saved_at :: "nat \<Rightarrow> tracked_operation list \<Rightarrow> database \<Rightarrow> bool" where
  "saved_at n ps db \<longleftrightarrow> at_revision n db \<and> distinct (map op_id ps) \<and>
     (\<exists>t. map_of (db_tables db) ''operations'' = Some t \<and>
        tab_rows t = map (\<lambda>p. take (length (columns_at n)) (row_values (new_row p))) ps)"

lemma row_of_saved:
  assumes "n \<in> {1, 2, 3, 4}"
  shows "row_of_values (take (length (columns_at n)) (row_values (new_row p))) =
    new_row (if n = 1 then p\<lparr>creative_deadline := JNull\<rparr> else p)"
proof (cases "n = 1")
  case True
  have "row_values (new_row (p\<lparr>creative_deadline := JNull\<rparr>)) =
      take 19 (row_values (new_row p)) @ [(''creative_deadline'', JNull)]"
    by (simp add: row_values_def new_row_def)
  then have "row_of_values (take 19 (row_values (new_row p))) = new_row (p\<lparr>creative_deadline := JNull\<rparr>)"
    by (metis row_of_values_append_null row_values_roundtrip)
  with True show ?thesis using columns_at_values(8) by simp
next
  case False
  with assms have "length (columns_at n) = 20" using columns_at_values by auto
  then have "take (length (columns_at n)) (row_values (new_row p)) = row_values (new_row p)"
    by (simp add: row_values_def)
  with False show ?thesis by simp
qed

text \<open>
  Operations that an older service has saved are there after the upgrade: a tracker that loads the
  upgraded database holds each of them under its id, with all its fields; the deadline for creatives,
  which the first revision has no column for, is null.
\<close>

theorem upgrade_keeps_operations:
  assumes "saved_at n ps db" and "1 \<le> n" and "n \<le> 4" and "upgrade_head all_revisions db = Inr db'" and "p \<in> set ps"
  shows "get_operation (op_id p) (tracker_init_db ((new_tracker clock)\<lparr>operations_table := operation_rows (db_tables db')\<rparr>)) =
    Some (if n = 1 then p\<lparr>creative_deadline := JNull\<rparr> else p)"
proof -
  let ?q = "\<lambda>p. if n = 1 then p\<lparr>creative_deadline := JNull\<rparr> else p"
  have n: "n \<in> {1, 2, 3, 4}" using assms(2,3) by auto
  obtain t where t: "map_of (db_tables db) ''operations'' = Some t"
      "tab_rows t = map (\<lambda>p. take (length (columns_at n)) (row_values (new_row p))) ps"
    using assms(1) by (auto simp: saved_at_def)
  have id: "row_id (new_row (?q p)) = op_id p" for p by (simp add: new_row_def)
  have rows: "operation_rows (db_tables db') = map (\<lambda>p. (op_id p, new_row (?q p))) ps"
    using upgrade_keeps_rows [OF _ assms(2-4)] assms(1) row_of_saved [OF n] id
    by (simp add: saved_at_def operation_rows_def t comp_def)
  have "map_of (map (\<lambda>p. (op_id p, new_row (?q p))) ps) (op_id p) = Some (new_row (?q p))"
    using assms(1,5) by (intro map_of_is_SomeI) (auto simp: saved_at_def comp_def)
  moreover have "distinct (map fst (operation_rows (db_tables db')))"
    using assms(1) by (simp add: rows comp_def saved_at_def)
  moreover have "\<forall>(k, r) \<in> set (operation_rows (db_tables db')). row_id r = k" by (auto simp: rows new_row_def)
  ultimately show ?thesis
    by (simp add: get_operation_def tracker_init_db_def new_tracker_def load_lookup rows)
qed

text \<open>A database of the first revision with one operation.\<close>

definition example_old_database :: database where
  "example_old_database =
     (built_at 1)\<lparr>db_tables := map (\<lambda>(n, t). if n = ''operations''
        then (n, t\<lparr>tab_rows := [take 19 (row_values example_row)]\<rparr>) else (n, t)) (db_tables (built_at 1))\<rparr>"

lemma example_old_saved: "saved_at 1 [operation_of_row example_row] example_old_database"
proof -
  have "shape (db_tables example_old_database) = db_tables (built_at 1)" by code_simp
  moreover have "distinct (map fst (db_tables example_old_database)) \<and>
      list_all (\<lambda>(n, t). list_all (\<lambda>row. map fst row = map col_name (tab_columns t)) (tab_rows t)) (db_tables example_old_database)"
    by code_simp
  moreover have "(case map_of (db_tables example_old_database) ''operations'' of
      Some t \<Rightarrow> tab_rows t = [take (length (columns_at 1)) (row_values (new_row (operation_of_row example_row)))] | None \<Rightarrow> False)"
    by code_simp
  moreover have "version example_old_database = version (built_at 1)" by (simp add: example_old_database_def)
  ultimately show ?thesis
    by (auto simp: saved_at_def at_revision_def conforms_def list_all_iff split: option.splits)
qed

lemma upgrade_keeps_operations_witness:
  "\<exists>db'. upgrade_head all_revisions example_old_database = Inr db' \<and>
     get_operation ''op1'' (tracker_init_db ((new_tracker (\<lambda>p r. 0))\<lparr>operations_table := operation_rows (db_tables db')\<rparr>)) =
       Some (operation_of_row example_row)"
proof -
  have at: "at_revision 1 example_old_database" using example_old_saved by (simp add: saved_at_def)
  obtain db' where up: "upgrade_head all_revisions example_old_database = Inr db'"
    using migrations_reach_models [OF at] by auto
  have p: "op_id (operation_of_row example_row) = ''op1''"
    "(operation_of_row example_row)\<lparr>creative_deadline := JNull\<rparr> = operation_of_row example_row"
    by (simp_all add: example_row_def new_operation_def)
  from upgrade_keeps_operations [OF example_old_saved _ _ up, of "operation_of_row example_row"] up show ?thesis
    by (simp add: p)
qed

end
