(* ===== verification/Logging_Setup.thy ===== *)
theory Logging_Setup
  imports Py_Prelude "HOL-Library.Sublist"
begin

text \<open>
  Logging: \<open>src/logging_config.py\<close>, what it uses of \<open>logging\<close>, and the configuration \<open>alembic.ini\<close> that
  \<open>alembic/env.py\<close> installs with \<open>logging.config.fileConfig\<close> while the service is running.
\<close>

section \<open>Loggers\<close>

datatype formatter =
    CorrelationJson
  | CorrelationLine
  | GenericLine

record log_handler =
  lh_formatter :: formatter
  lh_level :: nat

record logger =
  lg_level :: nat
  lg_handlers :: "log_handler list"
  lg_propagate :: bool
  lg_disabled :: bool

text \<open>\<open>logging.root\<close> and the loggers that have been asked for, by name.\<close>

record log_state =
  root_level :: nat
  root_handlers :: "log_handler list"
  loggers :: "(string \<times> logger) list"

definition level_info :: nat where "level_info = 20"

definition level_warn :: nat where "level_warn = 30"

definition new_logger :: logger where
  "new_logger = \<lparr>lg_level = 0, lg_handlers = [], lg_propagate = True, lg_disabled = False\<rparr>"

definition get_logger :: "string \<Rightarrow> log_state \<Rightarrow> log_state" where
  "get_logger n st = (if has_key (loggers st) n then st else st\<lparr>loggers := loggers st @ [(n, new_logger)]\<rparr>)"

text \<open>The loggers above one, the nearest first: those whose names are followed by a dot in its name.\<close>

definition child_of :: "string \<Rightarrow> string \<Rightarrow> bool" where
  "child_of n parent \<longleftrightarrow> prefix (parent @ ''.'') n"

definition ancestors :: "string \<Rightarrow> log_state \<Rightarrow> logger list" where
  "ancestors n st = map snd (sort_key (\<lambda>(m, lg). - int (length m)) (filter (\<lambda>(m, lg). child_of n m) (loggers st)))"

text \<open>\<open>getEffectiveLevel\<close> and \<open>callHandlers\<close>: the formatters that print a record.\<close>

fun first_level :: "nat \<Rightarrow> logger list \<Rightarrow> nat" where
  "first_level base [] = base"
| "first_level base (lg # lgs) = (if lg_level lg \<noteq> 0 then lg_level lg else first_level base lgs)"

fun handlers_from :: "log_handler list \<Rightarrow> logger list \<Rightarrow> log_handler list" where
  "handlers_from base [] = base"
| "handlers_from base (lg # lgs) = lg_handlers lg @ (if lg_propagate lg then handlers_from base lgs else [])"

definition printed_by :: "string \<Rightarrow> nat \<Rightarrow> log_state \<Rightarrow> formatter list" where
  "printed_by n severity st =
     (let own = (case map_of (loggers st) n of Some lg \<Rightarrow> lg | None \<Rightarrow> new_logger);
          chain = own # ancestors n st
      in if lg_disabled own \<or> severity < first_level (root_level st) chain then []
         else map lh_formatter (filter (\<lambda>h. lh_level h \<le> severity) (handlers_from (root_handlers st) chain)))"

section \<open>The service\<close>

definition setup_logging :: "bool \<Rightarrow> bool \<Rightarrow> log_state \<Rightarrow> log_state" where
  "setup_logging force_json isatty st =
     (let use_json = force_json \<or> \<not> isatty
      in st\<lparr>root_level := level_info,
            root_handlers := [\<lparr>lh_formatter = (if use_json then CorrelationJson else CorrelationLine), lh_level = 0\<rparr>]\<rparr>)"

text \<open>The fields \<open>CorrelationJsonFormatter\<close> adds; the context is the value of its variable.\<close>

definition add_fields :: "string \<Rightarrow> dict \<Rightarrow> dict" where
  "add_fields correlation log_record =
     dset ''service'' (JStr ''nxflo-buyer'') (dset ''correlation_id'' (JStr correlation) log_record)"

text \<open>\<open>new_correlation_id\<close>: the id, and what the context variable is afterwards.\<close>

definition new_correlation_id :: "string \<Rightarrow> string \<times> string" where
  "new_correlation_id uuid_hex = (let cid = take 12 uuid_hex in (cid, cid))"

section \<open>\<open>fileConfig\<close>\<close>

text \<open>A section \<open>logger_x\<close>; \<open>logger_root\<close> has no name.\<close>

record logger_section =
  sec_qualname :: string
  sec_level :: "nat option"
  sec_handlers :: "log_handler list"
  sec_propagate :: bool

record log_config =
  conf_root :: logger_section
  conf_loggers :: "logger_section list"

definition alembic_ini :: log_config where
  "alembic_ini =
     \<lparr>conf_root = \<lparr>sec_qualname = [], sec_level = Some level_warn,
        sec_handlers = [\<lparr>lh_formatter = GenericLine, lh_level = 0\<rparr>], sec_propagate = True\<rparr>,
      conf_loggers =
        [\<lparr>sec_qualname = ''sqlalchemy.engine'', sec_level = Some level_warn, sec_handlers = [], sec_propagate = True\<rparr>,
         \<lparr>sec_qualname = ''alembic'', sec_level = Some level_info, sec_handlers = [], sec_propagate = True\<rparr>]\<rparr>"

definition configured_logger :: "logger_section \<Rightarrow> log_state \<Rightarrow> log_state" where
  "configured_logger s st =
     (let st1 = get_logger (sec_qualname s) st;
          old = the (map_of (loggers st1) (sec_qualname s))
      in st1\<lparr>loggers := dset (sec_qualname s)
           \<lparr>lg_level = (case sec_level s of Some l \<Rightarrow> l | None \<Rightarrow> lg_level old), lg_handlers = sec_handlers s,
            lg_propagate = sec_propagate s, lg_disabled = False\<rparr> (loggers st1)\<rparr>)"

text \<open>
  The loggers that were there before: one below a configured logger that was there before is reset, and every other
  one that is not configured is disabled.
\<close>

definition existing_logger :: "bool \<Rightarrow> string list \<Rightarrow> log_config \<Rightarrow> string \<times> logger \<Rightarrow> string \<times> logger" where
  "existing_logger disable existing conf nl =
     (case nl of (n, lg) \<Rightarrow>
        let named = map sec_qualname (conf_loggers conf) in
        if n \<notin> set existing \<or> n \<in> set named then (n, lg)
        else if list_ex (\<lambda>m. m \<in> set existing \<and> child_of n m) named
        then (n, lg\<lparr>lg_level := 0, lg_handlers := [], lg_propagate := True\<rparr>)
        else (n, lg\<lparr>lg_disabled := disable\<rparr>))"

definition file_config :: "log_config \<Rightarrow> bool \<Rightarrow> log_state \<Rightarrow> log_state" where
  "file_config conf disable st =
     (let st1 = st\<lparr>root_level := (case sec_level (conf_root conf) of Some l \<Rightarrow> l | None \<Rightarrow> root_level st),
                   root_handlers := sec_handlers (conf_root conf)\<rparr>;
          st2 = fold configured_logger (conf_loggers conf) st1
      in st2\<lparr>loggers := map (existing_logger disable (map fst (loggers st)) conf) (loggers st2)\<rparr>)"

text \<open>What \<open>alembic/env.py\<close> does before it migrates; \<open>fileConfig\<close> disables existing loggers unless told otherwise.\<close>

definition migration_logging :: "log_state \<Rightarrow> log_state" where
  "migration_logging st = file_config alembic_ini True st"

section \<open>Before and after the migrations\<close>

definition service_logger :: "string \<Rightarrow> bool" where
  "service_logger n \<longleftrightarrow> n \<notin> {''sqlalchemy.engine'', ''alembic''} \<and> \<not> child_of n ''sqlalchemy.engine'' \<and> \<not> child_of n ''alembic''"

text \<open>Loggers as \<open>getLogger\<close> makes them, which is all the service does with them.\<close>

definition plain_loggers :: "log_state \<Rightarrow> bool" where
  "plain_loggers st \<longleftrightarrow> (\<forall>(n, lg) \<in> set (loggers st). lg = new_logger)"

lemma plain_get_logger: "plain_loggers st \<Longrightarrow> plain_loggers (get_logger n st)"
  by (simp add: plain_loggers_def get_logger_def)

lemma plain_levels: "\<forall>lg \<in> set chain. lg_level lg = 0 \<Longrightarrow> first_level base chain = base"
  by (induction chain) simp_all

lemma plain_handlers: "\<forall>lg \<in> set chain. lg_handlers lg = [] \<and> lg_propagate lg \<Longrightarrow> handlers_from hs chain = hs"
  by (induction chain) simp_all

lemma printed_by_plain:
  assumes "\<forall>(m, lg) \<in> set (loggers st). m = n \<or> child_of n m \<longrightarrow> lg_level lg = 0 \<and> lg_handlers lg = [] \<and> lg_propagate lg"
  shows "printed_by n severity st =
    (if (case map_of (loggers st) n of Some lg \<Rightarrow> lg_disabled lg | None \<Rightarrow> False) \<or> severity < root_level st then []
     else map lh_formatter (filter (\<lambda>h. lh_level h \<le> severity) (root_handlers st)))"
proof -
  let ?own = "case map_of (loggers st) n of Some lg \<Rightarrow> lg | None \<Rightarrow> new_logger"
  have "lg_level ?own = 0 \<and> lg_handlers ?own = [] \<and> lg_propagate ?own"
    using assms by (auto simp: new_logger_def split: option.splits dest: map_of_SomeD)
  moreover have "\<forall>lg \<in> set (ancestors n st). lg_level lg = 0 \<and> lg_handlers lg = [] \<and> lg_propagate lg"
    using assms by (auto simp: ancestors_def)
  ultimately have "first_level (root_level st) (?own # ancestors n st) = root_level st \<and>
      handlers_from (root_handlers st) (?own # ancestors n st) = root_handlers st"
    by (intro conjI plain_levels plain_handlers) auto
  moreover have "lg_disabled ?own = (case map_of (loggers st) n of Some lg \<Rightarrow> lg_disabled lg | None \<Rightarrow> False)"
    by (simp add: new_logger_def split: option.split)
  ultimately show ?thesis by (simp add: printed_by_def Let_def)
qed

lemma configured_loggers:
  "loggers (configured_logger s st) =
     dset (sec_qualname s) \<lparr>lg_level = (case sec_level s of Some l \<Rightarrow> l | None \<Rightarrow>
         lg_level (case map_of (loggers st) (sec_qualname s) of Some lg \<Rightarrow> lg | None \<Rightarrow> new_logger)),
       lg_handlers = sec_handlers s, lg_propagate = sec_propagate s, lg_disabled = False\<rparr> (loggers st)"
proof -
  have "dset k v (xs @ [(k, u)]) = dset k v xs" if "map_of xs k = None" for k :: string and u v :: logger and xs
    using that by (induction xs) (auto split: if_splits)
  then show ?thesis by (auto simp: configured_logger_def get_logger_def has_key_def Let_def map_add_def split: option.splits)
qed

lemma in_dset_other: "(m, v') \<in> set (dset k v xs) \<Longrightarrow> m \<noteq> k \<Longrightarrow> (m, v') \<in> set xs"
  by (induction xs) (auto split: if_splits)

text \<open>What is there after the migrations have configured logging.\<close>

lemma migrated_state:
  "root_level (migration_logging st) = level_warn"
  "root_handlers (migration_logging st) = [\<lparr>lh_formatter = GenericLine, lh_level = 0\<rparr>]"
  by (simp_all add: migration_logging_def file_config_def alembic_ini_def Let_def configured_logger_def get_logger_def)

lemma migrated_lookup:
  assumes "n \<notin> {''sqlalchemy.engine'', ''alembic''}"
  shows "map_of (loggers (migration_logging st)) n =
    map_option (\<lambda>lg. snd (existing_logger True (map fst (loggers st)) alembic_ini (n, lg))) (map_of (loggers st) n)"
proof -
  have fst: "fst (existing_logger d ex conf nl) = fst nl" for d ex conf nl
    by (cases nl) (simp add: existing_logger_def Let_def)
  have lookup: "map_of (map (existing_logger d ex conf) xs) n = map_option (\<lambda>lg. snd (existing_logger d ex conf (n, lg))) (map_of xs n)"
    for d ex conf xs
  proof (induction xs)
    case (Cons x xs)
    obtain m lg where x: "x = (m, lg)" by (cases x)
    with fst [of d ex conf x] obtain lg' where "existing_logger d ex conf x = (m, lg')"
      by (metis fst_conv prod.collapse)
    with Cons x show ?case by auto
  qed simp
  show ?thesis
    using assms
    by (simp add: migration_logging_def file_config_def Let_def lookup alembic_ini_def configured_loggers)
qed

lemma migrated_plain:
  assumes "plain_loggers st" and "(m, lg) \<in> set (loggers (migration_logging st))" and "m \<notin> {''sqlalchemy.engine'', ''alembic''}"
  shows "lg_level lg = 0 \<and> lg_handlers lg = [] \<and> lg_propagate lg"
proof -
  obtain lg0 where lg0: "(m, lg) = existing_logger True (map fst (loggers st)) alembic_ini (m, lg0)"
      "(m, lg0) \<in> set (loggers (fold configured_logger (conf_loggers alembic_ini) (st\<lparr>root_level := level_warn,
         root_handlers := [\<lparr>lh_formatter = GenericLine, lh_level = 0\<rparr>]\<rparr>)))"
    using assms(2)
    by (auto simp: migration_logging_def file_config_def Let_def existing_logger_def alembic_ini_def split: if_splits)
  from lg0(2) have "(m, lg0) \<in> set (loggers st)"
    using assms(3) by (auto simp: alembic_ini_def configured_loggers dest!: in_dset_other)
  with assms(1) have "lg0 = new_logger" by (auto simp: plain_loggers_def)
  with lg0(1) show ?thesis
    by (auto simp: existing_logger_def Let_def new_logger_def split: if_splits)
qed

text \<open>
  The service logs JSON lines with its correlation id until its database is initialised.  The migrations then
  install their own configuration in the running process: from there on a logger the service already
  has is disabled and prints nothing at all, and one that it asks for later prints warnings only, as
  plain lines of the console.  No record carries a correlation id any more.
\<close>

theorem migrations_silence_service:
  assumes "plain_loggers st" and "service_logger n"
  shows "printed_by n level_info (setup_logging True tty st) = [CorrelationJson] \<and>
    printed_by n severity (migration_logging (setup_logging True tty st)) =
      (if has_key (loggers st) n \<or> severity < level_warn then [] else [GenericLine])"
proof (intro conjI)
  let ?st = "setup_logging True tty st"
  have plain: "plain_loggers ?st" and same: "loggers ?st = loggers st"
    using assms(1) by (simp_all add: setup_logging_def plain_loggers_def)
  show "printed_by n level_info ?st = [CorrelationJson]"
  proof (subst printed_by_plain)
    have "\<not> lg_disabled lg" if "map_of (loggers st) n = Some lg" for lg
      using assms(1) map_of_SomeD [OF that] by (auto simp: plain_loggers_def new_logger_def)
    then show "(if (case map_of (loggers ?st) n of Some lg \<Rightarrow> lg_disabled lg | None \<Rightarrow> False) \<or> level_info < root_level ?st then []
        else map lh_formatter (filter (\<lambda>h. lh_level h \<le> level_info) (root_handlers ?st))) = [CorrelationJson]"
      by (simp add: setup_logging_def split: option.split)
  qed (use plain in \<open>auto simp: plain_loggers_def new_logger_def\<close>)
  have named: "n \<notin> {''sqlalchemy.engine'', ''alembic''}" "\<not> child_of n ''sqlalchemy.engine''" "\<not> child_of n ''alembic''"
    using assms(2) by (auto simp: service_logger_def)
  have chain: "\<forall>(m, lg) \<in> set (loggers (migration_logging ?st)). m = n \<or> child_of n m \<longrightarrow>
      lg_level lg = 0 \<and> lg_handlers lg = [] \<and> lg_propagate lg"
    using migrated_plain [OF plain] named by blast
  have disabled: "lg_disabled (snd (existing_logger True (map fst (loggers st)) alembic_ini (n, lg)))"
    if "map_of (loggers st) n = Some lg" for lg
    using that named map_of_SomeD [OF that]
    by (auto simp: existing_logger_def alembic_ini_def Let_def image_iff intro!: bexI [of _ "(n, lg)"])
  show "printed_by n severity (migration_logging ?st) = (if has_key (loggers st) n \<or> severity < level_warn then [] else [GenericLine])"
    using disabled
    by (simp add: printed_by_plain [OF chain] migrated_state migrated_lookup [OF named(1)] same has_key_def split: option.splits)
qed

lemma migrations_silence_service_witness:
  "printed_by ''src.buying.tracker'' level_warn (migration_logging (setup_logging True False
     (get_logger ''src.buying.tracker'' \<lparr>root_level = 30, root_handlers = [], loggers = []\<rparr>))) = []"
proof -
  let ?st = "get_logger ''src.buying.tracker'' \<lparr>root_level = 30, root_handlers = [], loggers = []\<rparr>"
  have "plain_loggers ?st" by (intro plain_get_logger) (simp add: plain_loggers_def)
  moreover have "service_logger ''src.buying.tracker''" by code_simp
  ultimately show ?thesis
    using migrations_silence_service [of ?st "''src.buying.tracker''" False level_warn]
    by (simp add: get_logger_def has_key_def)
qed

end
