(* ===== verification/Db_Setup.thy ===== *)
theory Db_Setup
  imports Db_Schema Logging_Setup Py_State
begin

text \<open>
  From the settings to a migrated database: the engine and \<open>init_db\<close> of \<open>src/models/schema.py\<close>, and
  \<open>alembic/env.py\<close>.  Alembic keeps its options in a \<open>configparser.ConfigParser\<close>, which interpolates
  \<open>%(name)s\<close>; the database behind a URL is an argument.
\<close>

section \<open>Options\<close>

text \<open>\<open>%(name)s\<close> at the start of a text: the name and what follows.\<close>

definition option_reference :: "string \<Rightarrow> (string \<times> string) option" where
  "option_reference s =
     (let name = takeWhile (\<lambda>c. c \<noteq> CHR '')'') (drop 2 s); rest = dropWhile (\<lambda>c. c \<noteq> CHR '')'') (drop 2 s)
      in if starts_with s ''%('' \<and> name \<noteq> [] \<and> starts_with rest '')s'' then Some (name, drop 2 rest) else None)"

lemma option_reference_shorter: "option_reference s = Some (name, rest) \<Longrightarrow> length rest < length s"
proof -
  assume "option_reference s = Some (name, rest)"
  then have s: "starts_with s ''%(''" "rest = drop 2 (dropWhile (\<lambda>c. c \<noteq> CHR '')'') (drop 2 s))"
    by (auto simp: option_reference_def Let_def split: if_splits)
  have "length rest \<le> length (drop 2 s)" unfolding s(2)
    by (metis diff_le_self length_dropWhile_le length_drop le_trans)
  moreover have "2 \<le> length s" using s(1) starts_with_length by fastforce
  ultimately show ?thesis by simp
qed

text \<open>\<open>BasicInterpolation.before_set\<close>: escaped signs and references are taken out, and no sign may be left.\<close>

fun without_escapes :: "string \<Rightarrow> string" where
  "without_escapes (a # b # s) =
     (if a = CHR ''%'' \<and> b = CHR ''%'' then without_escapes s else a # without_escapes (b # s))"
| "without_escapes s = s"

function without_references :: "string \<Rightarrow> string" where
  "without_references [] = []"
| "without_references (c # s) =
     (case option_reference (c # s) of Some (name, rest) \<Rightarrow> without_references rest | None \<Rightarrow> c # without_references s)"
  by pat_completeness auto
termination
  by (relation "measure length") (auto dest: option_reference_shorter)

definition before_set :: "string \<Rightarrow> py_exn + string" where
  "before_set v = (if CHR ''%'' \<in> set (without_references (without_escapes v)) then Inl ValueError else Inr v)"

text \<open>The options of the section \<open>alembic\<close>.\<close>

type_synonym options = "(string \<times> string) list"

definition set_main_option :: "string \<Rightarrow> string \<Rightarrow> options \<Rightarrow> py_exn + options" where
  "set_main_option name v opts = res_bind (before_set v) (\<lambda>v. Inr (dset name v opts))"

text \<open>
  Reading an option interpolates it, to a depth of ten; a reference to no option, or a sign that starts
  none, raises an \<open>InterpolationError\<close>.
\<close>

datatype option_error = InterpolationError | NoOption string

function interpolate :: "options \<Rightarrow> nat \<Rightarrow> string \<Rightarrow> option_error + string" where
  "interpolate opts depth [] = Inr []"
| "interpolate opts depth (c # s) =
     (if c \<noteq> CHR ''%'' then res_bind (interpolate opts depth s) (\<lambda>t. Inr (c # t))
      else if starts_with s ''%'' then res_bind (interpolate opts depth (drop 1 s)) (\<lambda>t. Inr (CHR ''%'' # t))
      else case option_reference (c # s) of
        None \<Rightarrow> Inl InterpolationError
      | Some (name, rest) \<Rightarrow>
          (case (map_of opts (lower name), depth) of
             (Some v, Suc d) \<Rightarrow> res_bind (interpolate opts d v) (\<lambda>u. res_bind (interpolate opts depth rest) (\<lambda>t. Inr (u @ t)))
           | _ \<Rightarrow> Inl InterpolationError))"
  by pat_completeness auto
termination
  by (relation "measures [\<lambda>(opts, depth, s). depth, \<lambda>(opts, depth, s). length s]") (auto dest: option_reference_shorter)

definition get_main_option :: "string \<Rightarrow> options \<Rightarrow> option_error + string" where
  "get_main_option name opts =
     (case map_of opts name of None \<Rightarrow> Inl (NoOption name) | Some v \<Rightarrow> interpolate opts 10 v)"

section \<open>The migrations\<close>

datatype init_error = BadUrl py_exn | BadOption option_error | MigrationFailed db_error

text \<open>The section \<open>alembic\<close> of \<open>alembic.ini\<close>.\<close>

definition alembic_options :: options where
  "alembic_options = [(''script_location'', ''alembic''), (''sqlalchemy.url'', ''sqlite+aiosqlite:///nxflo.db'')]"

text \<open>\<open>env.py\<close>: the URL of the environment, when there is one, takes the place of the one it was given.\<close>

definition env_url :: "string option \<Rightarrow> options \<Rightarrow> init_error + string" where
  "env_url db_url opts =
     res_bind (case db_url of
         Some (c # cs) \<Rightarrow> map_left BadUrl (set_main_option ''sqlalchemy.url'' (c # cs) opts)
       | _ \<Rightarrow> Inr opts) (\<lambda>opts1.
       map_left BadOption (get_main_option ''sqlalchemy.url'' opts1))"

text \<open>One transaction on the database of the URL holds all revisions.\<close>

definition run_migrations_online :: "string \<Rightarrow> (string \<Rightarrow> database) \<Rightarrow> (init_error + unit) \<times> (string \<Rightarrow> database)" where
  "run_migrations_online url servers =
     (case upgrade_head all_revisions (servers url) of
        Inl e \<Rightarrow> (Inl (MigrationFailed e), servers)
      | Inr db \<Rightarrow> (Inr (), servers(url := db)))"

text \<open>The whole of \<open>init_db\<close>, on the databases and the logging of the process.\<close>

definition init_db :: "string \<Rightarrow> string option \<Rightarrow> (string \<Rightarrow> database) \<times> log_state \<Rightarrow> (init_error + unit) \<times> (string \<Rightarrow> database) \<times> log_state" where
  "init_db database_url db_url world =
     (case world of (servers, logs) \<Rightarrow>
        (case map_left BadUrl (set_main_option ''sqlalchemy.url'' database_url alembic_options) of
           Inl e \<Rightarrow> (Inl e, servers, logs)
         | Inr opts \<Rightarrow>
             let logs1 = migration_logging logs in
             (case env_url db_url opts of
                Inl e \<Rightarrow> (Inl e, servers, logs1)
              | Inr url \<Rightarrow> (case run_migrations_online url servers of (r, servers1) \<Rightarrow> (r, servers1, logs1)))))"

section \<open>The engine\<close>

definition is_sqlite :: "string \<Rightarrow> bool" where
  "is_sqlite database_url = starts_with database_url ''sqlite''"

definition engine_kwargs :: "string \<Rightarrow> dict" where
  "engine_kwargs database_url =
     (let kwargs = [(''echo'', JBool False)] in
      if is_sqlite database_url then kwargs
      else dict_update kwargs
        [(''pool_size'', JInt 5), (''max_overflow'', JInt 10), (''pool_timeout'', JInt 30), (''pool_recycle'', JInt 1800),
         (''pool_pre_ping'', JBool True), (''connect_args'', JObj [(''ssl'', JStr ''require'')])])"

section \<open>Which database is migrated\<close>

lemma no_percent_reference: "CHR ''%'' \<notin> set s \<Longrightarrow> option_reference s = None"
  by (cases s) (auto simp: option_reference_def starts_with_def Let_def)

lemma without_escapes_plain: "CHR ''%'' \<notin> set s \<Longrightarrow> without_escapes s = s"
  by (induction s rule: without_escapes.induct) auto

lemma without_references_plain: "CHR ''%'' \<notin> set s \<Longrightarrow> without_references s = s"
  by (induction s) (simp_all add: no_percent_reference)

lemma interpolate_plain: "CHR ''%'' \<notin> set s \<Longrightarrow> interpolate opts depth s = Inr s"
  by (induction s) (auto simp: res_bind_def)

lemma set_plain: "CHR ''%'' \<notin> set v \<Longrightarrow> set_main_option name v opts = Inr (dset name v opts)"
  by (simp add: set_main_option_def before_set_def without_escapes_plain without_references_plain res_bind_def)

text \<open>The engine and the migrations use one URL.\<close>

lemma env_url_plain:
  assumes "CHR ''%'' \<notin> set url" and "map_of opts ''sqlalchemy.url'' = Some url" and "env \<in> {None, Some [], Some url}"
  shows "env_url env opts = Inr url"
  using assms interpolate_plain [OF assms(1)]
  by (cases url) (auto simp: env_url_def set_plain get_main_option_def map_left_def res_bind_def)

text \<open>
  Initialising the database migrates the database that the service will use, and no other: where the URL of
  the settings has no percent sign and the environment names no other one, it is upgraded to the newest revision
  from whichever revision it is at, keeping its rows, and a second start finds nothing to do.
\<close>

lemma init_db_migrates_service_database:
  assumes "CHR ''%'' \<notin> set url" and "env \<in> {None, Some [], Some url}" and "at_revision n (servers url)" and "n \<le> 4"
  shows "\<exists>db. init_db url env (servers, logs) = (Inr (), servers(url := db), migration_logging logs) \<and>
    upgrade_head all_revisions (servers url) = Inr db \<and> at_revision 4 db \<and> rows_kept (db_tables (servers url)) (db_tables db) \<and>
    fst (snd (init_db url env (servers(url := db), migration_logging logs))) = servers(url := db)"
proof -
  obtain db where up: "upgrade_head all_revisions (servers url) = Inr db" "at_revision 4 db"
      "rows_kept (db_tables (servers url)) (db_tables db)"
    using migrations_reach_models [OF assms(3,4)] by blast
  let ?opts = "dset ''sqlalchemy.url'' url alembic_options"
  have option: "map_of ?opts ''sqlalchemy.url'' = Some url" by simp
  note url = env_url_plain [OF assms(1) option assms(2)]
  have run: "init_db url env (ss, ls) = (case upgrade_head all_revisions (ss url) of
      Inl e \<Rightarrow> (Inl (MigrationFailed e), ss, migration_logging ls) | Inr db \<Rightarrow> (Inr (), ss(url := db), migration_logging ls))" for ss ls
    using url by (simp add: init_db_def run_migrations_online_def set_plain [OF assms(1)] map_left_def Let_def split: sum.split del: map_of_dset)
  have "upgrade_head all_revisions db = Inr db"
    using upgrades_from [OF up(2)] way_to_head [of 4] up(2)
    by (simp add: upgrade_head_def one_head length_revisions at_revision_def res_bind_def)
  with run up show ?thesis by (intro exI [of _ db]) simp
qed

text \<open>
  A password is written with percent signs in a URL.  Such a URL is refused before the environment of the
  migrations is loaded: nothing is migrated and the start fails, although the engine takes it.
\<close>

theorem percent_url_refused:
  assumes "url = a @ CHR ''%'' # c # b" and "CHR ''%'' \<notin> set a" and "c \<notin> {CHR ''%'', CHR ''(''}" and "CHR ''%'' \<notin> set b"
  shows "init_db url env world = (Inl (BadUrl ValueError), world)"
proof -
  have escapes: "without_escapes (x @ CHR ''%'' # c # b) = x @ CHR ''%'' # c # b" if "CHR ''%'' \<notin> set x" for x
    using that
  proof (induction x)
    case Nil
    then show ?case using assms(3,4) by (cases b) (auto simp: without_escapes_plain)
  next
    case (Cons y ys)
    then show ?case by (cases "ys @ CHR ''%'' # c # b") auto
  qed
  have "option_reference (CHR ''%'' # c # b) = None"
    using assms(3) by (simp add: option_reference_def starts_with_def Let_def)
  then have "CHR ''%'' \<in> set (without_references (x @ CHR ''%'' # c # b))" if "CHR ''%'' \<notin> set x" for x
    using that
    by (induction x) (auto simp: option_reference_def starts_with_def Let_def)
  with escapes assms(1,2) have "before_set url = Inl ValueError" by (simp add: before_set_def)
  then show ?thesis by (cases world) (simp add: init_db_def set_main_option_def map_left_def res_bind_def)
qed

lemma percent_url_refused_witness:
  "fst (init_db ''postgresql+asyncpg://u:p%40@h/d'' None (\<lambda>url. empty_database, \<lparr>root_level = 30, root_handlers = [], loggers = []\<rparr>)) =
     Inl (BadUrl ValueError)"
  using percent_url_refused [of "''postgresql+asyncpg://u:p%40@h/d''" "''postgresql+asyncpg://u:p''" "CHR ''4''" "''0@h/d''"] by simp

end
