(* ===== verification/Seller_Connect.thy ===== *)
theory Seller_Connect
  imports Request_Signing Media_Buy_Requests Brand_Resolver
begin

text \<open>
  The rest of \<open>src/connections/seller.py\<close>: opening a connection, finding the HTTP status behind an
  exception, and the calls that are not plain wrappers.  Exceptions are the nodes of a graph, numbered by
  identity: the members of a group, \<open>__cause__\<close> and \<open>__context__\<close> are its edges, and it may have cycles.
\<close>

section \<open>The code\<close>

text \<open>\<open>en_status\<close> is \<open>response.status_code\<close> when it is an \<open>int\<close>.\<close>

record exn_node =
  en_status :: "int option"
  en_group :: "nat list"
  en_cause :: "nat option"
  en_context :: "nat option"

definition given_links :: "exn_node \<Rightarrow> nat list" where
  "given_links e = en_group e @ (case en_cause e of Some i \<Rightarrow> [i] | None \<Rightarrow> []) @ (case en_context e of Some i \<Rightarrow> [i] | None \<Rightarrow> [])"

text \<open>The top of the stack is the head of the list; a number outside the graph has no node.\<close>

function status_search :: "exn_node list \<Rightarrow> nat list \<Rightarrow> nat list \<Rightarrow> int option" where
  "status_search h [] seen = None"
| "status_search h (i # stack) seen =
     (if i \<in> set seen \<or> length h \<le> i then status_search h stack seen
      else case en_status (h ! i) of
        Some s \<Rightarrow> Some s
      | None \<Rightarrow> status_search h (rev (given_links (h ! i)) @ stack) (i # seen))"
  by pat_completeness auto

termination
proof (relation "measures [\<lambda>(h, stack, seen). card ({..<length h} - set seen), \<lambda>(h, stack, seen). length stack]")
  fix h :: "exn_node list" and i stack seen
  assume "\<not> (i \<in> set seen \<or> length h \<le> i)"
  then have "i \<in> {..<length h} - set seen" by simp
  then have "card ({..<length h} - set seen - {i}) < card ({..<length h} - set seen)" by (intro card_Diff1_less) simp_all
  then have "card ({..<length h} - set (i # seen)) < card ({..<length h} - set seen)" 
    unfolding list.set Diff_insert [of _ i "set seen"] .
  then show "((h, rev (given_links (h ! i)) @ stack, i # seen), h, i # stack, seen)
      \<in> measures [\<lambda>(h, stack, seen). card ({..<length h} - set seen), \<lambda>(h, stack, seen). length stack]"
    unfolding in_measures prod.case by (rule disjI1)
qed (simp_all only: wf_measures in_measures prod.case, simp)

definition status_code :: "exn_node list \<Rightarrow> nat \<Rightarrow> int option" where
  "status_code h i = status_search h [i] []"

text \<open>The transport that \<open>connect_to_seller\<close> opens, and the error an exception in it becomes.\<close>

record 'k transport =
  tr_url :: string
  tr_headers :: "(string \<times> string) list"
  tr_auth :: "('k signing_key \<times> (string \<Rightarrow> dict \<Rightarrow> py_exn + bool)) option"

definition seller_transport :: "(json \<Rightarrow> string) \<Rightarrow> 'k signing_key option \<Rightarrow> seller_agent \<Rightarrow> 'k transport" where
  "seller_transport shown key a =
     \<lparr>tr_url = rstrip_char (CHR ''/'') (agent_url a), tr_headers = build_headers a, tr_auth = build_auth shown key a\<rparr>"

definition transport_error :: "(json \<Rightarrow> string) \<Rightarrow> seller_agent \<Rightarrow> exn_node list \<Rightarrow> nat \<Rightarrow> string \<Rightarrow> seller_error" where
  "transport_error shown a h e text = connection_error shown a text (status_code h e)"

text \<open>\<open>listed\<close> is what \<open>list_tools\<close> gives, or the exception of the connection.\<close>

definition get_seller_capabilities ::
  "(json \<Rightarrow> string) \<Rightarrow> seller_agent \<Rightarrow> (exn_node list \<times> nat \<times> string) + string list \<Rightarrow> seller_error + dict" where
  "get_seller_capabilities shown a listed =
     (case listed of
        Inl (h, e, text) \<Rightarrow> Inl (transport_error shown a h e text)
      | Inr names \<Rightarrow>
          Inr [(''agent'', agent_name a), (''url'', JStr (agent_url a)), (''tools'', JArr (map JStr names)),
               (''tool_count'', JInt (int (length names)))])"

text \<open>
  \<open>brand\<close> empty stands for \<open>None\<close>; \<open>domain\<close> is the domain of \<open>brand_url\<close>.  The log line reads
  \<open>brand_ref["domain"]\<close>.
\<close>

definition get_products_params :: "string \<Rightarrow> string \<Rightarrow> string \<Rightarrow> dict \<Rightarrow> dict \<Rightarrow> py_exn + dict" where
  "get_products_params version brief domain brand account =
     (let ref = (if brand \<noteq> [] then brand else build_brand_ref domain [] [])
      in if \<not> has_key ref ''domain'' then Inl KeyError
         else Inr (build_get_products_request version brief ref account))"

section \<open>The status of a failure\<close>

definition exn_links :: "exn_node list \<Rightarrow> (nat \<times> nat) set" where
  "exn_links h = {(i, j). i < length h \<and> j \<in> set (given_links (h ! i))}"

lemma search_sound:
  "status_search h stack seen = Some s \<Longrightarrow>
     \<exists>i \<in> set stack. \<exists>j. (i, j) \<in> (exn_links h)\<^sup>* \<and> j < length h \<and> en_status (h ! j) = Some s"
proof (induction h stack seen rule: status_search.induct)
  case (2 h i stack seen)
  show ?case
  proof (cases "i \<in> set seen \<or> length h \<le> i")
    case True
    with 2 show ?thesis by auto
  next
    case False
    show ?thesis
    proof (cases "en_status (h ! i)")
      case None
      with 2 False obtain k j where k: "k \<in> set (given_links (h ! i)) \<union> set stack"
        and j: "(k, j) \<in> (exn_links h)\<^sup>*" "j < length h" "en_status (h ! j) = Some s" by auto
      show ?thesis
      proof (cases "k \<in> set stack")
        case False
        with k \<open>\<not> (i \<in> set seen \<or> length h \<le> i)\<close> have "(i, k) \<in> exn_links h" by (simp add: exn_links_def)
        with j show ?thesis by (auto intro: converse_rtrancl_into_rtrancl)
      qed (use j in auto)
    qed (use 2 False in auto)
  qed
qed simp

text \<open>The nodes seen have no status, and their links are seen or still to be seen.\<close>

definition explored :: "exn_node list \<Rightarrow> nat list \<Rightarrow> nat set \<Rightarrow> bool" where
  "explored h stack seen \<longleftrightarrow>
     (\<forall>i \<in> seen. i < length h \<and> en_status (h ! i) = None \<and> (\<forall>j \<in> set (given_links (h ! i)). j < length h \<longrightarrow> j \<in> seen \<union> set stack))"

lemma search_complete:
  "status_search h stack seen = None \<Longrightarrow> explored h stack (set seen) \<Longrightarrow>
     \<exists>closed. explored h [] closed \<and> set seen \<subseteq> closed \<and> (\<forall>i \<in> set stack. i < length h \<longrightarrow> i \<in> closed)"
proof (induction h stack seen rule: status_search.induct)
  case (2 h i stack seen)
  show ?case
  proof (cases "i \<in> set seen \<or> length h \<le> i")
    case True
    have "explored h stack (set seen)" unfolding explored_def
    proof (intro ballI conjI impI)
      fix k j assume k: "k \<in> set seen"
      with 2(4) show "k < length h" "en_status (h ! k) = None" by (simp_all add: explored_def)
      assume "j \<in> set (given_links (h ! k))" "j < length h"
      with k 2(4) have "j \<in> set seen \<union> set (i # stack)" unfolding explored_def by blast
      with True \<open>j < length h\<close> show "j \<in> set seen \<union> set stack" by auto
    qed
    moreover have "status_search h stack seen = None" using 2(3) True by simp
    ultimately obtain closed where "explored h [] closed" "set seen \<subseteq> closed" "\<forall>j \<in> set stack. j < length h \<longrightarrow> j \<in> closed"
      using 2(1) [OF True] by blast
    with True show ?thesis by (intro exI [of _ closed]) auto
  next
    case False
    then have none: "en_status (h ! i) = None" using 2(3) by (auto split: option.splits)
    have "explored h (rev (given_links (h ! i)) @ stack) (set (i # seen))"
      using none False 2(4) by (auto simp: explored_def)
    moreover have "status_search h (rev (given_links (h ! i)) @ stack) (i # seen) = None" using 2(3) False none by simp
    ultimately obtain closed where "explored h [] closed" "set (i # seen) \<subseteq> closed"
      "\<forall>j \<in> set (rev (given_links (h ! i)) @ stack). j < length h \<longrightarrow> j \<in> closed"
      using 2(2) [OF False none] by blast
    then show ?thesis by (intro exI [of _ closed]) simp
  qed
qed (auto intro: exI [of _ "set seen" for seen])

lemma explored_reachable:
  assumes "explored h [] explored_set" and "(i, j) \<in> (exn_links h)\<^sup>*" and "i \<in> explored_set" and "j < length h"
  shows "en_status (h ! j) = None"
proof -
  have inside: "k < length h \<Longrightarrow> k \<in> explored_set" if "(i, k) \<in> (exn_links h)\<^sup>*" for k
    using that
  proof (induction rule: rtrancl_induct)
    case base
    show ?case by (rule assms(3))
  next
    case (step k l)
    from step(2) have k: "k < length h" "l \<in> set (given_links (h ! k))" by (simp_all add: exn_links_def)
    from step(3) k(1) have "k \<in> explored_set" by blast
    with assms(1) k(2) step(4) have "l \<in> explored_set \<union> set []" unfolding explored_def by blast
    then show ?case by simp
  qed
  from inside [OF assms(2,4)] assms(1) show ?thesis unfolding explored_def by blast
qed

text \<open>
  The search ends on every graph of exceptions, cycles included, and finds a status exactly when
  one can be reached: what it gives is the status of an exception reachable by groups, causes and
  contexts, and when it gives none no reachable exception has one.
\<close>

theorem status_code_reachable:
  "case status_code h e of
     Some s \<Rightarrow> \<exists>j. (e, j) \<in> (exn_links h)\<^sup>* \<and> j < length h \<and> en_status (h ! j) = Some s
   | None \<Rightarrow> \<forall>j. (e, j) \<notin> (exn_links h)\<^sup>* \<or> length h \<le> j \<or> en_status (h ! j) = None"
proof (cases "status_code h e")
  case (Some s)
  then show ?thesis using search_sound [of h "[e]" "[]" s] by (simp add: status_code_def)
next
  case None
  have outside: "j = e" if "(e, j) \<in> (exn_links h)\<^sup>*" "length h \<le> e" for j
    using that by (induction rule: rtrancl_induct) (auto simp: exn_links_def)
  obtain explored_set where "explored h [] explored_set" "e < length h \<longrightarrow> e \<in> explored_set"
    using None search_complete [of h "[e]" "[]"] by (auto simp: status_code_def explored_def)
  then have "en_status (h ! j) = None" if "(e, j) \<in> (exn_links h)\<^sup>*" "j < length h" for j
    using that explored_reachable [of h explored_set e j] outside [of j] by (cases "e < length h") auto
  then show ?thesis unfolding None option.case by (meson leI)
qed

text \<open>A status behind two groups that name each other.\<close>

lemma status_code_example:
  "status_code
     [\<lparr>en_status = None, en_group = [1], en_cause = None, en_context = Some 0\<rparr>,
      \<lparr>en_status = None, en_group = [0], en_cause = Some 2, en_context = None\<rparr>,
      \<lparr>en_status = Some 401, en_group = [], en_cause = None, en_context = None\<rparr>] 0 = Some 401"
  by (simp add: status_code_def given_links_def)

end
