(* ===== verification/Keygen.thy ===== *)
theory Keygen
  imports Signing_Keys Json_Text
begin

text \<open>
  \<open>src/signing/keygen.py\<close>: the command that makes a key pair.  The file system is a map from paths to
  files with their permission bits; \<open>fs_writable\<close> says where a file can be created or opened,
  \<open>fs_umask\<close> is the mask of the process.  \<open>to_pem\<close> is \<open>private_bytes\<close> of \<open>cryptography\<close>.
\<close>

unbundle bit_operations_syntax

section \<open>Indented JSON\<close>

definition line_at :: "nat \<Rightarrow> string" where
  "line_at depth = CHR 0x0A # replicate (2 * depth) (CHR 0x20)"

text \<open>\<open>json.dumps(v, indent=2)\<close>; empty containers stay on one line.\<close>

fun dumps_indented :: "(pyfloat \<Rightarrow> string) \<Rightarrow> nat \<Rightarrow> json \<Rightarrow> string" where
  "dumps_indented shown n JNull = ''null''"
| "dumps_indented shown n (JBool b) = (if b then ''true'' else ''false'')"
| "dumps_indented shown n (JInt i) = int_text i"
| "dumps_indented shown n (JFloat f) =
     (case f of Fin q \<Rightarrow> shown f | PosInf \<Rightarrow> ''Infinity'' | NegInf \<Rightarrow> ''-Infinity'' | NotANum \<Rightarrow> ''NaN'')"
| "dumps_indented shown n (JStr s) = quoted s"
| "dumps_indented shown n (JArr xs) =
     (if xs = [] then ''[]''
      else ''['' @ line_at (n + 1) @ join_with ('','' @ line_at (n + 1)) (map (dumps_indented shown (n + 1)) xs) @ line_at n @ '']'')"
| "dumps_indented shown n (JObj d) =
     (if d = [] then ''{}''
      else ''{'' @ line_at (n + 1) @
        join_with ('','' @ line_at (n + 1)) (map (\<lambda>(k, v). quoted k @ '': '' @ dumps_indented shown (n + 1) v) d) @ line_at n @ ''}'')"

section \<open>Files\<close>

record stored_file =
  file_text :: string
  file_mode :: int

record file_system =
  fs_files :: "string \<Rightarrow> stored_file option"
  fs_writable :: "string \<Rightarrow> bool"
  fs_umask :: int

datatype keygen_error = FileExists | FileRefused | KeygenSigning signing_error

definition masked :: "file_system \<Rightarrow> int \<Rightarrow> int" where
  "masked fs mode = mode AND NOT (fs_umask fs)"

definition put_file :: "string \<Rightarrow> stored_file \<Rightarrow> file_system \<Rightarrow> file_system" where
  "put_file path f fs = fs\<lparr>fs_files := (fs_files fs)(path \<mapsto> f)\<rparr>"

text \<open>\<open>O_CREAT | O_EXCL\<close> with mode \<open>0o600\<close>.\<close>

definition write_private :: "string \<Rightarrow> string \<Rightarrow> file_system \<Rightarrow> file_system \<times> (keygen_error + unit)" where
  "write_private path data fs =
     (if fs_files fs path \<noteq> None then (fs, Inl FileExists)
      else if \<not> fs_writable fs path then (fs, Inl FileRefused)
      else (put_file path \<lparr>file_text = data, file_mode = masked fs 384\<rparr> fs, Inr ()))"

text \<open>\<open>open(path, "w")\<close>: a new file has mode \<open>0o666\<close>, an existing one keeps its mode.\<close>

definition write_public :: "string \<Rightarrow> string \<Rightarrow> file_system \<Rightarrow> file_system \<times> (keygen_error + unit)" where
  "write_public path data fs =
     (if \<not> fs_writable fs path then (fs, Inl FileRefused)
      else
        let mode = (case fs_files fs path of Some f \<Rightarrow> file_mode f | None \<Rightarrow> masked fs 438)
        in (put_file path \<lparr>file_text = data, file_mode = mode\<rparr> fs, Inr ()))"

section \<open>The command\<close>

record keygen_args =
  arg_alg :: string
  arg_kid :: string
  arg_private_out :: string
  arg_public_out :: "string option"

text \<open>
  \<open>build_jwks(key)["keys"][:1]\<close>, printed.  The result is what is written to the standard output.
  An empty \<open>--public-out\<close> counts as none.
\<close>

definition keygen_jwks :: "(pyfloat \<Rightarrow> string) \<Rightarrow> dict \<Rightarrow> string" where
  "keygen_jwks shown jwks = dumps_indented shown 0 (JObj [(''keys'', JArr (take 1 (arr_of (getj jwks ''keys''))))])"

definition keygen ::
  "(pyfloat \<Rightarrow> string) \<Rightarrow> ('k private_key \<Rightarrow> string) \<Rightarrow> 'k signing_config \<Rightarrow> 'k \<Rightarrow> keygen_args \<Rightarrow> file_system \<Rightarrow>
     file_system \<times> (keygen_error + string)" where
  "keygen shown to_pem cfg fresh args fs =
     (case generate_signing_key fresh (arg_alg args) (arg_kid args) of
        Inl e \<Rightarrow> (fs, Inl (KeygenSigning e))
      | Inr key \<Rightarrow>
          (case write_private (arg_private_out args) (to_pem (key_private key)) fs of
             (fs1, Inl e) \<Rightarrow> (fs1, Inl e)
           | (fs1, Inr _) \<Rightarrow>
               (case build_jwks cfg (Some key) of
                  Inl e \<Rightarrow> (fs1, Inl (KeygenSigning e))
                | Inr jwks \<Rightarrow>
                    (case arg_public_out args of
                       Some (c # cs) \<Rightarrow>
                         (case write_public (c # cs) (keygen_jwks shown jwks @ [CHR 0x0A]) fs1 of
                            (fs2, Inl e) \<Rightarrow> (fs2, Inl e) | (fs2, Inr _) \<Rightarrow> (fs2, Inr []))
                     | _ \<Rightarrow> (fs1, Inr (keygen_jwks shown jwks @ [CHR 0x0A]))))))"

section \<open>Private keys are kept\<close>

lemma group_bits_masked: "(384 AND NOT u) AND 63 = (0 :: int)"
proof -
  have "(384 AND NOT u) AND 63 = NOT u AND ((384 :: int) AND 63)" by (simp only: ac_simps)
  also have "(384 :: int) AND 63 = 0" by simp
  finally show ?thesis by simp
qed

lemmas keygen_simps = keygen_def write_private_def write_public_def put_file_def keygen_jwks_def masked_def

text \<open>
  The command never touches a key that is there: with a file at \<open>--private-out\<close> it fails and
  changes nothing.  A new private key is written as it was generated, without any permission for
  group or others whatever the mask, if \<open>--public-out\<close> is another path; no file other than the two
  is changed.
\<close>

theorem keygen_keeps_keys:
  assumes "keygen shown to_pem cfg fresh args fs = (fs', r)"
  shows "(if fs_files fs (arg_private_out args) \<noteq> None then fs' = fs \<and> (\<exists>e. r = Inl e) else True) \<and>
    (case r of
       Inl e \<Rightarrow> True
     | Inr printed \<Rightarrow>
         arg_public_out args = Some (arg_private_out args) \<or>
         (\<exists>f. fs_files fs' (arg_private_out args) = Some f \<and> file_mode f AND 63 = 0 \<and>
            file_text f = to_pem (if arg_alg args = alg_ed25519 then Ed25519 fresh else P256 fresh))) \<and>
    (\<forall>p. p = arg_private_out args \<or> arg_public_out args = Some p \<or> fs_files fs' p = fs_files fs p)"
proof (cases "generate_signing_key fresh (arg_alg args) (arg_kid args)")
  case (Inl e)
  with assms show ?thesis by (auto simp: keygen_def)
next
  case (Inr key)
  have material: "key_private key = (if arg_alg args = alg_ed25519 then Ed25519 fresh else P256 fresh)"
    using Inr by (auto simp: generate_signing_key_def split: if_splits)
  show ?thesis
  proof (cases "fs_files fs (arg_private_out args) \<noteq> None \<or> \<not> fs_writable fs (arg_private_out args)")
    case True
    with assms Inr show ?thesis by (auto simp: keygen_simps)
  next
    case False
    with assms Inr material show ?thesis
      by (auto simp: keygen_simps group_bits_masked Let_def split: sum.splits option.splits list.splits if_splits prod.splits)
  qed
qed

text \<open>With both outputs at one path the public keys replace the private key that was just written.\<close>

lemma keygen_same_path_loses_key:
  assumes "keygen shown to_pem cfg fresh args fs = (fs', Inr printed)" and "arg_public_out args = Some (arg_private_out args)"
    and "arg_private_out args \<noteq> []"
  shows "\<exists>jwks. map_option file_text (fs_files fs' (arg_private_out args)) = Some (keygen_jwks shown jwks @ [CHR 0x0A])"
  using assms
  by (cases "arg_private_out args")
     (auto simp: keygen_def write_private_def write_public_def put_file_def Let_def
       split: sum.splits prod.splits if_splits)

text \<open>A private key is left without its public keys when the additional keys cannot be read.\<close>

lemma keygen_leaves_private_key:
  assumes "fs_files fs (arg_private_out args) = None" and "fs_writable fs (arg_private_out args)"
    and "generate_signing_key fresh (arg_alg args) (arg_kid args) = Inr key" and "build_jwks cfg (Some key) = Inl e"
  shows "\<exists>fs'. keygen shown to_pem cfg fresh args fs = (fs', Inl (KeygenSigning e)) \<and> fs_files fs' (arg_private_out args) \<noteq> None"
  using assms by (auto simp: keygen_simps)

section \<open>A concrete run\<close>

definition example_keygen :: "file_system \<Rightarrow> file_system \<times> (keygen_error + string)" where
  "example_keygen = keygen (\<lambda>f. []) (\<lambda>k. ''pem'') example_signing_config (2 :: byte)
     \<lparr>arg_alg = alg_ed25519, arg_kid = ''k0'', arg_private_out = ''a'', arg_public_out = Some ''b''\<rparr>"

definition empty_disk :: file_system where
  "empty_disk = \<lparr>fs_files = (\<lambda>p. None), fs_writable = (\<lambda>p. True), fs_umask = 18\<rparr>"

lemma keygen_keeps_keys_witness:
  "\<exists>fs'. example_keygen empty_disk = (fs', Inr []) \<and>
     map_option file_text (fs_files fs' ''a'') = Some ''pem'' \<and> (\<exists>e. example_keygen fs' = (fs', Inl e))"
proof -
  obtain jwks where jwks: "build_jwks example_signing_config (Some example_signing_key) = Inr jwks"
    using example_published by (cases "build_jwks example_signing_config (Some example_signing_key)") (simp_all add: kids_published_def)
  have "generate_signing_key 2 alg_ed25519 ''k0'' = Inr example_signing_key"
    by (simp add: generate_signing_key_def example_signing_key_def)
  with jwks obtain fs' where run: "example_keygen empty_disk = (fs', Inr [])"
    by (auto simp: example_keygen_def empty_disk_def keygen_def write_private_def write_public_def put_file_def Let_def)
  from keygen_keeps_keys [OF run [unfolded example_keygen_def], THEN conjunct2, THEN conjunct1]
  have key: "map_option file_text (fs_files fs' ''a'') = Some ''pem''" by auto
  obtain fs'' r where again: "example_keygen fs' = (fs'', r)" by (metis surj_pair)
  from keygen_keeps_keys [OF again [unfolded example_keygen_def], THEN conjunct1] key have "fs'' = fs' \<and> (\<exists>e. r = Inl e)" by auto
  with run key again show ?thesis by blast
qed

end
