(* ===== verification/Publishers.thy ===== *)
theory Publishers
  imports Base64
begin

text \<open>
  \<open>src/api/publishers.py\<close> with the table of \<open>src/models/publisher.py\<close>: publishers register a domain and
  get a site id.  The table is the list of its rows; its primary key and its two unique columns
  refuse a row that shares one of them (\<open>IntegrityError\<close>).  \<open>broken\<close> says that the database raises
  anything else.
\<close>

section \<open>The code\<close>

record publisher =
  pub_id :: string
  pub_site_id :: string
  pub_name :: string
  pub_domain :: string
  pub_email :: "string option"
  pub_status :: string
  pub_created_at :: int

record publisher_request =
  pr_name :: string
  pr_domain :: string
  pr_email :: "string option"

datatype publisher_failure = PublisherError int string

text \<open>\<open>secrets.token_urlsafe(8)\<close>: the unpadded URL-safe text of eight random bytes.\<close>

definition generate_id :: "string \<Rightarrow> byte list \<Rightarrow> string" where
  "generate_id prefix random = prefix @ ''_'' @ b64url random"

definition normalized_domain :: "string \<Rightarrow> string" where
  "normalized_domain domain = remove_prefix (strip (lower domain)) ''www.''"

definition attribute :: "string \<Rightarrow> string \<Rightarrow> string" where
  "attribute name v = name @ ''='' @ CHR 0x22 # v @ [CHR 0x22]"

definition snippet :: "string \<Rightarrow> string" where
  "snippet site_id = ''<script '' @ attribute ''src'' ''https://static.nexflo.ai/prebid-wrapper.js'' @ '' '' @
     attribute ''data-site-id'' site_id @ '' async></script>''"

record publisher_response =
  resp_publisher :: publisher
  resp_created_at :: string
  resp_snippet :: string

definition to_response :: "(int \<Rightarrow> string) \<Rightarrow> publisher \<Rightarrow> publisher_response" where
  "to_response isoformat pub =
     \<lparr>resp_publisher = pub, resp_created_at = isoformat (pub_created_at pub), resp_snippet = snippet (pub_site_id pub)\<rparr>"

definition new_publisher :: "byte list \<Rightarrow> byte list \<Rightarrow> int \<Rightarrow> publisher_request \<Rightarrow> publisher" where
  "new_publisher r1 r2 now req =
     \<lparr>pub_id = generate_id ''pub'' r1, pub_site_id = generate_id ''site'' r2, pub_name = pr_name req,
      pub_domain = normalized_domain (pr_domain req), pub_email = pr_email req, pub_status = ''active'',
      pub_created_at = now\<rparr>"

definition shares_key :: "publisher \<Rightarrow> publisher \<Rightarrow> bool" where
  "shares_key p q \<longleftrightarrow> pub_id p = pub_id q \<or> pub_site_id p = pub_site_id q \<or> pub_domain p = pub_domain q"

definition by_domain :: "string \<Rightarrow> publisher list \<Rightarrow> publisher option" where
  "by_domain domain rows = List.find (\<lambda>p. pub_domain p = domain) rows"

definition register_publisher ::
  "(int \<Rightarrow> string) \<Rightarrow> bool \<Rightarrow> byte list \<Rightarrow> byte list \<Rightarrow> int \<Rightarrow> publisher_request \<Rightarrow> publisher list \<Rightarrow>
     (publisher_failure + publisher_response) \<times> publisher list" where
  "register_publisher isoformat broken r1 r2 now req rows =
     (let pub = new_publisher r1 r2 now req
      in if broken then (Inl (PublisherError 500 ''Registration failed''), rows)
         else if list_ex (shares_key pub) rows then
           (case by_domain (pub_domain pub) rows of
              Some existing \<Rightarrow> (Inr (to_response isoformat existing), rows)
            | None \<Rightarrow> (Inl (PublisherError 409 ''Domain already registered''), rows))
         else (Inr (to_response isoformat pub), rows @ [pub]))"

definition found_publisher :: "(int \<Rightarrow> string) \<Rightarrow> publisher option \<Rightarrow> publisher_failure + publisher_response" where
  "found_publisher isoformat found =
     (case found of Some p \<Rightarrow> Inr (to_response isoformat p) | None \<Rightarrow> Inl (PublisherError 404 ''Publisher not found''))"

definition get_publisher :: "(int \<Rightarrow> string) \<Rightarrow> string \<Rightarrow> publisher list \<Rightarrow> publisher_failure + publisher_response" where
  "get_publisher isoformat site_id rows = found_publisher isoformat (List.find (\<lambda>p. pub_site_id p = site_id) rows)"

definition get_publisher_by_domain :: "(int \<Rightarrow> string) \<Rightarrow> string \<Rightarrow> publisher list \<Rightarrow> publisher_failure + publisher_response" where
  "get_publisher_by_domain isoformat domain rows = found_publisher isoformat (by_domain (normalized_domain domain) rows)"

section \<open>Registration\<close>

definition keys_differ :: "publisher list \<Rightarrow> bool" where
  "keys_differ rows \<longleftrightarrow> distinct (map pub_id rows) \<and> distinct (map pub_site_id rows) \<and> distinct (map pub_domain rows)"

lemma find_distinct:
  "distinct (map f xs) \<Longrightarrow> x \<in> set xs \<Longrightarrow> List.find (\<lambda>y. f y = f x) xs = Some x"
  by (induction xs) auto

lemma find_memberD: "List.find P xs = Some x \<Longrightarrow> x \<in> set xs \<and> P x"
  by (auto simp: find_Some_iff)

text \<open>
  A registration that succeeds gives a publisher who can be found by the site id it was given and by
  the domain it registered, and registering the domain again, under whatever name, gives the same
  publisher and changes nothing.  No two rows ever share an id, a site id or a domain, and no row is changed.
\<close>

theorem registration_sticks:
  assumes "register_publisher isoformat broken r1 r2 now req rows = (Inr resp, rows')" and "keys_differ rows"
  shows "keys_differ rows' \<and> (rows' = rows \<or> (\<exists>p. rows' = rows @ [p])) \<and>
    get_publisher isoformat (pub_site_id (resp_publisher resp)) rows' = Inr resp \<and>
    get_publisher_by_domain isoformat (pr_domain req) rows' = Inr resp \<and>
    register_publisher isoformat False r3 r4 later (req\<lparr>pr_name := other, pr_email := mail\<rparr>) rows' = (Inr resp, rows')"
proof -
  define pub where "pub = new_publisher r1 r2 now req"
  have dom: "pub_domain pub = normalized_domain (pr_domain req)" by (simp add: pub_def new_publisher_def)
  obtain p where p: "p \<in> set rows'" "resp = to_response isoformat p" "pub_domain p = pub_domain pub"
    and keys: "keys_differ rows'" and grown: "rows' = rows \<or> (\<exists>p. rows' = rows @ [p])"
  proof (cases "list_ex (shares_key pub) rows")
    case True
    with assms(1) obtain existing where "by_domain (pub_domain pub) rows = Some existing" "resp = to_response isoformat existing" "rows' = rows"
      by (auto simp: register_publisher_def Let_def pub_def split: if_splits option.splits)
    with that [of existing] assms(2) show ?thesis by (auto simp: by_domain_def dest!: find_memberD)
  next
    case False
    with assms(1) have new: "resp = to_response isoformat pub" "rows' = rows @ [pub]"
      by (auto simp: register_publisher_def Let_def pub_def split: if_splits)
    have "keys_differ (rows @ [pub])"
      using False assms(2) by (fastforce simp: keys_differ_def list_ex_iff shares_key_def)
    with new that [of pub] show ?thesis by simp
  qed
  have site: "List.find (\<lambda>q. pub_site_id q = pub_site_id p) rows' = Some p"
    using keys p(1) by (intro find_distinct) (simp_all add: keys_differ_def)
  have domain: "by_domain (pub_domain pub) rows' = Some p"
    using keys p(1) find_distinct [of pub_domain rows' p] by (simp add: by_domain_def keys_differ_def p(3))
  let ?again = "new_publisher r3 r4 later (req\<lparr>pr_name := other, pr_email := mail\<rparr>)"
  have same: "pub_domain ?again = pub_domain pub" by (simp add: new_publisher_def dom)
  then have "list_ex (shares_key ?again) rows'" using p(1,3) unfolding list_ex_iff shares_key_def by metis
  then have "register_publisher isoformat False r3 r4 later (req\<lparr>pr_name := other, pr_email := mail\<rparr>) rows' = (Inr resp, rows')"
    using domain p(2) unfolding register_publisher_def Let_def same by simp
  with keys grown site domain p(2) show ?thesis
    by (simp add: get_publisher_def get_publisher_by_domain_def found_publisher_def to_response_def dom)
qed

text \<open>The domain a publisher is stored under need not be one it is found by.\<close>

lemma stored_domain_not_found:
  "(case register_publisher isoformat False [1] [2] now \<lparr>pr_name = ''n'', pr_domain = ''www.www.a'', pr_email = None\<rparr> [] of
      (Inr resp, rows) \<Rightarrow> get_publisher_by_domain isoformat (pub_domain (resp_publisher resp)) rows =
        Inl (PublisherError 404 ''Publisher not found'')
    | (Inl e, rows) \<Rightarrow> False)"
proof -
  have "normalized_domain ''www.www.a'' = ''www.a''" "normalized_domain ''www.a'' = ''a''" by code_simp+
  then show ?thesis
    by (simp add: register_publisher_def new_publisher_def to_response_def get_publisher_by_domain_def found_publisher_def by_domain_def Let_def)
qed

text \<open>Different random bytes give different ids.\<close>

lemma generate_id_inject: "generate_id prefix r1 = generate_id prefix r2 \<longleftrightarrow> r1 = r2"
proof
  assume "generate_id prefix r1 = generate_id prefix r2"
  then have "b64url_decode (b64url r1) = b64url_decode (b64url r2)" by (simp add: generate_id_def)
  then show "r1 = r2" by (simp add: b64url_decoded)
qed simp

section \<open>A concrete registration\<close>

definition example_publisher_request :: publisher_request where
  "example_publisher_request = \<lparr>pr_name = ''News'', pr_domain = '' WWW.News.example'', pr_email = None\<rparr>"

lemma registration_sticks_witness:
  "\<exists>resp rows'. register_publisher (\<lambda>t. []) False [1] [2] 0 example_publisher_request [] = (Inr resp, rows') \<and>
     get_publisher_by_domain (\<lambda>t. []) '' WWW.News.example'' rows' = Inr resp"
proof -
  obtain resp rows' where run: "register_publisher (\<lambda>t. []) False [1] [2] 0 example_publisher_request [] = (Inr resp, rows')"
    by (simp add: register_publisher_def Let_def)
  have "keys_differ []" by (simp add: keys_differ_def)
  from registration_sticks [OF run this] run show ?thesis by (auto simp: example_publisher_request_def)
qed

end
