(* ===== verification/Progress.thy ===== *)
theory Progress
  imports Circuit_Breaker Poller
begin

text \<open>
  What eventually happens: a breaker admits a seller that has recovered, and an operation that stays
  pending is polled again and again.  Runs are infinite sequences of calls and ticks.
\<close>

section \<open>A seller that recovers\<close>

text \<open>One call: it asks the breaker at a time and, when admitted, reports its outcome at another.\<close>

definition serve :: "rat \<Rightarrow> rat \<Rightarrow> bool \<Rightarrow> breaker \<Rightarrow> bool \<times> breaker" where
  "serve asked reported ok b =
     (case allow_request asked b of
        (False, b') \<Rightarrow> (False, b')
      | (True, b') \<Rightarrow> (True, if ok then record_success b' else record_failure reported b'))"

primrec serving :: "(nat \<Rightarrow> rat) \<Rightarrow> (nat \<Rightarrow> rat) \<Rightarrow> (nat \<Rightarrow> bool) \<Rightarrow> breaker \<Rightarrow> nat \<Rightarrow> breaker" where
  "serving asked reported ok b 0 = b"
| "serving asked reported ok b (Suc n) = snd (serve (asked n) (reported n) (ok n) (serving asked reported ok b n))"

lemma record_flags [simp]:
  "\<not> half_open_in_flight (record_success b)" "\<not> half_open_in_flight (record_failure t b)"
  "cb_state (record_success b) = CLOSED"
  by (simp_all add: record_success_def record_failure_def update_gauge_def Let_def)

lemma serve_settles: "\<not> half_open_in_flight b \<Longrightarrow> \<not> half_open_in_flight (snd (serve t t' ok b))"
  by (auto simp: serve_def allow_request_def read_state_def Let_def split: circuit_state.splits prod.splits)

lemma serving_settled: "\<not> half_open_in_flight b \<Longrightarrow> \<not> half_open_in_flight (serving asked reported ok b n)"
  by (induction n) (simp_all add: serve_settles)

lemma refused_unchanged:
  "\<not> half_open_in_flight b \<Longrightarrow> \<not> fst (serve t t' ok b) \<Longrightarrow>
     snd (serve t t' ok b) = b \<and> t < last_failure_time b + recovery_timeout b"
  by (auto simp: serve_def allow_request_def read_state_def Let_def not_le algebra_simps
      split: circuit_state.splits prod.splits if_splits)

lemma admitted_closes: "fst (serve t t' True b) \<Longrightarrow> cb_state (snd (serve t t' True b)) = CLOSED"
  by (auto simp: serve_def split: prod.splits bool.splits)

lemma closed_admits: "cb_state b = CLOSED \<Longrightarrow> fst (serve t t' ok b)"
  by (auto simp: serve_def allow_request_def read_state_def)



section \<open>An operation that stays pending\<close>

primrec polling ::
  "(json \<Rightarrow> string) \<Rightarrow> (nat \<Rightarrow> int) \<Rightarrow> (nat \<Rightarrow> seller_agent list) \<Rightarrow> (nat \<Rightarrow> string \<Rightarrow> rat \<times> dict option) \<Rightarrow>
     poller_state \<Rightarrow> nat \<Rightarrow> poller_state" where
  "polling shown wall sellers env st 0 = st"
| "polling shown wall sellers env st (Suc n) = poll_tick shown (wall n) (sellers n) (env n) (polling shown wall sellers env st n)"

text \<open>What an operation needs to be polled: it is due, it has a remote task, and its seller is known.\<close>

definition to_poll :: "seller_agent list \<Rightarrow> rat \<Rightarrow> string \<Rightarrow> poller_state \<Rightarrow> bool" where
  "to_poll sellers now oid st \<longleftrightarrow>
     (\<exists>p. get_operation oid (tracker st) = Some p \<and> truthy (op_task_id p) \<and> due now p (poll_timestamps st) \<and>
        find_seller sellers p \<noteq> None)"

lemma poll_one_cases:
  "(if to_poll sellers (fst (env oid)) oid st then polled (poll_one shown wall sellers env oid st) = polled st @ [(oid, fst (env oid))]
    else poll_one shown wall sellers env oid st = st)"
  by (cases "env oid") (auto simp: to_poll_def poll_one_def Let_def split: option.splits)

lemma due_cong: "map_of stamps (op_id p) = map_of stamps' (op_id p) \<Longrightarrow> due now p stamps = due now p stamps'"
  by (simp only: due_def)

lemma to_poll_frame:
  assumes "keyed_by_id (operations (tracker st))" and "k \<noteq> oid"
  shows "to_poll sellers now k (poll_one shown wall sellers' env oid st) = to_poll sellers now k st"
proof -
  let ?st = "poll_one shown wall sellers' env oid st"
  have "op_id p = k" if "get_operation k (tracker st) = Some p" for p
    using that assms(1) by (simp add: get_operation_def keyed_by_id_lookup)
  moreover have "get_operation k (tracker ?st) = get_operation k (tracker st)"
    "map_of (poll_timestamps ?st) k = map_of (poll_timestamps st) k"
    using poll_one_frame(2,3) [OF assms(1), of ?st shown wall sellers' env oid k] assms(2) by simp_all
  ultimately show ?thesis unfolding to_poll_def by (metis due_cong)
qed

text \<open>A tick polls exactly the operations that need it; the others keep their last poll.\<close>

lemma poll_fold_exact:
  assumes "keyed_by_id (operations (tracker st))" and "distinct ids"
  shows "\<exists>new. polled (fold (poll_one shown wall sellers env) ids st) = polled st @ new \<and>
    (oid \<in> fst ` set new \<longleftrightarrow> oid \<in> set ids \<and> to_poll sellers (fst (env oid)) oid st) \<and>
    (oid \<in> fst ` set new \<or>
       map_of (poll_timestamps (fold (poll_one shown wall sellers env) ids st)) oid = map_of (poll_timestamps st) oid)"
  using assms
proof (induction ids arbitrary: st)
  case (Cons i ids)
  let ?st = "poll_one shown wall sellers env i st"
  note frame = poll_one_frame [OF Cons.prems(1), of ?st shown wall sellers env i, OF refl]
  from Cons.IH [OF frame(1)] Cons.prems(2) obtain new where
    new: "polled (fold (poll_one shown wall sellers env) ids ?st) = polled ?st @ new"
      "oid \<in> fst ` set new \<longleftrightarrow> oid \<in> set ids \<and> to_poll sellers (fst (env oid)) oid ?st"
      "oid \<in> fst ` set new \<or>
         map_of (poll_timestamps (fold (poll_one shown wall sellers env) ids ?st)) oid = map_of (poll_timestamps ?st) oid" by auto
  show ?case
  proof (cases "to_poll sellers (fst (env i)) i st")
    case True
    with poll_one_cases [of sellers env i st shown wall] have "polled ?st = polled st @ [(i, fst (env i))]" by simp
    then have grown: "polled (fold (poll_one shown wall sellers env) (i # ids) st) = polled st @ (i, fst (env i)) # new"
      using new(1) by simp
    show ?thesis
    proof (cases "oid = i")
      case False
      with to_poll_frame [OF Cons.prems(1) False, of sellers "fst (env oid)" shown wall sellers env] frame(3) [OF False] new(2,3) grown
      show ?thesis by (intro exI [of _ "(i, fst (env i)) # new"]) simp
    qed (use True grown in \<open>intro exI [of _ "(i, fst (env i)) # new"], simp\<close>)
  next
    case False
    with poll_one_cases [of sellers env i st shown wall] have same: "?st = st" by simp
    with new Cons.prems(2) False show ?thesis by (intro exI [of _ new]) auto
  qed
qed simp

lemma fold_keyed:
  "keyed_by_id (operations (tracker st)) \<Longrightarrow>
     keyed_by_id (operations (tracker (fold (poll_one shown wall sellers env) ids st)))"
  by (induction ids arbitrary: st) (simp_all add: poll_one_frame(1))

lemma polling_keyed:
  "keyed_by_id (operations (tracker st)) \<Longrightarrow> keyed_by_id (operations (tracker (polling shown wall sellers env st n)))"
  by (induction n) (simp_all add: poll_tick_def fold_keyed)

text \<open>The operations contacted in the \<open>n\<close>-th tick.\<close>

definition contacted ::
  "(json \<Rightarrow> string) \<Rightarrow> (nat \<Rightarrow> int) \<Rightarrow> (nat \<Rightarrow> seller_agent list) \<Rightarrow> (nat \<Rightarrow> string \<Rightarrow> rat \<times> dict option) \<Rightarrow>
     poller_state \<Rightarrow> nat \<Rightarrow> (string \<times> rat) list" where
  "contacted shown wall sellers env st n =
     drop (length (polled (polling shown wall sellers env st n))) (polled (polling shown wall sellers env st (Suc n)))"

text \<open>A submitted or working operation with a remote task and a known seller.\<close>

definition followed :: "seller_agent list \<Rightarrow> string \<Rightarrow> poller_state \<Rightarrow> bool" where
  "followed sellers oid st \<longleftrightarrow>
     (\<exists>p. get_operation oid (tracker st) = Some p \<and> op_status p \<in> {SUBMITTED, WORKING} \<and> truthy (op_task_id p) \<and>
        find_seller sellers p \<noteq> None)"

lemma tick_contacts:
  assumes "keyed_by_id (operations (tracker st))" and "followed (sellers n) oid (polling shown wall sellers env st n)"
  shows "(oid \<in> fst ` set (contacted shown wall sellers env st n) \<longleftrightarrow>
      to_poll (sellers n) (fst (env n oid)) oid (polling shown wall sellers env st n)) \<and>
    (oid \<in> fst ` set (contacted shown wall sellers env st n) \<or>
      map_of (poll_timestamps (polling shown wall sellers env st (Suc n))) oid =
      map_of (poll_timestamps (polling shown wall sellers env st n)) oid)"
proof -
  let ?st = "polling shown wall sellers env st n"
  have keyed: "keyed_by_id (operations (tracker ?st))" by (rule polling_keyed [OF assms(1)])
  from assms(2) obtain p where "get_operation oid (tracker ?st) = Some p" "op_status p \<in> {SUBMITTED, WORKING}"
    by (auto simp: followed_def)
  moreover from this have "op_id p = oid" using keyed_by_id_lookup [OF keyed] unfolding get_operation_def by blast
  moreover from calculation have "p \<in> set (get_pending (tracker ?st))"
    by (force simp: get_pending_def get_operation_def dest: map_of_SomeD)
  ultimately have "oid \<in> set (map op_id (get_pending (tracker ?st)))" by auto
  with poll_fold_exact [OF keyed pending_ids [OF keyed], of shown "wall n" "sellers n" "env n" oid]
  show ?thesis by (auto simp: contacted_def poll_tick_def)
qed


text \<open>A seller whose calls fail, asked every hundred seconds.\<close>

lemma failing_polls:
  "tracker (polling (\<lambda>x. []) (\<lambda>n. 0) (\<lambda>n. ss) (\<lambda>n oid. (of_nat (100 * n), None)) st n) = tracker st"
proof -
  have one: "tracker (poll_one shown wall sellers (\<lambda>oid. (t, None)) i s) = tracker s" for shown wall sellers t i s
    by (auto simp: poll_one_def poll_single_def Let_def split: option.split)
  have "tracker (fold (poll_one shown wall sellers (\<lambda>oid. (t, None))) ids s) = tracker s" for shown wall sellers t ids s
    by (induction ids arbitrary: s) (simp_all add: one)
  then show ?thesis by (induction n) (simp_all add: poll_tick_def)
qed


end
