(* ===== verification/Product_Ranking.thy ===== *)
theory Product_Ranking
  imports Orchestrator "HOL-Library.Multiset"
begin

text \<open>\<open>rank_products\<close> is a stable sort by price, with the products without a price last.\<close>

section \<open>Ranking\<close>

text \<open>Prices in order: numbers as numbers, texts as texts.\<close>

definition no_dearer :: "seller_product \<Rightarrow> seller_product \<Rightarrow> bool" where
  "no_dearer p q \<longleftrightarrow>
     (case (numeric (sp_price_cpm p), numeric (sp_price_cpm q)) of
        (Some x, Some y) \<Rightarrow> x \<le> y
      | _ \<Rightarrow> is_str (sp_price_cpm p) \<and> is_str (sp_price_cpm q) \<and> str_of (sp_price_cpm p) \<le> str_of (sp_price_cpm q))"

lemma sort_key_filter_le:
  fixes f :: "'a \<Rightarrow> 'k :: linorder"
  assumes "\<And>x y. x \<in> set xs \<Longrightarrow> y \<in> set xs \<Longrightarrow> P x \<Longrightarrow> P y \<Longrightarrow> f x \<le> f y \<Longrightarrow> R x y"
  shows "sorted_wrt R (filter P (sort_key f xs))"
proof -
  have "sorted_wrt (\<lambda>x y. f x \<le> f y) (sort_key f xs)" using sorted_sort_key [of f xs] by (simp add: sorted_map)
  then have "sorted_wrt (\<lambda>x y. f x \<le> f y) (filter P (sort_key f xs))" by (rule sorted_wrt_filter)
  then show ?thesis by (rule sorted_wrt_mono_rel [rotated]) (auto intro: assms)
qed

lemma sort_key_same:
  assumes "\<And>x. Q x \<Longrightarrow> f x = k"
  shows "filter Q (sort_key f xs) = filter Q xs"
proof -
  have "filter Q ys = filter Q (filter (\<lambda>x. f x = k) ys)" for ys using assms by (induction ys) auto
  then show ?thesis by (metis sort_key_stable)
qed

lemma sort_key_split:
  fixes f :: "'a \<Rightarrow> nat \<times> 'k :: linorder"
  assumes "\<And>x. P x \<Longrightarrow> fst (f x) = 0" and "\<And>x. \<not> P x \<Longrightarrow> f x = (1, k)"
  shows "sort_key f xs = filter P (sort_key f xs) @ filter (\<lambda>x. \<not> P x) xs"
proof -
  have unpriced: "filter (\<lambda>x. \<not> P x) (sort_key f xs) = filter (\<lambda>x. \<not> P x) xs"
    by (rule sort_key_same) (rule assms(2))
  have split: "sorted_wrt (\<lambda>x y. f x \<le> f y) ys \<Longrightarrow> ys = filter P ys @ filter (\<lambda>x. \<not> P x) ys" for ys
  proof (induction ys)
    case (Cons y ys)
    show ?case
    proof (cases "P y")
      case False
      have "\<not> P x" if "x \<in> set ys" for x
      proof
        assume "P x"
        with that Cons.prems assms(1) [of x] assms(2) [OF False] show False by (auto simp: less_eq_prod_def)
      qed
      then show ?thesis using False by (simp add: filter_id_conv filter_empty_conv)
    qed (use Cons in simp)
  qed simp
  have "sort_key f xs = filter P (sort_key f xs) @ filter (\<lambda>x. \<not> P x) (sort_key f xs)"
    using sorted_sort_key [of f xs] by (intro split) (simp add: sorted_map)
  then show ?thesis unfolding unpriced .
qed

lemma number_sorted:
  "mset (sort_key number_key ps) = mset ps \<and>
   sort_key number_key ps = filter has_price (sort_key number_key ps) @ filter (\<lambda>p. \<not> has_price p) ps \<and>
   (\<forall>v. filter (\<lambda>p. sp_price_cpm p = v) (sort_key number_key ps) = filter (\<lambda>p. sp_price_cpm p = v) ps)"
proof (intro conjI allI)
  show "sort_key number_key ps = filter has_price (sort_key number_key ps) @ filter (\<lambda>p. \<not> has_price p) ps"
    by (rule sort_key_split [where k = 999]) (simp_all add: number_key_def)
  show "filter (\<lambda>p. sp_price_cpm p = v) (sort_key number_key ps) = filter (\<lambda>p. sp_price_cpm p = v) ps" for v
    by (rule sort_key_same [where k = "if v \<noteq> JNull then (0, case numeric v of Some q \<Rightarrow> q | None \<Rightarrow> 0) else (1, 999)"])
       (simp add: number_key_def has_price_def)
qed simp

lemma text_sorted:
  "mset (sort_key text_key ps) = mset ps \<and>
   sort_key text_key ps = filter has_price (sort_key text_key ps) @ filter (\<lambda>p. \<not> has_price p) ps \<and>
   (\<forall>v. filter (\<lambda>p. sp_price_cpm p = v) (sort_key text_key ps) = filter (\<lambda>p. sp_price_cpm p = v) ps)"
proof (intro conjI allI)
  show "sort_key text_key ps = filter has_price (sort_key text_key ps) @ filter (\<lambda>p. \<not> has_price p) ps"
    by (rule sort_key_split [where k = "[]"]) (simp_all add: text_key_def)
  show "filter (\<lambda>p. sp_price_cpm p = v) (sort_key text_key ps) = filter (\<lambda>p. sp_price_cpm p = v) ps" for v
    by (rule sort_key_same [where k = "if v \<noteq> JNull then (0, str_of v) else (1, [])"])
       (simp add: text_key_def has_price_def)
qed simp

lemma short_sorted: "length (filter P xs) \<le> 1 \<Longrightarrow> mset ys = mset xs \<Longrightarrow> sorted_wrt R (filter P ys)"
proof -
  assume "length (filter P xs) \<le> 1" "mset ys = mset xs"
  then have "length (filter P ys) \<le> 1" by (metis mset_filter size_mset)
  then show ?thesis by (cases "filter P ys") auto
qed

lemma numeric_not_text: "is_str v \<Longrightarrow> numeric v = None"
  by (cases v) auto

text \<open>
  Ranking loses and invents nothing: the products with a price come first, none before a cheaper
  one, those of the same price in the order given, then the others in the order given.  It raises
  exactly when there are two prices that cannot be compared.
\<close>

theorem ranked_cheapest_first:
  assumes "list_all plain_price (filter has_price ps)"
  shows "case rank_products unusual ps of
     Inr qs \<Rightarrow> mset qs = mset ps \<and> qs = filter has_price qs @ filter (\<lambda>p. \<not> has_price p) ps \<and>
       sorted_wrt no_dearer (filter has_price qs) \<and>
       (\<forall>v. filter (\<lambda>p. sp_price_cpm p = v) qs = filter (\<lambda>p. sp_price_cpm p = v) ps)
   | Inl e \<Rightarrow> e = TypeError \<and>
       (\<exists>p q. {p, q} \<subseteq> set ps \<and> has_price p \<and> has_price q \<and> \<not> no_dearer p q \<and> \<not> no_dearer q p)"
proof -
  let ?priced = "filter has_price ps"
  consider (short) "length ?priced \<le> 1" | (numbers) "list_all (\<lambda>p. numeric (sp_price_cpm p) \<noteq> None) ?priced"
    | (texts) "\<not> length ?priced \<le> 1" "\<not> list_all (\<lambda>p. numeric (sp_price_cpm p) \<noteq> None) ?priced"
        "list_all (\<lambda>p. is_str (sp_price_cpm p)) ?priced"
    | (mixed) "\<not> length ?priced \<le> 1" "\<not> list_all (\<lambda>p. numeric (sp_price_cpm p) \<noteq> None) ?priced"
        "\<not> list_all (\<lambda>p. is_str (sp_price_cpm p)) ?priced" by blast
  then show ?thesis
  proof cases
    case short
    then show ?thesis using number_sorted [of ps] short_sorted [OF short] by (simp add: rank_products_def)
  next
    case numbers
    have "no_dearer x y" if xy: "x \<in> set ps" "y \<in> set ps" "has_price x" "has_price y" "number_key x \<le> number_key y" for x y
    proof -
      have "numeric (sp_price_cpm x) \<noteq> None" "numeric (sp_price_cpm y) \<noteq> None"
        using numbers xy by (simp_all add: list_all_iff)
      then obtain a b where "numeric (sp_price_cpm x) = Some a" "numeric (sp_price_cpm y) = Some b" by blast
      with xy show ?thesis by (simp add: number_key_def no_dearer_def)
    qed
    then have "sorted_wrt no_dearer (filter has_price (sort_key number_key ps))" by (intro sort_key_filter_le)
    then show ?thesis using number_sorted [of ps] numbers by (simp add: rank_products_def)
  next
    case texts
    then have "sorted_wrt no_dearer (filter has_price (sort_key text_key ps))"
      by (intro sort_key_filter_le) (auto simp: list_all_iff text_key_def no_dearer_def numeric_not_text)
    then show ?thesis using text_sorted [of ps] texts by (simp add: rank_products_def)
  next
    case mixed
    then obtain p q where "p \<in> set ps" "has_price p" "numeric (sp_price_cpm p) = None"
      "q \<in> set ps" "has_price q" "\<not> is_str (sp_price_cpm q)" by (auto simp: list_all_iff)
    then have "{p, q} \<subseteq> set ps \<and> has_price p \<and> has_price q \<and> \<not> no_dearer p q \<and> \<not> no_dearer q p"
      by (auto simp: no_dearer_def split: option.split)
    then show ?thesis using mixed assms by (auto simp: rank_products_def)
  qed
qed

definition priced_at :: "json \<Rightarrow> seller_product" where
  "priced_at v =
     \<lparr>sp_seller = new_agent [] [], sp_product_id = JStr [], sp_name = JStr [], sp_description = JStr [], sp_price_cpm = v,
      sp_channels = JArr [], sp_formats = [], sp_format_ids = JArr [], sp_pricing_option_id = JNull, sp_raw = []\<rparr>"

lemma ranked_cheapest_first_witness:
  "rank_products Inr (map priced_at [JNull, JInt 7, JFloat (Fin (5/2))]) = Inr (map priced_at [JFloat (Fin (5/2)), JInt 7, JNull]) \<and>
   sorted_wrt no_dearer (map priced_at [JFloat (Fin (5/2)), JInt 7])"
proof -
  have plain: "list_all plain_price (filter has_price (map priced_at [JNull, JInt 7, JFloat (Fin (5/2))]))"
    by (simp add: plain_price_def has_price_def priced_at_def)
  have ranked: "rank_products Inr (map priced_at [JNull, JInt 7, JFloat (Fin (5/2))]) = Inr (map priced_at [JFloat (Fin (5/2)), JInt 7, JNull])"
    by code_simp
  show ?thesis
    using ranked_cheapest_first [OF plain, of Inr] ranked by (simp add: has_price_def priced_at_def)
qed

end
