(* ===== verification/Request_Models.thy ===== *)
theory Request_Models
  imports Http_Api
begin

text \<open>
  The request models of \<open>src/api/routes.py\<close> in front of its endpoints.  A model is the list of its fields,
  each with a type, a default unless it is required, and a bound; \<open>convert\<close> is what pydantic makes of a
  value for a type.  FastAPI answers 422 with the offending fields before the endpoint runs.
\<close>

section \<open>Fields\<close>

datatype field_type = PyStr | PyBool | PyInt | PyFloat | PyDict | ListOf field_type | Nullable field_type | StrOrDict

record request_field =
  rf_name :: string
  rf_type :: field_type
  rf_default :: "json option"
  rf_above :: "rat option"

type_synonym converter = "field_type \<Rightarrow> json \<Rightarrow> json option"

definition required :: "string \<Rightarrow> field_type \<Rightarrow> request_field" where
  "required name typ = \<lparr>rf_name = name, rf_type = typ, rf_default = None, rf_above = None\<rparr>"

definition defaulted :: "string \<Rightarrow> field_type \<Rightarrow> json \<Rightarrow> request_field" where
  "defaulted name typ v = \<lparr>rf_name = name, rf_type = typ, rf_default = Some v, rf_above = None\<rparr>"

abbreviation nullable :: "string \<Rightarrow> field_type \<Rightarrow> request_field" where
  "nullable name typ \<equiv> defaulted name (Nullable typ) JNull"

text \<open>What a converted value is.\<close>

fun has_type :: "field_type \<Rightarrow> json \<Rightarrow> bool" where
  "has_type PyStr v \<longleftrightarrow> is_str v"
| "has_type PyBool v \<longleftrightarrow> (case v of JBool b \<Rightarrow> True | _ \<Rightarrow> False)"
| "has_type PyInt v \<longleftrightarrow> (case v of JInt i \<Rightarrow> True | _ \<Rightarrow> False)"
| "has_type PyFloat v \<longleftrightarrow> (case v of JFloat f \<Rightarrow> True | _ \<Rightarrow> False)"
| "has_type PyDict v \<longleftrightarrow> is_obj v"
| "has_type (ListOf t) v \<longleftrightarrow> (case v of JArr vs \<Rightarrow> list_all (has_type t) vs | _ \<Rightarrow> False)"
| "has_type (Nullable t) v \<longleftrightarrow> v = JNull \<or> has_type t v"
| "has_type StrOrDict v \<longleftrightarrow> is_str v \<or> is_obj v"

text \<open>\<open>gt\<close>; infinity is above every number, and NaN above none.\<close>

definition above :: "rat option \<Rightarrow> json \<Rightarrow> bool" where
  "above bound v =
     (case bound of
        None \<Rightarrow> True
      | Some b \<Rightarrow> v = JFloat PosInf \<or> (case numeric v of Some q \<Rightarrow> b < q | None \<Rightarrow> False))"

definition field_value :: "converter \<Rightarrow> dict \<Rightarrow> request_field \<Rightarrow> json option" where
  "field_value convert given f =
     (case map_of given (rf_name f) of
        None \<Rightarrow> rf_default f
      | Some v \<Rightarrow> (case convert (rf_type f) v of Some w \<Rightarrow> if above (rf_above f) w then Some w else None | None \<Rightarrow> None))"

text \<open>The names of the fields that are wrong, or the values of all fields; unknown fields are ignored.\<close>

definition validate_body :: "converter \<Rightarrow> request_field list \<Rightarrow> json option \<Rightarrow> string list + dict" where
  "validate_body convert spec raw_body =
     (case raw_body of
        Some (JObj given) \<Rightarrow>
          (case filter (\<lambda>f. field_value convert given f = None) spec of
             [] \<Rightarrow> Inr (map (\<lambda>f. (rf_name f, the (field_value convert given f))) spec)
           | bad \<Rightarrow> Inl (map rf_name bad))
      | _ \<Rightarrow> Inl [''body''])"

section \<open>The models\<close>

definition product_search_request :: "request_field list" where
  "product_search_request =
     [required ''brief'' PyStr, defaulted ''brand_name'' PyStr (JStr ''Nexflo''),
      defaulted ''brand_url'' PyStr (JStr ''https://nexflo.ai''), nullable ''brand_domain'' PyStr,
      nullable ''brand_id'' PyStr, nullable ''brand_countries'' (ListOf PyStr)]"

definition buy_request_model :: "request_field list" where
  "buy_request_model =
     [required ''brief'' PyStr, (required ''budget'' PyFloat)\<lparr>rf_above := Some 0\<rparr>,
      defaulted ''brand_name'' PyStr (JStr ''Nexflo''), defaulted ''brand_url'' PyStr (JStr ''https://nexflo.ai''),
      nullable ''buyer_ref'' PyStr, nullable ''end_time'' PyStr, defaulted ''product_index'' PyInt (JInt 0),
      nullable ''packages'' (ListOf PyDict), nullable ''targeting'' PyDict, nullable ''pacing'' PyStr,
      nullable ''proposal_id'' PyStr, defaulted ''currency'' PyStr (JStr ''USD''), nullable ''brand_domain'' PyStr,
      nullable ''brand_id'' PyStr, nullable ''brand_countries'' (ListOf PyStr), nullable ''budget_allocation'' PyDict]"

definition provide_input_request :: "request_field list" where
  "provide_input_request = [required ''input_data'' StrOrDict]"

definition update_media_buy_request :: "request_field list" where
  "update_media_buy_request =
     [required ''seller_url'' PyStr, nullable ''media_buy_id'' PyStr, nullable ''buyer_ref'' PyStr,
      nullable ''paused'' PyBool, nullable ''end_time'' PyStr, nullable ''packages'' (ListOf PyDict)]"

definition sync_creatives_request :: "request_field list" where
  "sync_creatives_request =
     [required ''seller_url'' PyStr, nullable ''media_buy_id'' PyStr, required ''creatives'' (ListOf PyDict)]"

definition list_creatives_request :: "request_field list" where
  "list_creatives_request = [required ''seller_url'' PyStr, nullable ''filters'' PyDict]"

definition performance_feedback_request :: "request_field list" where
  "performance_feedback_request =
     [required ''seller_url'' PyStr, required ''media_buy_id'' PyStr, required ''performance_index'' PyFloat,
      required ''measurement_period'' PyDict]"

definition signals_discover_request :: "request_field list" where
  "signals_discover_request = [required ''seller_url'' PyStr, required ''brief'' PyStr, nullable ''platforms'' (ListOf PyDict)]"

definition list_accounts_request :: "request_field list" where
  "list_accounts_request = [required ''seller_url'' PyStr, nullable ''status'' PyStr, nullable ''sandbox'' PyBool]"

definition sync_accounts_request :: "request_field list" where
  "sync_accounts_request =
     [required ''seller_url'' PyStr, nullable ''brand_domain'' PyStr, nullable ''brand_id'' PyStr,
      nullable ''brand_countries'' (ListOf PyStr), nullable ''billing'' PyStr, defaulted ''dry_run'' PyBool (JBool False)]"

definition signal_activate_request :: "request_field list" where
  "signal_activate_request = [required ''seller_url'' PyStr, required ''signal_id'' PyStr, required ''platform'' PyDict]"

section \<open>From a body to an endpoint\<close>

datatype rejection = Unprocessable "string list" | Answered api_failure

type_synonym 'a posted = "(orchestrator option, rejection, 'a) action"

definition posted :: "converter \<Rightarrow> request_field list \<Rightarrow> json option \<Rightarrow> (dict \<Rightarrow> 'a endpoint) \<Rightarrow> 'a posted" where
  "posted convert spec raw_body act st =
     (case validate_body convert spec raw_body of
        Inl bad \<Rightarrow> (Inl (Unprocessable bad), st)
      | Inr d \<Rightarrow> map_error Answered (act d) st)"

definition texts_of :: "json \<Rightarrow> string list" where
  "texts_of v = map str_of (arr_of v)"

definition dicts_of :: "json \<Rightarrow> dict list" where
  "dicts_of v = map obj_of (arr_of v)"

definition search_request_of :: "dict \<Rightarrow> search_request" where
  "search_request_of d =
     \<lparr>sr_brief = str_of (getj d ''brief''), sr_brand_url = str_of (getj d ''brand_url''),
      sr_brand_domain = str_of (getj d ''brand_domain''), sr_brand_id = str_of (getj d ''brand_id''),
      sr_countries = texts_of (getj d ''brand_countries'')\<rparr>"

text \<open>The product comes from the search; any one stands here.\<close>

definition buy_request_of :: "seller_product \<Rightarrow> dict \<Rightarrow> buy_request" where
  "buy_request_of p d =
     \<lparr>bq_search = search_request_of d,
      bq_index = (case getj d ''product_index'' of JInt i \<Rightarrow> i | _ \<Rightarrow> 0),
      bq_args = \<lparr>ba_product = p, ba_budget = getj d ''budget'', ba_ref = str_of (getj d ''buyer_ref''),
        ba_end = str_of (getj d ''end_time''), ba_packages = dicts_of (getj d ''packages''),
        ba_targeting = obj_of (getj d ''targeting''), ba_pacing = str_of (getj d ''pacing''),
        ba_proposal = str_of (getj d ''proposal_id''), ba_currency = str_of (getj d ''currency''),
        ba_brand_domain = str_of (getj d ''brand_domain''), ba_brand_id = str_of (getj d ''brand_id''),
        ba_countries = texts_of (getj d ''brand_countries''), ba_allocation = obj_of (getj d ''budget_allocation'')\<rparr>\<rparr>"

definition post_products :: "converter \<Rightarrow> api_env \<Rightarrow> orch_env \<Rightarrow> discovery_env \<Rightarrow> json option \<Rightarrow> dict posted" where
  "post_products convert ae env denv raw_body =
     posted convert product_search_request raw_body (\<lambda>d. products_endpoint ae env denv (search_request_of d))"

definition post_buy ::
  "converter \<Rightarrow> api_env \<Rightarrow> orch_env \<Rightarrow> orch_env \<Rightarrow> discovery_env \<Rightarrow> seller_product \<Rightarrow> json option \<Rightarrow> dict posted" where
  "post_buy convert ae env env' denv p raw_body =
     posted convert buy_request_model raw_body (\<lambda>d. buy_endpoint ae env env' denv (buy_request_of p d))"

definition post_input :: "converter \<Rightarrow> orch_env \<Rightarrow> string \<Rightarrow> json option \<Rightarrow> dict posted" where
  "post_input convert env oid raw_body = posted convert provide_input_request raw_body (\<lambda>d.
     provide_input_endpoint env oid (case getj d ''input_data'' of JObj o' \<Rightarrow> DataInput o' | v \<Rightarrow> TextInput (str_of v)))"

definition post_update_media_buy :: "converter \<Rightarrow> orch_env \<Rightarrow> json option \<Rightarrow> dict posted" where
  "post_update_media_buy convert env raw_body = posted convert update_media_buy_request raw_body (\<lambda>d.
     update_media_buy_endpoint env (str_of (getj d ''seller_url'')) (str_of (getj d ''media_buy_id'')) (str_of (getj d ''buyer_ref''))
       [(''paused'', getj d ''paused''), (''end_time'', getj d ''end_time''), (''packages'', getj d ''packages'')])"

definition post_sync_creatives :: "converter \<Rightarrow> orch_env \<Rightarrow> json option \<Rightarrow> dict posted" where
  "post_sync_creatives convert env raw_body = posted convert sync_creatives_request raw_body (\<lambda>d.
     sync_creatives_endpoint env (str_of (getj d ''seller_url'')) (dicts_of (getj d ''creatives'')) (str_of (getj d ''media_buy_id'')))"

definition post_list_creatives :: "converter \<Rightarrow> orch_env \<Rightarrow> json option \<Rightarrow> dict posted" where
  "post_list_creatives convert env raw_body = posted convert list_creatives_request raw_body (\<lambda>d.
     list_creatives_endpoint env (str_of (getj d ''seller_url'')) (obj_of (getj d ''filters'')))"

definition post_feedback :: "converter \<Rightarrow> orch_env \<Rightarrow> json option \<Rightarrow> dict posted" where
  "post_feedback convert env raw_body = posted convert performance_feedback_request raw_body (\<lambda>d.
     provide_feedback_endpoint env (str_of (getj d ''seller_url'')) (str_of (getj d ''media_buy_id'')) (getj d ''performance_index'')
       (obj_of (getj d ''measurement_period'')))"

definition post_discover_signals :: "converter \<Rightarrow> orch_env \<Rightarrow> json option \<Rightarrow> dict posted" where
  "post_discover_signals convert env raw_body = posted convert signals_discover_request raw_body (\<lambda>d.
     discover_signals_endpoint env (str_of (getj d ''seller_url'')) (str_of (getj d ''brief'')) (dicts_of (getj d ''platforms'')))"

definition post_activate_signal :: "converter \<Rightarrow> orch_env \<Rightarrow> json option \<Rightarrow> dict posted" where
  "post_activate_signal convert env raw_body = posted convert signal_activate_request raw_body (\<lambda>d.
     activate_signal_endpoint env (str_of (getj d ''seller_url'')) (str_of (getj d ''signal_id'')) (obj_of (getj d ''platform'')))"

definition post_list_accounts :: "converter \<Rightarrow> api_env \<Rightarrow> orch_env \<Rightarrow> json option \<Rightarrow> dict posted" where
  "post_list_accounts convert ae env raw_body = posted convert list_accounts_request raw_body (\<lambda>d.
     list_accounts_endpoint ae env (str_of (getj d ''seller_url'')) (str_of (getj d ''status''))
       (case getj d ''sandbox'' of JBool b \<Rightarrow> Some b | _ \<Rightarrow> None))"

definition post_sync_accounts :: "converter \<Rightarrow> api_env \<Rightarrow> orch_env \<Rightarrow> json option \<Rightarrow> dict posted" where
  "post_sync_accounts convert ae env raw_body = posted convert sync_accounts_request raw_body (\<lambda>d.
     sync_accounts_endpoint ae env (str_of (getj d ''seller_url'')) (str_of (getj d ''brand_domain'')) (str_of (getj d ''brand_id''))
       (texts_of (getj d ''brand_countries'')) (str_of (getj d ''billing'')) (truthy (getj d ''dry_run'')))"

section \<open>What reaches an endpoint\<close>

definition sound_converter :: "converter \<Rightarrow> bool" where
  "sound_converter convert \<longleftrightarrow> (\<forall>typ v w. convert typ v = Some w \<longrightarrow> has_type typ w)"

text \<open>The values of a model: one for each field, of its type and within its bound.\<close>

definition values_of :: "request_field list \<Rightarrow> dict \<Rightarrow> bool" where
  "values_of spec d \<longleftrightarrow> list_all2 (\<lambda>f (k, v). k = rf_name f \<and> has_type (rf_type f) v \<and> above (rf_above f) v) spec d"

definition defaults_fit :: "request_field list \<Rightarrow> bool" where
  "defaults_fit spec \<longleftrightarrow>
     list_all (\<lambda>f. case rf_default f of Some v \<Rightarrow> has_type (rf_type f) v \<and> above (rf_above f) v | None \<Rightarrow> True) spec"

lemmas request_models = product_search_request_def buy_request_model_def provide_input_request_def
  update_media_buy_request_def sync_creatives_request_def list_creatives_request_def performance_feedback_request_def
  signals_discover_request_def list_accounts_request_def sync_accounts_request_def signal_activate_request_def

lemma models_fit:
  "list_all defaults_fit [product_search_request, buy_request_model, provide_input_request, update_media_buy_request,
     sync_creatives_request, list_creatives_request, performance_feedback_request, signals_discover_request,
     list_accounts_request, sync_accounts_request, signal_activate_request]"
  by (simp add: request_models defaults_fit_def required_def defaulted_def above_def)

lemma validated_values:
  assumes "validate_body convert spec raw_body = Inr d" and "sound_converter convert" and "defaults_fit spec"
  shows "values_of spec d"
proof -
  obtain given where given: "filter (\<lambda>f. field_value convert given f = None) spec = []"
      "d = map (\<lambda>f. (rf_name f, the (field_value convert given f))) spec"
    using assms(1) by (auto simp: validate_body_def split: option.splits json.splits list.splits)
  have "has_type (rf_type f) v \<and> above (rf_above f) v" if f: "f \<in> set spec" and v: "field_value convert given f = Some v" for f v
    using v assms(2,3) f
    by (auto simp: field_value_def sound_converter_def defaults_fit_def list_all_iff split: option.splits if_splits)
  moreover have "field_value convert given f \<noteq> None" if "f \<in> set spec" for f
    using given(1) that by (auto simp: filter_empty_conv)
  ultimately show ?thesis
    unfolding values_of_def given(2) list_all2_map2 by (auto intro!: list.rel_refl_strong)
qed

lemma values_lookup: "values_of spec d \<Longrightarrow> distinct (map rf_name spec) \<Longrightarrow> f \<in> set spec \<Longrightarrow>
  has_type (rf_type f) (getj d (rf_name f)) \<and> above (rf_above f) (getj d (rf_name f))"
proof (induction spec arbitrary: d)
  case (Cons g spec)
  then obtain v d' where d: "d = (rf_name g, v) # d'" "has_type (rf_type g) v" "above (rf_above g) v" "values_of spec d'"
    by (auto simp: values_of_def list_all2_Cons1)
  show ?case
  proof (cases "f = g")
    case True
    with d show ?thesis by (simp add: getj_def get_or_def)
  next
    case False
    with Cons.prems(3) have f: "f \<in> set spec" by simp
    then have "rf_name f \<in> rf_name ` set spec" by (rule imageI)
    with Cons.prems(2) have "rf_name f \<noteq> rf_name g" by auto
    with Cons.IH [OF d(4)] Cons.prems(2) f show ?thesis by (simp add: d(1) getj_def get_or_def)
  qed
qed simp

lemma bad_fields: "validate_body convert spec raw_body = Inl bad \<Longrightarrow> bad \<noteq> []"
  by (auto simp: validate_body_def split: option.splits json.splits list.splits)


text \<open>A converter that takes values of the type and whole numbers as floats.\<close>

definition plain_converter :: converter where
  "plain_converter typ v =
     (case (typ, v) of
        (PyFloat, JInt i) \<Rightarrow> Some (JFloat (Fin (of_int i)))
      | _ \<Rightarrow> if has_type typ v then Some v else None)"

lemma plain_converter_sound: "sound_converter plain_converter"
  by (auto simp: sound_converter_def plain_converter_def split: field_type.splits json.splits if_splits)


text \<open>The score of a feedback is described as lying between 0 and 1; the model takes any number.\<close>

lemma feedback_score_unbounded:
  "validate_body plain_converter performance_feedback_request (Some (JObj [(''seller_url'', JStr ''u''), (''media_buy_id'', JStr ''m''),
     (''performance_index'', JInt 75), (''measurement_period'', JObj [])])) =
   Inr [(''seller_url'', JStr ''u''), (''media_buy_id'', JStr ''m''), (''performance_index'', JFloat (Fin 75)), (''measurement_period'', JObj [])]"
  by (simp add: validate_body_def performance_feedback_request_def required_def field_value_def plain_converter_def above_def)

end
