(* ===== verification/Service_Settings.thy ===== *)
theory Service_Settings
  imports Request_Models Service Rate_Limiter Db_Setup
begin

text \<open>
  The settings of \<open>src/config.py\<close>: fields read from the environment under the prefix \<open>NXFLO_\<close>, as
  \<open>pydantic_settings\<close> does, and the per-seller variables, whose names are made of the seller's host.
\<close>

section \<open>Settings\<close>

definition settings_fields :: "request_field list" where
  "settings_fields =
    [defaulted ''host'' PyStr (JStr ''0.0.0.0''), defaulted ''port'' PyInt (JInt 8000),
     defaulted ''database_url'' PyStr (JStr ''sqlite+aiosqlite:///nxflo.db''),
     defaulted ''registry_url'' PyStr (JStr ''https://agenticadvertising.org/api/registry''),
     defaulted ''registry_fallback_url'' PyStr (JStr ''https://adcontextprotocol.org/api/registry''),
     defaulted ''adcp_version'' PyStr (JStr ''3.2''), defaulted ''mcp_timeout'' PyInt (JInt 30),
     defaulted ''mcp_max_retries'' PyInt (JInt 3), defaulted ''mcp_retry_budget_seconds'' PyFloat (JFloat (Fin 300)),
     defaulted ''brand_name'' PyStr (JStr ''Nexflo''), defaulted ''brand_url'' PyStr (JStr ''https://nexflo.ai''),
     defaulted ''operator_domain'' PyStr (JStr ''nxflo.io''),
     defaulted ''agent_url'' PyStr (JStr ''https://buyer.nxflo.io/mcp''),
     defaulted ''brand_json_url'' PyStr (JStr []),
     defaulted ''agent_supported_protocols'' (ListOf PyStr) (JArr [JStr ''media_buy'']),
     defaulted ''account_mode'' PyStr (JStr ''auto''), defaulted ''account_billing'' PyStr (JStr ''operator''),
     defaulted ''account_sandbox'' PyBool (JBool False), defaulted ''account_auto_provision'' PyBool (JBool True),
     defaulted ''account_currency'' PyStr (JStr []), defaulted ''account_timezone'' PyStr (JStr []),
     defaulted ''brand_cache_ttl_seconds'' PyInt (JInt 86400),
     defaulted ''brand_negative_cache_ttl_seconds'' PyInt (JInt 3600),
     defaulted ''skip_sales_agent_authorization_check'' PyBool (JBool False),
     defaulted ''adagents_cache_ttl_seconds'' PyInt (JInt 86400),
     defaulted ''adagents_negative_cache_ttl_seconds'' PyInt (JInt 3600),
     defaulted ''signing_enabled'' PyBool (JBool False), defaulted ''signing_private_key_path'' PyStr (JStr []),
     defaulted ''signing_private_key'' PyStr (JStr []), defaulted ''signing_key_id'' PyStr (JStr []),
     defaulted ''signing_additional_jwks_path'' PyStr (JStr []), defaulted ''webhook_base_url'' PyStr (JStr []),
     defaulted ''webhook_secret'' PyStr (JStr []), defaulted ''webhook_auth_scheme'' PyStr (JStr ''HMAC-SHA256''),
     defaulted ''rate_limit_per_minute'' PyInt (JInt 100)]"

text \<open>
  Variables are found whatever their case, and of several spellings the last one counts.  Every value is text, of
  which \<open>convert\<close> makes a value of the field's type, or a list from JSON.
\<close>

definition settings_variable :: "(string \<times> string) list \<Rightarrow> string \<Rightarrow> string option" where
  "settings_variable environ name =
     map_of (rev (map (\<lambda>(k, v). (lower k, v)) environ)) (lower (''NXFLO_'' @ name))"

definition load_settings :: "converter \<Rightarrow> (string \<times> string) list \<Rightarrow> string list + dict" where
  "load_settings convert environ =
     validate_body convert settings_fields (Some (JObj
       (concat (map (\<lambda>f. case settings_variable environ (rf_name f) of Some v \<Rightarrow> [(rf_name f, JStr v)] | None \<Rightarrow> []) settings_fields))))"

text \<open>What the parts of the service take from them.\<close>

definition text_setting :: "dict \<Rightarrow> string \<Rightarrow> string" where
  "text_setting d name = str_of (getj d name)"

definition int_setting :: "dict \<Rightarrow> string \<Rightarrow> int" where
  "int_setting d name = (case getj d name of JInt i \<Rightarrow> i | _ \<Rightarrow> 0)"

definition agent_settings_of :: "dict \<Rightarrow> agent_settings" where
  "agent_settings_of d =
     \<lparr>as_version = text_setting d ''adcp_version'', as_agent_url = text_setting d ''agent_url'',
      as_protocols = texts_of (getj d ''agent_supported_protocols''), as_operator_domain = text_setting d ''operator_domain'',
      as_brand_json_url = text_setting d ''brand_json_url''\<rparr>"

definition webhook_settings_of :: "dict \<Rightarrow> webhook_settings" where
  "webhook_settings_of d =
     \<lparr>webhook_base_url = text_setting d ''webhook_base_url'', webhook_secret = text_setting d ''webhook_secret'',
      webhook_auth_scheme = text_setting d ''webhook_auth_scheme'', runtime_secret = None\<rparr>"

text \<open>The budget is cut to 300 seconds, also from infinity; NaN leaves none.\<close>

definition seconds_setting :: "dict \<Rightarrow> rat" where
  "seconds_setting d =
     (case getj d ''mcp_retry_budget_seconds'' of JFloat (Fin q) \<Rightarrow> q | JFloat PosInf \<Rightarrow> spec_max_retry_seconds | _ \<Rightarrow> 0)"

definition budget_of :: "dict \<Rightarrow> rat \<Rightarrow> retry_budget" where
  "budget_of d now = budget_from_settings (int_setting d ''mcp_max_retries'') (seconds_setting d) now"

definition limiter_of :: "dict \<Rightarrow> rate_limiter" where
  "limiter_of d = new_limiter (int_setting d ''rate_limit_per_minute'') 60"

section \<open>What is loaded\<close>

lemma settings_defaults_fit: "defaults_fit settings_fields"
  by (simp add: settings_fields_def defaults_fit_def defaulted_def above_def)

lemma settings_names: "distinct (map rf_name settings_fields)"
  by (simp add: settings_fields_def defaulted_def)

lemma given_variables:
  "distinct (map rf_name fs) \<Longrightarrow> f \<in> set fs \<Longrightarrow>
     map_of (concat (map (\<lambda>f. case var (rf_name f) of Some v \<Rightarrow> [(rf_name f, JStr v)] | None \<Rightarrow> []) fs)) (rf_name f) =
     map_option JStr (var (rf_name f))"
proof (induction fs)
  case (Cons g fs)
  have other: "map_of (concat (map (\<lambda>f. case var (rf_name f) of Some v \<Rightarrow> [(rf_name f, JStr v)] | None \<Rightarrow> []) fs)) n = None"
    if "n \<notin> rf_name ` set fs" for n
    using that by (induction fs) (auto simp: map_add_def split: option.splits)
  show ?case
  proof (cases "f = g")
    case True
    with Cons.prems show ?thesis by (auto simp: map_add_def other split: option.split)
  next
    case False
    with Cons.prems have f: "f \<in> set fs" by simp
    then have "rf_name f \<noteq> rf_name g" using Cons.prems(1) by (metis distinct.simps(2) imageI list.simps(9) set_map)
    with Cons f show ?thesis by (auto simp: map_add_def split: option.split)
  qed
qed simp

text \<open>A setting is its default, or what the converter makes of its variable.\<close>

lemma setting_value:
  assumes "load_settings convert environ = Inr d" and "f \<in> set settings_fields"
  shows "Some (getj d (rf_name f)) =
    (case settings_variable environ (rf_name f) of None \<Rightarrow> rf_default f
     | Some v \<Rightarrow> (case convert (rf_type f) (JStr v) of Some w \<Rightarrow> if above (rf_above f) w then Some w else None | None \<Rightarrow> None))"
proof -
  let ?given = "concat (map (\<lambda>f. case settings_variable environ (rf_name f) of Some v \<Rightarrow> [(rf_name f, JStr v)] | None \<Rightarrow> []) settings_fields)"
  have all: "filter (\<lambda>f. field_value convert ?given f = None) settings_fields = []"
    and d: "d = map (\<lambda>f. (rf_name f, the (field_value convert ?given f))) settings_fields"
    using assms(1) by (auto simp: load_settings_def validate_body_def split: list.splits)
  have "(rf_name f, the (field_value convert ?given f)) \<in> set d" unfolding d set_map using assms(2) by (rule imageI)
  moreover have "distinct (map fst d)" using settings_names by (simp add: d comp_def)
  ultimately have "getj d (rf_name f) = the (field_value convert ?given f)"
    by (simp add: getj_def get_or_def)
  moreover have "field_value convert ?given f \<noteq> None" using all assms(2) by (simp add: filter_empty_conv)
  ultimately show ?thesis
    using given_variables [OF settings_names assms(2), of "settings_variable environ"]
    by (auto simp: field_value_def split: option.splits)
qed

text \<open>
  Settings that load have their types.  Checking the sellers' authorization cannot be switched off without the variable
  named for it, whatever else is set, and no setting makes a call contact a seller more than four times or wait longer than
  300 seconds.
\<close>

theorem settings_fail_closed:
  assumes "load_settings convert environ = Inr d" and "sound_converter convert"
    and "settings_variable environ ''skip_sales_agent_authorization_check'' = None"
  shows "values_of settings_fields d \<and> getj d ''skip_sales_agent_authorization_check'' = JBool False \<and>
    max_retries (budget_of d now) \<le> 3 \<and> max_seconds (budget_of d now) \<le> 300"
proof -
  have "values_of settings_fields d"
    using validated_values [OF _ assms(2) settings_defaults_fit] assms(1) by (auto simp: load_settings_def)
  moreover have "defaulted ''skip_sales_agent_authorization_check'' PyBool (JBool False) \<in> set settings_fields"
    by (simp add: settings_fields_def)
  from setting_value [OF assms(1) this] assms(3) have "getj d ''skip_sales_agent_authorization_check'' = JBool False"
    by (simp add: defaulted_def)
  ultimately show ?thesis
    using post_init_bounds by (simp add: budget_of_def budget_from_settings_def)
qed

lemma settings_fail_closed_witness:
  "\<exists>d. load_settings plain_converter [] = Inr d \<and> getj d ''skip_sales_agent_authorization_check'' = JBool False \<and>
     max_retries (budget_of d 0) \<le> 3"
proof -
  have "case load_settings plain_converter [] of Inr d \<Rightarrow> True | _ \<Rightarrow> False" by code_simp
  then obtain d where d: "load_settings plain_converter [] = Inr d" by (auto split: sum.splits)
  have "settings_variable [] ''skip_sales_agent_authorization_check'' = None" by (simp add: settings_variable_def)
  from settings_fail_closed [OF d plain_converter_sound this, of 0] d show ?thesis by blast
qed

section \<open>The database of the settings\<close>



section \<open>Per-seller variables\<close>

text \<open>Hosts of letters, digits, dots and hyphens that differ in nothing but dots and hyphens.\<close>

definition host_char :: "char \<Rightarrow> bool" where
  "host_char c \<longleftrightarrow> alnum c \<or> c = CHR ''.'' \<or> c = CHR ''-''"

definition lookalike :: "string \<Rightarrow> string \<Rightarrow> bool" where
  "lookalike h1 h2 \<longleftrightarrow> list_all2 (\<lambda>a b. host_char a \<and> host_char b \<and> (a = b \<or> \<not> alnum a \<and> \<not> alnum b)) h1 h2"

definition https_url :: "string \<Rightarrow> string \<Rightarrow> string" where
  "https_url domain path = ''https://'' @ domain @ ''/'' @ path"

definition slug_char :: "char \<Rightarrow> char" where
  "slug_char c = (if is_ascii_upper (upper_char c) \<or> is_digit (upper_char c) then upper_char c else CHR ''_'')"

lemma host_slug:
  assumes "list_all host_char h"
  shows "seller_env_slug (https_url h path) = map slug_char h"
proof -
  have strip: "strip_scheme (https_url h path) = h @ CHR ''/'' # path"
    using strip_scheme_prefix [of "''https''" "h @ CHR ''/'' # path"]
    by (simp add: https_url_def char_class_defs alnum_def code_of_def)
  have plain: "c \<notin> set h" if "c \<in> {CHR ''/'', CHR ''@'', CHR '':''}" for c
  proof
    assume "c \<in> set h"
    with assms have "host_char c" by (simp add: list_all_iff)
    with that show False by (auto simp: host_char_def alnum_def char_class_defs code_of_def)
  qed
  show ?thesis
    using plain by (simp add: seller_env_slug_def strip Let_def upper_def slug_char_def)
qed

lemma lookalike_slug: "lookalike h1 h2 \<Longrightarrow> map slug_char h1 = map slug_char h2"
  unfolding lookalike_def
proof (induction rule: list_all2_induct)
  case (Cons a h1 b h2)
  then show ?case
    by (auto simp: slug_char_def host_char_def alnum_def upper_char_def char_class_defs code_of_def)
qed simp

text \<open>
  The credentials of a seller are found by its host with everything but letters and digits made the same.  A host that differs
  from a seller's in dots and hyphens only, once it is listed in the registry, is therefore given that seller's
  token and operator credential, and every call to it carries them.
\<close>

theorem lookalike_gets_credentials:
  assumes "lookalike h1 h2" and "parse_registry_entry shown env entry = Inr (Some a)" and "agent_url a = https_url h2 p2"
    and "apply_account_config env mode a = Inr a'"
  shows "token a = seller_env env ''NXFLO_SELLER_TOKEN'' (https_url h1 p1) \<and>
    operator_token a' = seller_env env ''NXFLO_OPERATOR_TOKEN'' (https_url h1 p1)"
proof -
  have "list_all host_char h1" "list_all host_char h2"
    using assms(1) by (auto simp: lookalike_def list_all2_conv_all_nth list_all_length)
  then have same: "seller_env env prefix (https_url h1 p1) = seller_env env prefix (https_url h2 p2)" for prefix
    using lookalike_slug [OF assms(1)] by (simp add: seller_env_def host_slug)
  have "token a = seller_env env ''NXFLO_SELLER_TOKEN'' (agent_url a)"
    using assms(2) by (auto simp: parse_registry_entry_def new_agent_def Let_def split: if_splits json.splits)
  moreover have "operator_token a' = seller_env env ''NXFLO_OPERATOR_TOKEN'' (agent_url a)"
    using assms(4) by (auto simp: apply_account_config_def res_bind_Inr_iff)
  ultimately show ?thesis using assms(3) same by simp
qed

lemma lookalike_gets_credentials_witness:
  "\<exists>a. parse_registry_entry (\<lambda>v. []) [''NXFLO_SELLER_TOKEN_ADS_SELLER_EXAMPLE'' \<mapsto> ''secret'']
       [(''type'', JStr ''sales''), (''mcp_endpoint'', JStr ''https://ads.seller.example/mcp'')] = Inr (Some a) \<and>
     token a = seller_env [''NXFLO_SELLER_TOKEN_ADS_SELLER_EXAMPLE'' \<mapsto> ''secret''] ''NXFLO_SELLER_TOKEN'' (https_url ''ads-seller.example'' ''mcp'') \<and>
     token a = Some ''secret''"
proof -
  let ?env = "[''NXFLO_SELLER_TOKEN_ADS_SELLER_EXAMPLE'' \<mapsto> ''secret'']"
  let ?entry = "[(''type'', JStr ''sales''), (''mcp_endpoint'', JStr ''https://ads.seller.example/mcp'')]"
  obtain a where a: "parse_registry_entry (\<lambda>v. []) ?env ?entry = Inr (Some a)" "agent_url a = ''https://ads.seller.example/mcp''"
    by (simp add: parse_registry_entry_def getj_def get_or_def or_else_def text_of_def lower_def new_agent_def Let_def)
  then have "agent_url a = https_url ''ads.seller.example'' ''mcp''" by (simp add: https_url_def)
  moreover have "apply_account_config ?env ''buyer_declared'' a = Inr (a\<lparr>agent_mode := BUYER_DECLARED,
      operator_token := seller_env ?env ''NXFLO_OPERATOR_TOKEN'' (agent_url a)\<rparr>)"
    unfolding a(2) apply_account_config_def by code_simp
  moreover have "lookalike ''ads-seller.example'' ''ads.seller.example''" by code_simp
  ultimately have "token a = seller_env ?env ''NXFLO_SELLER_TOKEN'' (https_url ''ads-seller.example'' ''mcp'')"
    using lookalike_gets_credentials [OF _ a(1)] by blast
  moreover have "seller_env ?env ''NXFLO_SELLER_TOKEN'' (https_url ''ads-seller.example'' ''mcp'') = Some ''secret''" by code_simp
  ultimately show ?thesis using a(1) by metis
qed

text \<open>Among the sellers the buyer is configured with no two share their variables.\<close>

lemma default_sellers_apart: "distinct (map (\<lambda>s. seller_env_slug (cfg_url s)) (default_sellers env))"
proof -
  have "map (\<lambda>s. seller_env_slug (cfg_url s)) (default_sellers env) = map (\<lambda>s. seller_env_slug (cfg_url s)) (default_sellers (\<lambda>k. None))"
    by (simp add: default_sellers_def plain_seller_def)
  moreover have "distinct (map (\<lambda>s. seller_env_slug (cfg_url s)) (default_sellers (\<lambda>k. None)))" by code_simp
  ultimately show ?thesis by simp
qed

end
