(* ===== verification/Load_Requests.thy ===== *)
theory Load_Requests
  imports Json_Text "HOL-Library.Multiset" "HOL-Library.State_Monad" "HOL-Library.Stream"
begin

text \<open>
  The bid requests of the load test (\<open>publisher/stress-test.py\<close>).  A builder draws from \<open>random\<close>, whose
  numbers are a stream, in the order in which Python evaluates its expressions; \<open>shown\<close> prints a float.
\<close>

section \<open>Random draws\<close>

type_synonym 'a drawn = "(nat stream, 'a) state"

definition draw :: "nat drawn" where
  "draw = State (\<lambda>d. (shd d, stl d))"

definition randbelow :: "nat \<Rightarrow> nat drawn" where
  "randbelow n = do { r \<leftarrow> draw; State_Monad.return (r mod n) }"

definition randint :: "int \<Rightarrow> int \<Rightarrow> int drawn" where
  "randint a b = do { r \<leftarrow> randbelow (nat (b - a + 1)); State_Monad.return (a + int r) }"

definition choice :: "'a list \<Rightarrow> 'a drawn" where
  "choice xs = do { r \<leftarrow> randbelow (length xs); State_Monad.return (xs ! r) }"

text \<open>\<open>random.sample\<close> moves the last element of its pool into the place of the one it takes.\<close>

fun sample :: "'a list \<Rightarrow> nat \<Rightarrow> 'a list drawn" where
  "sample xs 0 = State_Monad.return []"
| "sample xs (Suc k) = do {
     j \<leftarrow> randbelow (length xs);
     ys \<leftarrow> sample (butlast (xs[j := last xs])) k;
     State_Monad.return (xs ! j # ys) }"

text \<open>\<open>random.random()\<close> is a multiple of \<open>2\<^sup>-\<^sup>5\<^sup>3\<close>; \<open>round\<close> takes a tie to the even side.\<close>

definition uniform :: "rat \<Rightarrow> rat \<Rightarrow> rat drawn" where
  "uniform a b = do { r \<leftarrow> randbelow (2 ^ 53); State_Monad.return (a + (b - a) * (of_nat r / 2 ^ 53)) }"

definition round_half_even :: "rat \<Rightarrow> int" where
  "round_half_even q =
     (let n = \<lfloor>q\<rfloor>; part = q - of_int n
      in if part < 1 / 2 \<or> part = 1 / 2 \<and> even n then n else n + 1)"

definition round2 :: "rat \<Rightarrow> rat" where
  "round2 q = of_int (round_half_even (q * 100)) / 100"

section \<open>Text\<close>

text \<open>\<open>json.dumps\<close> without options: in the order of the keys, with blanks after commas and colons.\<close>

fun dumps_spaced :: "(pyfloat \<Rightarrow> string) \<Rightarrow> json \<Rightarrow> string" where
  "dumps_spaced shown (JArr xs) = ''['' @ join_with '', '' (map (dumps_spaced shown) xs) @ '']''"
| "dumps_spaced shown (JObj d) = ''{'' @ join_with '', '' (map (\<lambda>(k, v). quoted k @ '': '' @ dumps_spaced shown v) d) @ ''}''"
| "dumps_spaced shown v = dumps shown v"

definition json_float :: "rat \<Rightarrow> json" where
  "json_float q = JFloat (Fin q)"

section \<open>What the requests are made of\<close>

definition dsp_url :: string where "dsp_url = ''https://dsp.nexflo.ai/bid''"

definition pbs_url :: string where "pbs_url = ''https://pbs.nexflo.ai/openrtb2/auction''"

definition pbs_cookie_sync :: string where "pbs_cookie_sync = ''https://pbs.nexflo.ai/cookie_sync''"

definition matching_regions :: "string list" where "matching_regions = [''NY'', ''CA'']"

definition non_matching_regions :: "string list" where
  "non_matching_regions = [''WA'', ''OR'', ''TX'', ''FL'', ''IL'', ''OH'', ''GA'', ''NC'']"

definition all_cats :: "string list" where
  "all_cats = [''IAB1'', ''IAB2'', ''IAB3'', ''IAB4'', ''IAB5'', ''IAB6'', ''IAB7'', ''IAB8'', ''IAB9'', ''IAB10'', ''IAB11'',
     ''IAB12'', ''IAB13'']"

definition common_sizes :: "(int \<times> int) list" where
  "common_sizes = [(300, 250), (728, 90), (320, 50), (160, 600)]"

definition user_agents :: "string list" where
  "user_agents =
     [''Mozilla/5.0 (Windows NT 10.0; Win64; x64) AppleWebKit/537.36 Chrome/120.0.0.0 Safari/537.36'',
      ''Mozilla/5.0 (iPhone; CPU iPhone OS 17_2 like Mac OS X) AppleWebKit/605.1.15 Safari/604.1'',
      ''Mozilla/5.0 (Linux; Android 14; Pixel 8) AppleWebKit/537.36 Chrome/119.0 Safari/537.36'',
      ''Mozilla/5.0 (Macintosh; Intel Mac OS X 14_2) AppleWebKit/537.36 Chrome/120.0 Safari/537.36'',
      ''Mozilla/5.0 (iPad; CPU OS 17_2 like Mac OS X) AppleWebKit/605.1.15 Safari/604.1'',
      ''Mozilla/5.0 (X11; Linux x86_64) AppleWebKit/537.36 Chrome/120.0 Safari/537.36'']"

definition domains :: "string list" where
  "domains =
     [''techcrunch.example.com'', ''nytimes.example.com'', ''reddit.example.com'', ''medium.example.com'', ''bbc.example.com'',
      ''cnn.example.com'', ''weather.example.com'', ''recipes.example.com'', ''sports.example.com'', ''finance.example.com'',
      ''health.example.com'', ''travel.example.com'']"

definition random_ip :: "string drawn" where
  "random_ip = do {
     a \<leftarrow> randint 1 223; b \<leftarrow> randint 0 255; c \<leftarrow> randint 0 255; d \<leftarrow> randint 1 254;
     State_Monad.return (join_with ''.'' (map int_text [a, b, c, d])) }"

definition size_object :: "int \<times> int \<Rightarrow> json" where
  "size_object wh = JObj [(''w'', JInt (fst wh)), (''h'', JInt (snd wh))]"

definition banner_imp :: "int \<Rightarrow> int \<times> int \<Rightarrow> rat \<Rightarrow> json" where
  "banner_imp n wh bid_floor =
     JObj [(''id'', JStr (int_text n)), (''banner'', JObj [(''format'', JArr [size_object wh])]), (''bidfloor'', json_float bid_floor)]"

text \<open>The impressions of a list of sizes, each with a floor of its own.\<close>

fun banner_imps :: "int \<Rightarrow> (int \<times> int) list \<Rightarrow> rat \<Rightarrow> rat \<Rightarrow> json list drawn" where
  "banner_imps n [] lo hi = State_Monad.return []"
| "banner_imps n (wh # whs) lo hi = do {
     bid_floor \<leftarrow> uniform lo hi;
     imps \<leftarrow> banner_imps (n + 1) whs lo hi;
     State_Monad.return (banner_imp n wh (round2 bid_floor) # imps) }"

text \<open>As many impressions, each of a size that is drawn with its floor.\<close>

fun drawn_imps :: "int \<Rightarrow> nat \<Rightarrow> json list drawn" where
  "drawn_imps n 0 = State_Monad.return []"
| "drawn_imps n (Suc k) = do {
     wh \<leftarrow> choice common_sizes;
     bid_floor \<leftarrow> uniform (5 / 100) 2;
     imps \<leftarrow> drawn_imps (n + 1) k;
     State_Monad.return (banner_imp n wh (round2 bid_floor) # imps) }"

section \<open>The builders\<close>

text \<open>What most requests have around their impressions.\<close>

definition around_imps :: "string \<Rightarrow> nat \<Rightarrow> json list drawn \<Rightarrow> json drawn \<Rightarrow> string \<times> int \<Rightarrow> string list \<Rightarrow> json drawn" where
  "around_imps kind i imps_of cat_of page regions = do {
     n \<leftarrow> randint 100000 999999;
     imps \<leftarrow> imps_of;
     cat \<leftarrow> cat_of;
     dom \<leftarrow> choice domains;
     page_domain \<leftarrow> choice domains;
     page_number \<leftarrow> randint 1 (snd page);
     ua \<leftarrow> choice user_agents;
     ip \<leftarrow> random_ip;
     region \<leftarrow> choice regions;
     u \<leftarrow> randint 1 100000;
     State_Monad.return (JObj
       [(''id'', JStr (kind @ ''-'' @ nat_text i @ ''-'' @ int_text n)),
        (''imp'', JArr imps),
        (''site'', JObj [(''cat'', JArr [cat]), (''domain'', JStr dom),
           (''page'', JStr (''https://'' @ page_domain @ ''/'' @ fst page @ ''/'' @ int_text page_number))]),
        (''device'', JObj [(''ua'', JStr ua), (''ip'', JStr ip), (''geo'', JObj [(''region'', JStr region)])]),
        (''user'', JObj [(''id'', JStr (kind @ ''-user-'' @ int_text u))]),
        (''tmax'', JInt 500)]) }"

definition make_matching_request :: "nat \<Rightarrow> json drawn" where
  "make_matching_request i = do {
     k \<leftarrow> randint 1 2;
     sizes \<leftarrow> sample common_sizes (nat k);
     around_imps ''match'' i (banner_imps 1 sizes (1 / 10) (15 / 10)) (State_Monad.return (JStr ''IAB1''))
       (''article'', 50000) matching_regions }"

definition make_multi_imp_request :: "nat \<Rightarrow> json drawn" where
  "make_multi_imp_request i = do {
     num_imps \<leftarrow> randint 2 6;
     imps \<leftarrow> drawn_imps 1 (nat num_imps);
     around_imps ''multi'' i (State_Monad.return imps) (State_Monad.return (JStr ''IAB1'')) (''page'', 10000) matching_regions }"

definition native_request :: json where
  "native_request =
     JObj [(''ver'', JStr ''1.1''),
       (''assets'', JArr
         [JObj [(''id'', JInt 1), (''required'', JInt 1), (''title'', JObj [(''len'', JInt 90)])],
          JObj [(''id'', JInt 2), (''required'', JInt 1), (''img'', JObj [(''type'', JInt 3), (''w'', JInt 300), (''h'', JInt 250)])],
          JObj [(''id'', JInt 3), (''required'', JInt 0), (''data'', JObj [(''type'', JInt 2), (''len'', JInt 150)])]])]"

definition make_mixed_media_request :: "(pyfloat \<Rightarrow> string) \<Rightarrow> nat \<Rightarrow> json drawn" where
  "make_mixed_media_request shown i = do {
     f1 \<leftarrow> uniform (1 / 10) 1;
     f2 \<leftarrow> uniform 1 5;
     f3 \<leftarrow> uniform (1 / 2) 3;
     around_imps ''mixed'' i (State_Monad.return
       [JObj [(''id'', JStr ''1''), (''banner'', JObj [(''format'', JArr (map size_object [(300, 250), (728, 90)]))]),
          (''bidfloor'', json_float (round2 f1))],
        JObj [(''id'', JStr ''2''),
          (''video'', JObj [(''mimes'', JArr [JStr ''video/mp4'', JStr ''video/webm'']), (''protocols'', JArr [JInt 2, JInt 5]),
             (''w'', JInt 640), (''h'', JInt 480), (''minduration'', JInt 5), (''maxduration'', JInt 30), (''linearity'', JInt 1),
             (''api'', JArr [JInt 1, JInt 2])]),
          (''bidfloor'', json_float (round2 f2))],
        JObj [(''id'', JStr ''3''),
          (''native'', JObj [(''request'', JStr (dumps_spaced shown native_request)), (''ver'', JStr ''1.1'')]),
          (''bidfloor'', json_float (round2 f3))]])
       (do { cat \<leftarrow> choice all_cats; State_Monad.return (JStr cat) }) (''content'', 5000)
       (matching_regions @ non_matching_regions) }"

definition make_geo_request :: "nat \<Rightarrow> string \<Rightarrow> json drawn" where
  "make_geo_request i region = do {
     ua \<leftarrow> choice user_agents;
     ip \<leftarrow> random_ip;
     State_Monad.return (JObj
       [(''id'', JStr (''geo-'' @ region @ ''-'' @ nat_text i)),
        (''imp'', JArr [banner_imp 1 (300, 250) (1 / 10)]),
        (''site'', JObj [(''cat'', JArr [JStr ''IAB1'']), (''domain'', JStr ''geo-test.example.com'')]),
        (''device'', JObj [(''ua'', JStr ua), (''ip'', JStr ip), (''geo'', JObj [(''region'', JStr region)])]),
        (''user'', JObj [(''id'', JStr (''geo-'' @ region @ ''-user-'' @ nat_text i))]),
        (''tmax'', JInt 500)]) }"

definition numbered_site :: "string \<Rightarrow> string \<Rightarrow> nat \<Rightarrow> json" where
  "numbered_site name path i =
     (let host = name @ nat_text (i mod 1000) @ ''.example.com''
      in JObj [(''page'', JStr (''https://'' @ host @ path)), (''domain'', JStr host),
           (''publisher'', JObj [(''id'', JStr (''pub_'' @ nat_text (i mod 500)))])])"

definition make_dsp_request :: "nat \<Rightarrow> json drawn" where
  "make_dsp_request i = do {
     n \<leftarrow> randint 100000 999999;
     ip \<leftarrow> random_ip;
     u \<leftarrow> randint 1 100000;
     State_Monad.return (JObj
       [(''id'', JStr (''s-'' @ nat_text i @ ''-'' @ int_text n)),
        (''imp'', JArr [JObj [(''id'', JStr ''i1''),
           (''banner'', JObj [(''w'', JInt 300), (''h'', JInt 250), (''format'', JArr [size_object (300, 250)])]),
           (''bidfloor'', json_float (1 / 100))]]),
        (''site'', numbered_site ''site'' ''/p'' i),
        (''device'', JObj [(''ua'', JStr ''Mozilla/5.0''), (''ip'', JStr ip), (''geo'', JObj [(''country'', JStr ''USA'')])]),
        (''user'', JObj [(''id'', JStr (''u-'' @ int_text u))]),
        (''tmax'', JInt 300)]) }"

definition make_pbs_request :: "nat \<Rightarrow> json drawn" where
  "make_pbs_request i = do {
     n \<leftarrow> randint 100000 999999;
     ip \<leftarrow> random_ip;
     u \<leftarrow> randint 1 50000;
     State_Monad.return (JObj
       [(''id'', JStr (''p-'' @ nat_text i @ ''-'' @ int_text n)),
        (''imp'', JArr [JObj [(''id'', JStr ''i1''), (''banner'', JObj [(''w'', JInt 300), (''h'', JInt 250)]),
           (''bidfloor'', json_float (5 / 100)),
           (''ext'', JObj [(''prebid'', JObj [(''bidder'', JObj [(''nexflo'', JObj [])])])])]]),
        (''site'', numbered_site ''blog'' ''/post'' i),
        (''device'', JObj [(''ua'', JStr ''Mozilla/5.0''), (''ip'', JStr ip)]),
        (''user'', JObj [(''id'', JStr (''u-'' @ int_text u))]),
        (''tmax'', JInt 2000)]) }"

definition cookie_sync_body :: json where
  "cookie_sync_body =
     JObj [(''bidders'', JArr [JStr ''nexflo'']), (''gdpr'', JInt 0), (''us_privacy'', JStr []), (''coopSync'', JBool True)]"

section \<open>What is built\<close>

text \<open>Whatever is drawn, a result has a property.\<close>

definition yields :: "('a \<Rightarrow> bool) \<Rightarrow> 'a drawn \<Rightarrow> bool" where
  "yields P m \<longleftrightarrow> (\<forall>d. P (fst (run_state m d)))"

named_theorems yields_intros \<open>draws and what they yield\<close>

lemma yields_return [yields_intros]: "P x \<Longrightarrow> yields P (State_Monad.return x)"
  by (simp add: yields_def)

lemma yields_bind: "yields Q m \<Longrightarrow> (\<And>x. Q x \<Longrightarrow> yields P (f x)) \<Longrightarrow> yields P (State_Monad.bind m f)"
  unfolding yields_def State_Monad.bind_def by (simp split: prod.split) (metis fst_conv)

lemma yields_any: "yields (\<lambda>x. True) m"
  by (simp add: yields_def)

lemmas yields_step = yields_bind [OF yields_any]

lemma yields_mono: "yields Q m \<Longrightarrow> (\<And>x. Q x \<Longrightarrow> P x) \<Longrightarrow> yields P m"
  by (auto simp: yields_def)

lemma yields_randbelow: "0 < n \<Longrightarrow> yields (\<lambda>r. r < n) (randbelow n)"
  by (simp add: randbelow_def yields_step yields_return)

lemma yields_randint: "a \<le> b \<Longrightarrow> yields (\<lambda>x. a \<le> x \<and> x \<le> b) (randint a b)"
  unfolding randint_def by (rule yields_bind [OF yields_randbelow]) (auto intro: yields_return)

lemma yields_choice: "xs \<noteq> [] \<Longrightarrow> yields (\<lambda>x. x \<in> set xs) (choice xs)"
  unfolding choice_def by (rule yields_bind [OF yields_randbelow]) (auto intro: yields_return)

lemma yields_uniform: "a \<le> b \<Longrightarrow> yields (\<lambda>x. a \<le> x \<and> x \<le> b) (uniform a b)"
proof (unfold uniform_def, rule yields_bind [OF yields_randbelow])
  fix r :: nat assume ab: "a \<le> b" and r: "r < 2 ^ 53"
  have "of_nat r / (2 ^ 53 :: rat) \<le> 1" using r by simp
  then have "(b - a) * (of_nat r / 2 ^ 53) \<le> b - a" using ab mult_left_le [of "of_nat r / 2 ^ 53" "b - a"] by simp
  moreover have "0 \<le> (b - a) * (of_nat r / 2 ^ 53)" using ab by simp
  ultimately show "yields (\<lambda>x. a \<le> x \<and> x \<le> b) (State_Monad.return (a + (b - a) * (of_nat r / 2 ^ 53)))"
    by (intro yields_return) auto
qed simp

text \<open>A sample has no position twice.\<close>

lemma moved_last: "j < length xs \<Longrightarrow> add_mset (xs ! j) (mset (butlast (xs[j := last xs]))) = mset xs"
proof (induction xs rule: rev_induct)
  case (snoc x xs)
  then show ?case
    by (cases "j < length xs") (auto simp: list_update_append mset_update nth_append)
qed simp

lemma yields_sample: "k \<le> length xs \<Longrightarrow> yields (\<lambda>ys. length ys = k \<and> mset ys \<subseteq># mset xs) (sample xs k)"
proof (induction k arbitrary: xs)
  case 0
  then show ?case by (auto intro: yields_return)
next
  case (Suc k)
  show ?case
  proof (simp only: sample.simps, rule yields_bind [OF yields_randbelow])
    fix j assume j: "j < length xs"
    let ?pool = "butlast (xs[j := last xs])"
    show "yields (\<lambda>ys. length ys = Suc k \<and> mset ys \<subseteq># mset xs) (sample ?pool k \<bind> (\<lambda>ys. State_Monad.return (xs ! j # ys)))"
      using Suc.prems j
      by (intro yields_bind [OF Suc.IH [of ?pool]])
        (auto intro!: yields_return simp flip: moved_last [OF j])
  qed (use Suc.prems in auto)
qed

lemma sample_distinct:
  assumes "distinct xs" and "mset ys \<subseteq># mset xs"
  shows "distinct ys" and "set ys \<subseteq> set xs"
proof -
  obtain zs where "mset xs = mset (ys @ zs)"
    using assms(2) by (metis ex_mset mset_append subset_mset.add_diff_inverse)
  then have "distinct (ys @ zs)" "set xs = set (ys @ zs)"
    using assms(1) by (metis mset_eq_imp_distinct_iff) (metis \<open>mset xs = mset (ys @ zs)\<close> mset_eq_setD)
  then show "distinct ys" and "set ys \<subseteq> set xs" by auto
qed

text \<open>Rounding to cents stays between bounds that are whole cents.\<close>

lemma round_between: "of_int m \<le> q \<Longrightarrow> q \<le> of_int n \<Longrightarrow> m \<le> round_half_even q \<and> round_half_even q \<le> n"
proof -
  assume q: "of_int m \<le> q" "q \<le> of_int n"
  then have "m \<le> \<lfloor>q\<rfloor>" by (simp add: le_floor_iff)
  moreover have "\<lfloor>q\<rfloor> < n \<or> q = of_int \<lfloor>q\<rfloor> \<and> \<lfloor>q\<rfloor> = n" using q(2)
    by (metis floor_of_int floor_mono le_less of_int_floor_le order_antisym)
  ultimately show ?thesis by (auto simp: round_half_even_def Let_def)
qed

lemma round2_between:
  assumes "of_int m / 100 \<le> q" and "q \<le> of_int n / 100"
  shows "of_int m / 100 \<le> round2 q \<and> round2 q \<le> of_int n / 100"
  using round_between [of m "q * 100" n] assms by (auto simp: round2_def field_simps)

definition floor_between :: "rat \<Rightarrow> rat \<Rightarrow> json \<Rightarrow> bool" where
  "floor_between lo hi v = (case v of JFloat (Fin q) \<Rightarrow> lo \<le> q \<and> q \<le> hi | _ \<Rightarrow> False)"

text \<open>Impressions numbered from \<open>n\<close>, of the sizes given, with floors between two bounds.\<close>

fun banners :: "int \<Rightarrow> (int \<times> int) list \<Rightarrow> rat \<Rightarrow> rat \<Rightarrow> json list \<Rightarrow> bool" where
  "banners n [] lo hi imps \<longleftrightarrow> imps = []"
| "banners n (wh # whs) lo hi imps \<longleftrightarrow>
     (case imps of [] \<Rightarrow> False
      | imp # imps \<Rightarrow> (\<exists>f. lo \<le> f \<and> f \<le> hi \<and> imp = banner_imp n wh f) \<and> banners (n + 1) whs lo hi imps)"

lemma yields_banner_imps:
  assumes "lo = of_int l / 100" and "hi = of_int h / 100" and "l \<le> h"
  shows "yields (banners n whs lo hi) (banner_imps n whs lo hi)"
proof (induction whs arbitrary: n)
  case (Cons wh whs)
  show ?case
    unfolding banner_imps.simps
  proof (rule yields_bind [OF yields_uniform], use assms in \<open>simp add: field_simps\<close>, rule yields_bind [OF Cons.IH], rule yields_return)
    fix f imps assume f: "lo \<le> f \<and> f \<le> hi" and rest: "banners (n + 1) whs lo hi imps"
    have "lo \<le> round2 f \<and> round2 f \<le> hi" using round2_between [of l f h] f unfolding assms by blast
    with rest show "banners n (wh # whs) lo hi (banner_imp n wh (round2 f) # imps)"
      by (simp only: banners.simps list.case) blast
  qed
qed (auto intro: yields_return)

lemma yields_drawn_imps:
  "yields (\<lambda>imps. \<exists>whs. length whs = k \<and> set whs \<subseteq> set common_sizes \<and> banners n whs (5 / 100) (200 / 100) imps) (drawn_imps n k)"
proof (induction k arbitrary: n)
  case (Suc k)
  show ?case
    unfolding drawn_imps.simps
  proof (rule yields_bind [OF yields_choice])
    fix wh assume wh: "wh \<in> set common_sizes"
    show "yields (\<lambda>imps. \<exists>whs. length whs = Suc k \<and> set whs \<subseteq> set common_sizes \<and> banners n whs (5 / 100) (200 / 100) imps)
      (uniform (5 / 100) 2 \<bind> (\<lambda>f. drawn_imps (n + 1) k \<bind> (\<lambda>imps. State_Monad.return (banner_imp n wh (round2 f) # imps))))"
    proof (rule yields_bind [OF yields_uniform], simp, rule yields_bind [OF Suc.IH], rule yields_return)
      fix f imps
      assume f: "5 / 100 \<le> f \<and> f \<le> (2 :: rat)"
        and "\<exists>whs. length whs = k \<and> set whs \<subseteq> set common_sizes \<and> banners (n + 1) whs (5 / 100) (200 / 100) imps"
      then obtain whs where "length whs = k" "set whs \<subseteq> set common_sizes" "banners (n + 1) whs (5 / 100) (200 / 100) imps"
        by blast
      moreover from f round2_between [of 5 f 200] have "5 / 100 \<le> round2 f" "round2 f \<le> 200 / 100" by simp_all
      ultimately show "\<exists>whs. length whs = Suc k \<and> set whs \<subseteq> set common_sizes \<and>
          banners n whs (5 / 100) (200 / 100) (banner_imp n wh (round2 f) # imps)"
        using wh by (intro exI [of _ "wh # whs"]) auto
    qed
  qed (simp add: common_sizes_def)
qed (auto intro!: yields_return)

text \<open>The parts of a request that a campaign looks at.\<close>

definition imps_in :: "json \<Rightarrow> json list" where
  "imps_in req = arr_of (getj (obj_of req) ''imp'')"

definition region_in :: "json \<Rightarrow> json" where
  "region_in req = getj (obj_of (getj (obj_of (getj (obj_of req) ''device'')) ''geo'')) ''region''"

definition cats_in :: "json \<Rightarrow> json list" where
  "cats_in req = arr_of (getj (obj_of (getj (obj_of req) ''site'')) ''cat'')"

definition formats_in :: "json \<Rightarrow> json list" where
  "formats_in req = concat (map (\<lambda>imp. arr_of (getj (obj_of (getj (obj_of imp) ''banner'')) ''format'')) (imps_in req))"

definition floors_in :: "json \<Rightarrow> json list" where
  "floors_in req = map (\<lambda>imp. getj (obj_of imp) ''bidfloor'') (imps_in req)"

lemma yields_around:
  assumes "yields P imps_of" and "regions \<noteq> []"
  shows "yields (\<lambda>req. P (imps_in req) \<and> cats_in req = [c] \<and> region_in req \<in> JStr ` set regions)
    (around_imps prefix i imps_of (State_Monad.return c) page regions)"
  unfolding around_imps_def
  by (rule yields_step, rule yields_bind [OF assms(1)], rule yields_bind [where Q = "\<lambda>x. x = c"], simp add: yields_return,
      rule yields_step, rule yields_step, rule yields_step, rule yields_step, rule yields_step,
      rule yields_bind [OF yields_choice [OF assms(2)]], rule yields_step, rule yields_return)
    (simp add: imps_in_def cats_in_def region_in_def getj_def get_or_def)

lemma banner_parts:
  "banners n whs lo hi imps \<Longrightarrow> length imps = length whs \<and>
     concat (map (\<lambda>imp. arr_of (getj (obj_of (getj (obj_of imp) ''banner'')) ''format'')) imps) = map size_object whs \<and>
     list_all (floor_between lo hi) (map (\<lambda>imp. getj (obj_of imp) ''bidfloor'') imps)"
proof (induction n whs lo hi imps rule: banners.induct)
  case (2 n wh whs lo hi imps)
  then show ?case
    by (auto simp: banner_imp_def getj_def get_or_def floor_between_def json_float_def split: list.splits)
qed auto

text \<open>What the missions ask for, with so many impressions and such floors.\<close>

definition for_missions :: "nat \<Rightarrow> nat \<Rightarrow> rat \<Rightarrow> rat \<Rightarrow> json \<Rightarrow> bool" where
  "for_missions least most lo hi req \<longleftrightarrow>
     region_in req \<in> JStr ` set matching_regions \<and> cats_in req = [JStr ''IAB1''] \<and>
     length (imps_in req) \<in> {least..most} \<and> length (formats_in req) = length (imps_in req) \<and>
     set (formats_in req) \<subseteq> size_object ` set common_sizes \<and> list_all (floor_between lo hi) (floors_in req)"

lemma for_missionsI:
  assumes "banners n whs lo hi (imps_in req)" and "length whs \<in> {least..most}" and "set whs \<subseteq> set common_sizes"
    and "cats_in req = [JStr ''IAB1'']" and "region_in req \<in> JStr ` set matching_regions"
  shows "for_missions least most lo hi req" and "formats_in req = map size_object whs"
  using assms banner_parts [OF assms(1)] by (auto simp: for_missions_def formats_in_def floors_in_def)

lemma yields_multi: "yields (for_missions 2 6 (5 / 100) (200 / 100)) (make_multi_imp_request i)"
proof (unfold make_multi_imp_request_def, rule yields_bind [OF yields_randint], simp, rule yields_bind [OF yields_drawn_imps])
  fix k :: int and imps
  assume k: "2 \<le> k \<and> k \<le> 6"
    and "\<exists>whs. length whs = nat k \<and> set whs \<subseteq> set common_sizes \<and> banners 1 whs (5 / 100) (200 / 100) imps"
  then obtain whs where whs: "length whs = nat k" "set whs \<subseteq> set common_sizes" "banners 1 whs (5 / 100) (200 / 100) imps"
    by blast
  have "yields (\<lambda>req. imps_in req = imps \<and> cats_in req = [JStr ''IAB1''] \<and> region_in req \<in> JStr ` set matching_regions)
      (around_imps ''multi'' i (State_Monad.return imps) (State_Monad.return (JStr ''IAB1'')) (''page'', 10000) matching_regions)"
    by (rule yields_around) (simp_all add: yields_return matching_regions_def)
  then show "yields (for_missions 2 6 (5 / 100) (200 / 100))
      (around_imps ''multi'' i (State_Monad.return imps) (State_Monad.return (JStr ''IAB1'')) (''page'', 10000) matching_regions)"
    by (rule yields_mono) (use whs k in \<open>intro for_missionsI(1) [where whs = whs and n = 1], auto\<close>)
qed

lemma yields_matching:
  "yields (\<lambda>req. for_missions 1 2 (10 / 100) (150 / 100) req \<and> distinct (formats_in req)) (make_matching_request i)"
proof (unfold make_matching_request_def, rule yields_bind [OF yields_randint], simp, rule yields_bind [OF yields_sample])
  fix k :: int and whs
  assume k: "1 \<le> k \<and> k \<le> 2"
  then show "nat k \<le> length common_sizes" by (auto simp: common_sizes_def)
  assume "length whs = nat k \<and> mset whs \<subseteq># mset common_sizes"
  with sample_distinct [of common_sizes whs] have whs: "length whs = nat k" "set whs \<subseteq> set common_sizes" "distinct whs"
    by (simp_all add: common_sizes_def)
  have "yields (banners 1 whs (10 / 100) (150 / 100)) (banner_imps 1 whs (10 / 100) (150 / 100))"
    by (rule yields_banner_imps [of _ 10 _ 150]) simp_all
  then have "yields (\<lambda>req. banners 1 whs (10 / 100) (150 / 100) (imps_in req) \<and> cats_in req = [JStr ''IAB1''] \<and>
      region_in req \<in> JStr ` set matching_regions)
    (around_imps ''match'' i (banner_imps 1 whs (10 / 100) (150 / 100)) (State_Monad.return (JStr ''IAB1''))
       (''article'', 50000) matching_regions)"
    by (rule yields_around) (simp add: matching_regions_def)
  then have "yields (\<lambda>req. for_missions 1 2 (10 / 100) (150 / 100) req \<and> distinct (formats_in req))
    (around_imps ''match'' i (banner_imps 1 whs (10 / 100) (150 / 100)) (State_Monad.return (JStr ''IAB1''))
       (''article'', 50000) matching_regions)"
  proof (rule yields_mono, elim conjE, intro conjI)
    fix req
    assume req: "banners 1 whs (10 / 100) (150 / 100) (imps_in req)" "cats_in req = [JStr ''IAB1'']"
      "region_in req \<in> JStr ` set matching_regions"
    show "for_missions 1 2 (10 / 100) (150 / 100) req"
      by (rule for_missionsI(1) [OF req(1) _ whs(2) req(2,3)]) (use whs(1) k in auto)
    have "formats_in req = map size_object whs"
      by (rule for_missionsI(2) [OF req(1) _ whs(2) req(2,3), of 1 2]) (use whs(1) k in auto)
    then show "distinct (formats_in req)"
      using whs(3) by (simp add: distinct_map inj_on_def size_object_def prod_eq_iff)
  qed
  then show "yields (\<lambda>req. for_missions 1 2 (10 / 100) (150 / 100) req \<and> distinct (formats_in req))
    (around_imps ''match'' i (banner_imps 1 whs (1 / 10) (15 / 10)) (State_Monad.return (JStr ''IAB1''))
       (''article'', 50000) matching_regions)"
    by simp
qed

text \<open>
  Whatever is drawn, the requests that are meant to match the missions do: their region is one of the two, the category
  is IAB1, one or two impressions (two to six for the other builder) ask for one known size each, different ones in a
  matching request, and the floors are whole cents between 0.10 and 1.50 (0.05 and 2.00).
\<close>

theorem mission_requests_match:
  "for_missions 1 2 (10 / 100) (150 / 100) (fst (run_state (make_matching_request i) d)) \<and>
   distinct (formats_in (fst (run_state (make_matching_request i) d))) \<and>
   for_missions 2 6 (5 / 100) (200 / 100) (fst (run_state (make_multi_imp_request i) d'))"
  using yields_matching [of i] yields_multi [of i] by (simp add: yields_def)

end
