(* ===== verification/Worker_Pool.thy ===== *)
theory Worker_Pool
  imports Complex_Main "HOL-Library.Multiset"
begin

text \<open>
  The workers of the load test (\<open>publisher/stress-test.py\<close>): coroutines that take items from one queue and report
  what happened under one lock.  What a worker does for an item is the list of its reports; between two of
  them any other worker may run.
\<close>

section \<open>A pool\<close>

record ('b, 's) pool =
  pl_queue :: "nat list"
  pl_workers :: "'b list list"
  pl_shared :: 's

definition new_pool :: "nat list \<Rightarrow> int \<Rightarrow> 's \<Rightarrow> ('b, 's) pool" where
  "new_pool items concurrency s = \<lparr>pl_queue = items, pl_workers = replicate (nat concurrency) [], pl_shared = s\<rparr>"

text \<open>
  One turn of worker \<open>k\<close>: its next report, or the next item of the queue when it has none left; a worker that finds the
  queue empty has ended.
\<close>

definition worker_turn :: "(nat \<Rightarrow> 'b list) \<Rightarrow> ('b \<Rightarrow> 's \<Rightarrow> 's) \<Rightarrow> nat \<Rightarrow> ('b, 's) pool \<Rightarrow> ('b, 's) pool option" where
  "worker_turn reports act k p =
     (if k < length (pl_workers p) then
        (case pl_workers p ! k of
           b # bs \<Rightarrow> Some (p\<lparr>pl_workers := (pl_workers p)[k := bs], pl_shared := act b (pl_shared p)\<rparr>)
         | [] \<Rightarrow>
             (case pl_queue p of
                i # q \<Rightarrow> Some (p\<lparr>pl_queue := q, pl_workers := (pl_workers p)[k := reports i]\<rparr>)
              | [] \<Rightarrow> None))
      else None)"

inductive load_step :: "(nat \<Rightarrow> 'b list) \<Rightarrow> ('b \<Rightarrow> 's \<Rightarrow> 's) \<Rightarrow> ('b, 's) pool \<Rightarrow> ('b, 's) pool \<Rightarrow> bool"
  for reports act where
  turn: "worker_turn reports act k p = Some p' \<Longrightarrow> load_step reports act p p'"

inductive_cases load_stepE: "load_step reports act p p'"

text \<open>\<open>gather\<close> waits for every worker.\<close>

definition all_ended :: "('b, 's) pool \<Rightarrow> bool" where
  "all_ended p \<longleftrightarrow> list_all (\<lambda>w. w = [] \<and> pl_queue p = []) (pl_workers p)"

text \<open>The event loop as the sequence of workers it gives turns to.\<close>

fun run_pool :: "(nat \<Rightarrow> 'b list) \<Rightarrow> ('b \<Rightarrow> 's \<Rightarrow> 's) \<Rightarrow> nat list \<Rightarrow> ('b, 's) pool \<Rightarrow> ('b, 's) pool" where
  "run_pool reports act [] p = p"
| "run_pool reports act (k # ks) p =
     run_pool reports act ks (case worker_turn reports act k p of Some p' \<Rightarrow> p' | None \<Rightarrow> p)"

definition gathered :: "(nat \<Rightarrow> 'b list) \<Rightarrow> ('b \<Rightarrow> 's \<Rightarrow> 's) \<Rightarrow> nat list \<Rightarrow> ('b, 's) pool \<Rightarrow> 's option" where
  "gathered reports act schedule p =
     (let p' = run_pool reports act schedule p in if all_ended p' then Some (pl_shared p') else None)"

section \<open>Every run ends\<close>

definition turns_left :: "(nat \<Rightarrow> 'b list) \<Rightarrow> ('b, 's) pool \<Rightarrow> nat" where
  "turns_left reports p = sum_list (map length (pl_workers p)) + sum_list (map (\<lambda>i. Suc (length (reports i))) (pl_queue p))"

lemma sum_list_replace:
  "k < length xs \<Longrightarrow> sum_list (map f (xs[k := y])) = (f y :: 'm :: comm_monoid_add) + sum_list (map f (take k xs @ drop (Suc k) xs))"
proof (induction xs arbitrary: k)
  case (Cons x xs)
  then show ?case by (cases k) (auto simp: ac_simps)
qed simp

lemma sum_list_at:
  "k < length xs \<Longrightarrow> sum_list (map f xs) = (f (xs ! k) :: 'm :: comm_monoid_add) + sum_list (map f (take k xs @ drop (Suc k) xs))"
  using sum_list_replace [of k xs f "xs ! k"] by simp

lemma turn_counts:
  assumes "worker_turn reports act k p = Some p'"
  shows "turns_left reports p = Suc (turns_left reports p')"
proof -
  have k: "k < length (pl_workers p)" using assms by (auto simp: worker_turn_def split: if_splits)
  note swap = sum_list_replace [OF k, of length] sum_list_at [OF k, of length]
  show ?thesis
  proof (cases "pl_workers p ! k")
    case (Cons b bs)
    with assms k have "p' = p\<lparr>pl_workers := (pl_workers p)[k := bs], pl_shared := act b (pl_shared p)\<rparr>"
      by (simp add: worker_turn_def)
    with swap(1) [of bs] swap(2) Cons show ?thesis by (simp add: turns_left_def)
  next
    case Nil
    with assms k obtain i q where "pl_queue p = i # q" "p' = p\<lparr>pl_queue := q, pl_workers := (pl_workers p)[k := reports i]\<rparr>"
      by (auto simp: worker_turn_def split: list.splits)
    with swap(1) [of "reports i"] swap(2) Nil show ?thesis by (simp add: turns_left_def)
  qed
qed

lemma steps_end: "wfP (load_step reports act)\<inverse>\<inverse>"
proof (rule wfp_if_convertible_to_nat)
  fix p p' assume "(load_step reports act)\<inverse>\<inverse> p p'"
  then show "turns_left reports p < turns_left reports p'"
    by (auto elim!: load_stepE dest: turn_counts)
qed

lemma someone_turns:
  assumes "\<not> all_ended p"
  shows "\<exists>k < length (pl_workers p). worker_turn reports act k p \<noteq> None"
proof -
  from assms obtain k where "k < length (pl_workers p)" "pl_workers p ! k \<noteq> [] \<or> pl_queue p \<noteq> []"
    by (auto simp: all_ended_def list_all_length)
  then show ?thesis by (auto simp: worker_turn_def split: list.split intro!: exI [of _ k])
qed

lemma ended_stays: "all_ended p \<Longrightarrow> worker_turn reports act k p = None"
  by (auto simp: worker_turn_def all_ended_def list_all_length split: list.split)

text \<open>Giving each worker its turn, again and again, is enough.\<close>

lemma run_pool_workers [simp]: "length (pl_workers (run_pool reports act ks p)) = length (pl_workers p)"
proof (induction ks arbitrary: p)
  case (Cons k ks)
  then show ?case by (auto simp: worker_turn_def split: option.split list.split)
qed simp

lemma run_pool_append: "run_pool reports act (ks @ ks') p = run_pool reports act ks' (run_pool reports act ks p)"
  by (induction ks arbitrary: p) simp_all

lemma run_counts: "turns_left reports (run_pool reports act ks p) \<le> turns_left reports p"
proof (induction ks arbitrary: p)
  case (Cons k ks)
  have "turns_left reports (case worker_turn reports act k p of Some p' \<Rightarrow> p' | None \<Rightarrow> p) \<le> turns_left reports p"
    using turn_counts [of reports act k p] by (auto split: option.split)
  then show ?case unfolding run_pool.simps by (rule le_trans [OF Cons.IH])
qed simp

lemma round_counts:
  assumes "k \<in> set ks" and "worker_turn reports act k p \<noteq> None"
  shows "turns_left reports (run_pool reports act ks p) < turns_left reports p"
  using assms(1)
proof (induction ks)
  case (Cons j ks)
  show ?case
  proof (cases "worker_turn reports act j p")
    case None
    with Cons assms(2) show ?thesis by auto
  next
    case (Some p')
    with turn_counts [OF Some] run_counts [of reports act ks p'] show ?thesis by simp
  qed
qed simp

lemma ended_run: "all_ended p \<Longrightarrow> run_pool reports act ks p = p"
  by (induction ks) (simp_all add: ended_stays)

text \<open>A schedule in which everyone has a turn again and again ends; it may do anything in between.\<close>

lemma rounds_end:
  assumes "list_all (\<lambda>r. {..<length (pl_workers p)} \<subseteq> set r) rounds" and "turns_left reports p \<le> length rounds"
  shows "all_ended (run_pool reports act (concat rounds) p)"
  using assms
proof (induction rounds arbitrary: p)
  case Nil
  then show ?case
    using someone_turns [of p reports act] turn_counts [of reports act _ p] by auto
next
  case (Cons r rounds)
  show ?case
  proof (cases "all_ended p")
    case True
    then show ?thesis by (simp only: ended_run)
  next
    case False
    then obtain k where "k < length (pl_workers p)" "worker_turn reports act k p \<noteq> None" using someone_turns by blast
    with Cons.prems(1) have "turns_left reports (run_pool reports act r p) < turns_left reports p"
      by (intro round_counts) auto
    with Cons show ?thesis by (simp add: run_pool_append)
  qed
qed

lemma some_schedule: "\<exists>schedule s. gathered reports act schedule p = Some s"
proof -
  have "all_ended (run_pool reports act (concat (replicate (turns_left reports p) [0..<length (pl_workers p)])) p)"
    by (rule rounds_end) (auto simp: list_all_iff)
  then have "\<exists>s. gathered reports act (concat (replicate (turns_left reports p) [0..<length (pl_workers p)])) p = Some s"
    by (simp add: gathered_def)
  then show ?thesis by blast
qed

section \<open>What the reports add up to\<close>

text \<open>A reading of the shared state to which every report adds its weight.\<close>

locale tally =
  fixes act :: "'b \<Rightarrow> 's \<Rightarrow> 's" and reading :: "'s \<Rightarrow> 'm :: comm_monoid_add" and weight :: "'b \<Rightarrow> 'm"
  assumes report_adds: "reading (act b s) = weight b + reading s"
begin

definition expected :: "(nat \<Rightarrow> 'b list) \<Rightarrow> ('b, 's) pool \<Rightarrow> 'm" where
  "expected reports p =
     reading (pl_shared p) + sum_list (map (\<lambda>w. sum_list (map weight w)) (pl_workers p)) +
     sum_list (map (\<lambda>i. sum_list (map weight (reports i))) (pl_queue p))"

lemma turn_expected: "worker_turn reports act k p = Some p' \<Longrightarrow> expected reports p' = expected reports p"
proof -
  assume turn: "worker_turn reports act k p = Some p'"
  then have k: "k < length (pl_workers p)" by (auto simp: worker_turn_def split: if_splits)
  note swap = sum_list_replace [OF k, of "\<lambda>w. sum_list (map weight w)"] sum_list_at [OF k, of "\<lambda>w. sum_list (map weight w)"]
  show ?thesis
  proof (cases "pl_workers p ! k")
    case (Cons b bs)
    with turn k have "p' = p\<lparr>pl_workers := (pl_workers p)[k := bs], pl_shared := act b (pl_shared p)\<rparr>"
      by (simp add: worker_turn_def)
    with swap(1) [of bs] swap(2) Cons show ?thesis by (simp add: expected_def report_adds ac_simps)
  next
    case Nil
    with turn k obtain i q where "pl_queue p = i # q" "p' = p\<lparr>pl_queue := q, pl_workers := (pl_workers p)[k := reports i]\<rparr>"
      by (auto simp: worker_turn_def split: list.splits)
    with swap(1) [of "reports i"] swap(2) Nil show ?thesis by (simp add: expected_def ac_simps)
  qed
qed

lemma run_expected: "expected reports (run_pool reports act ks p) = expected reports p"
proof (induction ks arbitrary: p)
  case (Cons k ks)
  then show ?case using turn_expected [of reports k p] by (auto split: option.split)
qed simp

text \<open>Whatever the order of the turns, what is read at the end is the same.\<close>

lemma gathered_reading:
  assumes "gathered reports act schedule (new_pool items concurrency s) = Some s'" and "0 < concurrency"
  shows "reading s' = reading s + sum_list (map (\<lambda>i. sum_list (map weight (reports i))) items)"
proof -
  let ?p = "run_pool reports act schedule (new_pool items concurrency s)"
  have ended: "all_ended ?p" and s': "s' = pl_shared ?p"
    using assms(1) by (auto simp: gathered_def Let_def split: if_splits)
  have workers: "pl_workers ?p \<noteq> []"
    using assms(2) run_pool_workers [of reports act schedule "new_pool items concurrency s"]
    by (auto simp: new_pool_def simp flip: length_0_conv)
  have empty: "sum_list (map (\<lambda>w. sum_list (map weight w)) ws) = 0" if "list_all (\<lambda>w. w = []) ws" for ws
    using that by (induction ws) auto
  have "expected reports ?p = reading s'"
    using ended workers s' empty [of "pl_workers ?p"]
    by (cases "pl_workers ?p") (auto simp: expected_def all_ended_def list_all_iff)
  moreover have "expected reports (new_pool items concurrency s) = reading s + sum_list (map (\<lambda>i. sum_list (map weight (reports i))) items)"
    using empty [of "replicate (nat concurrency) []"] by (simp add: expected_def new_pool_def list_all_iff del: map_replicate)
  ultimately show ?thesis using run_expected [of reports schedule "new_pool items concurrency s"] by simp
qed

end

end
