(* ===== verification/Load_Test.thy ===== *)
theory Load_Test
  imports Load_Requests Worker_Pool Py_State
begin

text \<open>
  The load test of the ad exchange (\<open>publisher/stress-test.py\<close>): what its workers do with each request, the
  figures they add up, and the suite of tests.  The network is an argument: what a request is
  answered with and how long it takes.  So are \<open>json.loads\<close>, of which a failure is the name of its exception, and
  how \<open>str\<close> shows a value that is no text.
\<close>

section \<open>Figures\<close>

datatype code = Status int | Named string

record chain =
  ch_bid :: json
  ch_win :: "code option"
  ch_imp :: "code option"
  ch_click :: "code option"

record stats =
  codes :: "(code \<times> nat) list"
  latencies :: "rat list"
  success :: nat
  errors :: nat
  bids_received :: nat
  wins_fired :: nat
  imps_fired :: nat
  clicks_fired :: nat
  chain_details :: "chain list"

definition new_stats :: stats where
  "new_stats = \<lparr>codes = [], latencies = [], success = 0, errors = 0, bids_received = 0, wins_fired = 0, imps_fired = 0,
     clicks_fired = 0, chain_details = []\<rparr>"

text \<open>A count in a \<open>defaultdict(int)\<close>.\<close>

definition current_count :: "'k \<Rightarrow> ('k \<times> nat) list \<Rightarrow> nat" where
  "current_count k d = (case map_of d k of Some n \<Rightarrow> n | None \<Rightarrow> 0)"

definition bump :: "'k \<Rightarrow> ('k \<times> nat) list \<Rightarrow> ('k \<times> nat) list" where
  "bump k d = dset k (current_count k d + 1) d"

text \<open>What a worker notes while it holds the lock.\<close>

datatype report =
    Answered int rat nat
  | Failed code rat
  | BidTaken
  | WinFired int
  | ImpFired int
  | ClickFired int
  | Chained chain

fun note_report :: "report \<Rightarrow> stats \<Rightarrow> stats" where
  "note_report (Answered status elapsed bids) st =
     st\<lparr>codes := bump (Status status) (codes st), latencies := latencies st @ [elapsed], success := success st + 1,
        bids_received := bids_received st + bids\<rparr>"
| "note_report (Failed c elapsed) st =
     st\<lparr>codes := bump c (codes st), latencies := latencies st @ [elapsed], errors := errors st + 1\<rparr>"
| "note_report BidTaken st = st\<lparr>bids_received := bids_received st + 1\<rparr>"
| "note_report (WinFired status) st =
     st\<lparr>wins_fired := wins_fired st + 1, codes := bump (Named (''win:'' @ int_text status)) (codes st)\<rparr>"
| "note_report (ImpFired status) st =
     st\<lparr>imps_fired := imps_fired st + 1, codes := bump (Named (''imp:'' @ int_text status)) (codes st)\<rparr>"
| "note_report (ClickFired status) st =
     st\<lparr>clicks_fired := clicks_fired st + 1, codes := bump (Named (''click:'' @ int_text status)) (codes st)\<rparr>"
| "note_report (Chained c) st = st\<lparr>chain_details := chain_details st @ [c]\<rparr>"

section \<open>Exchanges\<close>

text \<open>A status and a body that was read, a timeout, or the name of another exception.\<close>

datatype reply = Reply int string | TimedOut | Broke string

record exchange =
  ex_reply :: reply
  ex_elapsed :: rat

type_synonym decoder = "string \<Rightarrow> string + json"

definition err_code :: "string \<Rightarrow> code" where
  "err_code name = Named (''err:'' @ name)"

definition outer_failure :: "reply \<Rightarrow> rat \<Rightarrow> report list" where
  "outer_failure r elapsed =
     (case r of
        TimedOut \<Rightarrow> [Failed (Named ''timeout'') elapsed]
      | Broke name \<Rightarrow> [Failed (err_code name) elapsed]
      | Reply status data \<Rightarrow> [])"

text \<open>\<open>len\<close>, and the bids of the seats up to the first one that raises.\<close>

fun py_len :: "json \<Rightarrow> nat option" where
  "py_len (JArr xs) = Some (length xs)"
| "py_len (JStr s) = Some (length (code_points s))"
| "py_len (JObj d) = Some (length d)"
| "py_len _ = None"

fun count_bids :: "json list \<Rightarrow> nat" where
  "count_bids [] = 0"
| "count_bids (sb # sbs) =
     (case sb of
        JObj d \<Rightarrow> (case py_len (get_or d ''bid'' (JArr [])) of Some n \<Rightarrow> n + count_bids sbs | None \<Rightarrow> 0)
      | _ \<Rightarrow> 0)"

definition bids_in :: "decoder \<Rightarrow> int \<Rightarrow> string \<Rightarrow> nat" where
  "bids_in loads status data =
     (if status = 200 then
        (case loads data of
           Inr (JObj d) \<Rightarrow>
             if truthy (getj d ''seatbid'') then (case py_iter (getj d ''seatbid'') of Inr sbs \<Rightarrow> count_bids sbs | Inl e \<Rightarrow> 0)
             else 0
         | _ \<Rightarrow> 0)
      else 0)"

text \<open>\<open>basic_worker\<close>, and \<open>churn_worker\<close> and the cookie worker, which do not look at the answer.\<close>

definition basic_reports :: "decoder \<Rightarrow> exchange \<Rightarrow> report list" where
  "basic_reports loads ex =
     (case ex_reply ex of
        Reply status data \<Rightarrow> [Answered status (ex_elapsed ex) (bids_in loads status data)]
      | r \<Rightarrow> outer_failure r (ex_elapsed ex))"

definition churn_reports :: "exchange \<Rightarrow> report list" where
  "churn_reports ex =
     (case ex_reply ex of
        Reply status data \<Rightarrow> [Answered status (ex_elapsed ex) 0]
      | r \<Rightarrow> outer_failure r (ex_elapsed ex))"

definition cookie_reports :: "exchange \<Rightarrow> report list" where
  "cookie_reports ex =
     (case ex_reply ex of
        Reply status data \<Rightarrow> [Answered status (ex_elapsed ex) 0]
      | r \<Rightarrow> outer_failure r (ex_elapsed ex))"

section \<open>The chain\<close>

text \<open>\<open>s.replace(old, new)\<close>\<close>

function replace_all :: "string \<Rightarrow> string \<Rightarrow> string \<Rightarrow> string" where
  "replace_all old new [] = []"
| "replace_all old new (c # s) =
     (if old \<noteq> [] \<and> starts_with (c # s) old then new @ replace_all old new (drop (length old) (c # s))
      else c # replace_all old new s)"
  by pat_completeness auto
termination
  by (relation "measure (\<lambda>(old, new, s). length s)") auto

text \<open>The expressions \<open>src="(url[^"]+)"\<close> and \<open>href="(url[^"]+)"\<close>: what the first match has in its group.\<close>

definition link_at :: "string \<Rightarrow> string \<Rightarrow> string \<Rightarrow> string option" where
  "link_at attr url s =
     (let p = attr @ ''='' @ [CHR 0x22] @ url; rest = drop (length p) s; tail = takeWhile (\<lambda>c. c \<noteq> CHR 0x22) rest
      in if starts_with s p \<and> tail \<noteq> [] \<and> length tail < length rest then Some (url @ tail) else None)"

fun find_link :: "string \<Rightarrow> string \<Rightarrow> string \<Rightarrow> string option" where
  "find_link attr url [] = None"
| "find_link attr url (c # s) = (case link_at attr url (c # s) of Some l \<Rightarrow> Some l | None \<Rightarrow> find_link attr url s)"

definition link_in :: "string \<Rightarrow> string \<Rightarrow> string \<Rightarrow> string option" where
  "link_in attr url adm = map_option (replace_all ''&amp;'' ''&'') (find_link attr url adm)"

text \<open>\<open>v[0]\<close> and \<open>v[k]\<close>, with the exceptions they raise.\<close>

fun first_item :: "json \<Rightarrow> string + json" where
  "first_item (JArr []) = Inl ''IndexError''"
| "first_item (JArr (x # xs)) = Inr x"
| "first_item (JStr s) = Inr (JStr (take 1 s))"
| "first_item (JObj d) = Inl ''KeyError''"
| "first_item _ = Inl ''TypeError''"

definition item :: "json \<Rightarrow> string \<Rightarrow> string + json" where
  "item v k =
     (case v of
        JObj d \<Rightarrow> (case map_of d k of Some w \<Rightarrow> Inr w | None \<Rightarrow> Inl ''KeyError'')
      | _ \<Rightarrow> Inl ''TypeError'')"

definition first_bid :: "json \<Rightarrow> string + json option" where
  "first_bid bid_resp =
     (case bid_resp of
        JObj d \<Rightarrow>
          if truthy (getj d ''seatbid'')
          then res_bind (first_item (getj d ''seatbid'')) (\<lambda>seat. res_bind (item seat ''bid'') (\<lambda>bids.
                 res_bind (first_item bids) (\<lambda>b. Inr (Some b))))
          else Inr None
      | _ \<Rightarrow> Inl ''AttributeError'')"

text \<open>A step of the chain that has been tried: what it notes, and what the chain says of it.\<close>

definition fired :: "(int \<Rightarrow> report) \<Rightarrow> reply \<Rightarrow> report list \<times> code" where
  "fired noted r =
     (case r of
        Reply status data \<Rightarrow> ([noted status], Status status)
      | TimedOut \<Rightarrow> ([], err_code ''TimeoutError'')
      | Broke name \<Rightarrow> ([], err_code name))"

definition noted_by :: "(report list \<times> code) option \<Rightarrow> report list" where
  "noted_by f = (case f of Some (bs, c) \<Rightarrow> bs | None \<Rightarrow> [])"

definition dsp_imp :: string where "dsp_imp = ''https://dsp.nexflo.ai/imp?''"

definition dsp_click :: string where "dsp_click = ''https://dsp.nexflo.ai/click?''"

definition price_macro :: string where "price_macro = ''${AUCTION_PRICE}''"

text \<open>
  Steps 2 to 4 for a bid: \<open>get\<close> is the network for a URL, following redirects or not; \<open>late\<close> is the time that has
  passed when an exception ends the chain.
\<close>

definition follow_bid :: "(json \<Rightarrow> string) \<Rightarrow> (string \<Rightarrow> bool \<Rightarrow> reply) \<Rightarrow> rat \<Rightarrow> json \<Rightarrow> report list" where
  "follow_bid py_str get late bid =
     (case item bid ''price'' of
        Inl e \<Rightarrow> [Failed (err_code e) late]
      | Inr price \<Rightarrow>
          let d = obj_of bid; nurl = get_or d ''nurl'' (JStr []) in
          if truthy nurl \<and> \<not> is_str nurl then [Failed (err_code ''AttributeError'') late]
          else
            let win = (if truthy nurl then Some (fired WinFired (get (replace_all price_macro (py_str price) (str_of nurl)) False)) else None) in
            noted_by win @
            (case get_or d ''adm'' (JStr []) of
               JStr adm \<Rightarrow>
                 let imp = map_option (\<lambda>u. fired ImpFired (get u True)) (link_in ''src'' dsp_imp adm);
                     click = map_option (\<lambda>u. fired ClickFired (get u False)) (link_in ''href'' dsp_click adm)
                 in noted_by imp @ noted_by click @
                    [Chained \<lparr>ch_bid = price, ch_win = map_option snd win, ch_imp = map_option snd imp, ch_click = map_option snd click\<rparr>]
             | _ \<Rightarrow> [Failed (err_code ''TypeError'') late]))"

definition chain_reports :: "decoder \<Rightarrow> (json \<Rightarrow> string) \<Rightarrow> (string \<Rightarrow> bool \<Rightarrow> reply) \<Rightarrow> rat \<Rightarrow> exchange \<Rightarrow> report list" where
  "chain_reports loads py_str get late ex =
     (case ex_reply ex of
        Reply status data \<Rightarrow>
          Answered status (ex_elapsed ex) 0 #
          (if status \<noteq> 200 then []
           else (case res_bind (loads data) first_bid of
                   Inl e \<Rightarrow> [Failed (err_code e) late]
                 | Inr None \<Rightarrow> []
                 | Inr (Some bid) \<Rightarrow> BidTaken # follow_bid py_str get late bid))
      | r \<Rightarrow> outer_failure r (ex_elapsed ex))"

section \<open>What the reports add to the figures\<close>

fun ok_weight :: "report \<Rightarrow> nat" where
  "ok_weight (Answered status elapsed bids) = 1"
| "ok_weight _ = 0"

fun error_weight :: "report \<Rightarrow> nat" where
  "error_weight (Failed c elapsed) = 1"
| "error_weight _ = 0"

fun latency_weight :: "report \<Rightarrow> rat multiset" where
  "latency_weight (Answered status elapsed bids) = {#elapsed#}"
| "latency_weight (Failed c elapsed) = {#elapsed#}"
| "latency_weight _ = {#}"

fun bid_weight :: "report \<Rightarrow> nat" where
  "bid_weight (Answered status elapsed bids) = bids"
| "bid_weight BidTaken = 1"
| "bid_weight _ = 0"

fun code_weight :: "code \<Rightarrow> report \<Rightarrow> nat" where
  "code_weight c (Answered status elapsed bids) = of_bool (c = Status status)"
| "code_weight c (Failed c' elapsed) = of_bool (c = c')"
| "code_weight c (WinFired status) = of_bool (c = Named (''win:'' @ int_text status))"
| "code_weight c (ImpFired status) = of_bool (c = Named (''imp:'' @ int_text status))"
| "code_weight c (ClickFired status) = of_bool (c = Named (''click:'' @ int_text status))"
| "code_weight c _ = 0"

lemma counted_bump: "current_count k (bump k' d) = of_bool (k = k') + current_count k d"
  by (simp add: current_count_def bump_def)

text \<open>A reading of the figures; the sweep over the regions reads the same figures of its board.\<close>

locale figure = tally note_report reading weight
  for reading :: "stats \<Rightarrow> 'm :: comm_monoid_add" and weight :: "report \<Rightarrow> 'm"

interpretation answers: figure success ok_weight
  by unfold_locales (rule note_report.induct [of "\<lambda>b st. success (note_report b st) = ok_weight b + success st"],
    simp_all)

interpretation failures: figure errors error_weight
  by unfold_locales (rule note_report.induct [of "\<lambda>b st. errors (note_report b st) = error_weight b + errors st"],
    simp_all)

interpretation times: figure "\<lambda>st. mset (latencies st)" latency_weight
  by unfold_locales (rule note_report.induct [of "\<lambda>b st. mset (latencies (note_report b st)) = latency_weight b + mset (latencies st)"],
    simp_all)

interpretation bids: figure bids_received bid_weight
  by unfold_locales (rule note_report.induct [of "\<lambda>b st. bids_received (note_report b st) = bid_weight b + bids_received st"],
    simp_all)

interpretation status: figure "\<lambda>st. current_count c (codes st)" "code_weight c" for c
  by unfold_locales (rule note_report.induct [of "\<lambda>b st. current_count c (codes (note_report b st)) = code_weight c b + current_count c (codes st)"],
    simp_all add: counted_bump)

text \<open>The weights of what one request reports.\<close>

definition answered :: "exchange \<Rightarrow> bool" where
  "answered ex \<longleftrightarrow> (case ex_reply ex of Reply status data \<Rightarrow> True | _ \<Rightarrow> False)"

lemma outer_failure_weights [simp]:
  "sum_list (map ok_weight (outer_failure r t)) = 0"
  "sum_list (map bid_weight (outer_failure r t)) = 0"
  "sum_list (map error_weight (outer_failure r t)) = of_bool (case r of Reply status data \<Rightarrow> False | _ \<Rightarrow> True)"
  "sum_list (map latency_weight (outer_failure r t)) = (case r of Reply status data \<Rightarrow> {#} | _ \<Rightarrow> {#t#})"
  by (simp_all add: outer_failure_def split: reply.split)

lemma basic_weights:
  "sum_list (map ok_weight (basic_reports loads ex)) = of_bool (answered ex)"
  "sum_list (map error_weight (basic_reports loads ex)) = of_bool (\<not> answered ex)"
  "sum_list (map latency_weight (basic_reports loads ex)) = {#ex_elapsed ex#}"
  "sum_list (map bid_weight (basic_reports loads ex)) =
     (case ex_reply ex of Reply status data \<Rightarrow> bids_in loads status data | _ \<Rightarrow> 0)"
  by (cases "ex_reply ex"; simp add: basic_reports_def answered_def)+

lemma churn_weights:
  "sum_list (map ok_weight (churn_reports ex)) = of_bool (answered ex)"
  "sum_list (map error_weight (churn_reports ex)) = of_bool (\<not> answered ex)"
  by (cases "ex_reply ex"; simp add: churn_reports_def answered_def)+

lemma cookie_churn: "cookie_reports = churn_reports"
  by (simp add: fun_eq_iff cookie_reports_def churn_reports_def)

text \<open>A chain that was answered and then raised.\<close>

definition chain_raises :: "decoder \<Rightarrow> exchange \<Rightarrow> bool" where
  "chain_raises loads ex \<longleftrightarrow>
     (case ex_reply ex of
        Reply status data \<Rightarrow>
          status = 200 \<and>
          (case res_bind (loads data) first_bid of
             Inl e \<Rightarrow> True
           | Inr None \<Rightarrow> False
           | Inr (Some bid) \<Rightarrow>
               (case bid of
                  JObj d \<Rightarrow>
                    \<not> has_key d ''price'' \<or> truthy (get_or d ''nurl'' (JStr [])) \<and> \<not> is_str (get_or d ''nurl'' (JStr [])) \<or>
                    \<not> is_str (get_or d ''adm'' (JStr []))
                | _ \<Rightarrow> True))
      | _ \<Rightarrow> False)"

lemma noted_weights [simp]:
  "sum_list (map ok_weight (noted_by (Some (fired WinFired r)))) = 0"
  "sum_list (map error_weight (noted_by (Some (fired WinFired r)))) = 0"
  "sum_list (map ok_weight (noted_by (map_option (\<lambda>u. fired ImpFired (g u)) x))) = 0"
  "sum_list (map error_weight (noted_by (map_option (\<lambda>u. fired ImpFired (g u)) x))) = 0"
  "sum_list (map ok_weight (noted_by (map_option (\<lambda>u. fired ClickFired (g u)) x))) = 0"
  "sum_list (map error_weight (noted_by (map_option (\<lambda>u. fired ClickFired (g u)) x))) = 0"
  "noted_by None = []"
  by (cases x; simp add: noted_by_def fired_def split: reply.split)+

lemma follow_weights:
  "sum_list (map ok_weight (follow_bid py_str get late bid)) = 0"
  "sum_list (map error_weight (follow_bid py_str get late bid)) =
     of_bool (case bid of JObj d \<Rightarrow> \<not> has_key d ''price'' \<or>
         truthy (get_or d ''nurl'' (JStr [])) \<and> \<not> is_str (get_or d ''nurl'' (JStr [])) \<or> \<not> is_str (get_or d ''adm'' (JStr []))
       | _ \<Rightarrow> True)"
proof -
  have "sum_list (map ok_weight (follow_bid py_str get late bid)) = 0 \<and>
    sum_list (map error_weight (follow_bid py_str get late bid)) =
      of_bool (case bid of JObj d \<Rightarrow> \<not> has_key d ''price'' \<or>
          truthy (get_or d ''nurl'' (JStr [])) \<and> \<not> is_str (get_or d ''nurl'' (JStr [])) \<or> \<not> is_str (get_or d ''adm'' (JStr []))
        | _ \<Rightarrow> True)"
  proof (cases bid)
    case (JObj d)
    show ?thesis
      by (cases "map_of d ''price''"; cases "get_or d ''adm'' (JStr [])"; cases "truthy (get_or d ''nurl'' (JStr []))")
        (simp_all add: JObj follow_bid_def item_def has_key_def Let_def del: sum_list_eq_0_iff)
  qed (simp_all add: follow_bid_def item_def)
  then show "sum_list (map ok_weight (follow_bid py_str get late bid)) = 0"
    and "sum_list (map error_weight (follow_bid py_str get late bid)) =
      of_bool (case bid of JObj d \<Rightarrow> \<not> has_key d ''price'' \<or>
          truthy (get_or d ''nurl'' (JStr [])) \<and> \<not> is_str (get_or d ''nurl'' (JStr [])) \<or> \<not> is_str (get_or d ''adm'' (JStr []))
        | _ \<Rightarrow> True)" by blast+
qed

lemma chain_weights:
  "sum_list (map ok_weight (chain_reports loads py_str get late ex)) = of_bool (answered ex)"
  "sum_list (map error_weight (chain_reports loads py_str get late ex)) =
     of_bool (\<not> answered ex) + of_bool (chain_raises loads ex)"
  by (cases "ex_reply ex"; simp add: chain_reports_def answered_def chain_raises_def follow_weights del: sum_list_eq_0_iff
      split: sum.split option.split)+

end
