(* ===== verification/Load_Suite.thy ===== *)
theory Load_Suite
  imports Load_Test
begin

text \<open>
  The tests of \<open>publisher/stress-test.py\<close>, each a queue of requests and a pool of workers, what is printed of
  their figures, the suite and the command line.  A schedule is the order in which the event loop gives the workers
  their turns; a test whose schedule is too short for its workers has no result.
\<close>

section \<open>What is printed\<close>

record figures =
  fg_throughput :: rat
  fg_success :: nat
  fg_errors :: nat
  fg_error_rate :: rat
  fg_bids :: nat
  fg_latencies :: "rat list"
  fg_codes :: "(code \<times> nat) list"

definition percentile :: "rat list \<Rightarrow> rat \<Rightarrow> rat" where
  "percentile lats q = lats ! nat \<lfloor>of_nat (length lats) * q\<rfloor>"

text \<open>The latencies are the least one, four percentiles and the greatest one, in milliseconds.\<close>

definition print_results :: "stats \<Rightarrow> int \<Rightarrow> rat \<Rightarrow> string + figures option" where
  "print_results st requests wall_elapsed =
     (let lats = sort (latencies st) in
      if lats = [] then Inr None
      else if wall_elapsed = 0 then Inl ''ZeroDivisionError''
      else Inr (Some
        \<lparr>fg_throughput = of_int requests / wall_elapsed, fg_success = success st, fg_errors = errors st,
         fg_error_rate = of_nat (errors st) / of_int (max requests 1) * 100, fg_bids = bids_received st,
         fg_latencies = map (\<lambda>l. l * 1000)
           [lats ! 0, percentile lats (1 / 2), percentile lats (9 / 10), percentile lats (95 / 100), percentile lats (99 / 100), last lats],
         fg_codes = sort_key (\<lambda>(c, n). - int n) (codes st)\<rparr>))"

text \<open>One line of the reporter: requests done, their rate, the rate since the last line, and whether it was the last line.\<close>

definition progress_tick :: "int \<Rightarrow> nat \<Rightarrow> rat \<Rightarrow> stats \<Rightarrow> nat \<times> rat \<times> rat \<times> bool" where
  "progress_tick requests last_done elapsed st =
     (let finished = success st + errors st
      in (finished, if elapsed > 0 then of_nat finished / elapsed else 0, (of_nat finished - of_nat last_done) / 2, requests \<le> int finished))"

section \<open>The tests\<close>

text \<open>
  What a test meets: the draws for each request, the answers to posts, to the requests of a chain, and how late an
  exception ends a chain.
\<close>

record world =
  w_draws :: "nat \<Rightarrow> nat stream"
  w_post :: "string \<Rightarrow> nat \<Rightarrow> string \<Rightarrow> exchange"
  w_get :: "nat \<Rightarrow> string \<Rightarrow> bool \<Rightarrow> reply"
  w_late :: "nat \<Rightarrow> rat"
  w_loads :: decoder
  w_str :: "json \<Rightarrow> string"
  w_shown :: "pyfloat \<Rightarrow> string"

type_synonym outcome = "stats \<times> (string + figures option)"

definition range_to :: "int \<Rightarrow> nat list" where
  "range_to requests = [0..<nat requests]"

definition posting :: "world \<Rightarrow> string \<Rightarrow> (nat \<Rightarrow> json drawn) \<Rightarrow> nat \<Rightarrow> exchange" where
  "posting w url make_req i = w_post w url i (dumps_spaced (w_shown w) (fst (run_state (make_req i) (w_draws w i))))"

definition run_basic_test ::
  "world \<Rightarrow> world \<Rightarrow> nat list \<Rightarrow> nat list \<Rightarrow> rat \<Rightarrow> string \<Rightarrow> (nat \<Rightarrow> json drawn) \<Rightarrow> int \<Rightarrow> int \<Rightarrow> (stats \<times> outcome) option" where
  "run_basic_test w0 w warmup schedule wall url make_req requests concurrency =
     (case gathered (\<lambda>i. basic_reports (w_loads w0) (posting w0 url make_req i)) note_report warmup
             (new_pool (range_to (min 20 requests)) 20 new_stats) of
        None \<Rightarrow> None
      | Some ws \<Rightarrow>
          map_option (\<lambda>st. (ws, st, print_results st requests wall))
            (gathered (\<lambda>i. basic_reports (w_loads w) (posting w url make_req i)) note_report schedule
               (new_pool (range_to requests) concurrency new_stats)))"

definition chain_work :: "world \<Rightarrow> nat \<Rightarrow> report list" where
  "chain_work w i =
     chain_reports (w_loads w) (w_str w) (w_get w i) (w_late w i) (posting w dsp_url make_matching_request i)"

definition run_chain_test :: "world \<Rightarrow> nat list \<Rightarrow> rat \<Rightarrow> int \<Rightarrow> int \<Rightarrow> outcome option" where
  "run_chain_test w schedule wall requests concurrency =
     map_option (\<lambda>st. (st, print_results st requests wall))
       (gathered (chain_work w) note_report schedule (new_pool (range_to requests) concurrency new_stats))"

text \<open>What is printed of the chains: their number, the counts of the steps and the first five.\<close>

definition chain_summary :: "stats \<Rightarrow> (nat \<times> nat \<times> nat \<times> nat \<times> nat \<times> chain list) option" where
  "chain_summary st =
     (if chain_details st = [] then None
      else Some (length (chain_details st), bids_received st, wins_fired st, imps_fired st, clicks_fired st, take 5 (chain_details st)))"

definition run_churn_test :: "world \<Rightarrow> nat list \<Rightarrow> rat \<Rightarrow> int \<Rightarrow> int \<Rightarrow> outcome option" where
  "run_churn_test w schedule wall requests concurrency =
     map_option (\<lambda>st. (st, print_results st requests wall))
       (gathered (\<lambda>i. churn_reports (posting w dsp_url make_matching_request i)) note_report schedule
          (new_pool (range_to requests) concurrency new_stats))"

definition run_cookie_sync_test :: "world \<Rightarrow> nat list \<Rightarrow> rat \<Rightarrow> int \<Rightarrow> int \<Rightarrow> outcome option" where
  "run_cookie_sync_test w schedule wall requests concurrency =
     map_option (\<lambda>st. (st, print_results st requests wall))
       (gathered (\<lambda>i. cookie_reports (posting w pbs_cookie_sync (\<lambda>i. State_Monad.return cookie_sync_body) i)) note_report schedule
          (new_pool (range_to requests) concurrency new_stats))"

subsection \<open>The sweep over the regions\<close>

definition all_regions :: "string list" where
  "all_regions =
     [''AL'', ''AK'', ''AZ'', ''AR'', ''CA'', ''CO'', ''CT'', ''DE'', ''FL'', ''GA'',
      ''HI'', ''ID'', ''IL'', ''IN'', ''IA'', ''KS'', ''KY'', ''LA'', ''ME'', ''MD'',
      ''MA'', ''MI'', ''MN'', ''MS'', ''MO'', ''MT'', ''NE'', ''NV'', ''NH'', ''NJ'',
      ''NM'', ''NY'', ''NC'', ''ND'', ''OH'', ''OK'', ''OR'', ''PA'', ''RI'', ''SC'',
      ''SD'', ''TN'', ''TX'', ''UT'', ''VT'', ''VA'', ''WA'', ''WV'', ''WI'', ''WY'']"

record geo_board =
  gb_stats :: stats
  geo_bids :: "(string \<times> nat) list"
  geo_nobids :: "(string \<times> nat) list"

text \<open>A report, and whether its region has a bid, where it was answered.\<close>

type_synonym geo_report = "report \<times> (string \<times> bool) option"

fun note_geo :: "geo_report \<Rightarrow> geo_board \<Rightarrow> geo_board" where
  "note_geo (b, None) g = g\<lparr>gb_stats := note_report b (gb_stats g)\<rparr>"
| "note_geo (b, Some (region, True)) g = g\<lparr>gb_stats := note_report b (gb_stats g), geo_bids := bump region (geo_bids g)\<rparr>"
| "note_geo (b, Some (region, False)) g = g\<lparr>gb_stats := note_report b (gb_stats g), geo_nobids := bump region (geo_nobids g)\<rparr>"

definition geo_bid :: "decoder \<Rightarrow> int \<Rightarrow> string \<Rightarrow> bool" where
  "geo_bid loads status data \<longleftrightarrow>
     status = 200 \<and> (case loads data of Inr (JObj d) \<Rightarrow> truthy (getj d ''seatbid'') | _ \<Rightarrow> False)"

definition geo_reports :: "decoder \<Rightarrow> string \<Rightarrow> exchange \<Rightarrow> geo_report list" where
  "geo_reports loads region ex =
     (case ex_reply ex of
        Reply status data \<Rightarrow>
          let bid = geo_bid loads status data
          in [(Answered status (ex_elapsed ex) (if bid then 1 else 0), Some (region, bid))]
      | r \<Rightarrow> map (\<lambda>b. (b, None)) (outer_failure r (ex_elapsed ex)))"

definition region_map :: "int \<Rightarrow> string list" where
  "region_map per_region = concat (map (replicate (nat per_region)) all_regions)"

text \<open>A row of the table: the region, its bids, its misses and the share of bids.\<close>

definition geo_row :: "geo_board \<Rightarrow> string \<Rightarrow> string \<times> nat \<times> nat \<times> rat option" where
  "geo_row g region =
     (let b = current_count region (geo_bids g); nb = current_count region (geo_nobids g)
      in (region, b, nb, if b + nb > 0 then Some (of_nat b / of_nat (b + nb) * 100) else None))"

definition geo_work :: "world \<Rightarrow> int \<Rightarrow> nat \<Rightarrow> geo_report list" where
  "geo_work w per_region i =
     (let region = region_map per_region ! i
      in geo_reports (w_loads w) region (posting w dsp_url (\<lambda>i. make_geo_request i region) i))"

definition run_geo_test :: "world \<Rightarrow> nat list \<Rightarrow> rat \<Rightarrow> int \<Rightarrow> int \<Rightarrow> (outcome \<times> (string \<times> nat \<times> nat \<times> rat option) list) option" where
  "run_geo_test w schedule wall per_region concurrency =
     map_option (\<lambda>g. ((gb_stats g, print_results (gb_stats g) (per_region * int (length all_regions)) wall), map (geo_row g) all_regions))
       (gathered (geo_work w per_region) note_geo schedule
          (new_pool [0..<length (region_map per_region)] concurrency \<lparr>gb_stats = new_stats, geo_bids = [], geo_nobids = []\<rparr>))"

section \<open>The suite\<close>

datatype test =
    BasicTest string string "(pyfloat \<Rightarrow> string) \<Rightarrow> nat \<Rightarrow> json drawn"
  | ChainTest | ChurnTest | CookieTest | GeoTest

record planned =
  pt_key :: string
  pt_test :: test
  pt_total :: int
  pt_concurrency :: int

text \<open>The title has an arrow, in UTF-8.\<close>

definition pbs_to_dsp :: string where
  "pbs_to_dsp = ''PBS'' @ [CHR 0xE2, CHR 0x86, CHR 0x92] @ ''DSP PIPELINE''"

definition suite :: "int \<Rightarrow> int \<Rightarrow> planned list" where
  "suite n conc =
     [\<lparr>pt_key = ''dsp'', pt_test = BasicTest ''TEST 1: DSP DIRECT (throughput)'' dsp_url (\<lambda>shown. make_dsp_request), pt_total = n, pt_concurrency = conc\<rparr>,
      \<lparr>pt_key = ''pbs'', pt_test = BasicTest (''TEST 2: '' @ pbs_to_dsp) pbs_url (\<lambda>shown. make_pbs_request), pt_total = n, pt_concurrency = min conc 500\<rparr>,
      \<lparr>pt_key = ''match'', pt_test = BasicTest ''TEST 3: CAMPAIGN-MATCHING BIDS'' dsp_url (\<lambda>shown. make_matching_request), pt_total = n, pt_concurrency = conc\<rparr>,
      \<lparr>pt_key = ''chain'', pt_test = ChainTest, pt_total = min n 2000, pt_concurrency = min conc 200\<rparr>,
      \<lparr>pt_key = ''multi'', pt_test = BasicTest ''TEST 5: MULTI-IMPRESSION (2-6 imps/req)'' dsp_url (\<lambda>shown. make_multi_imp_request), pt_total = n, pt_concurrency = conc\<rparr>,
      \<lparr>pt_key = ''mixed'', pt_test = BasicTest ''TEST 6: MIXED MEDIA (banner+video+native)'' dsp_url make_mixed_media_request, pt_total = n, pt_concurrency = conc\<rparr>,
      \<lparr>pt_key = ''cookie'', pt_test = CookieTest, pt_total = min n 2000, pt_concurrency = min conc 200\<rparr>,
      \<lparr>pt_key = ''churn'', pt_test = ChurnTest, pt_total = min n 1000, pt_concurrency = min conc 100\<rparr>,
      \<lparr>pt_key = ''geo'', pt_test = GeoTest, pt_total = 20, pt_concurrency = min conc 300\<rparr>]"

text \<open>What surrounds each test: two worlds, two schedules and the time on the wall.\<close>

type_synonym circumstances = "world \<times> world \<times> nat list \<times> nat list \<times> rat"

definition run_test :: "circumstances \<Rightarrow> planned \<Rightarrow> outcome option" where
  "run_test c p =
     (case c of (w0, w, warmup, schedule, wall) \<Rightarrow>
        (case pt_test p of
           BasicTest name url make_req \<Rightarrow>
             map_option snd (run_basic_test w0 w warmup schedule wall url (make_req (w_shown w)) (pt_total p) (pt_concurrency p))
         | ChainTest \<Rightarrow> run_chain_test w schedule wall (pt_total p) (pt_concurrency p)
         | ChurnTest \<Rightarrow> run_churn_test w schedule wall (pt_total p) (pt_concurrency p)
         | CookieTest \<Rightarrow> run_cookie_sync_test w schedule wall (pt_total p) (pt_concurrency p)
         | GeoTest \<Rightarrow> map_option fst (run_geo_test w schedule wall (pt_total p) (pt_concurrency p))))"

text \<open>One test after the other; an exception from its report ends the suite.\<close>

fun run_planned :: "circumstances list \<Rightarrow> planned list \<Rightarrow> (string + stats list) option" where
  "run_planned cs [] = Some (Inr [])"
| "run_planned [] (p # ps) = None"
| "run_planned (c # cs) (p # ps) =
     (case run_test c p of
        None \<Rightarrow> None
      | Some (st, Inl e) \<Rightarrow> Some (Inl e)
      | Some (st, Inr out) \<Rightarrow> map_option (\<lambda>r. res_bind r (\<lambda>sts. Inr (st # sts))) (run_planned cs ps))"

text \<open>The last lines: all requests, all errors and their share, all bids.\<close>

definition run_all :: "circumstances list \<Rightarrow> int \<Rightarrow> int \<Rightarrow> (string + nat \<times> nat \<times> rat \<times> nat) option" where
  "run_all cs n conc =
     map_option (\<lambda>r. res_bind r (\<lambda>results.
         let reqs = sum_list (map (\<lambda>s. success s + errors s) results); errs = sum_list (map errors results)
         in Inr (reqs, errs, of_nat errs / of_nat (max reqs 1) * 100, sum_list (map bids_received results))))
       (run_planned cs (suite n conc))"

section \<open>The command line\<close>

datatype command = RunAll int int | RunOne planned | UnknownTest string

text \<open>An argument that is no number ends the program with \<open>ValueError\<close>.\<close>

definition int_arg :: "string list \<Rightarrow> nat \<Rightarrow> int \<Rightarrow> py_exn + int" where
  "int_arg argv k dflt =
     (if k < length argv then (case py_int (argv ! k) of Some n \<Rightarrow> Inr n | None \<Rightarrow> Inl ValueError) else Inr dflt)"

definition load_main :: "string list \<Rightarrow> py_exn + command" where
  "load_main argv =
     (let test = (if length argv > 1 then argv ! 1 else ''all'') in
      res_bind (int_arg argv 2 5000) (\<lambda>n.
      res_bind (int_arg argv 3 500) (\<lambda>conc.
        let one = (\<lambda>t. Inr (RunOne \<lparr>pt_key = test, pt_test = t, pt_total = n, pt_concurrency = conc\<rparr>)) in
        if test = ''all'' then Inr (RunAll n conc)
        else if test = ''dsp'' then one (BasicTest ''DSP DIRECT'' dsp_url (\<lambda>shown. make_dsp_request))
        else if test = ''pbs'' then one (BasicTest pbs_to_dsp pbs_url (\<lambda>shown. make_pbs_request))
        else if test = ''match'' then one (BasicTest ''CAMPAIGN-MATCHING BIDS'' dsp_url (\<lambda>shown. make_matching_request))
        else if test = ''chain'' then one ChainTest
        else if test = ''multi-imp'' then one (BasicTest ''MULTI-IMPRESSION'' dsp_url (\<lambda>shown. make_multi_imp_request))
        else if test = ''mixed-media'' then one (BasicTest ''MIXED MEDIA'' dsp_url make_mixed_media_request)
        else if test = ''cookie-sync'' then one CookieTest
        else if test = ''churn'' then one ChurnTest
        else if test = ''geo''
        then res_bind (int_arg argv 2 20) (\<lambda>per_region.
               Inr (RunOne \<lparr>pt_key = test, pt_test = GeoTest, pt_total = per_region, pt_concurrency = conc\<rparr>))
        else Inr (UnknownTest test))))"

section \<open>What the figures say\<close>

lemma sum_of_bool: "sum_list (map (\<lambda>i. of_bool (P i)) xs) = length (filter P xs)"
  by (induction xs) auto

lemma answered_or_not: "length (filter P xs) + length (filter (\<lambda>i. \<not> P i) xs) = length xs"
  by (induction xs) auto

lemma sum_singletons: "sum_list (map (\<lambda>i. {#f i#}) xs) = mset (map f xs)"
  by (induction xs) auto

lemma fresh_figures [simp]:
  "success new_stats = 0" "errors new_stats = 0" "latencies new_stats = []" "bids_received new_stats = 0" "codes new_stats = []"
  by (simp_all add: new_stats_def)

lemma run_basic_testD:
  assumes "run_basic_test w0 w warmup schedule wall url make_req requests concurrency = Some (ws, st, out)"
  shows "gathered (\<lambda>i. basic_reports (w_loads w) (posting w url make_req i)) note_report schedule
      (new_pool (range_to requests) concurrency new_stats) = Some st"
  using assms by (auto simp: run_basic_test_def split: option.splits)


definition quiet_world :: world where
  "quiet_world = \<lparr>w_draws = (\<lambda>i. sconst 0), w_post = (\<lambda>url i text. \<lparr>ex_reply = Reply 204 [], ex_elapsed = 1 / 100\<rparr>),
     w_get = (\<lambda>i url follow. TimedOut), w_late = (\<lambda>i. 1), w_loads = (\<lambda>data. Inl ''JSONDecodeError''), w_str = (\<lambda>v. []),
     w_shown = (\<lambda>f. [])\<rparr>"

lemma some_basic_test:
  "\<exists>warmup schedule ws st out. run_basic_test w0 w warmup schedule 1 url make_req requests concurrency = Some (ws, st, Inr out)"
proof -
  let ?warm = "\<lambda>i. basic_reports (w_loads w0) (posting w0 url make_req i)"
  let ?work = "\<lambda>i. basic_reports (w_loads w) (posting w url make_req i)"
  obtain warmup ws where "gathered ?warm note_report warmup (new_pool (range_to (min 20 requests)) 20 new_stats) = Some ws"
    using some_schedule [of ?warm note_report "new_pool (range_to (min 20 requests)) 20 new_stats"] by blast
  moreover obtain schedule st where "gathered ?work note_report schedule (new_pool (range_to requests) concurrency new_stats) = Some st"
    using some_schedule [of ?work note_report "new_pool (range_to requests) concurrency new_stats"] by blast
  moreover obtain out where "print_results st requests 1 = Inr out"
    by (cases "print_results st requests 1") (auto simp: print_results_def Let_def split: if_splits)
  ultimately have "run_basic_test w0 w warmup schedule 1 url make_req requests concurrency = Some (ws, st, Inr out)"
    by (simp add: run_basic_test_def)
  then show ?thesis by blast
qed


text \<open>The other tests; a chain that raises after it was answered is counted twice.\<close>

definition raised_chains :: "world \<Rightarrow> int \<Rightarrow> nat" where
  "raised_chains w requests =
     length (filter (\<lambda>i. chain_raises (w_loads w) (posting w dsp_url make_matching_request i)) (range_to requests))"

lemma sum_list_plus: "sum_list (map (\<lambda>i. f i + g i) xs) = sum_list (map f xs) + sum_list (map g xs :: nat list)"
  by (induction xs) auto

lemma chain_test_counts:
  assumes "run_chain_test w schedule wall requests concurrency = Some (st, out)" and "0 < concurrency"
  shows "success st + errors st = nat requests + raised_chains w requests"
proof -
  have run: "gathered (chain_work w) note_report schedule (new_pool (range_to requests) concurrency new_stats) = Some st"
    using assms(1) by (auto simp: run_chain_test_def)
  show ?thesis
    using answers.gathered_reading [OF run assms(2)] failures.gathered_reading [OF run assms(2)]
      answered_or_not [of "\<lambda>i. answered (posting w dsp_url make_matching_request i)" "range_to requests"]
    by (simp add: chain_work_def chain_weights sum_list_plus sum_of_bool raised_chains_def range_to_def)
qed

lemma churn_counts:
  assumes "gathered (\<lambda>i. churn_reports (f i)) note_report schedule (new_pool (range_to requests) concurrency new_stats) = Some st"
    and "0 < concurrency"
  shows "success st + errors st = nat requests"
  using answers.gathered_reading [OF assms] failures.gathered_reading [OF assms]
    answered_or_not [of "\<lambda>i. answered (f i)" "range_to requests"]
  by (simp add: churn_weights sum_of_bool range_to_def)

text \<open>The sweep reads the same figures of its board, and counts its regions by the same law.\<close>

lemma note_geo_stats: "gb_stats (note_geo b g) = note_report (fst b) (gb_stats g)"
  by (cases "(b, g)" rule: note_geo.cases) auto

sublocale figure \<subseteq> board: tally note_geo "\<lambda>g. reading (gb_stats g)" "\<lambda>b. weight (fst b)"
  by unfold_locales (simp add: note_geo_stats report_adds)

interpretation region: tally note_geo "\<lambda>g. current_count r (geo_bids g)" "\<lambda>b. of_bool (snd b = Some (r, True))" for r
proof
  fix b g
  show "current_count r (geo_bids (note_geo b g)) = of_bool (snd b = Some (r, True)) + current_count r (geo_bids g)"
    by (cases "(b, g)" rule: note_geo.cases) (auto simp: counted_bump)
qed

lemma geo_weights:
  "sum_list (map (\<lambda>b. ok_weight (fst b)) (geo_reports loads r ex)) = of_bool (answered ex)"
  "sum_list (map (\<lambda>b. error_weight (fst b)) (geo_reports loads r ex)) = of_bool (\<not> answered ex)"
  by (cases "ex_reply ex"; simp add: geo_reports_def answered_def Let_def outer_failure_def)+

lemma region_map_length: "length (region_map n) = 50 * nat n"
  by (simp add: region_map_def length_concat comp_def all_regions_def sum_list_triv)

lemma geo_test_counts:
  assumes "run_geo_test w schedule wall per_region concurrency = Some ((st, out), rows)" and "0 < concurrency"
  shows "success st + errors st = 50 * nat per_region"
proof -
  obtain g where run: "gathered (geo_work w per_region) note_geo schedule
      (new_pool [0..<length (region_map per_region)] concurrency \<lparr>gb_stats = new_stats, geo_bids = [], geo_nobids = []\<rparr>) = Some g"
    and st: "st = gb_stats g"
    using assms(1) by (auto simp: run_geo_test_def)
  show ?thesis
    using answers.board.gathered_reading [OF run assms(2)] failures.board.gathered_reading [OF run assms(2)]
      answered_or_not [of "\<lambda>i. answered (posting w dsp_url (\<lambda>j. make_geo_request j (region_map per_region ! i)) i)" "[0..<length (region_map per_region)]"]
    by (simp add: st geo_work_def Let_def geo_weights sum_of_bool region_map_length)
qed

section \<open>The whole suite\<close>

definition requests_counted :: "circumstances \<Rightarrow> planned \<Rightarrow> nat" where
  "requests_counted c p =
     (case c of (w0, w, warmup, schedule, wall) \<Rightarrow>
        (case pt_test p of
           ChainTest \<Rightarrow> nat (pt_total p) + raised_chains w (pt_total p)
         | GeoTest \<Rightarrow> 50 * nat (pt_total p)
         | _ \<Rightarrow> nat (pt_total p)))"

lemma requests_counted_simps [simp]:
  "requests_counted c \<lparr>pt_key = k, pt_test = BasicTest name url make_req, pt_total = n, pt_concurrency = m\<rparr> = nat n"
  "requests_counted c \<lparr>pt_key = k, pt_test = ChurnTest, pt_total = n, pt_concurrency = m\<rparr> = nat n"
  "requests_counted c \<lparr>pt_key = k, pt_test = CookieTest, pt_total = n, pt_concurrency = m\<rparr> = nat n"
  "requests_counted c \<lparr>pt_key = k, pt_test = GeoTest, pt_total = n, pt_concurrency = m\<rparr> = 50 * nat n"
  "requests_counted c \<lparr>pt_key = k, pt_test = ChainTest, pt_total = n, pt_concurrency = m\<rparr> = nat n + raised_chains (fst (snd c)) n"
  by (simp_all add: requests_counted_def split: prod.split)

lemma run_test_counts:
  assumes "run_test c p = Some (st, out)" and "0 < pt_concurrency p"
  shows "success st + errors st = requests_counted c p"
proof -
  obtain w0 w warmup schedule wall where c: "c = (w0, w, warmup, schedule, wall)" by (cases c)
  show ?thesis
  proof (cases "pt_test p")
    case (BasicTest name url make_req)
    with assms(1) obtain ws where "run_basic_test w0 w warmup schedule wall url (make_req (w_shown w)) (pt_total p) (pt_concurrency p) = Some (ws, st, out)"
      by (auto simp: run_test_def c)
    from run_basic_testD [OF this] have "success st + errors st = nat (pt_total p)"
      using answers.gathered_reading [OF _ assms(2)] failures.gathered_reading [OF _ assms(2)]
        answered_or_not [of "\<lambda>i. answered (posting w url (make_req (w_shown w)) i)" "range_to (pt_total p)"]
      by (simp add: basic_weights sum_of_bool range_to_def)
    then show ?thesis by (simp add: requests_counted_def c BasicTest)
  next
    case ChainTest
    with assms chain_test_counts show ?thesis by (simp add: run_test_def requests_counted_def c)
  next
    case ChurnTest
    with assms churn_counts show ?thesis by (auto simp: run_test_def requests_counted_def c run_churn_test_def)
  next
    case CookieTest
    with assms churn_counts show ?thesis
      by (auto simp: run_test_def requests_counted_def c run_cookie_sync_test_def cookie_churn)
  next
    case GeoTest
    with assms geo_test_counts show ?thesis by (auto simp: run_test_def requests_counted_def c)
  qed
qed

lemma run_planned_counts:
  "run_planned cs ps = Some (Inr sts) \<Longrightarrow> list_all (\<lambda>p. 0 < pt_concurrency p) ps \<Longrightarrow>
     length ps \<le> length cs \<and> sum_list (map (\<lambda>s. success s + errors s) sts) = sum_list (map2 requests_counted cs ps)"
proof (induction cs ps arbitrary: sts rule: run_planned.induct)
  case (3 c cs p ps)
  then obtain st out rest where "run_test c p = Some (st, Inr out)" "run_planned cs ps = Some (Inr rest)" "sts = st # rest"
    by (auto simp: res_bind_Inr_iff split: option.splits sum.splits)
  with 3 run_test_counts [of c p st "Inr out"] show ?case by simp
qed simp_all

text \<open>
  What the suite reports as its total number of requests is the number it has sent without warm-ups, plus
  one for every chain that was answered and then raised.
\<close>

theorem suite_total_requests:
  assumes "run_all cs n conc = Some (Inr (reqs, errs, share, bids))" and "0 < conc"
  shows "reqs = 5 * nat n + 2 * nat (min n 2000) + nat (min n 1000) + 1000 + raised_chains (fst (snd (cs ! 3))) (min n 2000)"
proof -
  obtain sts where sts: "run_planned cs (suite n conc) = Some (Inr sts)" "reqs = sum_list (map (\<lambda>s. success s + errors s) sts)"
    using assms(1) by (auto simp: run_all_def res_bind_Inr_iff Let_def)
  have "length (suite n conc) \<le> length cs \<and> reqs = sum_list (map2 requests_counted cs (suite n conc))"
    unfolding sts(2) by (rule run_planned_counts [OF sts(1)]) (use assms(2) in \<open>simp add: suite_def\<close>)
  then have enough: "9 \<le> length cs" and sum: "reqs = sum_list (map2 requests_counted cs (suite n conc))"
    by (simp_all add: suite_def)
  have nth: "cs = map ((!) cs) [0..<9] @ drop 9 cs"
    using enough by (metis append_take_drop_id map_nth min_absorb2 take_upt length_take nth_take map_eq_conv set_upt atLeastLessThan_iff)
  show ?thesis
    unfolding sum numeral_3_eq_3 by (subst nth) (simp add: suite_def upt_conv_Cons)
qed

lemma some_test: "\<exists>c st out. fst c = w0 \<and> fst (snd c) = w \<and> run_test c p = Some (st, Inr out)"
proof (cases "pt_test p")
  case (BasicTest name url make_req)
  obtain warmup schedule ws st out
    where "run_basic_test w0 w warmup schedule 1 url (make_req (w_shown w)) (pt_total p) (pt_concurrency p) = Some (ws, st, Inr out)"
    using some_basic_test by blast
  with BasicTest show ?thesis by (intro exI [of _ "(w0, w, warmup, schedule, 1)"]) (simp add: run_test_def)
next
  case ChainTest
  obtain schedule st where "gathered (chain_work w) note_report schedule (new_pool (range_to (pt_total p)) (pt_concurrency p) new_stats) = Some st"
    using some_schedule [of "chain_work w" note_report "new_pool (range_to (pt_total p)) (pt_concurrency p) new_stats"] by blast
  with ChainTest show ?thesis
    by (intro exI [of _ "(w0, w, [], schedule, 1)"]) (simp add: run_test_def run_chain_test_def print_results_def Let_def)
next
  case ChurnTest
  let ?work = "\<lambda>i. churn_reports (posting w dsp_url make_matching_request i)"
  obtain schedule st where "gathered ?work note_report schedule (new_pool (range_to (pt_total p)) (pt_concurrency p) new_stats) = Some st"
    using some_schedule [of ?work note_report "new_pool (range_to (pt_total p)) (pt_concurrency p) new_stats"] by blast
  with ChurnTest show ?thesis
    by (intro exI [of _ "(w0, w, [], schedule, 1)"]) (simp add: run_test_def run_churn_test_def print_results_def Let_def)
next
  case CookieTest
  let ?work = "\<lambda>i. cookie_reports (posting w pbs_cookie_sync (\<lambda>i. State_Monad.return cookie_sync_body) i)"
  obtain schedule st where "gathered ?work note_report schedule (new_pool (range_to (pt_total p)) (pt_concurrency p) new_stats) = Some st"
    using some_schedule [of ?work note_report "new_pool (range_to (pt_total p)) (pt_concurrency p) new_stats"] by blast
  with CookieTest show ?thesis
    by (intro exI [of _ "(w0, w, [], schedule, 1)"]) (simp add: run_test_def run_cookie_sync_test_def print_results_def Let_def)
next
  case GeoTest
  obtain schedule g where "gathered (geo_work w (pt_total p)) note_geo schedule (new_pool [0..<length (region_map (pt_total p))]
      (pt_concurrency p) \<lparr>gb_stats = new_stats, geo_bids = [], geo_nobids = []\<rparr>) = Some g"
    using some_schedule [of "geo_work w (pt_total p)" note_geo "new_pool [0..<length (region_map (pt_total p))]
      (pt_concurrency p) \<lparr>gb_stats = new_stats, geo_bids = [], geo_nobids = []\<rparr>"] by blast
  with GeoTest show ?thesis
    by (intro exI [of _ "(w0, w, [], schedule, 1)"]) (simp add: run_test_def run_geo_test_def print_results_def Let_def)
qed

lemma some_run: "\<exists>cs sts. run_planned cs ps = Some (Inr sts) \<and> list_all (\<lambda>c. fst (snd c) = w) cs \<and> length cs = length ps"
proof (induction ps)
  case (Cons p ps)
  then obtain cs sts where "run_planned cs ps = Some (Inr sts)" "list_all (\<lambda>c. fst (snd c) = w) cs" "length cs = length ps"
    by blast
  moreover obtain c st out where "fst (snd c) = w" "run_test c p = Some (st, Inr out)"
    using some_test [of w w p] by blast
  ultimately show ?case by (intro exI [of _ "c # cs"] exI [of _ "st # sts"]) simp
qed (auto intro: exI [of _ "[]"])

lemma suite_total_requests_witness:
  "\<exists>cs errs share bids. run_all cs 5000 500 = Some (Inr (31000, errs, share, bids))"
proof -
  obtain cs sts where run: "run_planned cs (suite 5000 500) = Some (Inr sts)" and quiet: "list_all (\<lambda>c. fst (snd c) = quiet_world) cs"
      and len: "length cs = length (suite 5000 500)"
    using some_run by blast
  then obtain reqs errs share bids where all: "run_all cs 5000 500 = Some (Inr (reqs, errs, share, bids))"
    by (simp add: run_all_def Let_def)
  have "fst (snd (cs ! 3)) = quiet_world" using quiet len by (simp add: list_all_length suite_def)
  moreover have "raised_chains quiet_world (min 5000 2000) = 0"
    by (simp add: raised_chains_def filter_empty_conv chain_raises_def posting_def quiet_world_def)
  ultimately have "reqs = 31000" using suite_total_requests [OF all] by simp
  with all show ?thesis by blast
qed

text \<open>The latencies that are printed have been measured, and are printed in order.\<close>

lemma percentile_index: "xs \<noteq> [] \<Longrightarrow> 0 \<le> q \<Longrightarrow> q < 1 \<Longrightarrow> nat \<lfloor>of_nat (length xs) * (q :: rat)\<rfloor> < length xs"
proof -
  assume "xs \<noteq> []" and q: "0 \<le> q" "q < 1"
  then have "of_nat (length xs) * q < of_nat (length xs)" by simp
  then show ?thesis by (simp add: floor_less_iff nat_less_iff q)
qed

lemma percentile_mono:
  "sorted xs \<Longrightarrow> xs \<noteq> [] \<Longrightarrow> 0 \<le> p \<Longrightarrow> p \<le> q \<Longrightarrow> q < 1 \<Longrightarrow> percentile xs p \<le> percentile xs q"
  unfolding percentile_def
  by (intro sorted_nth_mono nat_mono floor_mono mult_left_mono percentile_index) auto

lemma printed_latencies:
  assumes "print_results st requests wall = Inr (Some f)"
  shows "sorted (fg_latencies f)" and "set (fg_latencies f) \<subseteq> (\<lambda>l. l * 1000) ` set (latencies st)"
proof -
  let ?l = "sort (latencies st)"
  have l: "?l \<noteq> []" and f: "fg_latencies f = map (\<lambda>l. l * 1000)
      [?l ! 0, percentile ?l (1 / 2), percentile ?l (9 / 10), percentile ?l (95 / 100), percentile ?l (99 / 100), last ?l]"
    using assms by (auto simp: print_results_def Let_def split: if_splits)
  have first: "?l ! 0 \<le> percentile ?l (1 / 2)"
    unfolding percentile_def by (rule sorted_nth_mono) (use l percentile_index [OF l, of "1 / 2"] in auto)
  have final: "percentile ?l (99 / 100) \<le> last ?l"
    unfolding percentile_def last_conv_nth [OF l]
    by (rule sorted_nth_mono) (use l percentile_index [OF l, of "99 / 100"] in auto)
  have "sorted [?l ! 0, percentile ?l (1 / 2), percentile ?l (9 / 10), percentile ?l (95 / 100), percentile ?l (99 / 100), last ?l]"
    using first final percentile_mono [OF _ l, of "1 / 2" "9 / 10"] percentile_mono [OF _ l, of "9 / 10" "95 / 100"]
      percentile_mono [OF _ l, of "95 / 100" "99 / 100"] by auto
  then show "sorted (fg_latencies f)" unfolding f by (rule sorted_map_mono) (simp add: mono_on_def)
  have measured: "percentile ?l q \<in> set (latencies st)" if "0 \<le> q" "q < 1" for q
    using nth_mem [OF percentile_index [OF l that]] by (simp add: percentile_def)
  moreover have "?l ! 0 \<in> set (latencies st)" using nth_mem [of 0 ?l] l by (metis length_greater_0_conv set_sort)
  moreover have "last ?l \<in> set (latencies st)" using last_in_set [OF l] by simp
  ultimately show "set (fg_latencies f) \<subseteq> (\<lambda>l. l * 1000) ` set (latencies st)" by (auto simp: f)
qed

end
