(* ===== verification/Spec2Isabelle.thy ===== *)
theory Spec2Isabelle
  imports Url_Canon_Idem Http_Stack Db_Setup Seller_Connect Keygen Service Publishers Progress Seller_Session Poller Media_Buy_Requests Adagents Rate_Limiter Webhook_Receiver Brand_Resolver Discovery Orchestrator_Safety Product_Ranking Service_Settings Load_Suite
begin

text \<open>
  A model of the Nexflo buyer (\<open>src/src/\<close>), a Python service that buys advertising from seller
  agents over AdCP.  It discovers sellers, checks that they and the buyer's operator are entitled
  to act, builds requests, signs them, calls the sellers' tools, and follows the operations it has
  started by webhooks and by polling until they end.  An HTTP API starts the operations and reads
  what is known.

  \<^bold>\<open>Parts of the program and the theories that model them.\<close>

  \<^item> Calling a seller (\<open>connections/\<close>).  \<open>call_seller_tool\<close> makes attempts (\<open>_call_once\<close>); each asks
    the circuit breaker of the seller's canonical URL for admission, contacts the transport and
    reports the result back to the breaker; a failed attempt is repeated while the error is
    transient, the call may be repeated, and the retry budget grants a delay.  \<open>SellerSession\<close>
    wraps such calls with the seller's context.  \<^theory_text>\<open>Retry_Budget\<close> (\<open>errors.py\<close>, \<open>retry.py\<close>),
    \<^theory_text>\<open>Circuit_Breaker\<close> (\<open>circuit_breaker.py\<close>), \<^theory_text>\<open>Seller_Agent\<close> (the dataclass of
    \<open>discovery/registry.py\<close>, \<open>accounts/mode.py\<close>, the environment lookups of \<open>config.py\<close>),
    \<^theory_text>\<open>Seller_Call\<close> and \<^theory_text>\<open>Seller_Connect\<close> (\<open>seller.py\<close>: the calls; opening a connection and finding
    the HTTP status behind an exception), \<^theory_text>\<open>Seller_Session\<close> (\<open>session.py\<close>).

  \<^item> Signing requests (\<open>signing/\<close>).  A connection to a seller that verifies signatures carries an
    \<open>httpx.Auth\<close> which signs each request over its target, its key fields and the digest of its body;
    the public keys are published for verifiers.  \<^theory_text>\<open>Base64\<close> (what the code uses of \<open>base64\<close>),
    \<^theory_text>\<open>Signing_Keys\<close> (\<open>keys.py\<close>), \<^theory_text>\<open>Request_Signing\<close> (\<open>rfc9421.py\<close>, \<open>auth.py\<close>, and how \<open>seller.py\<close>
    attaches it), \<^theory_text>\<open>Keygen\<close> (\<open>keygen.py\<close>).

  \<^item> Following operations (\<open>buying/tracker.py\<close>, \<open>buying/poller.py\<close>, \<open>webhooks/\<close>).  The tracker
    keeps operations in memory, one row per operation in the database and a gauge per status; the
    poller and the webhook receiver feed sellers' answers into \<open>update_from_response\<close>.
    \<^theory_text>\<open>Op_Tracker\<close>, \<^theory_text>\<open>Poller\<close>, \<^theory_text>\<open>Webhook_Receiver\<close>, and \<^theory_text>\<open>Progress\<close> for what eventually happens.

  \<^item> Building requests (\<open>buying/requests.py\<close> and the wrappers of \<open>connections/seller.py\<close>).
    \<^theory_text>\<open>Media_Buy_Requests\<close>.

  \<^item> Trust roots (\<open>protocol/\<close>, \<open>authorization/adagents.py\<close>, \<open>brand/resolver.py\<close>).  Documents are
    fetched by \<open>fetch_json\<close> under a policy, cached for a lifetime, and decide whether a seller may
    sell a publisher's properties and whether an operator may act for a brand.  \<^theory_text>\<open>Ip_Literal\<close>
    (what the code uses of \<open>ipaddress\<close>), \<^theory_text>\<open>Url_Canon\<close> and \<^theory_text>\<open>Url_Canon_Idem\<close> (\<open>url_canon.py\<close>),
    \<^theory_text>\<open>Safe_Fetch\<close> (\<open>safe_fetch.py\<close>), \<^theory_text>\<open>Ttl_Cache\<close> (what the two caches share), \<^theory_text>\<open>Adagents\<close>,
    \<^theory_text>\<open>Brand_Resolver\<close>.

  \<^item> Accounts (\<open>accounts/manager.py\<close>).  An account is filed under its seller and under a key made of brand,
    operator and the rules the seller declares; a call that needs an account takes a known one, lists
    or provisions one, and sends a reference only to one whose status allows the task.
    \<^theory_text>\<open>Account_Manager\<close>, with \<^theory_text>\<open>Json_Text\<close> (\<open>json.dumps\<close>).

  \<^item> Discovery (\<open>discovery/registry.py\<close>).  Registries with fallback, probing, merging of sources.
    \<^theory_text>\<open>Discovery\<close>.

  \<^item> The orchestrator (\<open>buying/orchestrator.py\<close>) puts the parts together: it owns the tracker, the account
    manager, both authorities and one session per seller, and its operations (product search, buying,
    updates, creatives, polling, reconciliation, human input) are sequences of theirs.
    \<^theory_text>\<open>Seller_Network\<close> (\<open>get_seller_session\<close>, \<open>_session_call\<close>), \<^theory_text>\<open>Orchestrator\<close> (state, search, ranking),
    \<^theory_text>\<open>Orchestrator_Buy\<close> (\<open>buy\<close>), \<^theory_text>\<open>Orchestrator_Ops\<close> (the rest); proofs in \<^theory_text>\<open>Product_Ranking\<close>,
    \<^theory_text>\<open>Buy_Safety\<close>, \<^theory_text>\<open>Buy_Record\<close> and \<^theory_text>\<open>Orchestrator_Safety\<close>.  Programs over the parts of a state that
    may raise are written with the combinators of \<^theory_text>\<open>Py_State\<close>.

  \<^item> Serving (\<open>api/\<close>, \<open>middleware.py\<close>, \<open>main.py\<close>, \<open>agent_server/mcp.py\<close>).  The endpoints are thin: they
    look up a seller or an operation, call the orchestrator and shape its answer or its error.
    \<^theory_text>\<open>Http_Api\<close> (\<open>routes.py\<close> and \<open>to_api\<close> of \<open>accounts/manager.py\<close>), \<^theory_text>\<open>Publishers\<close> (\<open>publishers.py\<close>),
    \<^theory_text>\<open>Rate_Limiter\<close> (\<open>middleware.py\<close>), \<^theory_text>\<open>Service\<close> (start-up, the published keys, what the buyer says of
    itself, the correlation of requests, starting and stopping the poller), \<^theory_text>\<open>Http_Stack\<close> (both
    middlewares in front of the application), \<^theory_text>\<open>Request_Models\<close> (the models of request bodies in
    front of the endpoints).

  \<^item> Settings and database (\<open>config.py\<close>, \<open>models/\<close>, \<open>alembic/\<close>, \<open>logging_config.py\<close>).  Settings are read from
    the environment when the program is imported; a start migrates the database they name before the
    tracker and the accounts load their tables.  \<^theory_text>\<open>Service_Settings\<close> (the settings and the per-seller
    variables), \<^theory_text>\<open>Migration_Ops\<close> (tables, the operations of a migration, moving between revisions),
    \<^theory_text>\<open>Db_Schema\<close> (the models, the four revisions, the rows of the tracker as the database sees them),
    \<^theory_text>\<open>Db_Setup\<close> (\<open>alembic/env.py\<close>, \<open>init_db\<close>, the engine's options), \<^theory_text>\<open>Logging_Setup\<close> (the loggers, and
    what \<open>alembic.ini\<close> makes of them in the running service).

  \<^item> The load test (\<open>src/publisher/stress-test.py\<close>), a program of its own that drives an ad exchange.
    \<^theory_text>\<open>Load_Requests\<close> (its requests and their random draws), \<^theory_text>\<open>Worker_Pool\<close> (coroutines that share a
    queue and a lock), \<^theory_text>\<open>Load_Test\<close> (what a worker does with a request), \<^theory_text>\<open>Load_Suite\<close> (the tests, their
    report, the suite, the command line).

  \<^bold>\<open>How code and model correspond.\<close>  An object is a record of its fields, a method a function on
  that record which returns it updated; names are the source's, with a suffix where HOL has the
  name.  JSON is the datatype \<^typ>\<open>json\<close>, a dict a list of pairs in insertion order without
  repeated keys, an exception the left side of a sum.  Text is the list of bytes of its UTF-8
  encoding, and case mapping and stripping are those of the ASCII range.  Floating point numbers
  are the rationals they denote, with exact arithmetic; integers are unbounded, as in Python, and
  integers in JSON are taken to be in the range of a float.  Whatever the code takes from outside
  is an argument: readings of clocks, jitter samples, \<open>str\<close> on values other than strings,
  \<open>json.loads\<close>, \<open>datetime.fromisoformat\<close>, \<open>idna.encode\<close>, \<open>urllib.parse\<close>, the resolver, the
  HTTP client, the keyed hash, the pydantic validation of a webhook and of a response, the
  \<open>cryptography\<close> package (the record \<open>crypto\<close>, with the law \<open>sound_crypto\<close>: what a private key signs,
  its public key verifies), the case-insensitive headers of \<open>httpx\<close> (\<open>header_ops\<close> with
  \<open>header_laws\<close>), what pydantic makes of a value for a type (\<open>convert\<close>, with the law
  \<open>sound_converter\<close>), the database behind each URL, the clock of \<open>onupdate\<close>, the network and the
  random draws of the load test, and the application behind a middleware.  The operations of a
  migration have the meaning that alembic and SQL document for them, on columns, indexes and rows.  The answers of a seller
  are a script: the list of the attempts the call would make, each with its answer, the clock
  readings and what concurrent calls do to the shared breakers between its steps, as an arbitrary
  function where a lemma does not need more.  Awaiting is thus the only place where another task
  can run, as in asyncio.  In the orchestrator the attempts of all calls are numbered and drawn in
  turn; \<open>gather\<close> over sellers is taken in the order of the list, and the settings, clocks and fresh
  identifiers of one operation are a record (\<open>orch_env\<close>).

  \<^bold>\<open>Bounds and fuel.\<close>  The loops over strings and JSON (\<open>dot_loop\<close>, \<open>depth_loop\<close>) are total
  functions with a measure; the search for the HTTP status behind an exception (\<open>status_search\<close>)
  ends although causes and contexts may form cycles, because it leaves out what it has seen.  \<open>call_loop\<close> recurses over the script; \<open>call_seller_tool_returns\<close>
  shows that four answers always suffice.  \<open>fetch_loop\<close> and \<open>follow_loop\<close> recurse over the number
  of turns of the source's \<open>for\<close> loops, \<open>max_redirects + 1\<close> and \<open>max_document_hops + 1\<close>, and
  running out is the error the source raises after the loop.  Listing accounts reads at most ten
  pages, the source's bound; an operation of the orchestrator draws four attempts, and
  \<open>orchestrator_call_returns\<close> shows that it needs no more.  A pool of workers takes a turn per element
  of a schedule and has no result when the schedule is too short; \<open>rounds_end\<close> shows that a schedule in
  which everyone has a turn again and again suffices, and \<open>steps_end\<close> that no run goes on for ever.

  \<^bold>\<open>What is shown.\<close>

  \<^item> Retrying: a budget grants at most three delays adding up to at most 300 seconds and never
    less than the seller asked for; a call contacts the seller at most four times, also with the
    repetition of a session; a mutation without a replay key is sent once; a transient error is
    raised only on an exhausted budget.
  \<^item> Breakers: tripped exactly when the failures since the last success reach the threshold, at
    most one probe at a time, isolated by canonical URL; an attempt reports one result.
  \<^item> URLs: canonicalization is idempotent, equivalence is a partial equivalence relation, the
    removal of dot segments is the stack machine of RFC 3986.
  \<^item> Operations: gauge and rows are consistent with memory over every sequence of operations; a
    restart recovers what was persisted; a tick of the poller polls exactly what is due.
  \<^item> Webhooks: only authenticated deliveries have an effect, each at most once.
  \<^item> Trust roots: fetches stay on the site and on public addresses, accepted documents obey the
    limits, cached documents live exactly as long as they should, and authorization is granted only on
    the entries of such documents.
  \<^item> Accounts: filed where they are looked up, references fail closed and are never guessed, at most
    ten calls per resolution, natural keys follow the seller's rules.
  \<^item> Discovery: configured sellers first, each site once, none lost, credentials kept.
  \<^item> Buying: nothing but account calls leaves before brand, publishers and account have been
    checked, then at most one request, built from what was checked; every buy is on record and
    survives a crash up to its time of update, which the database writes; an update is sent under the account of its buy; the tracker stays sound under
    every operation; ranking is a stable sort.
  \<^item> Rate limiting: no more admissions in a window than configured; every HTTP response carries one
    correlation id and is counted once.
  \<^item> Signing: a key always fits its algorithm; a signed request verifies under the published key
    and binds method, target, fields and body; signing adds headers and changes nothing else; no
    member of an asymmetric private key is published; encoding of keys round-trips.
  \<^item> The HTTP API: a buy that is reported as failed or successful is one; synchronizing without
    authorization contacts nobody; no read shows a secret.
  \<^item> Start-up: what it loads satisfies the invariants that the operations keep, and signing that
    cannot work stops it.  It migrates the database of the settings and no other; from every
    revision the migrations reach the tables of the models, lose no row and can be undone, and
    operations saved before an upgrade are there after it.  Settings fail closed: without its own
    variable no environment switches the authorization of sellers off.
  \<^item> Types: a buy request has a brief, a budget above zero and fields of their types; a saved row has the
    columns of its table, and fits them exactly when the ids a seller sent are text.
  \<^item> The load test: every request is counted once whatever the order of the workers, except a chain that
    raises after its bid, which is counted twice; requests meant for the missions match them.
  \<^item> Progress: a breaker that has opened admits a recovered seller and closes again; an operation
    that stays pending is polled again and again.

  Some properties state behaviour that the documentation does not announce: a late response
  revives a finished operation, the reporting webhook is shadowed by the status route, a
  delivery whose update fails is lost, a terminal 404 may be repeated, and an unreadable expiry
  counts as none.  A buy that raises stays pending, and an operation that waits for input is reported as
  missing by the reconciliation.  A symmetric key in the rotation file is published with its secret,
  the key command can overwrite or orphan the key it makes, a negative product index buys from the
  end of the list, a placed buy can be answered with an error, and a domain that begins with \<open>www.\<close>
  twice is registered but not found.  A host that looks like a seller's gets its credentials, a database
  URL with a percent sign stops the start, and the migrations silence the loggers of the service.

  The statuses of operations are an instance of \<open>enum\<close>, so that the gauges can be added up.  The
  interfaces are locales: \<open>retry_meter\<close> and \<open>timed_meter\<close> (what a retry loop may rely on in
  a budget), \<open>shared_store\<close> (a store of objects by key), \<open>canonical_form\<close> (a normal form and its
  equivalence), \<open>ttl_cache\<close> (a cache with lifetimes), \<open>account_invariant\<close> and \<open>connection_invariant\<close> (what
  account operations keep of the manager and of the connections), \<open>saved_operation\<close>,
  \<open>answered_operation\<close> and \<open>tracker_laws\<close> (what the orchestrator keeps of the tracker), \<open>revisions\<close> (a chain of
  migrations), \<open>tally\<close> and \<open>figure\<close> (a reading of shared state to which every report adds its weight); each is interpreted on the definitions of the
  component that provides it.

  \<^bold>\<open>What is not modelled.\<close>  The MCP transport, the cryptography and the conversion of values by
  pydantic, which are packages; the assembly of the FastAPI application and of the fastmcp server, which
  are declarations; the log lines, the metric declarations and the metrics page, which nothing reads
  back; the offline mode of the migrations, which prints SQL; the response models, which copy fields
  (but for the buy response, whose validator is a parameter); the layout of what the load test prints;
  and the rest of \<open>src/publisher/\<close> and \<open>src/deploy/\<close>, which hold plug-ins in PHP and JavaScript and
  infrastructure files.
\<close>

end
